(* ===== verification/Prelude.thy ===== *)
theory Prelude
  imports Main
begin

text \<open>
  What every component shares.

  \<^item> The program type. A Go function of this code base runs against a world (the cluster, the
    clock, the mutexes of the process), may return, may panic (a nil pointer, an index out of
    range) or may never return (it waits on a mutex it holds itself, or its loop never ends).
    \<open>('s, 'a) prog\<close> is such a function: it maps a world to an \<open>outcome\<close> and the world it leaves.
  \<^item> The composition of programs (\<open>ret\<close>, \<open>andThen\<close>, \<open>panic\<close>, \<open>hang\<close>): a panic or a hang of the
    first part is the outcome of the whole, as in Go.
  \<^item> Two proof calculi over it: \<open>keeps R m\<close> (every run of \<open>m\<close>, whatever its outcome, relates
    the worlds before and after by \<open>R\<close>), proved once for every reflexive and transitive relation
    in the locale \<open>stable_rel\<close>, and \<open>post P m Q\<close> (a run from a \<open>P\<close> world that returns, returns
    with \<open>Q\<close>). \<open>returns m\<close> says that every run returns.
  \<^item> Small facts on lists, sums and options used by several components.
\<close>

section \<open>Programs\<close>

datatype 'a outcome =
    Ret 'a
  | Panicked string
  | Hangs string

type_synonym ('s, 'a) prog = "'s \<Rightarrow> 'a outcome \<times> 's"

definition ret :: "'a \<Rightarrow> ('s, 'a) prog" where
  "ret a = (\<lambda>s. (Ret a, s))"

definition panic :: "string \<Rightarrow> ('s, 'a) prog" where
  "panic why = (\<lambda>s. (Panicked why, s))"

definition hang :: "string \<Rightarrow> ('s, 'a) prog" where
  "hang why = (\<lambda>s. (Hangs why, s))"

definition andThen :: "('s, 'a) prog \<Rightarrow> ('a \<Rightarrow> ('s, 'b) prog) \<Rightarrow> ('s, 'b) prog" where
  "andThen m f = (\<lambda>s. case m s of
       (Ret a, s') \<Rightarrow> f a s'
     | (Panicked why, s') \<Rightarrow> (Panicked why, s')
     | (Hangs why, s') \<Rightarrow> (Hangs why, s'))"

text \<open>A loop body run for each element of a slice, in order.\<close>

fun forEach :: "('x \<Rightarrow> ('s, unit) prog) \<Rightarrow> 'x list \<Rightarrow> ('s, unit) prog" where
  "forEach f [] = ret ()"
| "forEach f (x # xs) = andThen (f x) (\<lambda>_. forEach f xs)"

named_theorems run_simps \<open>equations that evaluate a program on a world\<close>
named_theorems keeps_rules \<open>which relations an operation keeps between the worlds before and after\<close>

lemma ret_run [simp, run_simps]: "ret a s = (Ret a, s)"
  by (simp add: ret_def)

lemma panic_run [simp, run_simps]: "panic w s = (Panicked w, s)"
  by (simp add: panic_def)

lemma hang_run [simp, run_simps]: "hang w s = (Hangs w, s)"
  by (simp add: hang_def)

lemma andThen_run [run_simps]:
  "andThen m f s = (case m s of
       (Ret a, s') \<Rightarrow> f a s'
     | (Panicked why, s') \<Rightarrow> (Panicked why, s')
     | (Hangs why, s') \<Rightarrow> (Hangs why, s'))"
  by (simp add: andThen_def)

lemma andThen_Ret [simp]: "m s = (Ret a, s') \<Longrightarrow> andThen m f s = f a s'"
  by (simp add: andThen_def)

lemma andThen_ret_left [simp]: "andThen (ret a) f = f a"
  by (rule ext) (simp add: andThen_def)

lemma andThen_assoc: "andThen (andThen m f) g = andThen m (\<lambda>a. andThen (f a) g)"
  by (rule ext) (simp add: andThen_def split: prod.split outcome.split)

lemma andThen_RetE:
  assumes "andThen m f s = (Ret b, t)"
  obtains a s' where "m s = (Ret a, s')" and "f a s' = (Ret b, t)"
  using assms by (auto simp: andThen_def split: prod.splits outcome.splits)

lemma forEach_append: "forEach f (xs @ ys) = andThen (forEach f xs) (\<lambda>_. forEach f ys)"
  by (induction xs) (simp_all add: andThen_assoc)

section \<open>Relations a program keeps\<close>

definition keeps :: "('s \<Rightarrow> 's \<Rightarrow> bool) \<Rightarrow> ('s, 'a) prog \<Rightarrow> bool" where
  "keeps R m \<longleftrightarrow> (\<forall>s. R s (snd (m s)))"

lemma keepsI: "(\<And>s. R s (snd (m s))) \<Longrightarrow> keeps R m"
  by (simp add: keeps_def)

lemma keepsD: "keeps R m \<Longrightarrow> m s = (r, t) \<Longrightarrow> R s t"
  unfolding keeps_def by (metis snd_conv)

lemma keeps_mono: "keeps R m \<Longrightarrow> (\<And>s t. R s t \<Longrightarrow> R' s t) \<Longrightarrow> keeps R' m"
  by (auto simp: keeps_def)

text \<open>
  The contract of a relation that programs keep under composition: it is reflexive (doing nothing
  keeps it) and transitive (doing one thing after another keeps it).
\<close>

locale stable_rel =
  fixes R :: "'s \<Rightarrow> 's \<Rightarrow> bool"
  assumes stable_refl: "R s s"
    and stable_trans: "R s t \<Longrightarrow> R t u \<Longrightarrow> R s u"
begin

lemma keeps_ret: "keeps R (ret a)"
  by (simp add: keeps_def stable_refl)

lemma keeps_panic: "keeps R (panic w)"
  by (simp add: keeps_def stable_refl)

lemma keeps_hang: "keeps R (hang w)"
  by (simp add: keeps_def stable_refl)

lemma keeps_andThen:
  assumes "keeps R m" and "\<And>a. keeps R (f a)"
  shows "keeps R (andThen m f)"
proof (rule keepsI)
  fix s
  obtain r s' where m: "m s = (r, s')" by (cases "m s")
  with assms(1) have "R s s'" by (rule keepsD)
  moreover have "R s' (snd (f a s'))" for a
    using assms(2) by (simp add: keeps_def)
  ultimately show "R s (snd (andThen m f s))"
    by (cases r) (auto simp: andThen_def m intro: stable_trans)
qed

text \<open>The second part may rely on what the first part returns.\<close>

lemma keeps_andThen_returned:
  assumes "keeps R m" and "\<And>s a t. m s = (Ret a, t) \<Longrightarrow> keeps R (f a)"
  shows "keeps R (andThen m f)"
proof (rule keepsI)
  fix s
  obtain r s' where m: "m s = (r, s')" by (cases "m s")
  with assms(1) have "R s s'" by (rule keepsD)
  moreover have "R s' (snd (f a s'))" if "r = Ret a" for a
    using assms(2) [of s a s'] m that by (simp add: keeps_def)
  ultimately show "R s (snd (andThen m f s))"
    by (cases r) (auto simp: andThen_def m intro: stable_trans)
qed

lemma keeps_forEach:
  assumes "\<And>x. x \<in> set xs \<Longrightarrow> keeps R (f x)"
  shows "keeps R (forEach f xs)"
  using assms by (induction xs) (auto intro: keeps_ret keeps_andThen)

lemmas keeps_basic = keeps_ret keeps_panic keeps_hang keeps_andThen keeps_forEach

end

text \<open>An invariant of single worlds is such a relation: it holds after if it held before.\<close>

locale world_invariant =
  fixes I :: "'s \<Rightarrow> bool"
begin

definition preserves :: "'s \<Rightarrow> 's \<Rightarrow> bool" where
  "preserves s t \<longleftrightarrow> (I s \<longrightarrow> I t)"

end

sublocale world_invariant \<subseteq> stable_rel preserves
  by unfold_locales (auto simp: preserves_def)

lemma keeps_if: "(b \<Longrightarrow> keeps R m) \<Longrightarrow> (\<not> b \<Longrightarrow> keeps R n) \<Longrightarrow> keeps R (if b then m else n)"
  by simp

lemma keeps_let: "(\<And>x. x = e \<Longrightarrow> keeps R (f x)) \<Longrightarrow> keeps R (let x = e in f x)"
  by simp

lemma keeps_case_option:
  "(x = None \<Longrightarrow> keeps R m) \<Longrightarrow> (\<And>y. x = Some y \<Longrightarrow> keeps R (f y)) \<Longrightarrow>
   keeps R (case x of None \<Rightarrow> m | Some y \<Rightarrow> f y)"
  by (cases x) simp_all

lemma keeps_case_sum:
  "(\<And>a. x = Inl a \<Longrightarrow> keeps R (f a)) \<Longrightarrow> (\<And>b. x = Inr b \<Longrightarrow> keeps R (g b)) \<Longrightarrow>
   keeps R (case x of Inl a \<Rightarrow> f a | Inr b \<Rightarrow> g b)"
  by (cases x) simp_all

lemma keeps_case_prod:
  "(\<And>a b. x = (a, b) \<Longrightarrow> keeps R (f a b)) \<Longrightarrow> keeps R (case x of (a, b) \<Rightarrow> f a b)"
  by (cases x) simp_all

lemmas keeps_splits = keeps_if keeps_let keeps_case_option keeps_case_sum keeps_case_prod

section \<open>Partial correctness of runs that return\<close>

definition post :: "('s \<Rightarrow> bool) \<Rightarrow> ('s, 'a) prog \<Rightarrow> ('a \<Rightarrow> 's \<Rightarrow> bool) \<Rightarrow> bool" where
  "post P m Q \<longleftrightarrow> (\<forall>s a t. P s \<longrightarrow> m s = (Ret a, t) \<longrightarrow> Q a t)"

lemma postI: "(\<And>s a t. P s \<Longrightarrow> m s = (Ret a, t) \<Longrightarrow> Q a t) \<Longrightarrow> post P m Q"
  by (auto simp: post_def)

lemma postD: "post P m Q \<Longrightarrow> P s \<Longrightarrow> m s = (Ret a, t) \<Longrightarrow> Q a t"
  by (auto simp: post_def)

lemma post_ret: "(\<And>s. P s \<Longrightarrow> Q a s) \<Longrightarrow> post P (ret a) Q"
  by (auto simp: post_def)

lemma post_panic: "post P (panic w) Q"
  by (simp add: post_def)

lemma post_hang: "post P (hang w) Q"
  by (simp add: post_def)

lemma post_andThen:
  assumes "post P m M" and "\<And>a. post (M a) (f a) Q"
  shows "post P (andThen m f) Q"
  using assms by (fastforce simp: post_def elim!: andThen_RetE)

lemma post_weaken:
  "post P m Q \<Longrightarrow> (\<And>s. P' s \<Longrightarrow> P s) \<Longrightarrow> (\<And>a s. Q a s \<Longrightarrow> Q' a s) \<Longrightarrow> post P' m Q'"
  unfolding post_def by blast

section \<open>Programs that always return\<close>

text \<open>From every world the program returns: it neither panics nor waits forever.\<close>

definition returns :: "('s, 'a) prog \<Rightarrow> bool" where
  "returns m \<longleftrightarrow> (\<forall>s. \<exists>a t. m s = (Ret a, t))"

lemma returnsD: "returns m \<Longrightarrow> \<exists>a t. m s = (Ret a, t)"
  by (simp add: returns_def)

lemma returns_ret: "returns (ret a)"
  by (simp add: returns_def)

lemma returns_andThen:
  assumes "returns m" and "\<And>a. returns (f a)"
  shows "returns (andThen m f)"
  unfolding returns_def
proof
  fix s
  obtain a t where "m s = (Ret a, t)" using assms(1) by (blast dest: returnsD)
  moreover obtain b u where "f a t = (Ret b, u)" using assms(2) by (blast dest: returnsD)
  ultimately show "\<exists>b u. andThen m f s = (Ret b, u)" by simp
qed

lemma returns_andThen_returned:
  assumes "returns m" and "\<And>s a t. m s = (Ret a, t) \<Longrightarrow> returns (f a)"
  shows "returns (andThen m f)"
  unfolding returns_def
proof
  fix s
  obtain a t where m: "m s = (Ret a, t)" using assms(1) by (blast dest: returnsD)
  from assms(2) [OF m] obtain b u where "f a t = (Ret b, u)" by (blast dest: returnsD)
  with m show "\<exists>b u. andThen m f s = (Ret b, u)" by simp
qed

lemma returns_forEach: "(\<And>x. x \<in> set xs \<Longrightarrow> returns (f x)) \<Longrightarrow> returns (forEach f xs)"
  by (induction xs) (auto intro: returns_ret returns_andThen simp del: ret_run)

lemma returns_if: "(b \<Longrightarrow> returns m) \<Longrightarrow> (\<not> b \<Longrightarrow> returns n) \<Longrightarrow> returns (if b then m else n)"
  by simp

lemma returns_let: "(\<And>x. x = e \<Longrightarrow> returns (f x)) \<Longrightarrow> returns (let x = e in f x)"
  by simp

lemma returns_case_option:
  "(x = None \<Longrightarrow> returns m) \<Longrightarrow> (\<And>y. x = Some y \<Longrightarrow> returns (f y)) \<Longrightarrow>
   returns (case x of None \<Rightarrow> m | Some y \<Rightarrow> f y)"
  by (cases x) simp_all

lemma returns_case_sum:
  "(\<And>a. x = Inl a \<Longrightarrow> returns (f a)) \<Longrightarrow> (\<And>b. x = Inr b \<Longrightarrow> returns (g b)) \<Longrightarrow>
   returns (case x of Inl a \<Rightarrow> f a | Inr b \<Rightarrow> g b)"
  by (cases x) simp_all

lemma returns_case_prod:
  "(\<And>a b. x = (a, b) \<Longrightarrow> returns (f a b)) \<Longrightarrow> returns (case x of (a, b) \<Rightarrow> f a b)"
  by (cases x) simp_all

lemmas returns_basic = returns_ret returns_andThen returns_forEach returns_if returns_let returns_case_option
  returns_case_sum returns_case_prod

section \<open>Sums\<close>

text \<open>\<open>if err != nil\<close>: the error of a Go result, when there is one.\<close>

fun errOf :: "'e + 'a \<Rightarrow> 'e option" where
  "errOf (Inl e) = Some e"
| "errOf (Inr _) = None"

lemma errOf_None [simp]: "errOf r = None \<longleftrightarrow> (\<exists>a. r = Inr a)"
  by (cases r) auto

lemma errOf_Some [simp]: "errOf r = Some e \<longleftrightarrow> r = Inl e"
  by (cases r) auto

end
