(* ===== verification/ApiTypes.thy ===== *)
theory ApiTypes
  imports Prelude
begin

text \<open>
  The data of the API group \<open>batch.forkspacer.com/v1\<close> (\<open>src/api/v1/workspace_types.go\<close> and
  \<open>src/api/v1/module_types.go\<close>): one record per struct with the struct's fields in their order,
  one datatype per string enumeration. A pointer is an \<open>option\<close> (\<open>None\<close> is nil). A slice is a
  list, except where the code tells a nil slice from an empty one (\<open>Outputs\<close>, compared by
  \<open>cmp.Equal\<close> in the module webhook), which is an \<open>option\<close> of a list. A string enumeration has a
  constructor for every constant the source declares, one for the empty string where the code
  tests it, and one for any other string, because Go's \<open>switch\<close> statements have a default branch.
  \<open>TypeMeta\<close> and the list metadata are left out: no code of the repository reads them.
\<close>

section \<open>Dynamic values\<close>

text \<open>
  Go's \<open>any\<close>, restricted to the dynamic types the repository stores in one. A \<open>float64\<close> is finite
  here (\<open>encoding/json\<close> never yields an infinity or a NaN) and is given by mantissa and binary
  exponent: \<open>F64 m e\<close> is \<open>m * 2^e\<close>.
\<close>

datatype f64 = F64 int int

datatype go_any =
    ANil
  | ABool bool
  | AInt int
  | AFloat f64
  | AString string
  | AStrings "string list"
  | ASlice "go_any list"
  | AMap "(string \<times> go_any) list"

type_synonym go_map = "(string \<times> go_any) list"

section \<open>Kubernetes metadata\<close>

type_synonym time = int \<comment> \<open>nanoseconds\<close>

abbreviation seconds :: "int \<Rightarrow> time" where
  "seconds n \<equiv> n * 1000000000"

record NamespacedName =
  nn_Namespace :: string
  nn_Name :: string

record ObjectMeta =
  meta_Name :: string
  meta_GenerateName :: string
  meta_Namespace :: string
  meta_UID :: string
  meta_DeletionTimestamp :: "time option"
  meta_Annotations :: "(string \<rightharpoonup> string) option"
  meta_Finalizers :: "string list"

record Condition =
  cond_Type :: string
  cond_Status :: string
  cond_ObservedGeneration :: int
  cond_LastTransitionTime :: time
  cond_Reason :: string
  cond_Message :: string

text \<open>\<open>runtime.RawExtension\<close> and \<open>apiextensionsv1.JSON\<close>: the bytes of a JSON document; nil bytes
  are \<open>None\<close>.\<close>

record RawExtension =
  raw_Raw :: "string option"

section \<open>Workspace\<close>

datatype WorkspacePhase =
    WorkspacePhaseEmpty
  | WorkspacePhaseReady
  | WorkspacePhaseInstalling
  | WorkspacePhaseHibernated
  | WorkspacePhaseFailed
  | WorkspacePhaseTerminating
  | WorkspacePhaseOther string

datatype WorkspaceType =
    WorkspaceTypeKubernetes
  | WorkspaceTypeManaged
  | WorkspaceTypeOther string

datatype WorkspaceConnectionType =
    WorkspaceConnectionTypeLocal
  | WorkspaceConnectionTypeInCluster
  | WorkspaceConnectionTypeKubeconfig
  | WorkspaceConnectionTypeOther string

record WorkspaceConnectionSecretReference =
  sref_Name :: string
  sref_Namespace :: string
  sref_Key :: string

record WorkspaceConnection =
  conn_Type :: WorkspaceConnectionType
  conn_SecretReference :: "WorkspaceConnectionSecretReference option"

record WorkspaceAutoHibernation =
  ah_Enabled :: bool
  ah_Schedule :: string
  ah_WakeSchedule :: "string option"

datatype ManagedClusterBackend =
    ManagedClusterBackendVCluster
  | ManagedClusterBackendK3d
  | ManagedClusterBackendKind
  | ManagedClusterBackendOther string

record ManagedClusterSpec =
  mc_Backend :: ManagedClusterBackend
  mc_Distro :: string

record WorkspaceFromReference =
  from_Name :: string
  from_Namespace :: string
  from_MigrateData :: bool

record WorkspaceSpec =
  wss_Type :: WorkspaceType
  wss_From :: "WorkspaceFromReference option"
  wss_Hibernated :: bool
  wss_Connection :: WorkspaceConnection
  wss_ManagedCluster :: "ManagedClusterSpec option"
  wss_AutoHibernation :: "WorkspaceAutoHibernation option"

record WorkspaceStatus =
  wst_Conditions :: "Condition list"
  wst_Phase :: WorkspacePhase
  wst_Ready :: bool
  wst_LastActivity :: "time option"
  wst_HibernatedAt :: "time option"
  wst_Message :: "string option"

record Workspace =
  ws_Meta :: ObjectMeta
  ws_Spec :: WorkspaceSpec
  ws_Status :: WorkspaceStatus

section \<open>Module: Helm and custom specifications\<close>

datatype ModulePhaseType =
    ModulePhaseEmpty
  | ModulePhaseReady
  | ModulePhaseInstalling
  | ModulePhaseUninstalling
  | ModulePhaseSleeping
  | ModulePhaseSleeped
  | ModulePhaseResuming
  | ModulePhaseFailed
  | ModulePhaseOther string

record ModuleStatus =
  mst_Conditions :: "Condition list"
  mst_Phase :: ModulePhaseType
  mst_Source :: string
  mst_LastActivity :: "time option"
  mst_Message :: "string option"

record ModuleWorkspaceReference =
  wref_Name :: string
  wref_Namespace :: string

datatype CustomModulePermissionType =
    CustomModulePermissionTypeWorkspace
  | CustomModulePermissionTypeController
  | CustomModulePermissionTypeOther string

record ModuleSpecCustom =
  cus_Image :: string
  cus_ImagePullSecrets :: "string list"
  cus_Permissions :: "CustomModulePermissionType list"

record ModuleSpecHelmChartRepoAuth =
  rauth_Name :: string
  rauth_Namespace :: string

record ModuleSpecHelmChartRepo =
  repo_URL :: string
  repo_Chart :: string
  repo_Version :: "string option"
  repo_Auth :: "ModuleSpecHelmChartRepoAuth option"

record ModuleSpecHelmChartConfigMap =
  chcm_Name :: string
  chcm_Namespace :: string
  chcm_Key :: string

record ModuleSpecHelmChartGitAuthSecret =
  gsec_Name :: string
  gsec_Namespace :: string

record ModuleSpecHelmChartGitAuth =
  gauth_HTTPSSecretRef :: "ModuleSpecHelmChartGitAuthSecret option"

record ModuleSpecHelmChartGit =
  git_Repo :: string
  git_Path :: string
  git_Revision :: string
  git_Auth :: "ModuleSpecHelmChartGitAuth option"

record ModuleSpecHelmChart =
  chart_Repo :: "ModuleSpecHelmChartRepo option"
  chart_ConfigMap :: "ModuleSpecHelmChartConfigMap option"
  chart_Git :: "ModuleSpecHelmChartGit option"

record ModuleSpecHelmExistingRelease =
  exr_Name :: string
  exr_Namespace :: string

record ModuleSpecHelmValuesConfigMap =
  vcm_Name :: string
  vcm_Namespace :: string
  vcm_Key :: string

record ModuleSpecHelmValues =
  val_File :: "string option"
  val_ConfigMap :: "ModuleSpecHelmValuesConfigMap option"
  val_Raw :: "RawExtension option"

record ModuleSpecHelmOutputValueFromSecret =
  ofs_Name :: string
  ofs_Namespace :: string
  ofs_Key :: string

record ModuleSpecHelmOutputValueFrom =
  ovf_Secret :: "ModuleSpecHelmOutputValueFromSecret option"

record ModuleSpecHelmOutput =
  out_Name :: string
  out_Value :: "RawExtension option"
  out_ValueFrom :: "ModuleSpecHelmOutputValueFrom option"

record ModuleSpecHelmCleanup =
  cl_RemoveNamespace :: bool
  cl_RemovePVCs :: bool

record ModuleSpecHelmMigration =
  mig_PVCs :: "string list"
  mig_ConfigMaps :: "string list"
  mig_Secrets :: "string list"

record ModuleSpecHelm =
  helm_ExistingRelease :: "ModuleSpecHelmExistingRelease option"
  helm_ReleaseName :: "string option"
  helm_Chart :: ModuleSpecHelmChart
  helm_Namespace :: string
  helm_Values :: "ModuleSpecHelmValues list"
  helm_Outputs :: "ModuleSpecHelmOutput list option"
  helm_Cleanup :: ModuleSpecHelmCleanup
  helm_Migration :: ModuleSpecHelmMigration

section \<open>Module: configuration items\<close>

record ConfigItemSpecInteger =
  cint_Required :: bool
  cint_Default :: int
  cint_Min :: "int option"
  cint_Max :: "int option"
  cint_Editable :: bool

record ConfigItemSpecBoolean =
  cbool_Required :: bool
  cbool_Default :: bool
  cbool_Editable :: bool

record ConfigItemSpecString =
  cstr_Required :: bool
  cstr_Default :: string
  cstr_Regex :: "string option"
  cstr_Editable :: bool

record ConfigItemSpecOption =
  copt_Required :: bool
  copt_Default :: string
  copt_Values :: "string list"
  copt_Editable :: bool

record ConfigItemSpecMultipleOptions =
  cmul_Required :: bool
  cmul_Default :: "string list"
  cmul_Values :: "string list"
  cmul_Min :: "int option"
  cmul_Max :: "int option"
  cmul_Editable :: bool

record ConfigItem =
  ci_Name :: string
  ci_Alias :: string
  ci_Integer :: "ConfigItemSpecInteger option"
  ci_Boolean :: "ConfigItemSpecBoolean option"
  ci_String :: "ConfigItemSpecString option"
  ci_Option :: "ConfigItemSpecOption option"
  ci_MultipleOptions :: "ConfigItemSpecMultipleOptions option"

record ModuleSpec =
  ms_Helm :: "ModuleSpecHelm option"
  ms_Custom :: "ModuleSpecCustom option"
  ms_Workspace :: ModuleWorkspaceReference
  ms_Config :: "RawExtension option"
  ms_Hibernated :: bool

record Module =
  mod_Meta :: ObjectMeta
  mod_Config :: "ConfigItem list"
  mod_Spec :: ModuleSpec
  mod_Status :: ModuleStatus

section \<open>The strings of the enumerations\<close>

fun modPhaseString :: "ModulePhaseType \<Rightarrow> string" where
  "modPhaseString ModulePhaseEmpty = []"
| "modPhaseString ModulePhaseReady = ''ready''"
| "modPhaseString ModulePhaseInstalling = ''installing''"
| "modPhaseString ModulePhaseUninstalling = ''uninstalling''"
| "modPhaseString ModulePhaseSleeping = ''sleeping''"
| "modPhaseString ModulePhaseSleeped = ''sleeped''"
| "modPhaseString ModulePhaseResuming = ''resuming''"
| "modPhaseString ModulePhaseFailed = ''failed''"
| "modPhaseString (ModulePhaseOther s) = s"

fun wsPhaseString :: "WorkspacePhase \<Rightarrow> string" where
  "wsPhaseString WorkspacePhaseEmpty = []"
| "wsPhaseString WorkspacePhaseReady = ''ready''"
| "wsPhaseString WorkspacePhaseInstalling = ''installing''"
| "wsPhaseString WorkspacePhaseHibernated = ''hibernated''"
| "wsPhaseString WorkspacePhaseFailed = ''failed''"
| "wsPhaseString WorkspacePhaseTerminating = ''terminating''"
| "wsPhaseString (WorkspacePhaseOther s) = s"

fun wsTypeString :: "WorkspaceType \<Rightarrow> string" where
  "wsTypeString WorkspaceTypeKubernetes = ''kubernetes''"
| "wsTypeString WorkspaceTypeManaged = ''managed''"
| "wsTypeString (WorkspaceTypeOther s) = s"

fun connTypeString :: "WorkspaceConnectionType \<Rightarrow> string" where
  "connTypeString WorkspaceConnectionTypeLocal = ''local''"
| "connTypeString WorkspaceConnectionTypeInCluster = ''in-cluster''"
| "connTypeString WorkspaceConnectionTypeKubeconfig = ''kubeconfig''"
| "connTypeString (WorkspaceConnectionTypeOther s) = s"

fun backendString :: "ManagedClusterBackend \<Rightarrow> string" where
  "backendString ManagedClusterBackendVCluster = ''vcluster''"
| "backendString ManagedClusterBackendK3d = ''k3d''"
| "backendString ManagedClusterBackendKind = ''kind''"
| "backendString (ManagedClusterBackendOther s) = s"

fun permissionString :: "CustomModulePermissionType \<Rightarrow> string" where
  "permissionString CustomModulePermissionTypeWorkspace = ''workspace''"
| "permissionString CustomModulePermissionTypeController = ''controller''"
| "permissionString (CustomModulePermissionTypeOther s) = s"

section \<open>Accessors\<close>

text \<open>\<open>GetReleaseName\<close> dereferences \<open>ReleaseName\<close> without a check, so it panics on a nil pointer:
  \<open>None\<close>.\<close>

definition GetNamespace :: "ModuleSpecHelm \<Rightarrow> string" where
  "GetNamespace h = (case helm_ExistingRelease h of
       Some r \<Rightarrow> exr_Namespace r
     | None \<Rightarrow> helm_Namespace h)"

definition GetReleaseName :: "ModuleSpecHelm \<Rightarrow> string option" where
  "GetReleaseName h = (case helm_ExistingRelease h of
       Some r \<Rightarrow> Some (exr_Name r)
     | None \<Rightarrow> helm_ReleaseName h)"

text \<open>\<open>client.ObjectKeyFromObject\<close>\<close>

abbreviation moduleKey :: "Module \<Rightarrow> NamespacedName" where
  "moduleKey m \<equiv> \<lparr>nn_Namespace = meta_Namespace (mod_Meta m), nn_Name = meta_Name (mod_Meta m)\<rparr>"

abbreviation workspaceKey :: "Workspace \<Rightarrow> NamespacedName" where
  "workspaceKey w \<equiv> \<lparr>nn_Namespace = meta_Namespace (ws_Meta w), nn_Name = meta_Name (ws_Meta w)\<rparr>"

abbreviation modPhase :: "Module \<Rightarrow> ModulePhaseType" where
  "modPhase m \<equiv> mst_Phase (mod_Status m)"

abbreviation wsPhase :: "Workspace \<Rightarrow> WorkspacePhase" where
  "wsPhase w \<equiv> wst_Phase (ws_Status w)"

end
