(* ===== verification/Paths.thy ===== *)
theory Paths
  imports Main
begin

text \<open>
  File paths as \<open>path/filepath\<close> of Go computes them on Unix: \<open>Clean\<close>, \<open>Join\<close> and \<open>Dir\<close>, which the chart
  handling and the file helpers use. A path is read as its elements between slashes; cleaning drops empty
  elements and \<open>.\<close>, and lets \<open>..\<close> remove the element before it.
\<close>

fun splitSlash :: "string \<Rightarrow> string list" where
  "splitSlash [] = [[]]"
| "splitSlash (c # cs) = (if c = CHR ''/'' then [] # splitSlash cs
     else (case splitSlash cs of [] \<Rightarrow> [[c]] | e # es \<Rightarrow> (c # e) # es))"

fun joinSlash :: "string list \<Rightarrow> string" where
  "joinSlash [] = []"
| "joinSlash [e] = e"
| "joinSlash (e # es) = e @ ''/'' @ joinSlash es"

definition pathElements :: "string \<Rightarrow> string list" where
  "pathElements p = filter (\<lambda>e. e \<noteq> [] \<and> e \<noteq> ''.'') (splitSlash p)"

definition rooted :: "string \<Rightarrow> bool" where
  "rooted p \<longleftrightarrow> (case p of [] \<Rightarrow> False | c # _ \<Rightarrow> c = CHR ''/'')"

text \<open>One element on the stack of the elements so far, the last one first.\<close>

definition cleanStep :: "bool \<Rightarrow> string \<Rightarrow> string list \<Rightarrow> string list" where
  "cleanStep r e out = (if e \<noteq> ''..'' then e # out
     else (case out of [] \<Rightarrow> if r then [] else [e] | x # xs \<Rightarrow> if x = ''..'' then e # out else xs))"

definition resolve :: "bool \<Rightarrow> string list \<Rightarrow> string list \<Rightarrow> string list" where
  "resolve r es out = fold (cleanStep r) es out"

definition pathOf :: "bool \<Rightarrow> string list \<Rightarrow> string" where
  "pathOf r out = (if r then ''/'' @ joinSlash (rev out) else if out = [] then ''.'' else joinSlash (rev out))"

definition pathClean :: "string \<Rightarrow> string" where
  "pathClean p = pathOf (rooted p) (resolve (rooted p) (pathElements p) [])"

definition pathJoin :: "string \<Rightarrow> string \<Rightarrow> string" where
  "pathJoin dir file =
     (if dir \<noteq> [] then pathClean (dir @ ''/'' @ file) else if file \<noteq> [] then pathClean file else [])"

definition pathDir :: "string \<Rightarrow> string" where
  "pathDir p = pathClean (rev (dropWhile (\<lambda>c. c \<noteq> CHR ''/'') (rev p)))"

section \<open>Elements\<close>

lemma splitSlash_nonempty [simp]: "splitSlash p \<noteq> []"
  by (cases p) (auto split: list.split)

lemma splitSlash_append: "splitSlash (a @ CHR ''/'' # b) = splitSlash a @ splitSlash b"
  by (induction a) (auto split: list.split)

lemma splitSlash_plain: "CHR ''/'' \<notin> set e \<Longrightarrow> splitSlash e = [e]"
  by (induction e) auto

lemma splitSlash_noSlash: "e \<in> set (splitSlash p) \<Longrightarrow> CHR ''/'' \<notin> set e"
  by (induction p arbitrary: e) (auto split: if_splits list.splits)

lemma pathElements_append: "pathElements (a @ CHR ''/'' # b) = pathElements a @ pathElements b"
  by (simp add: pathElements_def splitSlash_append)

text \<open>What an element can be.\<close>

definition element :: "string \<Rightarrow> bool" where
  "element e \<longleftrightarrow> e \<noteq> [] \<and> e \<noteq> ''.'' \<and> CHR ''/'' \<notin> set e"

lemma pathElements_element: "e \<in> set (pathElements p) \<Longrightarrow> element e"
  by (auto simp: pathElements_def element_def dest: splitSlash_noSlash)

lemma element_elements: "element e \<Longrightarrow> pathElements e = [e]"
  by (auto simp: pathElements_def element_def splitSlash_plain)

lemma pathElements_join: "list_all element es \<Longrightarrow> pathElements (joinSlash es) = es"
proof (induction es rule: joinSlash.induct)
  case 1
  show ?case by (simp add: pathElements_def)
next
  case (2 e)
  then show ?case by (simp add: element_elements)
next
  case (3 e e' es)
  then show ?case by (simp add: pathElements_append element_elements)
qed

section \<open>Cleaning\<close>

text \<open>The stack of a clean path: \<open>..\<close> only at the bottom, and not at all from the root.\<close>

definition normal :: "bool \<Rightarrow> string list \<Rightarrow> bool" where
  "normal r out \<longleftrightarrow> list_all element out \<and> (if r then ''..'' \<notin> set out
     else \<exists>n xs. out = xs @ replicate n ''..'' \<and> ''..'' \<notin> set xs)"

lemma element_dotdot [simp]: "element ''..''"
  by (simp add: element_def)

lemma normal_dots: "list_all element xs \<Longrightarrow> ''..'' \<notin> set xs \<Longrightarrow> normal False (xs @ replicate n ''..'')"
  by (auto simp: normal_def list_all_iff)

lemma cleanStep_dots: "cleanStep False ''..'' (replicate n ''..'') = replicate (Suc n) ''..''"
  by (cases n) (simp_all add: cleanStep_def)

lemma cleanStep_normal:
  assumes "element e" and "normal r out"
  shows "normal r (cleanStep r e out)"
proof (cases r)
  case True
  with assms show ?thesis by (auto simp: normal_def cleanStep_def split: list.split)
next
  case False
  then obtain n xs where out: "out = xs @ replicate n ''..''" "''..'' \<notin> set xs" "list_all element out"
    using assms(2) by (auto simp: normal_def)
  show ?thesis
  proof (cases "e = ''..''")
    case True
    show ?thesis
    proof (cases xs)
      case Nil
      with False True out(1) show ?thesis using normal_dots [of "[]" "Suc n"] by (simp add: cleanStep_dots)
    next
      case (Cons x xs')
      with out True have "cleanStep r e out = xs' @ replicate n ''..''" by (auto simp: cleanStep_def)
      with Cons False out show ?thesis by (simp add: normal_dots)
    qed
  next
    case e: False
    then have "cleanStep r e out = (e # xs) @ replicate n ''..''" "''..'' \<notin> set (e # xs)"
      using out by (auto simp: cleanStep_def)
    with False out(3) assms(1) out(1) normal_dots [of "e # xs" n] show ?thesis by simp
  qed
qed

lemma resolve_normal: "list_all element es \<Longrightarrow> normal r out \<Longrightarrow> normal r (resolve r es out)"
  by (induction es arbitrary: out) (simp_all add: resolve_def cleanStep_normal)

lemma normal_Nil [simp]: "normal r []"
  by (simp add: normal_def)

text \<open>Elements that are clean already stay as they are.\<close>

lemma resolve_plain: "''..'' \<notin> set es \<Longrightarrow> resolve r es out = rev es @ out"
  by (induction es arbitrary: out) (auto simp: resolve_def cleanStep_def)

lemma resolve_dots: "resolve False (replicate n ''..'') (replicate k ''..'') = replicate (n + k) ''..''"
proof (induction n arbitrary: k)
  case (Suc n)
  have "cleanStep False ''..'' (replicate (n + k) ''..'') = replicate (Suc n + k) ''..''"
    using cleanStep_dots [of "n + k"] by simp
  with Suc [of k] show ?case by (simp add: resolve_def flip: funpow_swap1)
qed (simp add: resolve_def)

lemma resolve_append: "resolve r (a @ b) out = resolve r b (resolve r a out)"
  by (simp add: resolve_def)

lemma resolve_rev:
  assumes "normal r out"
  shows "resolve r (rev out) [] = out"
proof (cases r)
  case True
  with assms show ?thesis by (simp add: normal_def resolve_plain)
next
  case False
  with assms obtain n xs where out: "out = xs @ replicate n ''..''" "''..'' \<notin> set xs"
    by (auto simp: normal_def)
  have "resolve False (replicate n ''..'' @ rev xs) [] = xs @ replicate n ''..''"
    using resolve_dots [of n 0] out(2) by (simp add: resolve_append resolve_plain)
  with False out(1) show ?thesis by simp
qed

text \<open>The stack that a path leads to.\<close>

definition stackOf :: "string \<Rightarrow> string list" where
  "stackOf p = resolve (rooted p) (pathElements p) []"

lemma stackOf_normal: "normal (rooted p) (stackOf p)"
  unfolding stackOf_def by (rule resolve_normal) (auto simp: list_all_iff pathElements_element)

lemma pathOf_normal:
  assumes "normal r out"
  shows "rooted (pathOf r out) = r" and "pathElements (pathOf r out) = rev out"
proof -
  have es: "list_all element (rev out)" using assms by (simp add: normal_def)
  have "pathElements ''.'' = []" by (simp add: pathElements_def)
  with pathElements_join [OF es] pathElements_append [of "[]" "joinSlash (rev out)"]
  show "pathElements (pathOf r out) = rev out"
    by (auto simp: pathOf_def pathElements_def)
  have "\<not> rooted (joinSlash es)" if "list_all element es" for es
    using that by (cases es rule: joinSlash.cases) (auto simp: rooted_def element_def neq_Nil_conv split: list.splits)
  with es show "rooted (pathOf r out) = r" by (simp add: pathOf_def rooted_def split: list.split)
qed

lemma stackOf_clean [simp]: "stackOf (pathClean p) = stackOf p" "rooted (pathClean p) = rooted p"
  using pathOf_normal [OF stackOf_normal [of p]] resolve_rev [OF stackOf_normal [of p]]
  by (simp_all add: pathClean_def stackOf_def)

lemma pathClean_idem: "pathClean (pathClean p) = pathClean p"
  using stackOf_clean [of p] by (simp add: pathClean_def stackOf_def)

section \<open>Joining\<close>

text \<open>A path that never climbs above its start, from a depth of \<open>d\<close>.\<close>

fun staysBelow :: "nat \<Rightarrow> string list \<Rightarrow> bool" where
  "staysBelow d [] = True"
| "staysBelow d (e # es) = (if e = ''..'' then (case d of 0 \<Rightarrow> False | Suc d' \<Rightarrow> staysBelow d' es)
     else staysBelow (Suc d) es)"

lemma resolve_staysBelow:
  assumes "staysBelow (length out) es" and "''..'' \<notin> set out"
  shows "\<exists>out'. resolve r es (out @ base) = out' @ base \<and> ''..'' \<notin> set out'"
  using assms
proof (induction es arbitrary: out)
  case (Cons e es)
  show ?case
  proof (cases "e = ''..''")
    case True
    with Cons.prems obtain x xs where "out = x # xs" by (cases out) auto
    with True Cons show ?thesis by (auto simp: resolve_def cleanStep_def)
  next
    case False
    with Cons.prems Cons.IH [of "e # out"] show ?thesis by (simp add: resolve_def cleanStep_def)
  qed
qed (simp add: resolve_def)

lemma pathJoin_stack:
  assumes "dir \<noteq> []"
  shows "stackOf (pathJoin dir file) = resolve (rooted dir) (pathElements file) (stackOf dir)"
    and "rooted (pathJoin dir file) = rooted dir"
proof -
  have root: "rooted (dir @ ''/'' @ file) = rooted dir" using assms by (cases dir) (simp_all add: rooted_def)
  show "rooted (pathJoin dir file) = rooted dir" using assms root by (simp add: pathJoin_def)
  have "stackOf (dir @ ''/'' @ file) = resolve (rooted dir) (pathElements file) (stackOf dir)"
    using root by (simp add: stackOf_def pathElements_append resolve_append)
  then show "stackOf (pathJoin dir file) = resolve (rooted dir) (pathElements file) (stackOf dir)"
    using assms by (simp add: pathJoin_def)
qed

text \<open>Whether a path is the directory or lies under it.\<close>

definition under :: "string \<Rightarrow> string \<Rightarrow> bool" where
  "under dir p \<longleftrightarrow> rooted p = rooted dir \<and> (\<exists>out. stackOf p = out @ stackOf dir \<and> ''..'' \<notin> set out)"

lemma pathJoin_under:
  assumes "dir \<noteq> []" and "staysBelow 0 (pathElements file)"
  shows "under dir (pathJoin dir file)"
  using resolve_staysBelow [of "[]" "pathElements file" "rooted dir" "stackOf dir"] assms pathJoin_stack [OF assms(1)]
  by (simp add: under_def)

end
