(* ===== verification/GoLib.thy ===== *)
theory GoLib
  imports ApiTypes Paths "HOL-Library.AList"
begin

text \<open>
  Errors as values, and the library functions the repository calls but does not contain.

  \<^item> \<open>go_error\<close>: an API status error with its reason, the repository's own
    \<open>ErrWorkspaceNotReady\<close>, an error made from a text (\<open>errors.New\<close>, \<open>fmt.Errorf\<close> with \<open>%v\<close>) and
    an error wrapped with \<open>%w\<close>. \<open>isNotFound\<close> and its siblings look through wrapped errors, as
    \<open>errors.As\<close> does; a text does not keep the error it was formatted from.
  \<^item> \<open>golib\<close>: a record of the functions of \<open>encoding/json\<close>, \<open>text/template\<close>, \<open>regexp\<close>,
    \<open>mapstructure\<close> and the cron parser that the modelled code calls. It is a parameter of every
    definition that uses one, so the theorems hold whatever these functions compute; where a
    theorem needs a documented fact of one, the fact is a hypothesis.
\<close>

section \<open>Errors\<close>

datatype api_reason =
    StatusReasonNotFound
  | StatusReasonAlreadyExists
  | StatusReasonConflict
  | StatusReasonOther string

datatype go_error =
    ApiErr api_reason string
  | ErrWorkspaceNotReady string string string \<comment> \<open>name, namespace, message\<close>
  | ErrText string
  | Wrapped string go_error

fun errString :: "go_error \<Rightarrow> string" where
  "errString (ApiErr r msg) = msg"
| "errString (ErrWorkspaceNotReady n ns msg) = ''workspace '' @ ns @ ''/'' @ n @ '' not ready: '' @ msg"
| "errString (ErrText t) = t"
| "errString (Wrapped t e) = t @ '': '' @ errString e"

fun reasonForError :: "go_error \<Rightarrow> api_reason option" where
  "reasonForError (ApiErr r _) = Some r"
| "reasonForError (ErrWorkspaceNotReady _ _ _) = None"
| "reasonForError (ErrText _) = None"
| "reasonForError (Wrapped _ e) = reasonForError e"

definition isNotFound :: "go_error \<Rightarrow> bool" where
  "isNotFound e \<longleftrightarrow> reasonForError e = Some StatusReasonNotFound"

definition isAlreadyExists :: "go_error \<Rightarrow> bool" where
  "isAlreadyExists e \<longleftrightarrow> reasonForError e = Some StatusReasonAlreadyExists"

definition isConflict :: "go_error \<Rightarrow> bool" where
  "isConflict e \<longleftrightarrow> reasonForError e = Some StatusReasonConflict"

text \<open>\<open>errors.As(err, &errWorkspaceNotReady)\<close>\<close>

fun asWorkspaceNotReady :: "go_error \<Rightarrow> bool" where
  "asWorkspaceNotReady (ErrWorkspaceNotReady _ _ _) = True"
| "asWorkspaceNotReady (Wrapped _ e) = asWorkspaceNotReady e"
| "asWorkspaceNotReady _ = False"

section \<open>Formatting\<close>

text \<open>\<open>%d\<close>, \<open>%q\<close> (of a text without characters to escape) and \<open>%v\<close> of a slice of strings.\<close>

fun showNat :: "nat \<Rightarrow> string" where
  "showNat n = (if n < 10 then [char_of (48 + n)] else showNat (n div 10) @ [char_of (48 + n mod 10)])"

declare showNat.simps [simp del]

definition showInt :: "int \<Rightarrow> string" where
  "showInt i = (if i < 0 then ''-'' @ showNat (nat (- i)) else showNat (nat i))"

definition showQuoted :: "string \<Rightarrow> string" where
  "showQuoted s = [CHR 0x22] @ s @ [CHR 0x22]"

fun showWords :: "string list \<Rightarrow> string" where
  "showWords [] = []"
| "showWords [s] = s"
| "showWords (s # ss) = s @ '' '' @ showWords ss"

definition showStrings :: "string list \<Rightarrow> string" where
  "showStrings ss = ''['' @ showWords ss @ '']''"

section \<open>Library functions as a parameter\<close>

text \<open>
  \<open>lib_template n t d\<close> is the result of the \<open>n\<close>-th template execution: the template functions
  include a random generator (\<open>randBase62\<close>), so two executions of one text may differ.
  \<open>lib_floatToInt\<close> is the value Go's conversion \<open>int(v)\<close> gives when \<open>v\<close> is out of the range of
  \<open>int\<close>, which the language leaves to the implementation. \<open>lib_next\<close> is \<open>Schedule.Next\<close>.
\<close>

record ResourceReplicaCount =
  rrc_Namespace :: string
  rrc_Name :: string
  rrc_Replicas :: int

record ReplicaHistory =
  rh_Deployments :: "ResourceReplicaCount list"
  rh_ReplicaSets :: "ResourceReplicaCount list"
  rh_StatefulSets :: "ResourceReplicaCount list"

datatype userinfo = UserPassword string string | UserOnly string

record golib =
  lib_jsonUnmarshal :: "string \<Rightarrow> go_error + go_any"
  lib_jsonMarshal :: "go_any \<Rightarrow> string"
  lib_template :: "nat \<Rightarrow> string \<Rightarrow> go_map \<Rightarrow> go_error + string"
  lib_regexp :: "string \<Rightarrow> go_error + (string \<Rightarrow> bool)"
  lib_floatToInt :: "f64 \<Rightarrow> int"
  lib_cronParse :: "string \<Rightarrow> go_error + nat"
  lib_next :: "nat \<Rightarrow> time \<Rightarrow> time"
  lib_readValues :: "string \<Rightarrow> go_error + go_map"
  lib_yamlUnmarshal :: "string \<Rightarrow> go_error + go_map"
  lib_coalesceTables :: "go_map \<Rightarrow> go_map \<Rightarrow> go_map"
  lib_urlParse :: "string \<Rightarrow> go_error + string"
  lib_urlString :: "string \<Rightarrow> userinfo option \<Rightarrow> string"
  lib_decodeReplicaHistory :: "go_any \<Rightarrow> go_error + ReplicaHistory"
  lib_decodeString :: "go_any \<Rightarrow> go_error + string"
  lib_decodeMap :: "go_any \<Rightarrow> go_error + go_map"
  lib_formatTime :: "time \<Rightarrow> string"
  lib_showDuration :: "time \<Rightarrow> string"
  lib_sha256 :: "string \<Rightarrow> string"
  lib_sprintf :: "string \<Rightarrow> string \<Rightarrow> string" \<comment> \<open>\<open>fmt.Sprintf\<close> of a format and one byte slice\<close>

section \<open>Conversions of the language\<close>

text \<open>Truncation towards zero of a finite \<open>float64\<close>, and the conversion \<open>int(v)\<close> on a 64-bit
  platform.\<close>

fun truncF64 :: "f64 \<Rightarrow> int" where
  "truncF64 (F64 m e) = (if 0 \<le> e then m * 2 ^ nat e else sgn m * (\<bar>m\<bar> div 2 ^ nat (- e)))"

definition intOfF64 :: "golib \<Rightarrow> f64 \<Rightarrow> int" where
  "intOfF64 lib v =
     (let n = truncF64 v in if - (2 ^ 63) \<le> n \<and> n < 2 ^ 63 then n else lib_floatToInt lib v)"

lemma truncF64_int [simp]: "truncF64 (F64 n 0) = n"
  by simp

text \<open>The values \<open>encoding/json\<close> stores in an \<open>any\<close>.\<close>

fun fromJSON :: "go_any \<Rightarrow> bool" where
  "fromJSON (AInt _) = False"
| "fromJSON (AStrings _) = False"
| "fromJSON (ASlice vs) = list_all fromJSON vs"
| "fromJSON (AMap kvs) = list_all (\<lambda>(k, v). fromJSON v) kvs"
| "fromJSON _ = True"

text \<open>\<open>json.Unmarshal(raw, &m)\<close> for a variable \<open>m\<close> of type \<open>map[string]any\<close>: an object gives its
  map, \<open>null\<close> leaves the variable as it was (given as \<open>m0\<close>), any other value is a type error.\<close>

definition unmarshalMap :: "golib \<Rightarrow> go_map \<Rightarrow> string \<Rightarrow> go_error + go_map" where
  "unmarshalMap lib m0 raw = (case lib_jsonUnmarshal lib raw of
       Inl e \<Rightarrow> Inl e
     | Inr (AMap kvs) \<Rightarrow> Inr kvs
     | Inr ANil \<Rightarrow> Inr m0
     | Inr _ \<Rightarrow> Inl (ErrText ''json: cannot unmarshal value into Go value of type map[string]interface {}''))"

end
