(* ===== verification/ModuleConfig.thy ===== *)
theory ModuleConfig
  imports GoLib
begin

text \<open>
  The validation of module configuration (\<open>src/api/v1/module_types.go\<close>, the five \<open>Validate\<close>
  methods and \<open>GetValidatedConfig\<close>). Each \<open>Validate\<close> returns a value or an error; the default that
  the Go code returns beside a non-nil error is read by no caller. The theorems state what an
  accepted configuration satisfies, item by item, and that a value supplied for a
  multiple-options item is never accepted, because \<open>encoding/json\<close> stores an array as \<open>[]any\<close>
  and the code asks for \<open>[]string\<close>.
\<close>

datatype config_error =
    ValueRequired
  | NotEditable
  | NotAnInteger
  | LessThanMinimum int int
  | GreaterThanMaximum int int
  | NotABoolean
  | NotAString
  | InvalidRegex go_error
  | RegexMismatch string
  | InvalidOption string "string list"
  | NotAStringArray
  | UnknownConfigType
  | UnmarshalConfig go_error
  | AtAlias string string config_error \<comment> \<open>the item's kind, its alias, what is wrong\<close>

text \<open>The text of the error (\<open>err.Error()\<close>); \<open>kind\<close> is the word for the item's kind in the message.\<close>

definition quoted :: "string \<Rightarrow> string" where
  "quoted s = [CHR 0x27] @ s @ [CHR 0x27]"

fun configErrString :: "string \<Rightarrow> config_error \<Rightarrow> string" where
  "configErrString kind ValueRequired = ''a value is required for this '' @ kind @ '' field''"
| "configErrString kind NotEditable = ''this '' @ kind @ '' field is not editable''"
| "configErrString kind NotAnInteger = ''input is not an integer''"
| "configErrString kind (LessThanMinimum v mn) =
     ''value '' @ showInt v @ '' is less than minimum '' @ showInt mn"
| "configErrString kind (GreaterThanMaximum v mx) =
     ''value '' @ showInt v @ '' is greater than maximum '' @ showInt mx"
| "configErrString kind NotABoolean = ''input is not a boolean''"
| "configErrString kind NotAString = ''input is not a string''"
| "configErrString kind (InvalidRegex e) = ''invalid regex pattern: '' @ errString e"
| "configErrString kind (RegexMismatch v) =
     ''value '' @ quoted v @ '' does not match the required regex pattern''"
| "configErrString kind (InvalidOption v vs) =
     (if kind = ''option'' then ''invalid value '' else ''invalid option '') @ quoted v
       @ '', must be one of '' @ showStrings vs"
| "configErrString kind NotAStringArray = ''input is not an string array''"
| "configErrString kind UnknownConfigType = ''unknown config type''"
| "configErrString kind (UnmarshalConfig e) = ''failed to unmarshal module config: '' @ errString e"
| "configErrString kind (AtAlias k alias e) =
     (if e = UnknownConfigType then ''unknown config type for alias '' @ showQuoted alias
      else ''failed to validate '' @ k @ '' config for alias '' @ showQuoted alias @ '': ''
        @ configErrString k e)"

definition configError :: "config_error \<Rightarrow> go_error" where
  "configError e = ErrText (configErrString [] e)"

section \<open>The five validators\<close>

definition ConfigItemSpecInteger_Validate ::
  "golib \<Rightarrow> ConfigItemSpecInteger \<Rightarrow> go_any option \<Rightarrow> config_error + int" where
  "ConfigItemSpecInteger_Validate lib spec input = (case input of
       None \<Rightarrow> if cint_Required spec then Inl ValueRequired else Inr (cint_Default spec)
     | Some inp \<Rightarrow>
         if \<not> cint_Editable spec then Inl NotEditable
         else (case (case inp of
                       AInt v \<Rightarrow> Some v
                     | AFloat v \<Rightarrow> Some (intOfF64 lib v)
                     | _ \<Rightarrow> None) of
             None \<Rightarrow> Inl NotAnInteger
           | Some val \<Rightarrow>
               (case cint_Min spec of
                  Some mn \<Rightarrow> if val < mn then Inl (LessThanMinimum val mn)
                    else (case cint_Max spec of
                        Some mx \<Rightarrow> if val > mx then Inl (GreaterThanMaximum val mx) else Inr val
                      | None \<Rightarrow> Inr val)
                | None \<Rightarrow> (case cint_Max spec of
                        Some mx \<Rightarrow> if val > mx then Inl (GreaterThanMaximum val mx) else Inr val
                      | None \<Rightarrow> Inr val))))"

definition ConfigItemSpecBoolean_Validate ::
  "ConfigItemSpecBoolean \<Rightarrow> go_any option \<Rightarrow> config_error + bool" where
  "ConfigItemSpecBoolean_Validate spec input = (case input of
       None \<Rightarrow> if cbool_Required spec then Inl ValueRequired else Inr (cbool_Default spec)
     | Some inp \<Rightarrow>
         if \<not> cbool_Editable spec then Inl NotEditable
         else (case inp of ABool v \<Rightarrow> Inr v | _ \<Rightarrow> Inl NotABoolean))"

definition ConfigItemSpecString_Validate ::
  "golib \<Rightarrow> ConfigItemSpecString \<Rightarrow> go_any option \<Rightarrow> config_error + string" where
  "ConfigItemSpecString_Validate lib spec input = (case input of
       None \<Rightarrow> if cstr_Required spec then Inl ValueRequired else Inr (cstr_Default spec)
     | Some inp \<Rightarrow>
         if \<not> cstr_Editable spec then Inl NotEditable
         else (case inp of
             AString val \<Rightarrow>
               (case cstr_Regex spec of
                  None \<Rightarrow> Inr val
                | Some pat \<Rightarrow> (case lib_regexp lib pat of
                      Inl e \<Rightarrow> Inl (InvalidRegex e)
                    | Inr matches \<Rightarrow> if \<not> matches val then Inl (RegexMismatch val) else Inr val))
           | _ \<Rightarrow> Inl NotAString))"

definition ConfigItemSpecOption_Validate ::
  "ConfigItemSpecOption \<Rightarrow> go_any option \<Rightarrow> config_error + string" where
  "ConfigItemSpecOption_Validate spec input = (case input of
       None \<Rightarrow> if copt_Required spec then Inl ValueRequired else Inr (copt_Default spec)
     | Some inp \<Rightarrow>
         if \<not> copt_Editable spec then Inl NotEditable
         else (case inp of
             AString val \<Rightarrow>
               if \<not> List.member (copt_Values spec) val then Inl (InvalidOption val (copt_Values spec))
               else Inr val
           | _ \<Rightarrow> Inl NotAString))"

text \<open>The loop over the items of the supplied array stops at the first unknown option.\<close>

fun firstInvalid :: "string list \<Rightarrow> string list \<Rightarrow> string option" where
  "firstInvalid vals [] = None"
| "firstInvalid vals (item # items) =
     (if \<not> List.member vals item then Some item else firstInvalid vals items)"

definition ConfigItemSpecMultipleOptions_Validate ::
  "ConfigItemSpecMultipleOptions \<Rightarrow> go_any option \<Rightarrow> config_error + string list" where
  "ConfigItemSpecMultipleOptions_Validate spec input = (case input of
       None \<Rightarrow> if cmul_Required spec then Inl ValueRequired else Inr (cmul_Default spec)
     | Some inp \<Rightarrow>
         if \<not> cmul_Editable spec then Inl NotEditable
         else (case inp of
             AStrings val \<Rightarrow>
               if val = [] \<and> cmul_Required spec then Inl ValueRequired
               else (case firstInvalid (cmul_Values spec) val of
                   Some item \<Rightarrow> Inl (InvalidOption item (cmul_Values spec))
                 | None \<Rightarrow> Inr val)
           | _ \<Rightarrow> Inl NotAStringArray))"

section \<open>GetValidatedConfig\<close>

text \<open>One iteration of the loop: the first non-nil specification decides.\<close>

definition validateItem :: "golib \<Rightarrow> ConfigItem \<Rightarrow> go_any option \<Rightarrow> config_error + go_any" where
  "validateItem lib c val =
     (case ci_Integer c of Some s \<Rightarrow> map_sum id AInt (ConfigItemSpecInteger_Validate lib s val)
      | None \<Rightarrow>
      (case ci_Boolean c of Some s \<Rightarrow> map_sum id ABool (ConfigItemSpecBoolean_Validate s val)
       | None \<Rightarrow>
       (case ci_String c of Some s \<Rightarrow> map_sum id AString (ConfigItemSpecString_Validate lib s val)
        | None \<Rightarrow>
        (case ci_Option c of Some s \<Rightarrow> map_sum id AString (ConfigItemSpecOption_Validate s val)
         | None \<Rightarrow>
         (case ci_MultipleOptions c of
            Some s \<Rightarrow> map_sum id AStrings (ConfigItemSpecMultipleOptions_Validate s val)
          | None \<Rightarrow> Inl UnknownConfigType)))))"

definition kindName :: "ConfigItem \<Rightarrow> string" where
  "kindName c = (if ci_Integer c \<noteq> None then ''integer''
     else if ci_Boolean c \<noteq> None then ''boolean''
     else if ci_String c \<noteq> None then ''string''
     else if ci_Option c \<noteq> None then ''option'' else ''multiple options'')"

fun validateItems :: "golib \<Rightarrow> go_map \<Rightarrow> ConfigItem list \<Rightarrow> go_map \<Rightarrow> config_error + go_map" where
  "validateItems lib inputConfig [] outputConfig = Inr outputConfig"
| "validateItems lib inputConfig (c # cs) outputConfig =
     (case validateItem lib c (map_of inputConfig (ci_Alias c)) of
        Inl e \<Rightarrow> Inl (AtAlias (kindName c) (ci_Alias c) e)
      | Inr v \<Rightarrow> validateItems lib inputConfig cs (AList.update (ci_Alias c) v outputConfig))"

definition inputConfigOf :: "golib \<Rightarrow> Module \<Rightarrow> config_error + go_map" where
  "inputConfigOf lib m = (case ms_Config (mod_Spec m) of
       None \<Rightarrow> Inr []
     | Some ext \<Rightarrow> (case raw_Raw ext of
           None \<Rightarrow> Inr []
         | Some raw \<Rightarrow> map_sum UnmarshalConfig id (unmarshalMap lib [] raw)))"

definition GetValidatedConfig :: "golib \<Rightarrow> Module \<Rightarrow> config_error + go_map" where
  "GetValidatedConfig lib m = (case inputConfigOf lib m of
       Inl e \<Rightarrow> Inl e
     | Inr inputConfig \<Rightarrow> validateItems lib inputConfig (mod_Config m) [])"

section \<open>What a configuration item promises\<close>

text \<open>
  The contract of one item: \<open>conforms lib c v\<close> holds of the values a user may supply for it, and
  \<open>defaultOf c\<close> is what it stands for when nothing is supplied. The kind of an item is its first
  non-nil specification.
\<close>

datatype item_kind =
    KInteger ConfigItemSpecInteger
  | KBoolean ConfigItemSpecBoolean
  | KString ConfigItemSpecString
  | KOption ConfigItemSpecOption
  | KMultipleOptions ConfigItemSpecMultipleOptions

definition itemKind :: "ConfigItem \<Rightarrow> item_kind option" where
  "itemKind c = (case ci_Integer c of Some s \<Rightarrow> Some (KInteger s) | None \<Rightarrow>
     (case ci_Boolean c of Some s \<Rightarrow> Some (KBoolean s) | None \<Rightarrow>
     (case ci_String c of Some s \<Rightarrow> Some (KString s) | None \<Rightarrow>
     (case ci_Option c of Some s \<Rightarrow> Some (KOption s) | None \<Rightarrow>
     (case ci_MultipleOptions c of Some s \<Rightarrow> Some (KMultipleOptions s) | None \<Rightarrow> None)))))"

fun kindRequired :: "item_kind \<Rightarrow> bool" where
  "kindRequired (KInteger s) = cint_Required s"
| "kindRequired (KBoolean s) = cbool_Required s"
| "kindRequired (KString s) = cstr_Required s"
| "kindRequired (KOption s) = copt_Required s"
| "kindRequired (KMultipleOptions s) = cmul_Required s"

fun kindEditable :: "item_kind \<Rightarrow> bool" where
  "kindEditable (KInteger s) = cint_Editable s"
| "kindEditable (KBoolean s) = cbool_Editable s"
| "kindEditable (KString s) = cstr_Editable s"
| "kindEditable (KOption s) = copt_Editable s"
| "kindEditable (KMultipleOptions s) = cmul_Editable s"

fun kindDefault :: "item_kind \<Rightarrow> go_any" where
  "kindDefault (KInteger s) = AInt (cint_Default s)"
| "kindDefault (KBoolean s) = ABool (cbool_Default s)"
| "kindDefault (KString s) = AString (cstr_Default s)"
| "kindDefault (KOption s) = AString (copt_Default s)"
| "kindDefault (KMultipleOptions s) = AStrings (cmul_Default s)"

text \<open>\<open>stores lib k input v\<close>: \<open>v\<close> is what a supplied value \<open>input\<close> of the right type stands for,
  and it satisfies the bounds, the pattern or the list of options of the item.\<close>

fun stores :: "golib \<Rightarrow> item_kind \<Rightarrow> go_any \<Rightarrow> go_any \<Rightarrow> bool" where
  "stores lib (KInteger s) inp v = (case v of
       AInt n \<Rightarrow> (case inp of AInt i \<Rightarrow> i = n | AFloat x \<Rightarrow> intOfF64 lib x = n | _ \<Rightarrow> False) \<and>
         pred_option (\<lambda>mn. mn \<le> n) (cint_Min s) \<and> pred_option (\<lambda>mx. n \<le> mx) (cint_Max s)
     | _ \<Rightarrow> False)"
| "stores lib (KBoolean s) inp v = (case inp of ABool b \<Rightarrow> v = ABool b | _ \<Rightarrow> False)"
| "stores lib (KString s) inp v = (case inp of
       AString t \<Rightarrow> v = AString t \<and>
         pred_option (\<lambda>pat. case lib_regexp lib pat of Inl _ \<Rightarrow> False | Inr f \<Rightarrow> f t) (cstr_Regex s)
     | _ \<Rightarrow> False)"
| "stores lib (KOption s) inp v = (case inp of
       AString t \<Rightarrow> v = AString t \<and> t \<in> set (copt_Values s)
     | _ \<Rightarrow> False)"
| "stores lib (KMultipleOptions s) inp v = (case inp of
       AStrings ts \<Rightarrow> v = AStrings ts \<and> set ts \<subseteq> set (cmul_Values s) \<and> \<not> (cmul_Required s \<and> ts = [])
     | _ \<Rightarrow> False)"

definition itemMeans :: "golib \<Rightarrow> item_kind \<Rightarrow> go_any option \<Rightarrow> go_any \<Rightarrow> bool" where
  "itemMeans lib k input v \<longleftrightarrow> (case input of
       None \<Rightarrow> \<not> kindRequired k \<and> v = kindDefault k
     | Some inp \<Rightarrow> kindEditable k \<and> stores lib k inp v)"

lemma firstInvalid_None [simp]: "firstInvalid vals items = None \<longleftrightarrow> set items \<subseteq> set vals"
  by (induction items) auto

lemma firstInvalid_Some: "firstInvalid vals items = Some x \<Longrightarrow> \<not> set items \<subseteq> set vals"
  by (metis firstInvalid_None option.distinct(1))

lemma integer_validate_iff:
  "ConfigItemSpecInteger_Validate lib s input = Inr n \<longleftrightarrow> itemMeans lib (KInteger s) input (AInt n)"
  by (auto simp: ConfigItemSpecInteger_Validate_def itemMeans_def
      split: option.splits go_any.splits if_splits)

lemma boolean_validate_iff:
  "ConfigItemSpecBoolean_Validate s input = Inr b \<longleftrightarrow> itemMeans lib (KBoolean s) input (ABool b)"
  by (auto simp: ConfigItemSpecBoolean_Validate_def itemMeans_def
      split: option.splits go_any.splits if_splits)

lemma string_validate_iff:
  "ConfigItemSpecString_Validate lib s input = Inr t \<longleftrightarrow> itemMeans lib (KString s) input (AString t)"
  by (auto simp: ConfigItemSpecString_Validate_def itemMeans_def
      split: option.splits go_any.splits if_splits sum.splits)

lemma option_validate_iff:
  "ConfigItemSpecOption_Validate s input = Inr t \<longleftrightarrow> itemMeans lib (KOption s) input (AString t)"
  by (auto simp: ConfigItemSpecOption_Validate_def itemMeans_def
      split: option.splits go_any.splits if_splits)

lemma multiple_options_validate_iff:
  "ConfigItemSpecMultipleOptions_Validate s input = Inr ts \<longleftrightarrow>
     itemMeans lib (KMultipleOptions s) input (AStrings ts)"
  by (auto simp: ConfigItemSpecMultipleOptions_Validate_def itemMeans_def
      dest: firstInvalid_Some split: option.splits go_any.splits if_splits)

lemmas validate_iffs = integer_validate_iff boolean_validate_iff string_validate_iff
  option_validate_iff multiple_options_validate_iff

text \<open>A value that the specification of one kind gives never has the shape of another kind.\<close>

lemma itemMeans_shape:
  "itemMeans lib k input v \<Longrightarrow> (case k of
       KInteger _ \<Rightarrow> \<exists>n. v = AInt n
     | KBoolean _ \<Rightarrow> \<exists>b. v = ABool b
     | KString _ \<Rightarrow> \<exists>t. v = AString t
     | KOption _ \<Rightarrow> \<exists>t. v = AString t
     | KMultipleOptions _ \<Rightarrow> \<exists>ts. v = AStrings ts)"
  by (cases k) (auto simp: itemMeans_def split: option.splits go_any.splits)

lemma map_sum_id_Inr [simp]: "map_sum id f r = Inr v \<longleftrightarrow> (\<exists>x. r = Inr x \<and> v = f x)"
  by (cases r) auto

lemma validateItem_kind:
  "validateItem lib c val = (case itemKind c of
       None \<Rightarrow> Inl UnknownConfigType
     | Some (KInteger s) \<Rightarrow> map_sum id AInt (ConfigItemSpecInteger_Validate lib s val)
     | Some (KBoolean s) \<Rightarrow> map_sum id ABool (ConfigItemSpecBoolean_Validate s val)
     | Some (KString s) \<Rightarrow> map_sum id AString (ConfigItemSpecString_Validate lib s val)
     | Some (KOption s) \<Rightarrow> map_sum id AString (ConfigItemSpecOption_Validate s val)
     | Some (KMultipleOptions s) \<Rightarrow> map_sum id AStrings (ConfigItemSpecMultipleOptions_Validate s val))"
  by (simp add: validateItem_def itemKind_def split: option.split)

lemma validateItem_iff:
  "validateItem lib c val = Inr v \<longleftrightarrow> (\<exists>k. itemKind c = Some k \<and> itemMeans lib k val v)"
proof (cases "itemKind c")
  case None
  then show ?thesis by (simp add: validateItem_kind)
next
  case (Some k)
  then show ?thesis
    using itemMeans_shape [of lib k val v]
    by (cases k) (auto simp: validateItem_kind validate_iffs [where lib = lib])
qed

lemma validateItems_dom:
  "validateItems lib inp cs out0 = Inr out \<Longrightarrow>
   dom (map_of out) = dom (map_of out0) \<union> ci_Alias ` set cs"
  by (induction lib inp cs out0 rule: validateItems.induct)
    (auto simp: update_conv' split: sum.splits)

lemma validateItems_other:
  "validateItems lib inp cs out0 = Inr out \<Longrightarrow> k \<notin> ci_Alias ` set cs \<Longrightarrow>
   map_of out k = map_of out0 k"
  by (induction lib inp cs out0 rule: validateItems.induct)
    (auto simp: update_conv' split: sum.splits)

lemma validateItems_item:
  "validateItems lib inp cs out0 = Inr out \<Longrightarrow> distinct (map ci_Alias cs) \<Longrightarrow> c \<in> set cs \<Longrightarrow>
   \<exists>v. map_of out (ci_Alias c) = Some v \<and> validateItem lib c (map_of inp (ci_Alias c)) = Inr v"
  by (induction lib inp cs out0 rule: validateItems.induct)
    (auto simp: update_conv' validateItems_other split: sum.splits)

lemma validateItems_accepts:
  "(\<exists>out. validateItems lib inp cs out0 = Inr out) \<longleftrightarrow>
   (\<forall>c\<in>set cs. \<exists>v. validateItem lib c (map_of inp (ci_Alias c)) = Inr v)"
proof (induction cs arbitrary: out0)
  case (Cons c cs)
  then show ?case
    by (cases "validateItem lib c (map_of inp (ci_Alias c))") auto
qed simp

lemma getValidatedConfig_returns_iff:
  "(\<exists>out. GetValidatedConfig lib m = Inr out) \<longleftrightarrow>
   (\<exists>inp. inputConfigOf lib m = Inr inp \<and>
      (\<forall>c\<in>set (mod_Config m). \<exists>k v. itemKind c = Some k \<and> itemMeans lib k (map_of inp (ci_Alias c)) v))"
proof (cases "inputConfigOf lib m")
  case (Inr inp)
  then show ?thesis
    by (simp add: GetValidatedConfig_def validateItems_accepts validateItem_iff) blast
qed (simp add: GetValidatedConfig_def)

section \<open>Properties\<close>

text \<open>
  C14: \<open>GetValidatedConfig\<close> accepts exactly the configurations in which every declared item has a
  kind and a legal meaning: a missing value only where the item is not required, a supplied value
  only where the item is editable, has the item's type and lies within its bounds, matches its
  pattern or is one of its options.
\<close>

theorem getValidatedConfig_accepts_iff:
  "(\<exists>out. GetValidatedConfig lib m = Inr out) \<longleftrightarrow>
   (\<exists>inp. inputConfigOf lib m = Inr inp \<and>
      (\<forall>c\<in>set (mod_Config m). \<exists>k v. itemKind c = Some k \<and> itemMeans lib k (map_of inp (ci_Alias c)) v))"
  by (rule getValidatedConfig_returns_iff)

text \<open>
  When \<open>GetValidatedConfig\<close> succeeds and the aliases are distinct, the map it returns has exactly
  the declared aliases as keys, and under each alias the meaning of that item: its default when
  nothing is supplied, otherwise the supplied value within the item's bounds, pattern or options.
\<close>

theorem getValidatedConfig_result:
  assumes "GetValidatedConfig lib m = Inr out"
    and "distinct (map ci_Alias (mod_Config m))"
  shows "dom (map_of out) = ci_Alias ` set (mod_Config m) \<and>
    (\<exists>inp. inputConfigOf lib m = Inr inp \<and>
      (\<forall>c\<in>set (mod_Config m). \<exists>k v. itemKind c = Some k \<and>
         map_of out (ci_Alias c) = Some v \<and> itemMeans lib k (map_of inp (ci_Alias c)) v))"
proof -
  from assms(1) obtain inp where inp: "inputConfigOf lib m = Inr inp"
    and run: "validateItems lib inp (mod_Config m) [] = Inr out"
    by (auto simp: GetValidatedConfig_def split: sum.splits)
  have "\<exists>k v. itemKind c = Some k \<and> map_of out (ci_Alias c) = Some v \<and>
      itemMeans lib k (map_of inp (ci_Alias c)) v" if "c \<in> set (mod_Config m)" for c
    using validateItems_item [OF run assms(2) that] by (auto simp: validateItem_iff)
  with inp validateItems_dom [OF run] show ?thesis by auto
qed

text \<open>A concrete module: a bounded integer that is supplied as the JSON number 7, and a string that
  is left to its default.\<close>

definition exampleLib :: golib where
  "exampleLib = \<lparr>lib_jsonUnmarshal =
       (\<lambda>raw. if raw = ''{\"n\":7}'' then Inr (AMap [(''n'', AFloat (F64 7 0))])
              else Inl (ErrText ''invalid'')),
     lib_jsonMarshal = (\<lambda>_. []), lib_template = (\<lambda>n t d. Inr t), lib_regexp = (\<lambda>p. Inr (\<lambda>t. True)),
     lib_floatToInt = (\<lambda>x. 0), lib_cronParse = (\<lambda>s. Inr (length s)), lib_next = (\<lambda>s t. t + int s),
     lib_readValues = \<lambda>_. Inr [], lib_yamlUnmarshal = \<lambda>_. Inr [], lib_coalesceTables = \<lambda>v m. v @ m,
     lib_urlParse = Inr, lib_urlString = \<lambda>u _. u,
     lib_decodeReplicaHistory = \<lambda>_. Inl (ErrText []),
     lib_decodeString = \<lambda>v. (case v of AString s \<Rightarrow> Inr s | ANil \<Rightarrow> Inr [] | _ \<Rightarrow> Inl (ErrText [])),
     lib_decodeMap = \<lambda>v. (case v of AMap kvs \<Rightarrow> Inr kvs | ANil \<Rightarrow> Inr [] | _ \<Rightarrow> Inl (ErrText [])),
     lib_formatTime = \<lambda>t. showInt (t div 1000000000), lib_showDuration = \<lambda>t. showInt t,
     lib_sha256 = \<lambda>d. showNat (length d), lib_sprintf = \<lambda>fm x. fm @ x\<rparr>"

definition exampleItems :: "ConfigItem list" where
  "exampleItems =
     [\<lparr>ci_Name = ''N'', ci_Alias = ''n'',
        ci_Integer = Some \<lparr>cint_Required = True, cint_Default = 0, cint_Min = Some 1,
          cint_Max = Some 10, cint_Editable = True\<rparr>,
        ci_Boolean = None, ci_String = None, ci_Option = None, ci_MultipleOptions = None\<rparr>,
      \<lparr>ci_Name = ''S'', ci_Alias = ''s'', ci_Integer = None, ci_Boolean = None,
        ci_String = Some \<lparr>cstr_Required = False, cstr_Default = ''x'', cstr_Regex = None,
          cstr_Editable = True\<rparr>,
        ci_Option = None, ci_MultipleOptions = None\<rparr>]"

definition exampleMeta :: ObjectMeta where
  "exampleMeta = \<lparr>meta_Name = ''mod'', meta_GenerateName = [], meta_Namespace = ''default'',
     meta_UID = ''uid-1'', meta_DeletionTimestamp = None, meta_Annotations = None,
     meta_Finalizers = []\<rparr>"

definition exampleModule :: Module where
  "exampleModule = \<lparr>mod_Meta = exampleMeta, mod_Config = exampleItems,
     mod_Spec = \<lparr>ms_Helm = None, ms_Custom = None,
       ms_Workspace = \<lparr>wref_Name = ''ws'', wref_Namespace = ''default''\<rparr>,
       ms_Config = Some \<lparr>raw_Raw = Some ''{\"n\":7}''\<rparr>, ms_Hibernated = False\<rparr>,
     mod_Status = \<lparr>mst_Conditions = [], mst_Phase = ModulePhaseEmpty, mst_Source = [],
       mst_LastActivity = None, mst_Message = None\<rparr>\<rparr>"

lemmas example_defs = exampleLib_def exampleItems_def exampleMeta_def exampleModule_def

lemma example_validated:
  "GetValidatedConfig exampleLib exampleModule = Inr [(''n'', AInt 7), (''s'', AString ''x'')]"
  by (simp add: GetValidatedConfig_def inputConfigOf_def unmarshalMap_def validateItem_def
      ConfigItemSpecInteger_Validate_def ConfigItemSpecString_Validate_def intOfF64_def example_defs)

theorem getValidatedConfig_accepts_iff_witness:
  "\<exists>inp. inputConfigOf exampleLib exampleModule = Inr inp \<and> map_of inp ''n'' = Some (AFloat (F64 7 0))"
proof -
  have "\<exists>out. GetValidatedConfig exampleLib exampleModule = Inr out"
    using example_validated by blast
  then obtain inp where "inputConfigOf exampleLib exampleModule = Inr inp"
    using getValidatedConfig_accepts_iff [of exampleLib exampleModule] by blast
  moreover have "map_of inp ''n'' = Some (AFloat (F64 7 0))"
    using calculation by (auto simp: inputConfigOf_def unmarshalMap_def example_defs)
  ultimately show ?thesis by blast
qed

text \<open>
  A value that a user supplies for a multiple-options item is never accepted: a configuration is
  decoded by \<open>encoding/json\<close>, which stores an array as \<open>[]any\<close>, and the validator requires the dynamic
  type \<open>[]string\<close>. So \<open>GetValidatedConfig\<close> fails on every module whose configuration sets the alias of
  such an item, whatever the array holds.
\<close>

theorem multipleOptions_supplied_rejected:
  assumes "inputConfigOf lib m = Inr inp"
    and "c \<in> set (mod_Config m)" and "itemKind c = Some (KMultipleOptions s)"
    and "map_of inp (ci_Alias c) = Some v" and "fromJSON v"
  shows "\<exists>e. GetValidatedConfig lib m = Inl e"
proof -
  from assms(5) have "\<not> itemMeans lib (KMultipleOptions s) (Some v) w" for w
    by (cases v) (simp_all add: itemMeans_def)
  with assms(1-4) have "\<nexists>out. GetValidatedConfig lib m = Inr out"
    by (subst getValidatedConfig_returns_iff) force
  then show ?thesis by (cases "GetValidatedConfig lib m") auto
qed

definition exampleMultiItem :: ConfigItem where
  "exampleMultiItem = \<lparr>ci_Name = ''M'', ci_Alias = ''m'', ci_Integer = None, ci_Boolean = None,
     ci_String = None, ci_Option = None,
     ci_MultipleOptions = Some \<lparr>cmul_Required = False, cmul_Default = [],
       cmul_Values = [''a'', ''b''], cmul_Min = None, cmul_Max = None, cmul_Editable = True\<rparr>\<rparr>"

theorem multipleOptions_supplied_rejected_witness:
  "\<exists>e. GetValidatedConfig
     (exampleLib\<lparr>lib_jsonUnmarshal := \<lambda>_. Inr (AMap [(''m'', ASlice [AString ''a''])])\<rparr>)
     (exampleModule\<lparr>mod_Config := [exampleMultiItem]\<rparr>) = Inl e"
  by (rule multipleOptions_supplied_rejected
      [where inp = "[(''m'', ASlice [AString ''a''])]" and c = exampleMultiItem
         and v = "ASlice [AString ''a'']" and s = "the (ci_MultipleOptions exampleMultiItem)"])
    (simp_all add: inputConfigOf_def unmarshalMap_def itemKind_def exampleMultiItem_def example_defs)

end
