(* ===== verification/Render.thy ===== *)
theory Render
  imports ModuleConfig
begin

text \<open>
  Rendering of module specifications (\<open>src/api/v1/module_types.go\<close>: \<open>renderInterface\<close>,
  \<open>renderSpecWithTypePreservation\<close>, \<open>RenderHelmSpec\<close>, \<open>RenderCustomSpec\<close>). A specification is turned
  into a JSON value, every string with template syntax in it is executed as a template and its
  result read back as JSON where it is JSON, and the value is turned into a specification again.

  The conversions between the structs and JSON values follow the struct tags: a nil pointer and an
  empty slice tagged \<open>omitempty\<close> are left out, a missing or \<open>null\<close> member leaves the zero value, a
  member of another type is an error. Programs of this theory run over the number of templates
  executed so far, which is the first argument of the library's template function.
\<close>

section \<open>Template execution in a JSON value\<close>

fun contains :: "string \<Rightarrow> string \<Rightarrow> bool" where
  "contains pat [] = (pat = [])"
| "contains pat (c # cs) = (take (length pat) (c # cs) = pat \<or> contains pat cs)"

definition hasTemplate :: "string \<Rightarrow> bool" where
  "hasTemplate s \<longleftrightarrow> contains ''{{'' s \<and> contains ''}}'' s"

definition renderString :: "golib \<Rightarrow> go_map \<Rightarrow> string \<Rightarrow> (nat, go_error + go_any) prog" where
  "renderString lib data val =
     (if hasTemplate val
      then (\<lambda>n. (Ret (case lib_template lib n val data of
               Inl e \<Rightarrow> Inl e
             | Inr rendered \<Rightarrow> (case lib_jsonUnmarshal lib rendered of
                   Inr parsedValue \<Rightarrow> Inr parsedValue
                 | Inl _ \<Rightarrow> Inr (AString rendered))), Suc n))
      else ret (Inr (AString val)))"

function renderInterface :: "golib \<Rightarrow> go_map \<Rightarrow> go_any \<Rightarrow> (nat, go_error + go_any) prog"
  and renderList :: "golib \<Rightarrow> go_map \<Rightarrow> go_any list \<Rightarrow> (nat, go_error + go_any list) prog"
  and renderMap :: "golib \<Rightarrow> go_map \<Rightarrow> go_map \<Rightarrow> (nat, go_error + go_map) prog" where
  "renderInterface lib data (AMap kvs) =
     andThen (renderMap lib data kvs) (\<lambda>r. ret (map_sum id AMap r))"
| "renderInterface lib data (ASlice vs) =
     andThen (renderList lib data vs) (\<lambda>r. ret (map_sum id ASlice r))"
| "renderInterface lib data (AString s) = renderString lib data s"
| "renderInterface lib data ANil = ret (Inr ANil)"
| "renderInterface lib data (ABool b) = ret (Inr (ABool b))"
| "renderInterface lib data (AInt i) = ret (Inr (AInt i))"
| "renderInterface lib data (AFloat f) = ret (Inr (AFloat f))"
| "renderInterface lib data (AStrings ss) = ret (Inr (AStrings ss))"
| "renderList lib data [] = ret (Inr [])"
| "renderList lib data (v # vs) =
     andThen (renderInterface lib data v) (\<lambda>r. case r of
         Inl e \<Rightarrow> ret (Inl e)
       | Inr w \<Rightarrow> andThen (renderList lib data vs) (\<lambda>rs. ret (map_sum id ((#) w) rs)))"
| "renderMap lib data [] = ret (Inr [])"
| "renderMap lib data ((k, v) # kvs) =
     andThen (renderInterface lib data v) (\<lambda>r. case r of
         Inl e \<Rightarrow> ret (Inl e)
       | Inr w \<Rightarrow> andThen (renderMap lib data kvs) (\<lambda>rs. ret (map_sum id ((#) (k, w)) rs)))"
  by pat_completeness auto
termination
  by (relation "measure (case_sum (\<lambda>(_, _, v). size v)
       (case_sum (\<lambda>(_, _, vs). size_list size vs)
         (\<lambda>(_, _, kvs). size_list (size_prod (\<lambda>_. 0) size) kvs)))") auto

section \<open>Structs as JSON values\<close>

text \<open>The sum monad's traversal of a list: the first error wins.\<close>

fun mapE :: "('a \<Rightarrow> 'e + 'b) \<Rightarrow> 'a list \<Rightarrow> 'e + 'b list" where
  "mapE f [] = Inr []"
| "mapE f (x # xs) = (case f x of
       Inl e \<Rightarrow> Inl e
     | Inr y \<Rightarrow> (case mapE f xs of Inl e \<Rightarrow> Inl e | Inr ys \<Rightarrow> Inr (y # ys)))"

definition omitNil :: "string \<Rightarrow> ('a \<Rightarrow> go_any) \<Rightarrow> 'a option \<Rightarrow> go_map" where
  "omitNil k enc x = (case x of None \<Rightarrow> [] | Some v \<Rightarrow> [(k, enc v)])"

definition omitEmpty :: "string \<Rightarrow> go_any list \<Rightarrow> go_map" where
  "omitEmpty k vs = (if vs = [] then [] else [(k, ASlice vs)])"

text \<open>\<open>RawExtension.MarshalJSON\<close> and \<open>JSON.MarshalJSON\<close>: nil bytes are \<open>null\<close>; other bytes must be
  JSON (\<open>JSON\<close> also takes empty bytes for \<open>null\<close>).\<close>

definition encRaw :: "golib \<Rightarrow> RawExtension \<Rightarrow> go_error + go_any" where
  "encRaw lib r = (case raw_Raw r of None \<Rightarrow> Inr ANil | Some raw \<Rightarrow> lib_jsonUnmarshal lib raw)"

definition encJSON :: "golib \<Rightarrow> RawExtension \<Rightarrow> go_error + go_any" where
  "encJSON lib r = (case raw_Raw r of
       None \<Rightarrow> Inr ANil
     | Some raw \<Rightarrow> if raw = [] then Inr ANil else lib_jsonUnmarshal lib raw)"

definition encExistingRelease :: "ModuleSpecHelmExistingRelease \<Rightarrow> go_any" where
  "encExistingRelease r = AMap [(''name'', AString (exr_Name r)), (''namespace'', AString (exr_Namespace r))]"

definition encRepoAuth :: "ModuleSpecHelmChartRepoAuth \<Rightarrow> go_any" where
  "encRepoAuth a = AMap [(''name'', AString (rauth_Name a)), (''namespace'', AString (rauth_Namespace a))]"

definition encRepo :: "ModuleSpecHelmChartRepo \<Rightarrow> go_any" where
  "encRepo r = AMap ([(''url'', AString (repo_URL r)), (''chart'', AString (repo_Chart r))]
     @ omitNil ''version'' AString (repo_Version r) @ omitNil ''auth'' encRepoAuth (repo_Auth r))"

definition encChartConfigMap :: "ModuleSpecHelmChartConfigMap \<Rightarrow> go_any" where
  "encChartConfigMap c = AMap [(''name'', AString (chcm_Name c)),
     (''namespace'', AString (chcm_Namespace c)), (''key'', AString (chcm_Key c))]"

definition encGitSecret :: "ModuleSpecHelmChartGitAuthSecret \<Rightarrow> go_any" where
  "encGitSecret s = AMap [(''name'', AString (gsec_Name s)), (''namespace'', AString (gsec_Namespace s))]"

definition encGitAuth :: "ModuleSpecHelmChartGitAuth \<Rightarrow> go_any" where
  "encGitAuth a = AMap [(''httpsSecretRef'',
     case gauth_HTTPSSecretRef a of None \<Rightarrow> ANil | Some s \<Rightarrow> encGitSecret s)]"

definition encGit :: "ModuleSpecHelmChartGit \<Rightarrow> go_any" where
  "encGit g = AMap ([(''repo'', AString (git_Repo g)), (''path'', AString (git_Path g)),
     (''revision'', AString (git_Revision g))] @ omitNil ''auth'' encGitAuth (git_Auth g))"

definition encChart :: "ModuleSpecHelmChart \<Rightarrow> go_any" where
  "encChart c = AMap (omitNil ''repo'' encRepo (chart_Repo c)
     @ omitNil ''configMap'' encChartConfigMap (chart_ConfigMap c) @ omitNil ''git'' encGit (chart_Git c))"

definition encValuesConfigMap :: "ModuleSpecHelmValuesConfigMap \<Rightarrow> go_any" where
  "encValuesConfigMap c = AMap [(''name'', AString (vcm_Name c)),
     (''namespace'', AString (vcm_Namespace c)), (''key'', AString (vcm_Key c))]"

definition encValues :: "golib \<Rightarrow> ModuleSpecHelmValues \<Rightarrow> go_error + go_any" where
  "encValues lib v = (let pre = omitNil ''file'' AString (val_File v)
       @ omitNil ''configMap'' encValuesConfigMap (val_ConfigMap v)
     in case val_Raw v of
          None \<Rightarrow> Inr (AMap pre)
        | Some r \<Rightarrow> map_sum id (\<lambda>j. AMap (pre @ [(''raw'', j)])) (encRaw lib r))"

definition encOutputSecret :: "ModuleSpecHelmOutputValueFromSecret \<Rightarrow> go_any" where
  "encOutputSecret s = AMap [(''name'', AString (ofs_Name s)),
     (''namespace'', AString (ofs_Namespace s)), (''key'', AString (ofs_Key s))]"

definition encOutputValueFrom :: "ModuleSpecHelmOutputValueFrom \<Rightarrow> go_any" where
  "encOutputValueFrom v = AMap (omitNil ''secret'' encOutputSecret (ovf_Secret v))"

definition encOutput :: "golib \<Rightarrow> ModuleSpecHelmOutput \<Rightarrow> go_error + go_any" where
  "encOutput lib v = (let pre = [(''name'', AString (out_Name v))];
       suf = omitNil ''valueFrom'' encOutputValueFrom (out_ValueFrom v)
     in case out_Value v of
          None \<Rightarrow> Inr (AMap (pre @ suf))
        | Some r \<Rightarrow> map_sum id (\<lambda>j. AMap (pre @ [(''value'', j)] @ suf)) (encJSON lib r))"

definition encCleanup :: "ModuleSpecHelmCleanup \<Rightarrow> go_any" where
  "encCleanup c = AMap [(''removeNamespace'', ABool (cl_RemoveNamespace c)),
     (''removePVCs'', ABool (cl_RemovePVCs c))]"

definition encMigration :: "ModuleSpecHelmMigration \<Rightarrow> go_any" where
  "encMigration m = AMap (omitEmpty ''pvcs'' (map AString (mig_PVCs m))
     @ omitEmpty ''configMaps'' (map AString (mig_ConfigMaps m))
     @ omitEmpty ''secrets'' (map AString (mig_Secrets m)))"

definition encHelm :: "golib \<Rightarrow> ModuleSpecHelm \<Rightarrow> go_error + go_any" where
  "encHelm lib h = (case mapE (encValues lib) (helm_Values h) of
       Inl e \<Rightarrow> Inl e
     | Inr vals \<Rightarrow> (case mapE (encOutput lib) (case helm_Outputs h of None \<Rightarrow> [] | Some outs \<Rightarrow> outs) of
           Inl e \<Rightarrow> Inl e
         | Inr outs \<Rightarrow> Inr (AMap (omitNil ''existingRelease'' encExistingRelease (helm_ExistingRelease h)
             @ omitNil ''releaseName'' AString (helm_ReleaseName h)
             @ [(''chart'', encChart (helm_Chart h)), (''namespace'', AString (helm_Namespace h))]
             @ omitEmpty ''values'' vals @ omitEmpty ''outputs'' outs
             @ [(''cleanup'', encCleanup (helm_Cleanup h)),
                (''migration'', encMigration (helm_Migration h))]))))"

definition encPermission :: "CustomModulePermissionType \<Rightarrow> go_any" where
  "encPermission p = AString (permissionString p)"

definition encCustom :: "ModuleSpecCustom \<Rightarrow> go_error + go_any" where
  "encCustom c = Inr (AMap ([(''image'', AString (cus_Image c))]
     @ omitEmpty ''imagePullSecrets'' (map AString (cus_ImagePullSecrets c))
     @ omitEmpty ''permissions'' (map encPermission (cus_Permissions c))))"

section \<open>JSON values as structs\<close>

definition typeError :: "string \<Rightarrow> go_error" where
  "typeError what = ErrText (''json: cannot unmarshal value into Go value of type '' @ what)"

definition decString :: "go_any \<Rightarrow> go_error + string" where
  "decString v = (case v of AString s \<Rightarrow> Inr s | ANil \<Rightarrow> Inr [] | _ \<Rightarrow> Inl (typeError ''string''))"

definition decBool :: "go_any \<Rightarrow> go_error + bool" where
  "decBool v = (case v of ABool b \<Rightarrow> Inr b | ANil \<Rightarrow> Inr False | _ \<Rightarrow> Inl (typeError ''bool''))"

text \<open>The members of an object; \<open>null\<close> leaves every member out.\<close>

definition decStruct :: "string \<Rightarrow> go_any \<Rightarrow> go_error + go_map" where
  "decStruct what v = (case v of AMap kvs \<Rightarrow> Inr kvs | ANil \<Rightarrow> Inr [] | _ \<Rightarrow> Inl (typeError what))"

definition decSlice :: "(go_any \<Rightarrow> go_error + 'a) \<Rightarrow> go_any \<Rightarrow> go_error + 'a list" where
  "decSlice dec v = (case v of ASlice vs \<Rightarrow> mapE dec vs | ANil \<Rightarrow> Inr [] | _ \<Rightarrow> Inl (typeError ''slice''))"

text \<open>A member of a struct: missing, it keeps the zero value. A pointer member: missing or \<open>null\<close>, nil.\<close>

definition member :: "go_map \<Rightarrow> string \<Rightarrow> 'a \<Rightarrow> (go_any \<Rightarrow> go_error + 'a) \<Rightarrow> go_error + 'a" where
  "member kvs k zero dec = (case map_of kvs k of None \<Rightarrow> Inr zero | Some v \<Rightarrow> dec v)"

definition pmember :: "go_map \<Rightarrow> string \<Rightarrow> (go_any \<Rightarrow> go_error + 'a) \<Rightarrow> go_error + 'a option" where
  "pmember kvs k dec = (case map_of kvs k of
       None \<Rightarrow> Inr None
     | Some v \<Rightarrow> if v = ANil then Inr None else map_sum id Some (dec v))"

text \<open>The sum monad's composition, and the three shapes of struct that repeat.\<close>

definition bindE :: "'e + 'a \<Rightarrow> ('a \<Rightarrow> 'e + 'b) \<Rightarrow> 'e + 'b" where
  "bindE r f = (case r of Inl e \<Rightarrow> Inl e | Inr a \<Rightarrow> f a)"

definition decTwo :: "(string \<Rightarrow> string \<Rightarrow> 'a) \<Rightarrow> go_any \<Rightarrow> go_error + 'a" where
  "decTwo mk v = bindE (decStruct ''struct'' v) (\<lambda>kvs.
     bindE (member kvs ''name'' [] decString) (\<lambda>n.
     bindE (member kvs ''namespace'' [] decString) (\<lambda>ns. Inr (mk n ns))))"

definition decThree :: "(string \<Rightarrow> string \<Rightarrow> string \<Rightarrow> 'a) \<Rightarrow> go_any \<Rightarrow> go_error + 'a" where
  "decThree mk v = bindE (decStruct ''struct'' v) (\<lambda>kvs.
     bindE (member kvs ''name'' [] decString) (\<lambda>n.
     bindE (member kvs ''namespace'' [] decString) (\<lambda>ns.
     bindE (member kvs ''key'' [] decString) (\<lambda>k. Inr (mk n ns k)))))"

definition decRaw :: "golib \<Rightarrow> go_any \<Rightarrow> go_error + RawExtension" where
  "decRaw lib v = Inr \<lparr>raw_Raw = (if v = ANil then None else Some (lib_jsonMarshal lib v))\<rparr>"

definition decRepo :: "go_any \<Rightarrow> go_error + ModuleSpecHelmChartRepo" where
  "decRepo v = bindE (decStruct ''ModuleSpecHelmChartRepo'' v) (\<lambda>kvs.
     bindE (member kvs ''url'' [] decString) (\<lambda>url.
     bindE (member kvs ''chart'' [] decString) (\<lambda>chart.
     bindE (pmember kvs ''version'' decString) (\<lambda>ver.
     bindE (pmember kvs ''auth'' (decTwo ModuleSpecHelmChartRepoAuth.make)) (\<lambda>auth.
       Inr (ModuleSpecHelmChartRepo.make url chart ver auth))))))"

definition decGitAuth :: "go_any \<Rightarrow> go_error + ModuleSpecHelmChartGitAuth" where
  "decGitAuth v = bindE (decStruct ''ModuleSpecHelmChartGitAuth'' v) (\<lambda>kvs.
     bindE (pmember kvs ''httpsSecretRef'' (decTwo ModuleSpecHelmChartGitAuthSecret.make)) (\<lambda>s.
       Inr (ModuleSpecHelmChartGitAuth.make s)))"

definition decGit :: "go_any \<Rightarrow> go_error + ModuleSpecHelmChartGit" where
  "decGit v = bindE (decStruct ''ModuleSpecHelmChartGit'' v) (\<lambda>kvs.
     bindE (member kvs ''repo'' [] decString) (\<lambda>repo.
     bindE (member kvs ''path'' [] decString) (\<lambda>path.
     bindE (member kvs ''revision'' [] decString) (\<lambda>rev.
     bindE (pmember kvs ''auth'' decGitAuth) (\<lambda>auth.
       Inr (ModuleSpecHelmChartGit.make repo path rev auth))))))"

definition decChart :: "go_any \<Rightarrow> go_error + ModuleSpecHelmChart" where
  "decChart v = bindE (decStruct ''ModuleSpecHelmChart'' v) (\<lambda>kvs.
     bindE (pmember kvs ''repo'' decRepo) (\<lambda>repo.
     bindE (pmember kvs ''configMap'' (decThree ModuleSpecHelmChartConfigMap.make)) (\<lambda>cm.
     bindE (pmember kvs ''git'' decGit) (\<lambda>git.
       Inr (ModuleSpecHelmChart.make repo cm git)))))"

definition decValues :: "golib \<Rightarrow> go_any \<Rightarrow> go_error + ModuleSpecHelmValues" where
  "decValues lib v = bindE (decStruct ''ModuleSpecHelmValues'' v) (\<lambda>kvs.
     bindE (pmember kvs ''file'' decString) (\<lambda>f.
     bindE (pmember kvs ''configMap'' (decThree ModuleSpecHelmValuesConfigMap.make)) (\<lambda>cm.
     bindE (pmember kvs ''raw'' (decRaw lib)) (\<lambda>r.
       Inr (ModuleSpecHelmValues.make f cm r)))))"

definition decOutputValueFrom :: "go_any \<Rightarrow> go_error + ModuleSpecHelmOutputValueFrom" where
  "decOutputValueFrom v = bindE (decStruct ''ModuleSpecHelmOutputValueFrom'' v) (\<lambda>kvs.
     bindE (pmember kvs ''secret'' (decThree ModuleSpecHelmOutputValueFromSecret.make)) (\<lambda>s.
       Inr (ModuleSpecHelmOutputValueFrom.make s)))"

definition decOutput :: "golib \<Rightarrow> go_any \<Rightarrow> go_error + ModuleSpecHelmOutput" where
  "decOutput lib v = bindE (decStruct ''ModuleSpecHelmOutput'' v) (\<lambda>kvs.
     bindE (member kvs ''name'' [] decString) (\<lambda>n.
     bindE (pmember kvs ''value'' (decRaw lib)) (\<lambda>r.
     bindE (pmember kvs ''valueFrom'' decOutputValueFrom) (\<lambda>vf.
       Inr (ModuleSpecHelmOutput.make n r vf)))))"

definition decCleanup :: "go_any \<Rightarrow> go_error + ModuleSpecHelmCleanup" where
  "decCleanup v = bindE (decStruct ''ModuleSpecHelmCleanup'' v) (\<lambda>kvs.
     bindE (member kvs ''removeNamespace'' False decBool) (\<lambda>ns.
     bindE (member kvs ''removePVCs'' False decBool) (\<lambda>pvcs.
       Inr (ModuleSpecHelmCleanup.make ns pvcs))))"

definition decMigration :: "go_any \<Rightarrow> go_error + ModuleSpecHelmMigration" where
  "decMigration v = bindE (decStruct ''ModuleSpecHelmMigration'' v) (\<lambda>kvs.
     bindE (member kvs ''pvcs'' [] (decSlice decString)) (\<lambda>pvcs.
     bindE (member kvs ''configMaps'' [] (decSlice decString)) (\<lambda>cms.
     bindE (member kvs ''secrets'' [] (decSlice decString)) (\<lambda>secs.
       Inr (ModuleSpecHelmMigration.make pvcs cms secs)))))"

definition decHelm :: "golib \<Rightarrow> go_any \<Rightarrow> go_error + ModuleSpecHelm" where
  "decHelm lib v = bindE (decStruct ''ModuleSpecHelm'' v) (\<lambda>kvs.
     bindE (pmember kvs ''existingRelease'' (decTwo ModuleSpecHelmExistingRelease.make)) (\<lambda>exr.
     bindE (pmember kvs ''releaseName'' decString) (\<lambda>rn.
     bindE (member kvs ''chart'' (ModuleSpecHelmChart.make None None None) decChart) (\<lambda>chart.
     bindE (member kvs ''namespace'' [] decString) (\<lambda>ns.
     bindE (member kvs ''values'' [] (decSlice (decValues lib))) (\<lambda>vals.
     bindE (pmember kvs ''outputs'' (decSlice (decOutput lib))) (\<lambda>outs.
     bindE (member kvs ''cleanup'' (ModuleSpecHelmCleanup.make False False) decCleanup) (\<lambda>cl.
     bindE (member kvs ''migration'' (ModuleSpecHelmMigration.make [] [] []) decMigration) (\<lambda>mig.
       Inr (ModuleSpecHelm.make exr rn chart ns vals outs cl mig))))))))))"

definition decPermission :: "go_any \<Rightarrow> go_error + CustomModulePermissionType" where
  "decPermission v = bindE (decString v) (\<lambda>s. Inr
     (if s = ''workspace'' then CustomModulePermissionTypeWorkspace
      else if s = ''controller'' then CustomModulePermissionTypeController
      else CustomModulePermissionTypeOther s))"

definition decCustom :: "go_any \<Rightarrow> go_error + ModuleSpecCustom" where
  "decCustom v = bindE (decStruct ''ModuleSpecCustom'' v) (\<lambda>kvs.
     bindE (member kvs ''image'' [] decString) (\<lambda>img.
     bindE (member kvs ''imagePullSecrets'' [] (decSlice decString)) (\<lambda>secs.
     bindE (member kvs ''permissions'' [] (decSlice decPermission)) (\<lambda>perms.
       Inr (ModuleSpecCustom.make img secs perms)))))"

section \<open>Rendering a specification\<close>

definition renderSpecWithTypePreservation ::
  "golib \<Rightarrow> ('t \<Rightarrow> go_error + go_any) \<Rightarrow> (go_any \<Rightarrow> go_error + 't) \<Rightarrow> 't \<Rightarrow> go_map \<Rightarrow>
     (nat, go_error + 't) prog" where
  "renderSpecWithTypePreservation lib enc dec spec data = (case enc spec of
       Inl e \<Rightarrow> ret (Inl e)
     | Inr specInterface \<Rightarrow>
         andThen (renderInterface lib data specInterface) (\<lambda>r. case r of
             Inl e \<Rightarrow> ret (Inl e)
           | Inr renderedInterface \<Rightarrow> ret (dec renderedInterface)))"

definition RenderHelmSpec :: "golib \<Rightarrow> Module \<Rightarrow> (nat, go_error + ModuleSpecHelm) prog" where
  "RenderHelmSpec lib m = (case ms_Helm (mod_Spec m) of
       None \<Rightarrow> ret (Inl (ErrText ''module does not have a Helm spec''))
     | Some helm \<Rightarrow> (case GetValidatedConfig lib m of
           Inl e \<Rightarrow> ret (Inl (configError e))
         | Inr outputConfig \<Rightarrow> (case GetReleaseName helm of
               None \<Rightarrow> panic ''nil pointer dereference''
             | Some releaseName \<Rightarrow>
                 andThen (renderSpecWithTypePreservation lib (\<lambda>s. Inr (AString s)) decString
                     (GetNamespace helm)
                     [(''config'', AMap outputConfig), (''releaseName'', AString releaseName)]) (\<lambda>r.
                 case r of
                   Inl e \<Rightarrow> ret (Inl (Wrapped ''failed to render Helm namespace'' e))
                 | Inr renderedNamespace \<Rightarrow>
                     andThen (renderSpecWithTypePreservation lib (encHelm lib) (decHelm lib) helm
                         [(''config'', AMap outputConfig), (''releaseName'', AString releaseName),
                          (''namespace'', AString renderedNamespace)]) (\<lambda>r'.
                     case r' of
                       Inl e \<Rightarrow> ret (Inl (Wrapped ''failed to render Helm spec'' e))
                     | Inr renderedSpec \<Rightarrow> ret (Inr renderedSpec))))))"

definition RenderCustomSpec :: "golib \<Rightarrow> Module \<Rightarrow> (nat, go_error + ModuleSpecCustom) prog" where
  "RenderCustomSpec lib m = (case ms_Custom (mod_Spec m) of
       None \<Rightarrow> ret (Inl (ErrText ''module does not have a Custom spec''))
     | Some custom \<Rightarrow> (case GetValidatedConfig lib m of
           Inl e \<Rightarrow> ret (Inl (configError e))
         | Inr outputConfig \<Rightarrow>
             andThen (renderSpecWithTypePreservation lib encCustom decCustom custom
                 [(''config'', AMap outputConfig)]) (\<lambda>r.
             case r of
               Inl e \<Rightarrow> ret (Inl (Wrapped ''failed to render Custom spec'' e))
             | Inr renderedSpec \<Rightarrow> ret (Inr renderedSpec))))"

section \<open>The random generator of the template functions\<close>

text \<open>\<open>generateBase62String\<close>: each \<open>rand.Int\<close> yields an error or a number below 62; the draws are
  given as a function of the position. \<open>randBase62\<close> hides the error as an empty string.\<close>

definition base62Chars :: string where
  "base62Chars = ''0123456789ABCDEFGHIJKLMNOPQRSTUVWXYZabcdefghijklmnopqrstuvwxyz''"

fun generateBase62String :: "(nat \<Rightarrow> go_error + nat) \<Rightarrow> nat \<Rightarrow> nat \<Rightarrow> go_error + string" where
  "generateBase62String draw i 0 = Inr []"
| "generateBase62String draw i (Suc n) = (case draw i of
       Inl e \<Rightarrow> Inl e
     | Inr num \<Rightarrow> (case generateBase62String draw (Suc i) n of
           Inl e \<Rightarrow> Inl e
         | Inr s \<Rightarrow> Inr (base62Chars ! num # s)))"

definition randBase62 :: "(nat \<Rightarrow> go_error + nat) \<Rightarrow> nat \<Rightarrow> string" where
  "randBase62 draw len = (case generateBase62String draw 0 len of Inl _ \<Rightarrow> [] | Inr s \<Rightarrow> s)"

section \<open>Rendering keeps the shape of a value\<close>

fun noTemplates :: "go_any \<Rightarrow> bool" where
  "noTemplates (AString s) = (\<not> hasTemplate s)"
| "noTemplates (ASlice vs) = list_all noTemplates vs"
| "noTemplates (AMap kvs) = list_all (\<lambda>(k, v). noTemplates v) kvs"
| "noTemplates _ = True"

lemma renderString_plain: "\<not> hasTemplate s \<Longrightarrow> renderString lib d s n = (Ret (Inr (AString s)), n)"
  by (simp add: renderString_def)

lemma render_plain:
  "noTemplates v \<Longrightarrow> renderInterface lib d v n = (Ret (Inr v), n)"
  "list_all noTemplates vs \<Longrightarrow> renderList lib d vs n = (Ret (Inr vs), n)"
  "list_all (\<lambda>(k, v). noTemplates v) kvs \<Longrightarrow> renderMap lib d kvs n = (Ret (Inr kvs), n)"
  by (induction lib d v and lib d vs and lib d kvs
      arbitrary: n and n and n rule: renderInterface_renderList_renderMap.induct)
    (simp_all add: andThen_run renderString_plain)

text \<open>What rendering does to the shape of a value: slices keep their length, maps their keys, and a
  value other than a string stays of its kind.\<close>

fun sameShape :: "go_any \<Rightarrow> go_any \<Rightarrow> bool" where
  "sameShape (AString s) w = True"
| "sameShape (ASlice vs) w = (case w of ASlice ws \<Rightarrow> list_all2 sameShape vs ws | _ \<Rightarrow> False)"
| "sameShape (AMap kvs) w = (case w of
       AMap kws \<Rightarrow> list_all2 (\<lambda>kv kw. fst kv = fst kw \<and> sameShape (snd kv) (snd kw)) kvs kws
     | _ \<Rightarrow> False)"
| "sameShape v w = (v = w)"

lemma render_shape:
  "renderInterface lib d v n = (Ret (Inr w), n') \<Longrightarrow> sameShape v w"
  "renderList lib d vs n = (Ret (Inr ws), n') \<Longrightarrow> list_all2 sameShape vs ws"
  "renderMap lib d kvs n = (Ret (Inr kws), n') \<Longrightarrow>
     list_all2 (\<lambda>kv kw. fst kv = fst kw \<and> sameShape (snd kv) (snd kw)) kvs kws"
  by (induction lib d v and lib d vs and lib d kvs
      arbitrary: n w n' and n ws n' and n kws n' rule: renderInterface_renderList_renderMap.induct)
    (auto elim!: andThen_RetE split: sum.splits)

text \<open>Rendering never panics and never hangs: it returns a value or an error.\<close>

lemma render_returns:
  "\<exists>r n'. renderInterface lib d v n = (Ret r, n')"
  "\<exists>r n'. renderList lib d vs n = (Ret r, n')"
  "\<exists>r n'. renderMap lib d kvs n = (Ret r, n')"
  by (induction lib d v and lib d vs and lib d kvs
      arbitrary: n and n and n rule: renderInterface_renderList_renderMap.induct)
    (auto simp: andThen_run renderString_def split: prod.splits outcome.splits sum.splits, (metis Pair_inject outcome.distinct)+)

section \<open>The conversions are inverse to each other\<close>

named_theorems codec_simps \<open>conversion of a struct to JSON and back\<close>

lemma bindE_Inr [simp]: "bindE (Inr a) f = f a"
  by (simp add: bindE_def)

lemma bindE_eq_Inr: "bindE r f = Inr b \<longleftrightarrow> (\<exists>a. r = Inr a \<and> f a = Inr b)"
  by (simp add: bindE_def split: sum.split)

lemma map_of_omitNil: "map_of (omitNil k enc x) k' = (if k = k' then map_option enc x else None)"
  by (simp add: omitNil_def split: option.split)

lemma map_of_omitEmpty:
  "map_of (omitEmpty k vs) k' = (if k = k' \<and> vs \<noteq> [] then Some (ASlice vs) else None)"
  by (simp add: omitEmpty_def)

lemma pmember_roundtrip:
  assumes "map_of kvs k = map_option enc x" and "\<And>v. x = Some v \<Longrightarrow> enc v \<noteq> ANil \<and> dec (enc v) = Inr v"
  shows "pmember kvs k dec = Inr x"
  using assms by (cases x) (simp_all add: pmember_def)

lemmas member_simps = decStruct_def member_def pmember_def map_add_def map_of_omitNil
  map_of_omitEmpty decString_def decBool_def

lemmas make_defs = ModuleSpecHelmChartRepoAuth.make_def ModuleSpecHelmChartRepo.make_def
  ModuleSpecHelmChartGitAuthSecret.make_def ModuleSpecHelmChartGitAuth.make_def
  ModuleSpecHelmChartGit.make_def ModuleSpecHelmChartConfigMap.make_def ModuleSpecHelmChart.make_def
  ModuleSpecHelmValuesConfigMap.make_def ModuleSpecHelmValues.make_def
  ModuleSpecHelmOutputValueFromSecret.make_def ModuleSpecHelmOutputValueFrom.make_def
  ModuleSpecHelmOutput.make_def ModuleSpecHelmCleanup.make_def ModuleSpecHelmMigration.make_def
  ModuleSpecHelmExistingRelease.make_def ModuleSpecHelm.make_def ModuleSpecCustom.make_def

lemma codec_existingRelease [codec_simps]:
  "decTwo ModuleSpecHelmExistingRelease.make (encExistingRelease r) = Inr r"
  by (simp add: decTwo_def encExistingRelease_def member_simps make_defs)

lemma codec_repoAuth [codec_simps]: "decTwo ModuleSpecHelmChartRepoAuth.make (encRepoAuth a) = Inr a"
  by (simp add: decTwo_def encRepoAuth_def member_simps make_defs)

lemma codec_gitSecret [codec_simps]:
  "decTwo ModuleSpecHelmChartGitAuthSecret.make (encGitSecret a) = Inr a"
  by (simp add: decTwo_def encGitSecret_def member_simps make_defs)

lemma codec_chartConfigMap [codec_simps]:
  "decThree ModuleSpecHelmChartConfigMap.make (encChartConfigMap c) = Inr c"
  by (simp add: decThree_def encChartConfigMap_def member_simps make_defs)

lemma codec_valuesConfigMap [codec_simps]:
  "decThree ModuleSpecHelmValuesConfigMap.make (encValuesConfigMap c) = Inr c"
  by (simp add: decThree_def encValuesConfigMap_def member_simps make_defs)

lemma codec_outputSecret [codec_simps]:
  "decThree ModuleSpecHelmOutputValueFromSecret.make (encOutputSecret c) = Inr c"
  by (simp add: decThree_def encOutputSecret_def member_simps make_defs)

lemma enc_not_nil [simp]:
  "encExistingRelease r \<noteq> ANil" "encRepoAuth a \<noteq> ANil" "encRepo rp \<noteq> ANil" "encGitSecret gs \<noteq> ANil"
  "encGitAuth ga \<noteq> ANil" "encGit g \<noteq> ANil" "encChartConfigMap cc \<noteq> ANil" "encValuesConfigMap vc \<noteq> ANil"
  "encOutputSecret os \<noteq> ANil" "encOutputValueFrom vf \<noteq> ANil"
  by (simp_all add: encExistingRelease_def encRepoAuth_def encRepo_def encGitSecret_def encGitAuth_def
      encGit_def encChartConfigMap_def encValuesConfigMap_def encOutputSecret_def encOutputValueFrom_def)

lemma codec_repo [codec_simps]: "decRepo (encRepo r) = Inr r"
  by (cases "repo_Version r"; cases "repo_Auth r")
    (simp_all add: decRepo_def encRepo_def member_simps make_defs codec_simps)

lemma codec_gitAuth [codec_simps]: "decGitAuth (encGitAuth a) = Inr a"
  by (cases "gauth_HTTPSSecretRef a")
    (simp_all add: decGitAuth_def encGitAuth_def member_simps make_defs codec_simps)

lemma codec_git [codec_simps]: "decGit (encGit g) = Inr g"
  by (cases "git_Auth g") (simp_all add: decGit_def encGit_def member_simps make_defs codec_simps)

lemma codec_chart [codec_simps]: "decChart (encChart c) = Inr c"
  by (cases "chart_Repo c"; cases "chart_ConfigMap c"; cases "chart_Git c")
    (simp_all add: decChart_def encChart_def member_simps make_defs codec_simps)

lemma codec_outputValueFrom [codec_simps]: "decOutputValueFrom (encOutputValueFrom v) = Inr v"
  by (cases "ovf_Secret v")
    (simp_all add: decOutputValueFrom_def encOutputValueFrom_def member_simps make_defs codec_simps)

lemma codec_cleanup [codec_simps]: "decCleanup (encCleanup c) = Inr c"
  by (simp add: decCleanup_def encCleanup_def member_simps make_defs)

lemma mapE_decString [simp]: "mapE decString (map AString ss) = Inr ss"
  by (induction ss) (simp_all add: decString_def)

lemma codec_migration [codec_simps]: "decMigration (encMigration m) = Inr m"
  by (cases "mig_PVCs m = []"; cases "mig_ConfigMaps m = []"; cases "mig_Secrets m = []")
    (simp_all add: decMigration_def encMigration_def member_simps make_defs decSlice_def)

text \<open>Bytes that the JSON library reads and writes back unchanged, and that are not \<open>null\<close>.\<close>

definition stableRaw :: "golib \<Rightarrow> RawExtension \<Rightarrow> bool" where
  "stableRaw lib r \<longleftrightarrow> (case raw_Raw r of
       None \<Rightarrow> False
     | Some raw \<Rightarrow> raw \<noteq> [] \<and> (case lib_jsonUnmarshal lib raw of
           Inl _ \<Rightarrow> False
         | Inr v \<Rightarrow> v \<noteq> ANil \<and> lib_jsonMarshal lib v = raw))"

definition stableHelm :: "golib \<Rightarrow> ModuleSpecHelm \<Rightarrow> bool" where
  "stableHelm lib h \<longleftrightarrow>
     list_all (\<lambda>v. pred_option (stableRaw lib) (val_Raw v)) (helm_Values h) \<and>
     pred_option (\<lambda>outs. outs \<noteq> [] \<and> list_all (\<lambda>v. pred_option (stableRaw lib) (out_Value v)) outs)
       (helm_Outputs h)"

lemma stableRaw_codec:
  assumes "stableRaw lib r"
  obtains v where "encRaw lib r = Inr v" "encJSON lib r = Inr v" "v \<noteq> ANil" "decRaw lib v = Inr r"
proof -
  from assms obtain raw v where raw: "raw_Raw r = Some raw" "raw \<noteq> []"
    and v: "lib_jsonUnmarshal lib raw = Inr v" "v \<noteq> ANil" "lib_jsonMarshal lib v = raw"
    by (auto simp: stableRaw_def split: option.splits sum.splits)
  show thesis
    by (rule that [of v]) (use raw v in \<open>simp_all add: encRaw_def encJSON_def decRaw_def\<close>)
qed

lemma codec_values:
  assumes "pred_option (stableRaw lib) (val_Raw v)"
  obtains j where "encValues lib v = Inr j" "decValues lib j = Inr v"
proof (cases "val_Raw v")
  case None
  show thesis
    by (rule that, simp add: encValues_def None Let_def, cases "val_File v"; cases "val_ConfigMap v")
      (simp_all add: decValues_def member_simps make_defs codec_simps None)
next
  case (Some r)
  with assms obtain w where w: "encRaw lib r = Inr w" "w \<noteq> ANil" "decRaw lib w = Inr r"
    by (auto elim: stableRaw_codec)
  show thesis
    by (rule that, simp add: encValues_def Some Let_def w, cases "val_File v"; cases "val_ConfigMap v")
      (simp_all add: decValues_def member_simps make_defs codec_simps Some w)
qed

lemma codec_output:
  assumes "pred_option (stableRaw lib) (out_Value v)"
  obtains j where "encOutput lib v = Inr j" "decOutput lib j = Inr v"
proof (cases "out_Value v")
  case None
  show thesis
    by (rule that, simp add: encOutput_def None Let_def, cases "out_ValueFrom v")
      (simp_all add: decOutput_def member_simps make_defs codec_simps None)
next
  case (Some r)
  with assms obtain w where w: "encJSON lib r = Inr w" "w \<noteq> ANil" "decRaw lib w = Inr r"
    by (auto elim: stableRaw_codec)
  show thesis
    by (rule that, simp add: encOutput_def Some Let_def w, cases "out_ValueFrom v")
      (simp_all add: decOutput_def member_simps make_defs codec_simps Some w)
qed

lemma mapE_codec:
  assumes "\<And>x. x \<in> set xs \<Longrightarrow> \<exists>j. enc x = Inr j \<and> dec j = Inr x"
  shows "\<exists>js. mapE enc xs = Inr js \<and> mapE dec js = Inr xs \<and> length js = length xs"
  using assms by (induction xs) fastforce+

lemma codec_helm:
  assumes "stableHelm lib h"
  shows "\<exists>j. encHelm lib h = Inr j \<and> decHelm lib j = Inr h"
proof -
  from assms have "\<exists>js. mapE (encValues lib) (helm_Values h) = Inr js \<and>
      mapE (decValues lib) js = Inr (helm_Values h) \<and> length js = length (helm_Values h)"
    by (intro mapE_codec) (auto simp: stableHelm_def list_all_iff elim: codec_values)
  then obtain js where js: "mapE (encValues lib) (helm_Values h) = Inr js"
    "mapE (decValues lib) js = Inr (helm_Values h)" by blast
  have vals: "js = [] \<longleftrightarrow> helm_Values h = []"
    using js by (cases js; cases "helm_Values h") (auto split: sum.splits)
  define outs where "outs = (case helm_Outputs h of None \<Rightarrow> [] | Some outs \<Rightarrow> outs)"
  have outs: "helm_Outputs h = (if outs = [] then None else Some outs)"
    using assms by (auto simp: outs_def stableHelm_def split: option.splits)
  have "pred_option (stableRaw lib) (out_Value v)" if "v \<in> set outs" for v
    using assms that
    by (cases "helm_Outputs h") (auto simp: stableHelm_def outs_def list_all_iff)
  then have "\<exists>ks. mapE (encOutput lib) outs = Inr ks \<and> mapE (decOutput lib) ks = Inr outs \<and>
      length ks = length outs"
    by (intro mapE_codec) (meson codec_output)
  then obtain ks where ks: "mapE (encOutput lib) outs = Inr ks" "mapE (decOutput lib) ks = Inr outs"
    "ks = [] \<longleftrightarrow> outs = []" by (metis length_0_conv)
  show ?thesis
    unfolding encHelm_def outs_def [symmetric] js(1) ks(1) sum.case
    by (intro exI conjI, rule refl)
      (cases "helm_ExistingRelease h"; cases "helm_ReleaseName h"; cases "js = []"; cases "ks = []",
        use js ks vals outs in
          \<open>simp_all add: decHelm_def member_simps make_defs codec_simps decSlice_def\<close>)
qed

section \<open>What rendering does to a specification\<close>

text \<open>A specification none of whose strings is a template, whose raw JSON is stable.\<close>

definition plainHelm :: "golib \<Rightarrow> ModuleSpecHelm \<Rightarrow> bool" where
  "plainHelm lib h \<longleftrightarrow> stableHelm lib h \<and>
     (case encHelm lib h of Inl _ \<Rightarrow> False | Inr j \<Rightarrow> noTemplates j)"

lemma noTemplates_enc [simp]:
  "noTemplates (encExistingRelease r) \<longleftrightarrow> \<not> hasTemplate (exr_Name r) \<and> \<not> hasTemplate (exr_Namespace r)"
  by (simp add: encExistingRelease_def)

lemma plainHelm_namespace:
  assumes "plainHelm lib h"
  shows "\<not> hasTemplate (GetNamespace h)"
  using assms
  by (auto simp: plainHelm_def encHelm_def GetNamespace_def omitNil_def split: sum.splits option.splits)

lemma renderSpec_plain:
  assumes "enc spec = Inr j" and "noTemplates j" and "dec j = Inr spec"
  shows "renderSpecWithTypePreservation lib enc dec spec d n = (Ret (Inr spec), n)"
  using assms by (simp add: renderSpecWithTypePreservation_def andThen_run render_plain)

lemma sameShape_map_of:
  assumes "list_all2 (\<lambda>kv kw. fst kv = fst kw \<and> sameShape (snd kv) (snd kw)) kvs kws"
  shows "rel_option sameShape (map_of kvs k) (map_of kws k)"
  using assms by (induction rule: list_all2_induct) auto

lemma mapE_length: "mapE f xs = Inr ys \<Longrightarrow> length ys = length xs"
  by (induction xs arbitrary: ys) (auto split: sum.splits)

lemma member_slice_length:
  assumes "list_all2 (\<lambda>kv kw. fst kv = fst kw \<and> sameShape (snd kv) (snd kw)) kvs kws"
    and "map_of kvs k = (if vs = [] then None else Some (ASlice vs))"
    and "member kws k [] (decSlice dec) = Inr xs"
  shows "length xs = length vs"
  using sameShape_map_of [OF assms(1), of k] assms(2,3)
  by (auto simp: member_def decSlice_def option_rel_Some1 dest!: mapE_length list_all2_lengthD
      split: option.splits go_any.splits if_splits)

lemma decMigration_lengths:
  assumes shape: "sameShape (encMigration m) w" and dec: "decMigration w = Inr m'"
  shows "length (mig_PVCs m') = length (mig_PVCs m)"
    and "length (mig_ConfigMaps m') = length (mig_ConfigMaps m)"
    and "length (mig_Secrets m') = length (mig_Secrets m)"
proof -
  from shape obtain kws where w: "w = AMap kws"
    and kws: "list_all2 (\<lambda>kv kw. fst kv = fst kw \<and> sameShape (snd kv) (snd kw))
      (omitEmpty ''pvcs'' (map AString (mig_PVCs m)) @
       omitEmpty ''configMaps'' (map AString (mig_ConfigMaps m)) @
       omitEmpty ''secrets'' (map AString (mig_Secrets m))) kws"
    by (auto simp: encMigration_def split: go_any.splits)
  have "member kws ''pvcs'' [] (decSlice decString) = Inr (mig_PVCs m')"
    and "member kws ''configMaps'' [] (decSlice decString) = Inr (mig_ConfigMaps m')"
    and "member kws ''secrets'' [] (decSlice decString) = Inr (mig_Secrets m')"
    using dec by (auto simp: w decMigration_def decStruct_def bindE_eq_Inr make_defs)
  note mems = this [THEN member_slice_length [OF kws, rotated]]
  show "length (mig_PVCs m') = length (mig_PVCs m)"
    using mems(1) [of "map AString (mig_PVCs m)"] by (simp add: map_add_def map_of_omitEmpty)
  show "length (mig_ConfigMaps m') = length (mig_ConfigMaps m)"
    using mems(2) [of "map AString (mig_ConfigMaps m)"] by (simp add: map_add_def map_of_omitEmpty)
  show "length (mig_Secrets m') = length (mig_Secrets m)"
    using mems(3) [of "map AString (mig_Secrets m)"] by (simp add: map_add_def map_of_omitEmpty)
qed

lemma RenderHelmSpec_RetE:
  assumes "RenderHelmSpec lib m n = (Ret (Inr r), n')"
  obtains h j d n1 w where "ms_Helm (mod_Spec m) = Some h" and "encHelm lib h = Inr j"
    and "renderInterface lib d j n1 = (Ret (Inr w), n')" and "decHelm lib w = Inr r"
  using assms
  by (auto simp: RenderHelmSpec_def renderSpecWithTypePreservation_def
      elim!: andThen_RetE split: option.splits sum.splits)

lemma encHelm_migration:
  assumes "encHelm lib h = Inr j"
  obtains kvs where "j = AMap kvs" and "map_of kvs ''migration'' = Some (encMigration (helm_Migration h))"
  using assms
  by (auto simp: encHelm_def map_add_def map_of_omitNil map_of_omitEmpty split: sum.splits)

lemma decHelm_migration:
  assumes "decHelm lib (AMap kws) = Inr r"
  shows "member kws ''migration'' (ModuleSpecHelmMigration.make [] [] []) decMigration = Inr (helm_Migration r)"
  using assms by (auto simp: decHelm_def decStruct_def bindE_eq_Inr make_defs)

lemma RenderHelmSpec_plain:
  assumes "ms_Helm (mod_Spec m) = Some h" and "plainHelm lib h"
    and "GetValidatedConfig lib m = Inr cfg" and "GetReleaseName h = Some rel"
  shows "RenderHelmSpec lib m n = (Ret (Inr h), n)"
proof -
  from assms(2) obtain j where j: "encHelm lib h = Inr j" "noTemplates j" "decHelm lib j = Inr h"
    using codec_helm by (fastforce simp: plainHelm_def split: sum.splits)
  have ns: "renderSpecWithTypePreservation lib (\<lambda>s. Inr (AString s)) decString (GetNamespace h) d n
      = (Ret (Inr (GetNamespace h)), n)" for d
    by (rule renderSpec_plain [of _ _ "AString (GetNamespace h)"])
      (simp_all add: plainHelm_namespace [OF assms(2)] decString_def)
  have spec: "renderSpecWithTypePreservation lib (encHelm lib) (decHelm lib) h d n = (Ret (Inr h), n)" for d
    by (rule renderSpec_plain [of _ _ j]) (simp_all add: j)
  show ?thesis
    by (simp add: RenderHelmSpec_def assms andThen_run ns spec)
qed

lemma renderSpec_returns:
  "\<exists>r n'. renderSpecWithTypePreservation lib enc dec spec d n = (Ret r, n')"
proof (cases "enc spec")
  case (Inl e)
  then show ?thesis by (simp add: renderSpecWithTypePreservation_def)
next
  case (Inr j)
  obtain r n' where r: "renderInterface lib d j n = (Ret r, n')"
    using render_returns(1) by blast
  show ?thesis
    by (cases r) (simp_all add: renderSpecWithTypePreservation_def Inr r andThen_run)
qed

lemma RenderHelmSpec_outcome:
  "if \<exists>h cfg. ms_Helm (mod_Spec m) = Some h \<and> GetValidatedConfig lib m = Inr cfg \<and>
        helm_ExistingRelease h = None \<and> helm_ReleaseName h = None
   then RenderHelmSpec lib m n = (Panicked ''nil pointer dereference'', n)
   else \<exists>r n'. RenderHelmSpec lib m n = (Ret r, n')"
proof (cases "ms_Helm (mod_Spec m)")
  case None
  then show ?thesis by (simp add: RenderHelmSpec_def)
next
  case (Some h)
  note helm = this
  show ?thesis
  proof (cases "GetValidatedConfig lib m")
    case (Inl e)
    with helm show ?thesis by (simp add: RenderHelmSpec_def)
  next
    case (Inr cfg)
    have ret: "\<exists>r n'. RenderHelmSpec lib m n = (Ret r, n')" if rel: "GetReleaseName h = Some rel" for rel
    proof -
      define d where "d = [(''config'', AMap cfg), (''releaseName'', AString rel)]"
      obtain r n1 where r: "renderSpecWithTypePreservation lib (\<lambda>s. Inr (AString s)) decString
          (GetNamespace h) d n = (Ret r, n1)"
        using renderSpec_returns [of lib "\<lambda>s. Inr (AString s)" decString "GetNamespace h" d n] by blast
      show ?thesis
      proof (cases r)
        case (Inl e)
        with helm Inr rel r show ?thesis
          by (simp add: RenderHelmSpec_def andThen_run d_def [symmetric])
      next
        case r2: (Inr ns)
        obtain r' n2 where "renderSpecWithTypePreservation lib (encHelm lib) (decHelm lib) h
            [(''config'', AMap cfg), (''releaseName'', AString rel), (''namespace'', AString ns)] n1
              = (Ret r', n2)"
          using renderSpec_returns [of lib "encHelm lib" "decHelm lib" h _ n1] by blast
        with helm Inr rel r r2 show ?thesis
          by (cases r') (simp_all add: RenderHelmSpec_def andThen_run d_def [symmetric])
      qed
    qed
    show ?thesis
      using helm Inr ret
      by (cases "helm_ExistingRelease h"; cases "helm_ReleaseName h")
        (auto simp: GetReleaseName_def RenderHelmSpec_def)
  qed
qed

definition exampleWorkspace :: Workspace where
  "exampleWorkspace = \<lparr>ws_Meta = exampleMeta\<lparr>meta_Name := ''dev''\<rparr>,
     ws_Spec = \<lparr>wss_Type = WorkspaceTypeKubernetes, wss_From = None, wss_Hibernated = False,
       wss_Connection = \<lparr>conn_Type = WorkspaceConnectionTypeInCluster, conn_SecretReference = None\<rparr>,
       wss_ManagedCluster = None, wss_AutoHibernation = None\<rparr>,
     ws_Status = \<lparr>wst_Conditions = [], wst_Phase = WorkspacePhaseReady, wst_Ready = True,
       wst_LastActivity = Some 0, wst_HibernatedAt = None, wst_Message = None\<rparr>\<rparr>"

definition exampleHelm :: ModuleSpecHelm where
  "exampleHelm = \<lparr>helm_ExistingRelease = None, helm_ReleaseName = Some ''rel'',
     helm_Chart = \<lparr>chart_Repo = Some \<lparr>repo_URL = ''https://charts'', repo_Chart = ''redis'',
         repo_Version = Some ''1'', repo_Auth = None\<rparr>, chart_ConfigMap = None, chart_Git = None\<rparr>,
     helm_Namespace = ''apps'',
     helm_Values = [\<lparr>val_File = Some ''v.yaml'', val_ConfigMap = None, val_Raw = None\<rparr>],
     helm_Outputs = None, helm_Cleanup = \<lparr>cl_RemoveNamespace = False, cl_RemovePVCs = True\<rparr>,
     helm_Migration = \<lparr>mig_PVCs = [''data''], mig_ConfigMaps = [], mig_Secrets = [''s'']\<rparr>\<rparr>"

definition exampleHelmModule :: Module where
  "exampleHelmModule = exampleModule\<lparr>mod_Spec := (mod_Spec exampleModule)\<lparr>ms_Helm := Some exampleHelm\<rparr>\<rparr>"

lemmas enc_defs = encHelm_def encValues_def encChart_def encRepo_def encCleanup_def encMigration_def
  omitNil_def omitEmpty_def

lemma example_plain: "plainHelm lib exampleHelm"
  by (simp add: plainHelm_def stableHelm_def exampleHelm_def enc_defs hasTemplate_def)

lemma example_helm_validated:
  "GetValidatedConfig exampleLib exampleHelmModule = Inr [(''n'', AInt 7), (''s'', AString ''x'')]"
  using example_validated
  by (simp add: GetValidatedConfig_def inputConfigOf_def exampleHelmModule_def cong: sum.case_cong)

lemma example_helm_spec: "ms_Helm (mod_Spec exampleHelmModule) = Some exampleHelm"
  by (simp add: exampleHelmModule_def)

lemma example_releaseName: "GetReleaseName exampleHelm = Some ''rel''"
  by (simp add: GetReleaseName_def exampleHelm_def)

text \<open>
  C33: Rendering a Helm specification in which no string is a template gives the specification back
  unchanged and executes no template, whatever the configuration is, provided it is valid. The raw
  JSON in it must be what the JSON library itself would write.
\<close>

theorem renderHelm_plain_identity:
  assumes "ms_Helm (mod_Spec m) = Some h" and "plainHelm lib h"
    and "GetValidatedConfig lib m = Inr cfg" and "GetReleaseName h = Some rel"
  shows "RenderHelmSpec lib m n = (Ret (Inr h), n)"
  using assms by (rule RenderHelmSpec_plain)

theorem renderHelm_plain_identity_witness:
  "RenderHelmSpec exampleLib exampleHelmModule 5 = (Ret (Inr exampleHelm), 5)"
  by (rule renderHelm_plain_identity
      [OF example_helm_spec example_plain example_helm_validated example_releaseName])

text \<open>
  Rendering keeps the number of PVCs, config maps and secrets a Helm specification lists for
  migration: the templates in them are replaced one by one. The data migration of a forked module
  pairs the rendered lists of source and copy by position.
\<close>

theorem renderHelm_migration_lengths:
  assumes "RenderHelmSpec lib m n = (Ret (Inr r), n')" and "ms_Helm (mod_Spec m) = Some h"
  shows "length (mig_PVCs (helm_Migration r)) = length (mig_PVCs (helm_Migration h))
    \<and> length (mig_ConfigMaps (helm_Migration r)) = length (mig_ConfigMaps (helm_Migration h))
    \<and> length (mig_Secrets (helm_Migration r)) = length (mig_Secrets (helm_Migration h))"
proof -
  from assms obtain j d n1 w where j: "encHelm lib h = Inr j"
    and w: "renderInterface lib d j n1 = (Ret (Inr w), n')" and r: "decHelm lib w = Inr r"
    by (auto elim!: RenderHelmSpec_RetE)
  from j obtain kvs where kvs: "j = AMap kvs"
    "map_of kvs ''migration'' = Some (encMigration (helm_Migration h))" by (rule encHelm_migration)
  from render_shape(1) [OF w] kvs obtain kws where kws: "w = AMap kws"
    "list_all2 (\<lambda>kv kw. fst kv = fst kw \<and> sameShape (snd kv) (snd kw)) kvs kws"
    by (auto split: go_any.splits)
  from sameShape_map_of [OF kws(2), of "''migration''"] kvs(2) obtain mw where
    mw: "map_of kws ''migration'' = Some mw" "sameShape (encMigration (helm_Migration h)) mw"
    by (auto simp: option_rel_Some1)
  have "decMigration mw = Inr (helm_Migration r)"
    using decHelm_migration [OF r [unfolded kws(1)]] mw(1) by (simp add: member_def)
  with mw(2) show ?thesis by (simp add: decMigration_lengths)
qed

theorem renderHelm_migration_lengths_witness:
  "\<exists>r n'. RenderHelmSpec exampleLib exampleHelmModule 0 = (Ret (Inr r), n')
     \<and> length (mig_PVCs (helm_Migration r)) = 1"
proof -
  have run: "RenderHelmSpec exampleLib exampleHelmModule 0 = (Ret (Inr exampleHelm), 0)"
    by (rule RenderHelmSpec_plain
        [OF example_helm_spec example_plain example_helm_validated example_releaseName])
  have "length (mig_PVCs (helm_Migration exampleHelm)) = 1"
    using renderHelm_migration_lengths [OF run example_helm_spec] by (simp add: exampleHelm_def)
  with run show ?thesis by blast
qed

text \<open>
  \<open>RenderHelmSpec\<close> never hangs, and it panics in one case only: the configuration is valid and
  the specification has neither an existing release nor a release name.
\<close>

theorem renderHelm_panics_iff:
  "if \<exists>h cfg. ms_Helm (mod_Spec m) = Some h \<and> GetValidatedConfig lib m = Inr cfg \<and>
        helm_ExistingRelease h = None \<and> helm_ReleaseName h = None
   then RenderHelmSpec lib m n = (Panicked ''nil pointer dereference'', n)
   else \<exists>r n'. RenderHelmSpec lib m n = (Ret r, n')"
  by (rule RenderHelmSpec_outcome)

lemma base62_length: "length base62Chars = 62"
  by (simp add: base62Chars_def)

text \<open>
  The template function \<open>randBase62\<close>: when every draw of the random source succeeds with a
  number below 62, the result has the length asked for and only the 62 letters and digits; when a
  draw fails, the error is hidden and the result is empty.
\<close>

theorem randBase62_result:
  assumes "\<forall>i num. draw i = Inr num \<longrightarrow> num < 62"
  shows "if \<exists>i<len. \<exists>e. draw i = Inl e then randBase62 draw len = []
     else length (randBase62 draw len) = len \<and> set (randBase62 draw len) \<subseteq> set base62Chars"
proof -
  have gen: "(\<exists>i<len. \<exists>e. draw (k + i) = Inl e) \<and> (\<exists>e. generateBase62String draw k len = Inl e) \<or>
      (\<forall>i<len. \<exists>num. draw (k + i) = Inr num) \<and>
      (\<exists>s. generateBase62String draw k len = Inr s \<and> length s = len \<and> set s \<subseteq> set base62Chars)" for k
  proof (induction len arbitrary: k)
    case 0
    show ?case by simp
  next
    case (Suc len)
    show ?case
    proof (cases "draw k")
      case (Inl e)
      then show ?thesis by (auto intro: exI [of _ 0])
    next
      case (Inr num)
      with assms have "base62Chars ! num \<in> set base62Chars"
        by (intro nth_mem) (simp add: base62_length)
      with Suc [of "Suc k"] Inr show ?thesis
        by (auto simp: less_Suc_eq_0_disj)
    qed
  qed
  from gen [of 0] show ?thesis
    by (auto simp: randBase62_def)
qed

theorem randBase62_result_witness:
  "length (randBase62 (\<lambda>i. Inr (i mod 62)) 3) = 3"
proof -
  have "\<forall>i num. (Inr (i mod 62) :: go_error + nat) = Inr num \<longrightarrow> num < 62" by auto
  from randBase62_result [OF this, of 3] show ?thesis by simp
qed

end
