(* ===== verification/Admission.thy ===== *)
theory Admission
  imports Render
begin

text \<open>
  What the two admission webhooks (\<open>src/internal/webhook/v1\<close>) share: the field errors and the answer
  of a validating webhook, the objects the API server may hand over, and the contract of a validator
  that makes some fields immutable. The contract (locale \<open>immutable_fields\<close>) is about one admitted
  update; the locale derives what holds along a whole history of admitted updates.
\<close>

section \<open>Objects, field errors, answers\<close>

text \<open>\<open>runtime.Object\<close>: the webhooks convert it with a checked type assertion. \<open>OtherObject\<close> carries
  the name of the dynamic type.\<close>

datatype runtime_object =
    ModuleObject Module
  | WorkspaceObject Workspace
  | OtherObject string

fun typeName :: "runtime_object \<Rightarrow> string" where
  "typeName (ModuleObject _) = ''*v1.Module''"
| "typeName (WorkspaceObject _) = ''*v1.Workspace''"
| "typeName (OtherObject t) = t"

text \<open>\<open>field.Invalid\<close>, \<open>field.Required\<close> and \<open>field.InternalError\<close> with their path and detail. The
  rejected value, which only the printed message repeats, is left out.\<close>

datatype field_error =
    FieldInvalid "string list" string
  | FieldRequired "string list" string
  | FieldInternalError "string list" string

text \<open>A validator answers nil, an error of its own, or \<open>apierrors.NewInvalid\<close> with the field errors.\<close>

datatype admission =
    Admitted
  | Refused go_error
  | NewInvalid string "field_error list"

definition answer :: "string \<Rightarrow> field_error list \<Rightarrow> admission" where
  "answer name allErrs = (if 0 < length allErrs then NewInvalid name allErrs else Admitted)"

lemma answer_Admitted [simp]: "answer n errs = Admitted \<longleftrightarrow> errs = []"
  by (simp add: answer_def)

section \<open>Immutable fields\<close>

text \<open>
  \<open>admits old new\<close>: the validator lets the update through; \<open>fields\<close>: what it must not change.
  A history is a sequence of objects, each stored after an admitted update of the one before.
\<close>

locale immutable_fields =
  fixes admits :: "'o \<Rightarrow> 'o \<Rightarrow> bool"
    and fields :: "'o \<Rightarrow> 'f"
  assumes admits_keeps: "admits old new \<Longrightarrow> fields new = fields old"
begin

inductive history :: "'o \<Rightarrow> 'o \<Rightarrow> bool" where
  created: "history x x"
| updated: "history x y \<Longrightarrow> admits y z \<Longrightarrow> history x z"

lemma history_keeps: "history x y \<Longrightarrow> fields y = fields x"
  by (induction rule: history.induct) (simp_all add: admits_keeps)

lemma chain_keeps:
  assumes "successively admits (x # xs)" and "y \<in> set (x # xs)"
  shows "fields y = fields x"
  using assms
proof (induction xs arbitrary: x)
  case Nil
  then show ?case by simp
next
  case (Cons z zs)
  then have step: "fields z = fields x" by (simp add: admits_keeps)
  show ?case
  proof (cases "y = x")
    case False
    with Cons.prems Cons.IH [of z] step show ?thesis by simp
  qed simp
qed

end

end
