(* ===== verification/ModuleWebhook.thy ===== *)
theory ModuleWebhook
  imports Admission
begin

text \<open>
  The admission webhook of modules (\<open>src/internal/webhook/v1/module_webhook.go\<close>): the defaulter, which
  generates a release name, and the validator of creations, updates and deletions. \<open>uuid.New\<close> is the
  parameter \<open>uuidStr\<close> and the client's read of a workspace the parameter \<open>get\<close>: a request reads one
  workspace at most once. \<open>cmp.Equal\<close> is equality of the model's values.
\<close>

section \<open>Defaulting\<close>

fun cleanUUIDLoop :: "string \<Rightarrow> string \<Rightarrow> string" where
  "cleanUUIDLoop cleanUUID [] = cleanUUID"
| "cleanUUIDLoop cleanUUID (ch # uuidStr) =
     (let cleanUUID' = (if ch \<noteq> CHR ''-'' then cleanUUID @ [ch] else cleanUUID)
      in if length cleanUUID' = 11 then cleanUUID' else cleanUUIDLoop cleanUUID' uuidStr)"

definition generatedReleaseName :: "string \<Rightarrow> Module \<Rightarrow> string" where
  "generatedReleaseName uuidStr m = meta_Namespace (mod_Meta m) @ ''-'' @ cleanUUIDLoop [] uuidStr"

definition defaultModule :: "string \<Rightarrow> Module \<Rightarrow> Module" where
  "defaultModule uuidStr m = (case ms_Helm (mod_Spec m) of
       None \<Rightarrow> m
     | Some helm \<Rightarrow> (case helm_ReleaseName helm of
           Some _ \<Rightarrow> m
         | None \<Rightarrow> m\<lparr>mod_Spec := (mod_Spec m)\<lparr>ms_Helm :=
             Some (helm\<lparr>helm_ReleaseName := Some (generatedReleaseName uuidStr m)\<rparr>)\<rparr>\<rparr>))"

definition ModuleCustomDefaulter_Default :: "string \<Rightarrow> runtime_object \<Rightarrow> go_error + runtime_object" where
  "ModuleCustomDefaulter_Default uuidStr obj = (case obj of
       ModuleObject m \<Rightarrow> Inr (ModuleObject (defaultModule uuidStr m))
     | _ \<Rightarrow> Inl (ErrText (''expected an Module object but got '' @ typeName obj)))"

section \<open>Validation\<close>

definition validateModuleWorkspace ::
  "(NamespacedName \<Rightarrow> go_error + Workspace) \<Rightarrow> Module \<Rightarrow> field_error list" where
  "validateModuleWorkspace get m = (let ref = ms_Workspace (mod_Spec m) in
     case get \<lparr>nn_Namespace = wref_Namespace ref, nn_Name = wref_Name ref\<rparr> of
       Inr _ \<Rightarrow> []
     | Inl err \<Rightarrow>
         if isNotFound err
         then [FieldInvalid [''spec'', ''workspace'']
                 (''workspace '' @ wref_Namespace ref @ ''/'' @ wref_Name ref @ '' not found'')]
         else [FieldInternalError [''spec'', ''workspace'']
                 (''failed to validate workspace reference: '' @ errString err)])"

definition sourceCount :: "ModuleSpecHelmChart \<Rightarrow> nat" where
  "sourceCount chart = (if chart_Repo chart \<noteq> None then 1 else 0)
     + (if chart_ConfigMap chart \<noteq> None then 1 else 0) + (if chart_Git chart \<noteq> None then 1 else 0)"

definition validateModuleHelmChart :: "Module \<Rightarrow> field_error list" where
  "validateModuleHelmChart m = (case ms_Helm (mod_Spec m) of
       None \<Rightarrow> []
     | Some helm \<Rightarrow> (let n = sourceCount (helm_Chart helm) in
         if n = 0
         then [FieldRequired [''spec'', ''helm'', ''chart'']
                 ''must specify exactly one of: repo, configMap, or git'']
         else if n > 1
         then [FieldInvalid [''spec'', ''helm'', ''chart'']
                 ''must specify exactly one of: repo, configMap, or git (multiple sources specified)'']
         else []))"

definition validateModuleConfig :: "golib \<Rightarrow> Module \<Rightarrow> field_error list" where
  "validateModuleConfig lib m = (case GetValidatedConfig lib m of
       Inr _ \<Rightarrow> []
     | Inl err \<Rightarrow> [FieldInvalid [''spec'', ''config''] (errString (configError err))])"

definition validateModuleSpec ::
  "golib \<Rightarrow> (NamespacedName \<Rightarrow> go_error + Workspace) \<Rightarrow> Module \<Rightarrow> field_error list" where
  "validateModuleSpec lib get m =
     validateModuleWorkspace get m @ validateModuleHelmChart m @ validateModuleConfig lib m"

definition validateModule ::
  "golib \<Rightarrow> (NamespacedName \<Rightarrow> go_error + Workspace) \<Rightarrow> Module \<Rightarrow> field_error list" where
  "validateModule lib get m = validateModuleSpec lib get m"

definition immutableHelmFields :: "ModuleSpecHelm \<Rightarrow> ModuleSpecHelm \<Rightarrow> field_error list" where
  "immutableHelmFields old new =
     (if helm_ReleaseName old \<noteq> helm_ReleaseName new
      then [FieldInvalid [''spec'', ''helm'', ''releaseName''] ''field is immutable''] else [])
     @ (if helm_ExistingRelease old \<noteq> helm_ExistingRelease new
        then [FieldInvalid [''spec'', ''helm'', ''existingRelease''] ''field is immutable''] else [])
     @ (if helm_ExistingRelease old = None \<and> helm_ExistingRelease new = None
          \<and> helm_Namespace old \<noteq> helm_Namespace new
        then [FieldInvalid [''spec'', ''helm'', ''namespace''] ''field is immutable''] else [])
     @ (if helm_Outputs old \<noteq> helm_Outputs new
        then [FieldInvalid [''spec'', ''helm'', ''outputs''] ''field is immutable''] else [])"

definition immutableCustomFields :: "ModuleSpecCustom \<Rightarrow> ModuleSpecCustom \<Rightarrow> field_error list" where
  "immutableCustomFields old new =
     (if cus_Image old \<noteq> cus_Image new
      then [FieldInvalid [''spec'', ''custom'', ''image''] ''field is immutable''] else [])"

definition validateModuleImmutableUpdateFields :: "Module \<Rightarrow> Module \<Rightarrow> field_error list" where
  "validateModuleImmutableUpdateFields oldModule newModule =
     (let old = mod_Spec oldModule; new = mod_Spec newModule in
      (if ms_Workspace old \<noteq> ms_Workspace new
       then [FieldInvalid [''spec'', ''workspace''] ''field is immutable''] else [])
      @ (if ms_Config old \<noteq> ms_Config new
         then [FieldInvalid [''spec'', ''config''] ''field is immutable''] else [])
      @ (case (ms_Helm old, ms_Helm new) of
           (None, Some _) \<Rightarrow>
             [FieldInvalid [''spec'', ''helm''] ''field cannot be added once the object is created'']
         | (Some _, None) \<Rightarrow>
             [FieldInvalid [''spec'', ''helm''] ''field cannot be removed once the object is created'']
         | (Some h, Some h') \<Rightarrow> immutableHelmFields h h'
         | (None, None) \<Rightarrow> [])
      @ (case (ms_Custom old, ms_Custom new) of
           (None, Some _) \<Rightarrow>
             [FieldInvalid [''spec'', ''custom''] ''field cannot be added once the object is created'']
         | (Some _, None) \<Rightarrow>
             [FieldInvalid [''spec'', ''custom''] ''field cannot be removed once the object is created'']
         | (Some c, Some c') \<Rightarrow> immutableCustomFields c c'
         | (None, None) \<Rightarrow> []))"

definition ModuleCustomValidator_ValidateCreate ::
  "golib \<Rightarrow> (NamespacedName \<Rightarrow> go_error + Workspace) \<Rightarrow> runtime_object \<Rightarrow> admission" where
  "ModuleCustomValidator_ValidateCreate lib get obj = (case obj of
       ModuleObject m \<Rightarrow> answer (meta_Name (mod_Meta m)) (validateModule lib get m)
     | _ \<Rightarrow> Refused (ErrText (''expected a Module object but got '' @ typeName obj)))"

definition ModuleCustomValidator_ValidateUpdate :: "runtime_object \<Rightarrow> runtime_object \<Rightarrow> admission" where
  "ModuleCustomValidator_ValidateUpdate oldObj newObj = (case oldObj of
       ModuleObject old \<Rightarrow> (case newObj of
           ModuleObject new \<Rightarrow>
             answer (meta_Name (mod_Meta new)) (validateModuleImmutableUpdateFields old new)
         | _ \<Rightarrow> Refused (ErrText (''expected a Module object for the newObj but got '' @ typeName newObj)))
     | _ \<Rightarrow> Refused (ErrText (''expected a Module object for the oldObj but got '' @ typeName oldObj)))"

definition ModuleCustomValidator_ValidateDelete :: "runtime_object \<Rightarrow> admission" where
  "ModuleCustomValidator_ValidateDelete obj = (case obj of
       ModuleObject m \<Rightarrow> Admitted
     | _ \<Rightarrow> Refused (ErrText (''expected a Module object but got '' @ typeName obj)))"

section \<open>The generated release name\<close>

lemma cleanUUIDLoop_take:
  assumes "length acc < 11"
  shows "cleanUUIDLoop acc u = take 11 (acc @ filter (\<lambda>ch. ch \<noteq> CHR ''-'') u)"
  using assms by (induction acc u rule: cleanUUIDLoop.induct) (auto simp: Let_def take_Cons')

lemma defaultModule_release:
  assumes "ms_Helm (mod_Spec (defaultModule u m)) = Some h"
  shows "helm_ReleaseName h \<noteq> None"
  using assms by (auto simp: defaultModule_def split: option.splits)

lemma defaultModule_id: "(\<And>h. ms_Helm (mod_Spec m) = Some h \<Longrightarrow> helm_ReleaseName h \<noteq> None) \<Longrightarrow> defaultModule u m = m"
  by (auto simp: defaultModule_def split: option.splits)

section \<open>The fields an update keeps\<close>

text \<open>The identity of the Helm release a module stands for, and the rest of what an update keeps.\<close>

definition releaseIdentity :: "Module \<Rightarrow> (string option \<times> string) option" where
  "releaseIdentity m = map_option (\<lambda>h. (GetReleaseName h, GetNamespace h)) (ms_Helm (mod_Spec m))"

definition moduleFixedFields :: "Module \<Rightarrow> ModuleWorkspaceReference \<times> RawExtension option \<times>
    (string option \<times> string) option \<times> ModuleSpecHelmOutput list option option \<times> string option" where
  "moduleFixedFields m = (ms_Workspace (mod_Spec m), ms_Config (mod_Spec m), releaseIdentity m,
     map_option helm_Outputs (ms_Helm (mod_Spec m)), map_option cus_Image (ms_Custom (mod_Spec m)))"

definition moduleUpdateAdmitted :: "Module \<Rightarrow> Module \<Rightarrow> bool" where
  "moduleUpdateAdmitted old new \<longleftrightarrow>
     ModuleCustomValidator_ValidateUpdate (ModuleObject old) (ModuleObject new) = Admitted"

lemma immutableHelm_identity:
  "immutableHelmFields h h' = [] \<Longrightarrow> GetReleaseName h' = GetReleaseName h \<and> GetNamespace h' = GetNamespace h
     \<and> helm_Outputs h' = helm_Outputs h"
  by (auto simp: immutableHelmFields_def GetReleaseName_def GetNamespace_def
      split: if_splits option.splits)

interpretation moduleUpdates: immutable_fields moduleUpdateAdmitted moduleFixedFields
proof unfold_locales
  fix old new assume "moduleUpdateAdmitted old new"
  then show "moduleFixedFields new = moduleFixedFields old"
    by (auto simp: moduleUpdateAdmitted_def ModuleCustomValidator_ValidateUpdate_def
        validateModuleImmutableUpdateFields_def moduleFixedFields_def releaseIdentity_def
        immutableCustomFields_def Let_def
        dest: immutableHelm_identity split: if_splits option.splits)
qed

section \<open>Properties\<close>

text \<open>
  C28: The validator admits the creation of a module exactly when the workspace it names can be read,
  its configuration is valid and, for a Helm module, exactly one of the three chart sources is given.
\<close>

theorem moduleCreate_admitted_iff:
  "ModuleCustomValidator_ValidateCreate lib get (ModuleObject m) = Admitted \<longleftrightarrow>
     (\<exists>w. get \<lparr>nn_Namespace = wref_Namespace (ms_Workspace (mod_Spec m)),
               nn_Name = wref_Name (ms_Workspace (mod_Spec m))\<rparr> = Inr w)
     \<and> (\<exists>cfg. GetValidatedConfig lib m = Inr cfg)
     \<and> (case ms_Helm (mod_Spec m) of
          None \<Rightarrow> True
        | Some h \<Rightarrow> \<exists>r cm g. helm_Chart h = \<lparr>chart_Repo = r, chart_ConfigMap = cm, chart_Git = g\<rparr>
            \<and> ((r \<noteq> None) , (cm \<noteq> None), (g \<noteq> None))
                \<in> {(True, False, False), (False, True, False), (False, False, True)})"
proof -
  have chart: "(\<exists>r cm g. c = \<lparr>chart_Repo = r, chart_ConfigMap = cm, chart_Git = g\<rparr> \<and> P r cm g) \<longleftrightarrow>
      P (chart_Repo c) (chart_ConfigMap c) (chart_Git c)" for c P
    by (cases c) auto
  have "validateModuleWorkspace get m = [] \<longleftrightarrow>
      (\<exists>w. get \<lparr>nn_Namespace = wref_Namespace (ms_Workspace (mod_Spec m)),
               nn_Name = wref_Name (ms_Workspace (mod_Spec m))\<rparr> = Inr w)"
    by (simp add: validateModuleWorkspace_def Let_def split: sum.split)
  moreover have "validateModuleConfig lib m = [] \<longleftrightarrow> (\<exists>cfg. GetValidatedConfig lib m = Inr cfg)"
    by (simp add: validateModuleConfig_def split: sum.split)
  moreover have "validateModuleHelmChart m = [] \<longleftrightarrow>
      (case ms_Helm (mod_Spec m) of None \<Rightarrow> True | Some h \<Rightarrow> sourceCount (helm_Chart h) = 1)"
    by (auto simp: validateModuleHelmChart_def Let_def split: option.split)
  ultimately show ?thesis
    by (auto simp: ModuleCustomValidator_ValidateCreate_def validateModule_def validateModuleSpec_def
        chart sourceCount_def split: option.split)
qed

text \<open>
  C15: Along any sequence of admitted updates a module keeps the identity of its Helm release (the
  effective release name and namespace), its workspace, its configuration, its outputs, its custom
  image and which of Helm and custom it is. \<open>releaseIdentity\<close> is what the install, sleep, resume and
  uninstall of the module act on, so no update redirects a later uninstall to another release.
\<close>

theorem moduleUpdates_keep_identity:
  assumes "successively moduleUpdateAdmitted (m # ms)" and "m' \<in> set ms"
  shows "releaseIdentity m' = releaseIdentity m
    \<and> ms_Workspace (mod_Spec m') = ms_Workspace (mod_Spec m)
    \<and> ms_Config (mod_Spec m') = ms_Config (mod_Spec m)
    \<and> map_option helm_Outputs (ms_Helm (mod_Spec m')) = map_option helm_Outputs (ms_Helm (mod_Spec m))
    \<and> map_option cus_Image (ms_Custom (mod_Spec m')) = map_option cus_Image (ms_Custom (mod_Spec m))"
  using moduleUpdates.chain_keeps [OF assms(1), of m'] assms(2) by (simp add: moduleFixedFields_def)

theorem moduleUpdates_keep_identity_witness:
  "releaseIdentity (exampleHelmModule\<lparr>mod_Config := []\<rparr>) = Some (Some ''rel'', ''apps'')"
proof -
  have "successively moduleUpdateAdmitted [exampleHelmModule, exampleHelmModule\<lparr>mod_Config := []\<rparr>]"
    by (simp add: moduleUpdateAdmitted_def ModuleCustomValidator_ValidateUpdate_def
        validateModuleImmutableUpdateFields_def immutableHelmFields_def immutableCustomFields_def
        Let_def split: option.split)
  from moduleUpdates_keep_identity [OF this, of "exampleHelmModule\<lparr>mod_Config := []\<rparr>"]
  show ?thesis
    by (simp add: releaseIdentity_def exampleHelmModule_def exampleHelm_def GetReleaseName_def
        GetNamespace_def)
qed

text \<open>
  After defaulting, rendering a module never panics: the defaulter gives every Helm module a
  release name, which is what \<open>GetReleaseName\<close> dereferences. Defaulting changes nothing else, and a
  second defaulting, as at every later update, changes nothing.
\<close>

theorem defaulted_module_renders:
  "(\<exists>r n'. RenderHelmSpec lib (defaultModule u m) n = (Ret r, n'))
   \<and> defaultModule u' (defaultModule u m) = defaultModule u m
   \<and> mod_Meta (defaultModule u m) = mod_Meta m \<and> mod_Status (defaultModule u m) = mod_Status m"
proof (intro conjI)
  show "\<exists>r n'. RenderHelmSpec lib (defaultModule u m) n = (Ret r, n')"
    using RenderHelmSpec_outcome [of "defaultModule u m" lib n] defaultModule_release [of u m]
    by (auto split: if_splits)
  show "defaultModule u' (defaultModule u m) = defaultModule u m"
    by (rule defaultModule_id) (rule defaultModule_release)
qed (simp_all add: defaultModule_def split: option.split)

text \<open>
  The generated release name is the module's namespace, a hyphen and the first eleven characters
  of the UUID other than hyphens. It has twelve characters more than the namespace, never twelve in
  all, and it starts with the namespace's first character, which may be a digit.
\<close>

theorem generated_release_name:
  assumes "ms_Helm (mod_Spec m) = Some h" and "helm_ReleaseName h = None"
    and "11 \<le> length (filter (\<lambda>ch. ch \<noteq> CHR ''-'') u)" and "meta_Namespace (mod_Meta m) \<noteq> []"
  shows "\<exists>h' name. ms_Helm (mod_Spec (defaultModule u m)) = Some h' \<and> helm_ReleaseName h' = Some name
    \<and> name = meta_Namespace (mod_Meta m) @ ''-'' @ take 11 (filter (\<lambda>ch. ch \<noteq> CHR ''-'') u)
    \<and> length name = length (meta_Namespace (mod_Meta m)) + 12 \<and> length name \<noteq> 12
    \<and> hd name = hd (meta_Namespace (mod_Meta m))"
  using assms
  by (simp add: defaultModule_def generatedReleaseName_def cleanUUIDLoop_take min_def)

theorem generated_release_name_witness:
  "\<exists>h' name. ms_Helm (mod_Spec (defaultModule ''123e4567-e89b-12d3-a456-426614174000''
      (exampleHelmModule\<lparr>mod_Meta := exampleMeta\<lparr>meta_Namespace := ''7apps''\<rparr>,
         mod_Spec := (mod_Spec exampleModule)\<lparr>ms_Helm := Some (exampleHelm\<lparr>helm_ReleaseName := None\<rparr>)\<rparr>\<rparr>)))
      = Some h' \<and> helm_ReleaseName h' = Some name \<and> name = ''7apps-123e4567e89'' \<and> hd name = CHR ''7''"
  by (use generated_release_name [of "exampleHelmModule\<lparr>mod_Meta := exampleMeta\<lparr>meta_Namespace := ''7apps''\<rparr>,
         mod_Spec := (mod_Spec exampleModule)\<lparr>ms_Helm := Some (exampleHelm\<lparr>helm_ReleaseName := None\<rparr>)\<rparr>\<rparr>"
      "exampleHelm\<lparr>helm_ReleaseName := None\<rparr>" "''123e4567-e89b-12d3-a456-426614174000''"] in simp)

text \<open>
  Only a creation is checked for its chart source: an update that removes every chart source of
  a Helm module is admitted, although a module without a chart source cannot be created.
\<close>

theorem moduleUpdate_chart_unchecked:
  assumes "ms_Helm (mod_Spec m) = Some h"
  defines "m' \<equiv> m\<lparr>mod_Spec := (mod_Spec m)\<lparr>ms_Helm := Some (h\<lparr>helm_Chart :=
      \<lparr>chart_Repo = None, chart_ConfigMap = None, chart_Git = None\<rparr>\<rparr>)\<rparr>\<rparr>"
  shows "ModuleCustomValidator_ValidateUpdate (ModuleObject m) (ModuleObject m') = Admitted
    \<and> ModuleCustomValidator_ValidateCreate lib get (ModuleObject m') \<noteq> Admitted"
  using assms(1)
  by (simp add: m'_def ModuleCustomValidator_ValidateUpdate_def validateModuleImmutableUpdateFields_def
      immutableHelmFields_def immutableCustomFields_def ModuleCustomValidator_ValidateCreate_def
      validateModule_def validateModuleSpec_def validateModuleHelmChart_def sourceCount_def Let_def
      split: option.split)

theorem moduleUpdate_chart_unchecked_witness:
  "\<exists>m'. ModuleCustomValidator_ValidateUpdate (ModuleObject exampleHelmModule) (ModuleObject m') = Admitted
     \<and> ModuleCustomValidator_ValidateCreate exampleLib (\<lambda>_. Inl (ErrText [])) (ModuleObject m') \<noteq> Admitted"
  using moduleUpdate_chart_unchecked [OF example_helm_spec] by blast

end
