(* ===== verification/WorkspaceWebhook.thy ===== *)
theory WorkspaceWebhook
  imports Admission
begin

text \<open>
  The admission webhook of workspaces (\<open>src/internal/webhook/v1/workspace_webhook.go\<close>). What it reads
  from outside is a record of functions: the client's reads of a workspace and of a secret's data,
  \<open>clientcmd.Load\<close> (its error, if any) and the clock. A request reads each object at most once.
\<close>

record webhook_env =
  we_getWorkspace :: "NamespacedName \<Rightarrow> go_error + Workspace"
  we_getSecret :: "NamespacedName \<Rightarrow> go_error + (string \<rightharpoonup> string)"
  we_loadKubeconfig :: "string \<Rightarrow> go_error option"
  we_now :: time

section \<open>Defaulting\<close>

definition managedConnection :: "string \<Rightarrow> WorkspaceConnection" where
  "managedConnection name = \<lparr>conn_Type = WorkspaceConnectionTypeKubeconfig,
     conn_SecretReference = Some \<lparr>sref_Name = ''vc-kubeconfig'' @ ''-'' @ name,
       sref_Namespace = ''forkspacer-'' @ name, sref_Key = ''config''\<rparr>\<rparr>"

definition defaultLastActivity :: "webhook_env \<Rightarrow> Workspace \<Rightarrow> Workspace" where
  "defaultLastActivity env w = (case wst_LastActivity (ws_Status w) of
       None \<Rightarrow> w\<lparr>ws_Status := (ws_Status w)\<lparr>wst_LastActivity := Some (we_now env)\<rparr>\<rparr>
     | Some _ \<Rightarrow> w)"

definition defaultConnection :: "Workspace \<Rightarrow> Workspace" where
  "defaultConnection w = (if wss_Type (ws_Spec w) = WorkspaceTypeManaged
     then w\<lparr>ws_Spec := (ws_Spec w)\<lparr>wss_Connection := managedConnection (meta_Name (ws_Meta w))\<rparr>\<rparr>
     else w)"

definition defaultAutoHibernation :: "webhook_env \<Rightarrow> Workspace \<Rightarrow> Workspace" where
  "defaultAutoHibernation env w = (case wss_From (ws_Spec w) of
       None \<Rightarrow> w
     | Some ref \<Rightarrow>
         (case we_getWorkspace env \<lparr>nn_Namespace = from_Namespace ref, nn_Name = from_Name ref\<rparr> of
            Inl _ \<Rightarrow> w
          | Inr fromWorkspace \<Rightarrow> (case wss_AutoHibernation (ws_Spec w) of
                None \<Rightarrow> w\<lparr>ws_Spec := (ws_Spec w)\<lparr>wss_AutoHibernation :=
                    wss_AutoHibernation (ws_Spec fromWorkspace)\<rparr>\<rparr>
              | Some _ \<Rightarrow> w)))"

definition defaultWorkspace :: "webhook_env \<Rightarrow> Workspace \<Rightarrow> Workspace" where
  "defaultWorkspace env w = defaultAutoHibernation env (defaultConnection (defaultLastActivity env w))"

definition WorkspaceCustomDefaulter_Default ::
  "webhook_env \<Rightarrow> runtime_object \<Rightarrow> go_error + runtime_object" where
  "WorkspaceCustomDefaulter_Default env obj = (case obj of
       WorkspaceObject w \<Rightarrow> Inr (WorkspaceObject (defaultWorkspace env w))
     | _ \<Rightarrow> Inl (ErrText (''expected an Workspace object but got '' @ typeName obj)))"

section \<open>Validation\<close>

definition validateWorkspaceScheduleFormat ::
  "golib \<Rightarrow> string \<Rightarrow> string list \<Rightarrow> field_error option" where
  "validateWorkspaceScheduleFormat lib schedule fldPath = (case lib_cronParse lib schedule of
       Inl err \<Rightarrow> Some (FieldInvalid fldPath (errString err))
     | Inr _ \<Rightarrow> None)"

definition validateWorkspaceFromReference ::
  "webhook_env \<Rightarrow> WorkspaceFromReference option \<Rightarrow> field_error option" where
  "validateWorkspaceFromReference env fromReference = (case fromReference of
       None \<Rightarrow> None
     | Some ref \<Rightarrow>
         (case we_getWorkspace env \<lparr>nn_Namespace = from_Namespace ref, nn_Name = from_Name ref\<rparr> of
            Inr _ \<Rightarrow> None
          | Inl err \<Rightarrow> Some (
              if isNotFound err
              then FieldInvalid [''spec'', ''from'']
                (''workspace '' @ from_Namespace ref @ ''/'' @ from_Name ref @ '' not found'')
              else FieldInternalError [''spec'', ''from'']
                (''failed to validate from reference: '' @ errString err))))"

definition secretPath :: "string list" where
  "secretPath = [''spec'', ''connection'', ''secretReference'']"

definition validateWorkspaceKubeconfigInSecret ::
  "webhook_env \<Rightarrow> (string \<rightharpoonup> string) \<Rightarrow> WorkspaceConnectionSecretReference \<Rightarrow> field_error list" where
  "validateWorkspaceKubeconfigInSecret env secretData ref =
     (let at = sref_Namespace ref @ ''/'' @ sref_Name ref in
      case secretData (sref_Key ref) of
        None \<Rightarrow> [FieldRequired secretPath
          (''secret '' @ at @ '' must contain a '' @ showQuoted (sref_Key ref) @ '' field'')]
      | Some kubeconfigData \<Rightarrow>
          if length kubeconfigData = 0
          then [FieldInvalid secretPath
            (showQuoted (sref_Key ref) @ '' field in secret '' @ at @ '' cannot be empty'')]
          else (case we_loadKubeconfig env kubeconfigData of
              None \<Rightarrow> []
            | Some err \<Rightarrow> [FieldInvalid secretPath
                (showQuoted (sref_Key ref) @ '' field in secret '' @ at
                  @ '' is not a valid kubeconfig: '' @ errString err)]))"

definition validateWorkspaceSecretReference :: "webhook_env \<Rightarrow> WorkspaceConnection \<Rightarrow> field_error list" where
  "validateWorkspaceSecretReference env connection =
     (if conn_Type connection \<noteq> WorkspaceConnectionTypeKubeconfig then []
      else case conn_SecretReference connection of
        None \<Rightarrow> [FieldRequired secretPath
          ''secretReference is required when connection type is kubeconfig'']
      | Some ref \<Rightarrow>
          (case we_getSecret env \<lparr>nn_Namespace = sref_Namespace ref, nn_Name = sref_Name ref\<rparr> of
             Inl err \<Rightarrow>
               if isNotFound err
               then [FieldInvalid secretPath
                 (''secret '' @ sref_Namespace ref @ ''/'' @ sref_Name ref @ '' not found'')]
               else [FieldInternalError secretPath
                 (''failed to validate secret reference: '' @ errString err)]
           | Inr secretData \<Rightarrow> validateWorkspaceKubeconfigInSecret env secretData ref))"

definition validateWorkspaceSchedules :: "golib \<Rightarrow> WorkspaceAutoHibernation \<Rightarrow> field_error list" where
  "validateWorkspaceSchedules lib ah =
     (case validateWorkspaceScheduleFormat lib (ah_Schedule ah) [''spec'', ''schedule''] of
        None \<Rightarrow> [] | Some err \<Rightarrow> [err])
     @ (case ah_WakeSchedule ah of
          None \<Rightarrow> []
        | Some wake \<Rightarrow>
            (case validateWorkspaceScheduleFormat lib wake [''spec'', ''wakeSchedule''] of
               Some err \<Rightarrow> [err]
             | None \<Rightarrow>
                 if ah_Schedule ah = wake
                 then [FieldInvalid [''spec'', ''wakeSchedule''] ''wakeSchedule cannot be the same as schedule'']
                 else []))"

definition validateWorkspaceSpec :: "golib \<Rightarrow> webhook_env \<Rightarrow> Workspace \<Rightarrow> field_error list" where
  "validateWorkspaceSpec lib env w =
     (case wss_AutoHibernation (ws_Spec w) of
        None \<Rightarrow> []
      | Some ah \<Rightarrow> validateWorkspaceSchedules lib ah)
     @ (if wss_Type (ws_Spec w) \<noteq> WorkspaceTypeManaged
        then validateWorkspaceSecretReference env (wss_Connection (ws_Spec w)) else [])"

definition validateWorkspace :: "golib \<Rightarrow> webhook_env \<Rightarrow> Workspace \<Rightarrow> field_error list" where
  "validateWorkspace lib env w = validateWorkspaceSpec lib env w"

definition validateWorkspaceImmutableUpdateFields :: "Workspace \<Rightarrow> Workspace \<Rightarrow> field_error list" where
  "validateWorkspaceImmutableUpdateFields old new =
     (if wss_Type (ws_Spec old) \<noteq> wss_Type (ws_Spec new)
      then [FieldInvalid [''spec'', ''type''] ''field is immutable''] else [])
     @ (if wss_From (ws_Spec old) \<noteq> wss_From (ws_Spec new)
        then [FieldInvalid [''spec'', ''from''] ''field is immutable''] else [])
     @ (if wss_Connection (ws_Spec old) \<noteq> wss_Connection (ws_Spec new)
        then [FieldInvalid [''spec'', ''connection''] ''field is immutable''] else [])"

definition WorkspaceCustomValidator_ValidateCreate ::
  "golib \<Rightarrow> webhook_env \<Rightarrow> runtime_object \<Rightarrow> admission" where
  "WorkspaceCustomValidator_ValidateCreate lib env obj = (case obj of
       WorkspaceObject w \<Rightarrow> answer (meta_Name (ws_Meta w))
         (validateWorkspace lib env w
          @ (case validateWorkspaceFromReference env (wss_From (ws_Spec w)) of
               None \<Rightarrow> [] | Some err \<Rightarrow> [err]))
     | _ \<Rightarrow> Refused (ErrText (''expected a Workspace object but got '' @ typeName obj)))"

definition WorkspaceCustomValidator_ValidateUpdate ::
  "golib \<Rightarrow> webhook_env \<Rightarrow> runtime_object \<Rightarrow> runtime_object \<Rightarrow> admission" where
  "WorkspaceCustomValidator_ValidateUpdate lib env oldObj newObj = (case oldObj of
       WorkspaceObject old \<Rightarrow> (case newObj of
           WorkspaceObject new \<Rightarrow>
             (let allErrs = validateWorkspaceImmutableUpdateFields old new in
              if 0 < length allErrs then NewInvalid (meta_Name (ws_Meta new)) allErrs
              else answer (meta_Name (ws_Meta new)) (validateWorkspace lib env new))
         | _ \<Rightarrow> Refused (ErrText (''expected a Workspace object for the newObj but got '' @ typeName newObj)))
     | _ \<Rightarrow> Refused (ErrText (''expected a Workspace object for the oldObj but got '' @ typeName oldObj)))"

definition WorkspaceCustomValidator_ValidateDelete :: "runtime_object \<Rightarrow> admission" where
  "WorkspaceCustomValidator_ValidateDelete obj = (case obj of
       WorkspaceObject w \<Rightarrow> Admitted
     | _ \<Rightarrow> Refused (ErrText (''expected a Workspace object but got '' @ typeName obj)))"

section \<open>What a valid workspace is\<close>

definition validSchedules :: "golib \<Rightarrow> WorkspaceAutoHibernation \<Rightarrow> bool" where
  "validSchedules lib ah \<longleftrightarrow> (\<exists>n. lib_cronParse lib (ah_Schedule ah) = Inr n)
     \<and> (case ah_WakeSchedule ah of None \<Rightarrow> True
        | Some wake \<Rightarrow> (\<exists>n. lib_cronParse lib wake = Inr n) \<and> wake \<noteq> ah_Schedule ah)"

definition usableKubeconfig :: "webhook_env \<Rightarrow> WorkspaceConnection \<Rightarrow> bool" where
  "usableKubeconfig env c \<longleftrightarrow> (\<exists>ref secretData kubeconfig.
     conn_SecretReference c = Some ref
     \<and> we_getSecret env \<lparr>nn_Namespace = sref_Namespace ref, nn_Name = sref_Name ref\<rparr> = Inr secretData
     \<and> secretData (sref_Key ref) = Some kubeconfig \<and> kubeconfig \<noteq> []
     \<and> we_loadKubeconfig env kubeconfig = None)"

lemma validateWorkspaceSchedules_iff: "validateWorkspaceSchedules lib ah = [] \<longleftrightarrow> validSchedules lib ah"
  by (auto simp: validateWorkspaceSchedules_def validSchedules_def validateWorkspaceScheduleFormat_def
      split: option.splits sum.splits)

lemma validateWorkspaceSecretReference_iff:
  "validateWorkspaceSecretReference env c = [] \<longleftrightarrow>
     (conn_Type c = WorkspaceConnectionTypeKubeconfig \<longrightarrow> usableKubeconfig env c)"
  by (auto simp: validateWorkspaceSecretReference_def validateWorkspaceKubeconfigInSecret_def
      usableKubeconfig_def Let_def split: option.splits sum.splits)

lemma validateWorkspace_iff:
  "validateWorkspace lib env w = [] \<longleftrightarrow> pred_option (validSchedules lib) (wss_AutoHibernation (ws_Spec w))
     \<and> (wss_Type (ws_Spec w) = WorkspaceTypeManaged
        \<or> conn_Type (wss_Connection (ws_Spec w)) \<noteq> WorkspaceConnectionTypeKubeconfig
        \<or> usableKubeconfig env (wss_Connection (ws_Spec w)))"
  by (auto simp: validateWorkspace_def validateWorkspaceSpec_def validateWorkspaceSchedules_iff
      validateWorkspaceSecretReference_iff split: option.split)

section \<open>The fields an update keeps\<close>

definition workspaceUpdateAdmitted :: "golib \<Rightarrow> webhook_env \<Rightarrow> Workspace \<Rightarrow> Workspace \<Rightarrow> bool" where
  "workspaceUpdateAdmitted lib env old new \<longleftrightarrow>
     WorkspaceCustomValidator_ValidateUpdate lib env (WorkspaceObject old) (WorkspaceObject new) = Admitted"

definition workspaceFixedFields ::
  "Workspace \<Rightarrow> WorkspaceType \<times> WorkspaceFromReference option \<times> WorkspaceConnection" where
  "workspaceFixedFields w = (wss_Type (ws_Spec w), wss_From (ws_Spec w), wss_Connection (ws_Spec w))"

lemma validateWorkspaceImmutable_iff:
  "validateWorkspaceImmutableUpdateFields old new = [] \<longleftrightarrow> workspaceFixedFields new = workspaceFixedFields old"
  by (auto simp: validateWorkspaceImmutableUpdateFields_def workspaceFixedFields_def)

lemma workspaceUpdateAdmitted_iff:
  "workspaceUpdateAdmitted lib env old new \<longleftrightarrow>
     workspaceFixedFields new = workspaceFixedFields old \<and> validateWorkspace lib env new = []"
  by (simp add: workspaceUpdateAdmitted_def WorkspaceCustomValidator_ValidateUpdate_def Let_def
      validateWorkspaceImmutable_iff)

text \<open>Each update of a history may meet another state of the cluster.\<close>

interpretation workspaceUpdates: immutable_fields
  "\<lambda>old new. \<exists>env. workspaceUpdateAdmitted lib env old new" workspaceFixedFields
  for lib
  by unfold_locales (auto simp: workspaceUpdateAdmitted_iff)

section \<open>What defaulting changes\<close>

lemma defaultWorkspace_fields:
  "wss_Type (ws_Spec (defaultWorkspace env w)) = wss_Type (ws_Spec w)"
  "wss_From (ws_Spec (defaultWorkspace env w)) = wss_From (ws_Spec w)"
  "wss_Connection (ws_Spec (defaultWorkspace env w)) =
     (if wss_Type (ws_Spec w) = WorkspaceTypeManaged then managedConnection (meta_Name (ws_Meta w))
      else wss_Connection (ws_Spec w))"
  by (simp_all add: defaultWorkspace_def defaultAutoHibernation_def defaultConnection_def
      defaultLastActivity_def split: option.split sum.split)

lemma defaultLastActivity_id: "wst_LastActivity (ws_Status w) \<noteq> None \<Longrightarrow> defaultLastActivity env w = w"
  by (auto simp: defaultLastActivity_def)

lemma defaultConnection_id:
  assumes "wss_Type (ws_Spec w) = WorkspaceTypeManaged \<Longrightarrow>
     wss_Connection (ws_Spec w) = managedConnection (meta_Name (ws_Meta w))"
  shows "defaultConnection w = w"
  using assms by (simp add: defaultConnection_def)

lemma defaultAutoHibernation_idem:
  "defaultAutoHibernation env (defaultAutoHibernation env w) = defaultAutoHibernation env w"
  by (simp add: defaultAutoHibernation_def split: option.split sum.split)

lemma defaultWorkspace_idem: "defaultWorkspace env (defaultWorkspace env w) = defaultWorkspace env w"
proof -
  let ?w = "defaultWorkspace env w"
  have "wst_LastActivity (ws_Status ?w) \<noteq> None"
    by (simp add: defaultWorkspace_def defaultAutoHibernation_def defaultConnection_def
        defaultLastActivity_def split: option.split sum.split)
  moreover have meta: "meta_Name (ws_Meta ?w) = meta_Name (ws_Meta w)"
    by (simp add: defaultWorkspace_def defaultAutoHibernation_def defaultConnection_def
        defaultLastActivity_def split: option.split sum.split)
  moreover have "defaultConnection ?w = ?w"
    by (rule defaultConnection_id) (simp add: defaultWorkspace_fields meta)
  ultimately have "defaultWorkspace env ?w = defaultAutoHibernation env ?w"
    by (simp add: defaultWorkspace_def [of env ?w] defaultLastActivity_id)
  then show ?thesis
    by (simp add: defaultWorkspace_def [of env w] defaultAutoHibernation_idem)
qed

section \<open>Properties\<close>

text \<open>
  C29: The validator admits the creation of a workspace exactly when its schedules are valid cron
  expressions that differ, a kubeconfig connection of a workspace that is not managed names a secret
  holding a loadable kubeconfig, and the workspace it is forked from, if any, can be read.
\<close>

theorem workspaceCreate_admitted_iff:
  "WorkspaceCustomValidator_ValidateCreate lib env (WorkspaceObject w) = Admitted \<longleftrightarrow>
     pred_option (validSchedules lib) (wss_AutoHibernation (ws_Spec w))
     \<and> (case wss_From (ws_Spec w) of None \<Rightarrow> True
        | Some ref \<Rightarrow> \<exists>src. we_getWorkspace env
            \<lparr>nn_Namespace = from_Namespace ref, nn_Name = from_Name ref\<rparr> = Inr src)
     \<and> (if wss_Type (ws_Spec w) \<noteq> WorkspaceTypeManaged
           \<and> conn_Type (wss_Connection (ws_Spec w)) = WorkspaceConnectionTypeKubeconfig
        then usableKubeconfig env (wss_Connection (ws_Spec w)) else True)"
proof -
  have "validateWorkspaceFromReference env f = None \<longleftrightarrow> (case f of None \<Rightarrow> True
      | Some ref \<Rightarrow> \<exists>src. we_getWorkspace env
          \<lparr>nn_Namespace = from_Namespace ref, nn_Name = from_Name ref\<rparr> = Inr src)" for f
    by (auto simp: validateWorkspaceFromReference_def split: option.split sum.split)
  moreover have "(case x of None \<Rightarrow> [] | Some e \<Rightarrow> [e]) = [] \<longleftrightarrow> x = None" for x :: "field_error option"
    by (simp split: option.split)
  ultimately show ?thesis
    by (auto simp: WorkspaceCustomValidator_ValidateCreate_def validateWorkspace_iff)
qed

text \<open>
  C30: Along any sequence of admitted updates, whatever the cluster holds at each of them, a workspace
  keeps its type, its connection and the workspace it was forked from, and its schedules stay valid.
\<close>

theorem workspaceUpdates_keep_fields:
  assumes "successively (\<lambda>old new. \<exists>env. workspaceUpdateAdmitted lib env old new) (w # us)"
    and "w' \<in> set us"
  shows "wss_Type (ws_Spec w') = wss_Type (ws_Spec w) \<and> wss_From (ws_Spec w') = wss_From (ws_Spec w)
    \<and> wss_Connection (ws_Spec w') = wss_Connection (ws_Spec w)
    \<and> pred_option (validSchedules lib) (wss_AutoHibernation (ws_Spec w'))"
proof -
  have "\<exists>old env. workspaceUpdateAdmitted lib env old w'"
    using assms by (induction us arbitrary: w) auto
  then have "pred_option (validSchedules lib) (wss_AutoHibernation (ws_Spec w'))"
    by (auto simp: workspaceUpdateAdmitted_iff validateWorkspace_iff)
  with workspaceUpdates.chain_keeps [OF assms(1), of w'] assms(2) show ?thesis
    by (simp add: workspaceFixedFields_def)
qed

theorem workspaceUpdates_keep_fields_witness:
  "wss_Type (ws_Spec (exampleWorkspace\<lparr>ws_Spec := (ws_Spec exampleWorkspace)\<lparr>wss_Hibernated := True\<rparr>\<rparr>))
     = WorkspaceTypeKubernetes"
proof -
  let ?w = "exampleWorkspace\<lparr>ws_Spec := (ws_Spec exampleWorkspace)\<lparr>wss_Hibernated := True\<rparr>\<rparr>"
  have "successively (\<lambda>old new. \<exists>env. workspaceUpdateAdmitted exampleLib env old new) [exampleWorkspace, ?w]"
    by (simp add: workspaceUpdateAdmitted_iff workspaceFixedFields_def validateWorkspace_iff
        exampleWorkspace_def)
  from workspaceUpdates_keep_fields [OF this, of ?w] show ?thesis
    by (simp add: exampleWorkspace_def)
qed

text \<open>
  Defaulting and immutability agree. For two versions of one workspace, if the stored version went
  through the defaulter, the defaulted new version never fails the immutability of the connection when
  it is managed, whatever connection the request carried; and defaulting again in the same cluster
  changes nothing.
\<close>

theorem defaulted_connection_stable:
  assumes "meta_Name (ws_Meta new) = meta_Name (ws_Meta old)"
    and "wss_Type (ws_Spec new) = WorkspaceTypeManaged" and "wss_Type (ws_Spec old) = WorkspaceTypeManaged"
    and "wss_From (ws_Spec new) = wss_From (ws_Spec old)"
  shows "validateWorkspaceImmutableUpdateFields (defaultWorkspace env old) (defaultWorkspace env' new) = []
    \<and> defaultWorkspace env (defaultWorkspace env old) = defaultWorkspace env old"
  using assms
  by (simp add: validateWorkspaceImmutable_iff workspaceFixedFields_def defaultWorkspace_fields
      defaultWorkspace_idem)

definition exampleWebhookEnv :: webhook_env where
  "exampleWebhookEnv = \<lparr>we_getWorkspace = \<lambda>_. Inr exampleWorkspace,
     we_getSecret = \<lambda>_. Inl (ApiErr StatusReasonNotFound []), we_loadKubeconfig = \<lambda>_. None, we_now = 5\<rparr>"

definition exampleManaged :: Workspace where
  "exampleManaged = exampleWorkspace\<lparr>ws_Spec := (ws_Spec exampleWorkspace)\<lparr>wss_Type := WorkspaceTypeManaged\<rparr>\<rparr>"

theorem defaulted_connection_stable_witness:
  "validateWorkspaceImmutableUpdateFields (defaultWorkspace exampleWebhookEnv exampleManaged)
     (defaultWorkspace exampleWebhookEnv exampleManaged) = []"
  using defaulted_connection_stable [of exampleManaged exampleManaged exampleWebhookEnv exampleWebhookEnv]
  by (simp add: exampleManaged_def)

text \<open>
  A workspace forked from a workspace with automatic hibernation cannot be without it: whatever
  the request says, the defaulter leaves an automatic hibernation, the one of the request or, where
  the request has none, the source's.
\<close>

theorem forked_inherits_hibernation:
  assumes "wss_From (ws_Spec w) = Some ref"
    and "we_getWorkspace env \<lparr>nn_Namespace = from_Namespace ref, nn_Name = from_Name ref\<rparr> = Inr src"
    and "wss_AutoHibernation (ws_Spec src) = Some ah"
  shows "wss_AutoHibernation (ws_Spec (defaultWorkspace env w)) =
     Some (case wss_AutoHibernation (ws_Spec w) of Some own \<Rightarrow> own | None \<Rightarrow> ah)"
  using assms
  by (auto simp: defaultWorkspace_def defaultAutoHibernation_def defaultConnection_def
      defaultLastActivity_def split: option.splits)

theorem forked_inherits_hibernation_witness:
  "\<exists>env w. wss_AutoHibernation (ws_Spec w) = None \<and> wss_AutoHibernation (ws_Spec (defaultWorkspace env w))
     = Some \<lparr>ah_Enabled = True, ah_Schedule = ''0 20 * * *'', ah_WakeSchedule = None\<rparr>"
proof -
  let ?ah = "\<lparr>ah_Enabled = True, ah_Schedule = ''0 20 * * *'', ah_WakeSchedule = None\<rparr>"
  let ?src = "exampleWorkspace\<lparr>ws_Spec := (ws_Spec exampleWorkspace)\<lparr>wss_AutoHibernation := Some ?ah\<rparr>\<rparr>"
  let ?ref = "\<lparr>from_Name = ''dev'', from_Namespace = ''default'', from_MigrateData = False\<rparr>"
  let ?env = "exampleWebhookEnv\<lparr>we_getWorkspace := \<lambda>_. Inr ?src\<rparr>"
  let ?w = "exampleWorkspace\<lparr>ws_Spec := (ws_Spec exampleWorkspace)\<lparr>wss_From := Some ?ref\<rparr>\<rparr>"
  have "wss_AutoHibernation (ws_Spec (defaultWorkspace ?env ?w)) = Some ?ah"
    using forked_inherits_hibernation [of ?w ?ref ?env ?src ?ah] by (simp add: exampleWorkspace_def)
  moreover have "wss_AutoHibernation (ws_Spec ?w) = None" by (simp add: exampleWorkspace_def)
  ultimately show ?thesis by blast
qed

end
