(* ===== verification/Cluster.thy ===== *)
theory Cluster
  imports Render
begin

text \<open>
  The outside of the operator: the API server, the target clusters, Helm, the cron library, files and
  the clock. None of it is code of the repository, so it is a parameter: a record \<open>env\<close> with one
  function per kind of call. Each function gets the trace of everything that happened so far, so an
  answer may depend on earlier calls in any way; a theorem that needs a documented law (an entry
  identifier is fresh, a sleep takes time) names it as a hypothesis on \<open>env\<close>.

  The world of a running program is the trace, the number of templates executed, and the in-memory
  state of the two cron managers. Every call appends one event with its arguments and its answer.
  An object that the code passes by pointer is passed in and returned: a successful \<open>Get\<close>, \<open>Update\<close>,
  \<open>Patch\<close> or \<open>Create\<close> replaces it with the server's answer, a failed one leaves it. Logging has no
  event.
\<close>

section \<open>Kubernetes objects the code reads\<close>

record Secret =
  sec_Data :: "string \<rightharpoonup> string"

record ConfigMap =
  cm_Data :: "string \<rightharpoonup> string"
  cm_BinaryData :: "string \<rightharpoonup> string"

text \<open>A Deployment, ReplicaSet or StatefulSet: what the scaling code reads of it.\<close>

datatype workload_kind = Deployments | ReplicaSets | StatefulSets

record Workload =
  wl_Namespace :: string
  wl_Name :: string
  wl_Replicas :: "int option"

text \<open>\<open>rest.Config\<close>: the fields the code reads. It identifies the cluster a client talks to.\<close>

record rest_config =
  rc_Host :: string
  rc_CAData :: string
  rc_CAFile :: string
  rc_Insecure :: bool
  rc_BearerToken :: string
  rc_BearerTokenFile :: string
  rc_CertData :: string
  rc_CertFile :: string
  rc_KeyData :: string
  rc_KeyFile :: string

text \<open>\<open>clientcmdapi.Config\<close> with its clusters, users and contexts.\<close>

record api_cluster =
  cluster_Server :: string
  cluster_CAData :: string
  cluster_CA :: string
  cluster_Insecure :: bool

record api_auth =
  auth_Token :: string
  auth_CertData :: string
  auth_Cert :: string
  auth_KeyData :: string
  auth_Key :: string

record api_config =
  api_Clusters :: "string \<rightharpoonup> api_cluster"
  api_AuthInfos :: "string \<rightharpoonup> api_auth"
  api_Contexts :: "string \<rightharpoonup> string \<times> string"
  api_CurrentContext :: string

text \<open>A Helm release: the values of its chart (nil when it has no chart) and its configuration; and
  the arguments of an installation.\<close>

record Release =
  rel_ChartValues :: "go_map option"
  rel_Config :: go_map

record install_request =
  inst_Namespace :: string
  inst_ReleaseName :: string
  inst_RepoURL :: string
  inst_Version :: string
  inst_Wait :: bool
  inst_Username :: string
  inst_Password :: string

text \<open>The objects of a custom module's runner: its secret, its pod, its service; and what the code
  reads of a pod's status (phase, and the waiting reason of each container).\<close>

record RunnerSecret =
  rsec_GenerateName :: string
  rsec_Namespace :: string
  rsec_Label :: string
  rsec_Immutable :: bool
  rsec_Data :: "string \<rightharpoonup> string"

record RunnerPod =
  rpod_GenerateName :: string
  rpod_Namespace :: string
  rpod_Label :: string
  rpod_RestartPolicy :: string
  rpod_ImagePullSecrets :: "string list"
  rpod_Image :: string
  rpod_Port :: int
  rpod_EphemeralRequest :: string
  rpod_EphemeralLimit :: string
  rpod_MountPath :: string
  rpod_SecretName :: string
  rpod_ServiceAccountName :: string

record RunnerService =
  rsvc_GenerateName :: string
  rsvc_Namespace :: string
  rsvc_Label :: string
  rsvc_Selector :: string
  rsvc_Port :: int
  rsvc_TargetPort :: int

record PodStatus =
  ps_Phase :: string
  ps_Waiting :: "string option list"

text \<open>The objects a data migration copies and the pods it runs.\<close>

record SecretObject =
  so_Name :: string
  so_Namespace :: string
  so_Labels :: "(string \<rightharpoonup> string) option"
  so_Annotations :: "(string \<rightharpoonup> string) option"
  so_Type :: string
  so_Data :: "(string \<rightharpoonup> string) option"
  so_StringData :: "(string \<rightharpoonup> string) option"
  so_Immutable :: "bool option"

record ConfigMapObject =
  co_Name :: string
  co_Namespace :: string
  co_Labels :: "(string \<rightharpoonup> string) option"
  co_Annotations :: "(string \<rightharpoonup> string) option"
  co_Data :: "(string \<rightharpoonup> string) option"
  co_BinaryData :: "(string \<rightharpoonup> string) option"
  co_Immutable :: "bool option"

record MigrationPod =
  mp_Name :: string
  mp_Namespace :: string
  mp_Image :: string
  mp_Command :: "string list"
  mp_MountPath :: string
  mp_ClaimName :: string

record MigrationPodStatus =
  mps_Phase :: string
  mps_Conditions :: "(string \<times> string) list" \<comment> \<open>type and status\<close>

section \<open>Events\<close>

datatype module_event =
    GetM NamespacedName "go_error + Module"
  | ListM string string "go_error + Module list" \<comment> \<open>by workspace namespace and name\<close>
  | UpdateM Module "go_error + Module"
  | StatusUpdateM Module "go_error + Module"
  | PatchM Module Module "go_error + Module" \<comment> \<open>the object the patch is computed from, the object sent\<close>
  | CreateM Module "go_error + Module"
  | DeleteM NamespacedName "go_error option"

datatype workspace_event =
    GetW NamespacedName "go_error + Workspace"
  | UpdateW Workspace "go_error + Workspace"
  | StatusUpdateW Workspace "go_error + Workspace"
  | PatchW Workspace Workspace "go_error + Workspace"

datatype core_event =
    GetSecret NamespacedName "go_error + Secret"
  | GetConfigMap NamespacedName "go_error + ConfigMap"
  | CreateNamespace string "go_error option"
  | DeleteNamespace string "go_error option"
  | InClusterConfig "go_error + rest_config"
  | LoadHomeConfig "go_error + api_config"
  | LoadKubeconfig string "go_error + api_config"
  | ClientConfig api_config "go_error + rest_config"
  | ReadFile string "go_error + string"
  | Clock time
  | Sleep time

datatype helm_event =
    HelmInit string "go_error option" \<comment> \<open>\<open>action.Configuration.Init\<close> for a namespace\<close>
  | NewForConfig "go_error option"
  | LocateChart install_request string "go_error + string"
  | LoadChart string "go_error + string"
  | RunInstall install_request string go_map "go_error option" \<comment> \<open>request, chart, values\<close>
  | RunGet string string "go_error + Release" \<comment> \<open>namespace, release\<close>
  | RunUninstall string string "go_error option" \<comment> \<open>namespace, release\<close>
  | KDeleteNamespace string "go_error option"
  | KDeletePVCs string string "go_error option" \<comment> \<open>namespace, label selector\<close>
  | KListWorkloads workload_kind string string "go_error + Workload list" \<comment> \<open>kind, namespace, selector\<close>
  | KPatchReplicas workload_kind string string int "go_error option" \<comment> \<open>kind, namespace, name, replicas\<close>
  | KGetConfigMap string string "go_error + ConfigMap"
  | KListPVCs string string "go_error + string list" \<comment> \<open>namespace, label selector; the names\<close>
  | KGetSecret string string "go_error + Secret"
  | ReadValuesFile string "go_error + go_map"

datatype cron_kind = SleepCron | ResumeCron

datatype cron_event =
    CronEntry nat nat \<comment> \<open>entry, its schedule\<close>
  | CronAdd string string "go_error + nat" \<comment> \<open>expression, workspace the job is for (UID), entry\<close>
  | CronRemove nat

text \<open>\<open>os.Stat\<close>: a directory, another file, or an error, which \<open>os.IsNotExist\<close> may recognise.\<close>

datatype stat_result = StatDir | StatFile | StatNotExist go_error | StatError go_error

datatype file_event =
    CreateTemp string string "go_error + string" \<comment> \<open>directory, pattern\<close>
  | WriteFile string string "go_error option"
  | CloseFile string "go_error option"
  | RemoveFile string "go_error option"
  | MkdirTemp string string "go_error + string"
  | EnsureBaseDir "go_error option" \<comment> \<open>the \<open>MkdirAll\<close> that \<open>GetBaseDir\<close> runs once\<close>
  | RemoveAll string "go_error option"
  | GitClone string string string "go_error option" \<comment> \<open>revision, URL, directory\<close>
  | Stat string stat_result
  | LoadDir string "go_error + nat" \<comment> \<open>number of dependencies in the chart's metadata\<close>
  | MkdirAll string "go_error option"
  | ManagerBuild string "go_error option"
  | OpenFile string "go_error option"
  | CreateFile string "go_error option"
  | HttpGet string "go_error + (go_error + string)" \<comment> \<open>URL; the body, or the error of reading it\<close>

datatype runner_event =
    CreateSecret RunnerSecret "go_error + string" \<comment> \<open>the generated name\<close>
  | DeleteSecret string "go_error option"
  | CreatePod RunnerPod "go_error + string"
  | GetPod string "go_error + PodStatus"
  | DeletePod string "go_error option"
  | CreateService RunnerService "go_error + string"
  | GetService string "go_error option"
  | DeleteService string "go_error option"
  | ListEndpoints string "go_error + bool option list list" \<comment> \<open>readiness of the endpoints of the slices\<close>
  | Timeout bool \<comment> \<open>a \<open>select\<close> between a timer and a ticker: whether the timer was taken\<close>
  | Post string string "go_error + nat \<times> (go_error + string)" \<comment> \<open>URL, body; status and response body\<close>

datatype migration_write =
    WCreateSecret SecretObject
  | WUpdateSecret SecretObject
  | WDeleteSecret string string \<comment> \<open>namespace, name\<close>
  | WCreateConfigMap ConfigMapObject
  | WUpdateConfigMap ConfigMapObject
  | WDeleteConfigMap string string
  | WCreatePod MigrationPod
  | WDeletePod string string
  | WNewExecutor string string "string list" \<comment> \<open>namespace, pod, command\<close>
  | WExec string string "string list"

text \<open>What a \<open>select\<close> between the context, a timer and a ticker took.\<close>

datatype select_case = ContextDone go_error | TimerFired | TickerFired

datatype migration_event =
    MGetSecret string string "go_error + SecretObject"
  | MGetConfigMap string string "go_error + ConfigMapObject"
  | MGetPod string string "go_error + MigrationPodStatus"
  | MSelect select_case
  | MWrite migration_write "go_error option"

text \<open>A goroutine that was started: its body is a definition of the component that starts it.\<close>

datatype goroutine =
    GoUninstall rest_config string string \<comment> \<open>cluster, release, namespace\<close>
  | GoForkModule Module Workspace Workspace \<comment> \<open>module, source, destination\<close>

datatype event =
    ModuleEv module_event
  | WorkspaceEv workspace_event
  | CoreEv core_event
  | HelmEv rest_config helm_event
  | CronEv cron_kind cron_event
  | FileEv file_event
  | RunnerEv runner_event
  | MigrationEv rest_config migration_event
  | RecordEv string NamespacedName string string string \<comment> \<open>kind, object, type, reason, message\<close>
  | Go goroutine

type_synonym history = "event list"

section \<open>The environment\<close>

record env =
  e_getModule :: "history \<Rightarrow> NamespacedName \<Rightarrow> go_error + Module"
  e_listModules :: "history \<Rightarrow> string \<Rightarrow> string \<Rightarrow> go_error + Module list"
  e_updateModule :: "history \<Rightarrow> Module \<Rightarrow> go_error + Module"
  e_statusUpdateModule :: "history \<Rightarrow> Module \<Rightarrow> go_error + Module"
  e_patchModule :: "history \<Rightarrow> Module \<Rightarrow> Module \<Rightarrow> go_error + Module"
  e_createModule :: "history \<Rightarrow> Module \<Rightarrow> go_error + Module"
  e_deleteModule :: "history \<Rightarrow> NamespacedName \<Rightarrow> go_error option"
  e_getWorkspace :: "history \<Rightarrow> NamespacedName \<Rightarrow> go_error + Workspace"
  e_updateWorkspace :: "history \<Rightarrow> Workspace \<Rightarrow> go_error + Workspace"
  e_statusUpdateWorkspace :: "history \<Rightarrow> Workspace \<Rightarrow> go_error + Workspace"
  e_patchWorkspace :: "history \<Rightarrow> Workspace \<Rightarrow> Workspace \<Rightarrow> go_error + Workspace"
  e_getSecret :: "history \<Rightarrow> NamespacedName \<Rightarrow> go_error + Secret"
  e_getConfigMap :: "history \<Rightarrow> NamespacedName \<Rightarrow> go_error + ConfigMap"
  e_createNamespace :: "history \<Rightarrow> string \<Rightarrow> go_error option"
  e_deleteNamespace :: "history \<Rightarrow> string \<Rightarrow> go_error option"
  e_inClusterConfig :: "history \<Rightarrow> go_error + rest_config"
  e_loadHomeConfig :: "history \<Rightarrow> go_error + api_config"
  e_loadKubeconfig :: "history \<Rightarrow> string \<Rightarrow> go_error + api_config"
  e_clientConfig :: "history \<Rightarrow> api_config \<Rightarrow> go_error + rest_config"
  e_readFile :: "history \<Rightarrow> string \<Rightarrow> go_error + string"
  e_now :: "history \<Rightarrow> time"
  e_helmInit :: "history \<Rightarrow> rest_config \<Rightarrow> string \<Rightarrow> go_error option"
  e_newForConfig :: "history \<Rightarrow> rest_config \<Rightarrow> go_error option"
  e_locateChart :: "history \<Rightarrow> rest_config \<Rightarrow> install_request \<Rightarrow> string \<Rightarrow> go_error + string"
  e_loadChart :: "history \<Rightarrow> rest_config \<Rightarrow> string \<Rightarrow> go_error + string"
  e_stat :: "history \<Rightarrow> string \<Rightarrow> stat_result"
  e_loadDir :: "history \<Rightarrow> string \<Rightarrow> go_error + nat"
  e_mkdirAll :: "history \<Rightarrow> string \<Rightarrow> go_error option"
  e_managerBuild :: "history \<Rightarrow> string \<Rightarrow> go_error option"
  e_runInstall :: "history \<Rightarrow> rest_config \<Rightarrow> install_request \<Rightarrow> string \<Rightarrow> go_map \<Rightarrow> go_error option"
  e_runGet :: "history \<Rightarrow> rest_config \<Rightarrow> string \<Rightarrow> string \<Rightarrow> go_error + Release"
  e_runUninstall :: "history \<Rightarrow> rest_config \<Rightarrow> string \<Rightarrow> string \<Rightarrow> go_error option"
  e_kDeleteNamespace :: "history \<Rightarrow> rest_config \<Rightarrow> string \<Rightarrow> go_error option"
  e_kDeletePVCs :: "history \<Rightarrow> rest_config \<Rightarrow> string \<Rightarrow> string \<Rightarrow> go_error option"
  e_kListWorkloads :: "history \<Rightarrow> rest_config \<Rightarrow> workload_kind \<Rightarrow> string \<Rightarrow> string \<Rightarrow> go_error + Workload list"
  e_kPatchReplicas :: "history \<Rightarrow> rest_config \<Rightarrow> workload_kind \<Rightarrow> string \<Rightarrow> string \<Rightarrow> int \<Rightarrow> go_error option"
  e_kListPVCs :: "history \<Rightarrow> rest_config \<Rightarrow> string \<Rightarrow> string \<Rightarrow> go_error + string list"
  e_kGetConfigMap :: "history \<Rightarrow> rest_config \<Rightarrow> string \<Rightarrow> string \<Rightarrow> go_error + ConfigMap"
  e_kGetSecret :: "history \<Rightarrow> rest_config \<Rightarrow> string \<Rightarrow> string \<Rightarrow> go_error + Secret"
  e_readValuesFile :: "history \<Rightarrow> rest_config \<Rightarrow> string \<Rightarrow> go_error + go_map"
  e_cronEntry :: "history \<Rightarrow> cron_kind \<Rightarrow> nat \<Rightarrow> nat"
  e_cronAdd :: "history \<Rightarrow> cron_kind \<Rightarrow> string \<Rightarrow> string \<Rightarrow> go_error + nat"
  e_createTemp :: "history \<Rightarrow> string \<Rightarrow> string \<Rightarrow> go_error + string"
  e_writeFile :: "history \<Rightarrow> string \<Rightarrow> string \<Rightarrow> go_error option"
  e_closeFile :: "history \<Rightarrow> string \<Rightarrow> go_error option"
  e_removeFile :: "history \<Rightarrow> string \<Rightarrow> go_error option"
  e_removeAll :: "history \<Rightarrow> string \<Rightarrow> go_error option"
  e_mkdirTemp :: "history \<Rightarrow> string \<Rightarrow> string \<Rightarrow> go_error + string"
  e_openFile :: "history \<Rightarrow> string \<Rightarrow> go_error option"
  e_createFile :: "history \<Rightarrow> string \<Rightarrow> go_error option"
  e_httpGet :: "history \<Rightarrow> string \<Rightarrow> go_error + (go_error + string)"
  e_gitClone :: "history \<Rightarrow> string \<Rightarrow> string \<Rightarrow> string \<Rightarrow> go_error option"
  e_createSecret :: "history \<Rightarrow> RunnerSecret \<Rightarrow> go_error + string"
  e_deleteSecret :: "history \<Rightarrow> string \<Rightarrow> go_error option"
  e_createPod :: "history \<Rightarrow> RunnerPod \<Rightarrow> go_error + string"
  e_getPod :: "history \<Rightarrow> string \<Rightarrow> go_error + PodStatus"
  e_deletePod :: "history \<Rightarrow> string \<Rightarrow> go_error option"
  e_createService :: "history \<Rightarrow> RunnerService \<Rightarrow> go_error + string"
  e_getService :: "history \<Rightarrow> string \<Rightarrow> go_error option"
  e_deleteService :: "history \<Rightarrow> string \<Rightarrow> go_error option"
  e_listEndpoints :: "history \<Rightarrow> string \<Rightarrow> go_error + bool option list list"
  e_timeout :: "history \<Rightarrow> bool"
  e_post :: "history \<Rightarrow> string \<Rightarrow> string \<Rightarrow> go_error + nat \<times> (go_error + string)"
  e_mGetSecret :: "history \<Rightarrow> rest_config \<Rightarrow> string \<Rightarrow> string \<Rightarrow> go_error + SecretObject"
  e_mGetConfigMap :: "history \<Rightarrow> rest_config \<Rightarrow> string \<Rightarrow> string \<Rightarrow> go_error + ConfigMapObject"
  e_mGetPod :: "history \<Rightarrow> rest_config \<Rightarrow> string \<Rightarrow> string \<Rightarrow> go_error + MigrationPodStatus"
  e_mSelect :: "history \<Rightarrow> select_case"
  e_mWrite :: "history \<Rightarrow> rest_config \<Rightarrow> migration_write \<Rightarrow> go_error option"
  e_writeKubeconfig :: "api_config \<Rightarrow> go_error + string"
  e_polls :: nat \<comment> \<open>bound on the polls of a loop without a bound of its own\<close>
  e_getenv :: "string \<Rightarrow> string"
  e_retries :: nat \<comment> \<open>attempts after the first one of \<open>retry.DefaultRetry\<close>\<close>

section \<open>The world\<close>

record cron_manager =
  crm_locked :: bool
  crm_idMapper :: "string \<rightharpoonup> nat"

record world =
  trace :: history
  renders :: nat
  sleepCronManager :: cron_manager
  resumeCronManager :: cron_manager

type_synonym 'a io = "(world, 'a) prog"

definition call :: "(history \<Rightarrow> 'r) \<Rightarrow> ('r \<Rightarrow> event) \<Rightarrow> 'r io" where
  "call f ev = (\<lambda>s. let r = f (trace s) in (Ret r, s\<lparr>trace := trace s @ [ev r]\<rparr>))"

definition emit :: "event \<Rightarrow> unit io" where
  "emit e = call (\<lambda>_. ()) (\<lambda>_. e)"

text \<open>A rendering program run in the world.\<close>

definition rendering :: "(nat, 'a) prog \<Rightarrow> 'a io" where
  "rendering m = (\<lambda>s. case m (renders s) of (r, n) \<Rightarrow> (r, s\<lparr>renders := n\<rparr>))"

section \<open>The calls\<close>

definition getModule :: "env \<Rightarrow> NamespacedName \<Rightarrow> (go_error + Module) io" where
  "getModule E k = call (\<lambda>h. e_getModule E h k) (\<lambda>r. ModuleEv (GetM k r))"

definition listModules :: "env \<Rightarrow> string \<Rightarrow> string \<Rightarrow> (go_error + Module list) io" where
  "listModules E ns n = call (\<lambda>h. e_listModules E h ns n) (\<lambda>r. ModuleEv (ListM ns n r))"

definition updateModule :: "env \<Rightarrow> Module \<Rightarrow> (go_error + Module) io" where
  "updateModule E m = call (\<lambda>h. e_updateModule E h m) (\<lambda>r. ModuleEv (UpdateM m r))"

definition statusUpdateModule :: "env \<Rightarrow> Module \<Rightarrow> (go_error + Module) io" where
  "statusUpdateModule E m = call (\<lambda>h. e_statusUpdateModule E h m) (\<lambda>r. ModuleEv (StatusUpdateM m r))"

definition patchModule :: "env \<Rightarrow> Module \<Rightarrow> Module \<Rightarrow> (go_error + Module) io" where
  "patchModule E base m = call (\<lambda>h. e_patchModule E h base m) (\<lambda>r. ModuleEv (PatchM base m r))"

definition createModule :: "env \<Rightarrow> Module \<Rightarrow> (go_error + Module) io" where
  "createModule E m = call (\<lambda>h. e_createModule E h m) (\<lambda>r. ModuleEv (CreateM m r))"

definition deleteModule :: "env \<Rightarrow> NamespacedName \<Rightarrow> (go_error option) io" where
  "deleteModule E k = call (\<lambda>h. e_deleteModule E h k) (\<lambda>r. ModuleEv (DeleteM k r))"

definition getWorkspace :: "env \<Rightarrow> NamespacedName \<Rightarrow> (go_error + Workspace) io" where
  "getWorkspace E k = call (\<lambda>h. e_getWorkspace E h k) (\<lambda>r. WorkspaceEv (GetW k r))"

definition updateWorkspace :: "env \<Rightarrow> Workspace \<Rightarrow> (go_error + Workspace) io" where
  "updateWorkspace E w = call (\<lambda>h. e_updateWorkspace E h w) (\<lambda>r. WorkspaceEv (UpdateW w r))"

definition statusUpdateWorkspace :: "env \<Rightarrow> Workspace \<Rightarrow> (go_error + Workspace) io" where
  "statusUpdateWorkspace E w =
     call (\<lambda>h. e_statusUpdateWorkspace E h w) (\<lambda>r. WorkspaceEv (StatusUpdateW w r))"

definition patchWorkspace :: "env \<Rightarrow> Workspace \<Rightarrow> Workspace \<Rightarrow> (go_error + Workspace) io" where
  "patchWorkspace E base w = call (\<lambda>h. e_patchWorkspace E h base w) (\<lambda>r. WorkspaceEv (PatchW base w r))"

definition getSecret :: "env \<Rightarrow> NamespacedName \<Rightarrow> (go_error + Secret) io" where
  "getSecret E k = call (\<lambda>h. e_getSecret E h k) (\<lambda>r. CoreEv (GetSecret k r))"

definition getConfigMap :: "env \<Rightarrow> NamespacedName \<Rightarrow> (go_error + ConfigMap) io" where
  "getConfigMap E k = call (\<lambda>h. e_getConfigMap E h k) (\<lambda>r. CoreEv (GetConfigMap k r))"

definition createNamespace :: "env \<Rightarrow> string \<Rightarrow> (go_error option) io" where
  "createNamespace E n = call (\<lambda>h. e_createNamespace E h n) (\<lambda>r. CoreEv (CreateNamespace n r))"

definition deleteNamespace :: "env \<Rightarrow> string \<Rightarrow> (go_error option) io" where
  "deleteNamespace E n = call (\<lambda>h. e_deleteNamespace E h n) (\<lambda>r. CoreEv (DeleteNamespace n r))"

definition inClusterConfig :: "env \<Rightarrow> (go_error + rest_config) io" where
  "inClusterConfig E = call (\<lambda>h. e_inClusterConfig E h) (\<lambda>r. CoreEv (InClusterConfig r))"

definition loadHomeConfig :: "env \<Rightarrow> (go_error + api_config) io" where
  "loadHomeConfig E = call (\<lambda>h. e_loadHomeConfig E h) (\<lambda>r. CoreEv (LoadHomeConfig r))"

definition loadKubeconfig :: "env \<Rightarrow> string \<Rightarrow> (go_error + api_config) io" where
  "loadKubeconfig E d = call (\<lambda>h. e_loadKubeconfig E h d) (\<lambda>r. CoreEv (LoadKubeconfig d r))"

definition clientConfig :: "env \<Rightarrow> api_config \<Rightarrow> (go_error + rest_config) io" where
  "clientConfig E c = call (\<lambda>h. e_clientConfig E h c) (\<lambda>r. CoreEv (ClientConfig c r))"

definition readFile :: "env \<Rightarrow> string \<Rightarrow> (go_error + string) io" where
  "readFile E p = call (\<lambda>h. e_readFile E h p) (\<lambda>r. CoreEv (ReadFile p r))"

definition now :: "env \<Rightarrow> time io" where
  "now E = call (\<lambda>h. e_now E h) (\<lambda>t. CoreEv (Clock t))"

definition sleep :: "time \<Rightarrow> unit io" where
  "sleep d = emit (CoreEv (Sleep d))"

definition recordEvent :: "string \<Rightarrow> NamespacedName \<Rightarrow> string \<Rightarrow> string \<Rightarrow> string \<Rightarrow> unit io" where
  "recordEvent kind k typ reason msg = emit (RecordEv kind k typ reason msg)"

definition spawn :: "goroutine \<Rightarrow> unit io" where
  "spawn g = emit (Go g)"

section \<open>Retry on conflict\<close>

text \<open>
  \<open>retry.RetryOnConflict\<close>: the function runs until it returns something other than a conflict, at most
  \<open>n\<close> times more than once; the last result counts. The pauses in between have no event.
\<close>

fun retryOnConflict :: "nat \<Rightarrow> ('o \<Rightarrow> (go_error option \<times> 'o) io) \<Rightarrow> 'o \<Rightarrow> (go_error option \<times> 'o) io" where
  "retryOnConflict 0 fn obj = fn obj"
| "retryOnConflict (Suc n) fn obj = andThen (fn obj) (\<lambda>(err, obj'). case err of
       None \<Rightarrow> ret (None, obj')
     | Some e \<Rightarrow> if isConflict e then retryOnConflict n fn obj' else ret (Some e, obj'))"

text \<open>The answer to a call that replaces the object the code points to.\<close>

definition replaced :: "'o \<Rightarrow> go_error + 'o \<Rightarrow> go_error option \<times> 'o" where
  "replaced obj r = (case r of Inl e \<Rightarrow> (Some e, obj) | Inr obj' \<Rightarrow> (None, obj'))"

section \<open>Facts about calls\<close>

lemma call_run [simp, run_simps]:
  "call f ev s = (Ret (f (trace s)), s\<lparr>trace := trace s @ [ev (f (trace s))]\<rparr>)"
  by (simp add: call_def Let_def)

text \<open>
  What a program may do to the world: it appends events that all satisfy \<open>Q\<close>, and, when \<open>Q\<close> allows no
  event of the cron library, it leaves the cron managers alone.
\<close>

definition sameCrons :: "world \<Rightarrow> world \<Rightarrow> bool" where
  "sameCrons s t \<longleftrightarrow> sleepCronManager t = sleepCronManager s \<and> resumeCronManager t = resumeCronManager s"

definition emits :: "(event \<Rightarrow> bool) \<Rightarrow> world \<Rightarrow> world \<Rightarrow> bool" where
  "emits Q s t \<longleftrightarrow> (\<exists>es. trace t = trace s @ es \<and> list_all Q es) \<and> ((\<forall>k e. \<not> Q (CronEv k e)) \<longrightarrow> sameCrons s t)"

interpretation emits: stable_rel "emits Q" for Q
proof unfold_locales
  show "emits Q s s" for s by (simp add: emits_def sameCrons_def)
  show "emits Q s u" if "emits Q s t" and "emits Q t u" for s t u
    using that by (auto simp: emits_def sameCrons_def)
qed

lemma emits_mono: "emits Q s t \<Longrightarrow> (\<And>e. Q e \<Longrightarrow> Q' e) \<Longrightarrow> emits Q' s t"
  by (auto simp: emits_def list_all_iff)

lemma emits_sameCrons: "emits Q s t \<Longrightarrow> (\<And>k e. \<not> Q (CronEv k e)) \<Longrightarrow> sameCrons s t"
  by (simp add: emits_def)

lemma keeps_emits_mono: "keeps (emits Q) m \<Longrightarrow> (\<And>e. Q e \<Longrightarrow> Q' e) \<Longrightarrow> keeps (emits Q') m"
  by (auto simp: keeps_def intro: emits_mono)

lemma keeps_call: "(\<And>r. Q (ev r)) \<Longrightarrow> keeps (emits Q) (call f ev)"
  by (simp add: keeps_def emits_def sameCrons_def)

lemma keeps_rendering: "keeps (emits Q) (rendering m)"
  by (simp add: keeps_def emits_def sameCrons_def rendering_def split: prod.split)

lemmas calls = getModule_def listModules_def updateModule_def statusUpdateModule_def patchModule_def
  createModule_def deleteModule_def getWorkspace_def updateWorkspace_def statusUpdateWorkspace_def
  patchWorkspace_def getSecret_def getConfigMap_def createNamespace_def deleteNamespace_def
  inClusterConfig_def loadHomeConfig_def loadKubeconfig_def clientConfig_def readFile_def now_def
  sleep_def recordEvent_def spawn_def emit_def

lemma keeps_retry:
  assumes "\<And>obj. keeps (emits Q) (fn obj)"
  shows "keeps (emits Q) (retryOnConflict n fn obj)"
proof (induction n arbitrary: obj)
  case 0
  show ?case by (simp add: assms)
next
  case (Suc n)
  have "keeps (emits Q) (case p of (err, obj') \<Rightarrow> (case err of
       None \<Rightarrow> ret (None, obj')
     | Some e \<Rightarrow> if isConflict e then retryOnConflict n fn obj' else ret (Some e, obj')))" for p
    by (intro keeps_splits emits.keeps_ret Suc)
  then show ?case by (simp add: emits.keeps_andThen assms)
qed

text \<open>What the result of a retried function satisfies, when every attempt satisfies it.\<close>

lemma post_retry:
  assumes "\<And>obj. post P (fn obj) (\<lambda>r s. Q r s \<and> P s)"
  shows "post P (retryOnConflict n fn obj) (\<lambda>r s. Q r s \<and> P s)"
proof (induction n arbitrary: obj)
  case 0
  show ?case by (simp add: assms)
next
  case (Suc n)
  show ?case
    unfolding retryOnConflict.simps
  proof (rule post_andThen [OF assms])
    fix p :: "go_error option \<times> 'a"
    show "post (\<lambda>s. Q p s \<and> P s) (case p of (err, obj') \<Rightarrow> (case err of
       None \<Rightarrow> ret (None, obj')
     | Some e \<Rightarrow> if isConflict e then retryOnConflict n fn obj' else ret (Some e, obj')))
       (\<lambda>r s. Q r s \<and> P s)"
      by (auto split: prod.split option.split intro!: post_ret intro: post_weaken [OF Suc])
  qed
qed

lemmas keeps_io = emits.keeps_ret emits.keeps_panic emits.keeps_hang emits.keeps_andThen
  emits.keeps_forEach keeps_rendering keeps_retry keeps_call keeps_splits

section \<open>Events and results together\<close>

text \<open>Every run emits only events of \<open>Q\<close>, and a value it returns satisfies \<open>P\<close>.\<close>

definition obeys :: "(event \<Rightarrow> bool) \<Rightarrow> 'a io \<Rightarrow> ('a \<Rightarrow> bool) \<Rightarrow> bool" where
  "obeys Q m P \<longleftrightarrow> keeps (emits Q) m \<and> (\<forall>s a t. m s = (Ret a, t) \<longrightarrow> P a)"

lemma obeys_keeps: "obeys Q m P \<Longrightarrow> keeps (emits Q) m"
  by (simp add: obeys_def)

lemma obeysD: "obeys Q m P \<Longrightarrow> m s = (Ret a, t) \<Longrightarrow> P a"
  by (auto simp: obeys_def)

lemma keeps_obeys: "keeps (emits Q) m \<Longrightarrow> obeys Q m (\<lambda>_. True)"
  by (simp add: obeys_def)

lemma obeys_weaken: "obeys Q m P \<Longrightarrow> (\<And>a. P a \<Longrightarrow> P' a) \<Longrightarrow> obeys Q m P'"
  by (auto simp: obeys_def)

lemma obeys_mono: "obeys Q m P \<Longrightarrow> (\<And>e. Q e \<Longrightarrow> Q' e) \<Longrightarrow> obeys Q' m P"
  by (auto simp: obeys_def intro: keeps_emits_mono)

lemma obeys_ret: "P a \<Longrightarrow> obeys Q (ret a) P"
  by (simp add: obeys_def emits.keeps_ret)

lemma obeys_panic: "obeys Q (panic w) P"
  by (simp add: obeys_def emits.keeps_panic)

lemma obeys_hang: "obeys Q (hang w) P"
  by (simp add: obeys_def emits.keeps_hang)

lemma obeys_andThen:
  assumes "obeys Q m M" and "\<And>a. M a \<Longrightarrow> obeys Q (f a) P"
  shows "obeys Q (andThen m f) P"
  unfolding obeys_def
proof (intro conjI allI impI)
  show "keeps (emits Q) (andThen m f)"
    using assms by (intro emits.keeps_andThen_returned) (auto intro: obeys_keeps dest: obeysD)
  show "P b" if "andThen m f s = (Ret b, t)" for s b t
    using that by (rule andThen_RetE) (use assms in \<open>blast dest: obeysD\<close>)
qed

lemma obeys_if: "(b \<Longrightarrow> obeys Q m P) \<Longrightarrow> (\<not> b \<Longrightarrow> obeys Q n P) \<Longrightarrow> obeys Q (if b then m else n) P"
  by simp

lemma obeys_let: "(\<And>x. x = e \<Longrightarrow> obeys Q (f x) P) \<Longrightarrow> obeys Q (let x = e in f x) P"
  by simp

lemma obeys_case_option:
  "(x = None \<Longrightarrow> obeys Q m P) \<Longrightarrow> (\<And>y. x = Some y \<Longrightarrow> obeys Q (f y) P) \<Longrightarrow>
   obeys Q (case x of None \<Rightarrow> m | Some y \<Rightarrow> f y) P"
  by (cases x) simp_all

lemma obeys_case_sum:
  "(\<And>a. x = Inl a \<Longrightarrow> obeys Q (f a) P) \<Longrightarrow> (\<And>b. x = Inr b \<Longrightarrow> obeys Q (g b) P) \<Longrightarrow>
   obeys Q (case x of Inl a \<Rightarrow> f a | Inr b \<Rightarrow> g b) P"
  by (cases x) simp_all

lemma obeys_case_prod:
  "(\<And>a b. x = (a, b) \<Longrightarrow> obeys Q (f a b) P) \<Longrightarrow> obeys Q (case x of (a, b) \<Rightarrow> f a b) P"
  by (cases x) simp_all

lemmas obeys_splits = obeys_if obeys_let obeys_case_option obeys_case_sum obeys_case_prod

lemma obeys_call: "(\<And>h. Q (ev (f h)) \<and> P (f h)) \<Longrightarrow> obeys Q (call f ev) P"
  by (auto simp: obeys_def keeps_def emits_def sameCrons_def)

lemma obeys_retry:
  assumes "\<And>obj. I obj \<Longrightarrow> obeys Q (fn obj) (\<lambda>(e, obj'). I obj' \<and> P e obj')" and "I obj"
  shows "obeys Q (retryOnConflict n fn obj) (\<lambda>(e, obj'). I obj' \<and> P e obj')"
  using assms(2)
proof (induction n arbitrary: obj)
  case 0
  then show ?case by (simp add: assms)
next
  case (Suc n)
  show ?case
    unfolding retryOnConflict.simps
    by (rule obeys_andThen [OF assms(1) [OF Suc.prems]], intro obeys_splits obeys_ret Suc.IH) auto
qed

text \<open>A check of the error that a part returned.\<close>

lemma obeys_check:
  assumes "obeys Q m (\<lambda>(e, x). M e x)" and "\<And>err x. M (Some err) x \<Longrightarrow> obeys Q (f err x) P"
    and "\<And>x. M None x \<Longrightarrow> obeys Q (g x) P"
  shows "obeys Q (andThen m (\<lambda>(e, x). case e of None \<Rightarrow> g x | Some err \<Rightarrow> f err x)) P"
  using assms by (intro obeys_andThen [OF assms(1)] obeys_splits) auto

lemma obeys_pair:
  assumes "obeys Q m (\<lambda>(e, x). M e x)" and "\<And>e x. M e x \<Longrightarrow> obeys Q (f e x) P"
  shows "obeys Q (andThen m (\<lambda>(e, x). f e x)) P"
  using assms by (intro obeys_andThen [OF assms(1)] obeys_splits) auto

section \<open>Calls return\<close>

lemma returns_call: "returns (call f ev)"
  by (simp add: returns_def)

lemma returns_retry:
  assumes "\<And>obj. returns (fn obj)"
  shows "returns (retryOnConflict n fn obj)"
proof (induction n arbitrary: obj)
  case 0
  show ?case by (simp add: assms)
next
  case (Suc n)
  show ?case
    unfolding retryOnConflict.simps by (intro returns_basic assms Suc)
qed

lemmas returns_io = returns_basic returns_call returns_retry

section \<open>Parts in order\<close>

text \<open>The events of a run come in consecutive parts, the \<open>i\<close>-th of which satisfies the \<open>i\<close>-th predicate.\<close>

definition emitsSeq :: "(event \<Rightarrow> bool) list \<Rightarrow> world \<Rightarrow> world \<Rightarrow> bool" where
  "emitsSeq Qs s t \<longleftrightarrow> (\<exists>ess. trace t = trace s @ concat ess \<and> list_all2 (\<lambda>Q es. list_all Q es) Qs ess)"

lemma emitsSeq_Nil_right: "list_all2 (\<lambda>Q es. list_all Q es) Qs (map (\<lambda>_. []) Qs)" "concat (map (\<lambda>_. []) Qs) = []"
  by (induction Qs) auto

lemma emitsSeq_first: "emits Q s t \<Longrightarrow> emitsSeq (Q # Qs) s t"
  unfolding emits_def emitsSeq_def
proof (elim exE conjE)
  fix es assume "trace t = trace s @ es" "list_all Q es"
  then show "\<exists>ess. trace t = trace s @ concat ess \<and> list_all2 (\<lambda>Q es. list_all Q es) (Q # Qs) ess"
    by (intro exI [of _ "es # map (\<lambda>_. []) Qs"]) (simp add: emitsSeq_Nil_right)
qed

lemma emitsSeq_next: "emits Q s t \<Longrightarrow> emitsSeq Qs t u \<Longrightarrow> emitsSeq (Q # Qs) s u"
  unfolding emits_def emitsSeq_def
proof (elim exE conjE)
  fix es ess assume "trace t = trace s @ es" "list_all Q es" "trace u = trace t @ concat ess"
    "list_all2 (\<lambda>Q es. list_all Q es) Qs ess"
  then show "\<exists>ess. trace u = trace s @ concat ess \<and> list_all2 (\<lambda>Q es. list_all Q es) (Q # Qs) ess"
    by (intro exI [of _ "es # ess"]) simp
qed

lemma keeps_seq_first: "keeps (emits Q) m \<Longrightarrow> keeps (emitsSeq (Q # Qs)) m"
  by (auto simp: keeps_def intro: emitsSeq_first)

lemma keeps_seq_next:
  assumes "keeps (emits Q) m" and "\<And>a. keeps (emitsSeq Qs) (f a)"
  shows "keeps (emitsSeq (Q # Qs)) (andThen m f)"
proof (rule keepsI)
  fix s
  obtain r s' where m: "m s = (r, s')" by (cases "m s")
  with assms(1) have e: "emits Q s s'" by (rule keepsD)
  have "emitsSeq Qs s' (snd (f a s'))" for a using assms(2) by (simp add: keeps_def)
  with e show "emitsSeq (Q # Qs) s (snd (andThen m f s))"
    by (cases r) (auto simp: andThen_run m intro: emitsSeq_first emitsSeq_next)
qed

section \<open>A concrete environment\<close>

text \<open>
  An environment for witnesses: reads find nothing, writes and cleanups succeed, the clock stands still.
  A witness replaces the functions it needs.
\<close>

definition exampleEnv :: env where
  "exampleEnv = \<lparr>e_getModule = \<lambda>_ _. Inl (ApiErr StatusReasonNotFound []),
     e_listModules = \<lambda>_ _ _. Inl (ApiErr StatusReasonNotFound []),
     e_updateModule = \<lambda>_ _. Inl (ApiErr StatusReasonNotFound []),
     e_statusUpdateModule = \<lambda>_ _. Inl (ApiErr StatusReasonNotFound []),
     e_patchModule = \<lambda>_ _ _. Inl (ApiErr StatusReasonNotFound []),
     e_createModule = \<lambda>_ _. Inl (ApiErr StatusReasonNotFound []),
     e_deleteModule = \<lambda>_ _. None,
     e_getWorkspace = \<lambda>_ _. Inl (ApiErr StatusReasonNotFound []),
     e_updateWorkspace = \<lambda>_ _. Inl (ApiErr StatusReasonNotFound []),
     e_statusUpdateWorkspace = \<lambda>_ _. Inl (ApiErr StatusReasonNotFound []),
     e_patchWorkspace = \<lambda>_ _ _. Inl (ApiErr StatusReasonNotFound []),
     e_getSecret = \<lambda>_ _. Inl (ApiErr StatusReasonNotFound []),
     e_getConfigMap = \<lambda>_ _. Inl (ApiErr StatusReasonNotFound []),
     e_createNamespace = \<lambda>_ _. None,
     e_deleteNamespace = \<lambda>_ _. None,
     e_inClusterConfig = \<lambda>_. Inl (ApiErr StatusReasonNotFound []),
     e_loadHomeConfig = \<lambda>_. Inl (ApiErr StatusReasonNotFound []),
     e_loadKubeconfig = \<lambda>_ _. Inl (ApiErr StatusReasonNotFound []),
     e_clientConfig = \<lambda>_ _. Inl (ApiErr StatusReasonNotFound []),
     e_readFile = \<lambda>_ _. Inl (ApiErr StatusReasonNotFound []),
     e_now = \<lambda>_. 0,
     e_helmInit = \<lambda>_ _ _. None,
     e_newForConfig = \<lambda>_ _. None,
     e_locateChart = \<lambda>_ _ _ _. Inl (ApiErr StatusReasonNotFound []),
     e_loadChart = \<lambda>_ _ _. Inl (ApiErr StatusReasonNotFound []),
     e_stat = \<lambda>_ _. StatFile,
     e_loadDir = \<lambda>_ _. Inl (ApiErr StatusReasonNotFound []),
     e_mkdirAll = \<lambda>_ _. None,
     e_managerBuild = \<lambda>_ _. None,
     e_runInstall = \<lambda>_ _ _ _ _. None,
     e_runGet = \<lambda>_ _ _ _. Inl (ApiErr StatusReasonNotFound []),
     e_runUninstall = \<lambda>_ _ _ _. None,
     e_kDeleteNamespace = \<lambda>_ _ _. None,
     e_kDeletePVCs = \<lambda>_ _ _ _. None,
     e_kListWorkloads = \<lambda>_ _ _ _ _. Inl (ApiErr StatusReasonNotFound []),
     e_kPatchReplicas = \<lambda>_ _ _ _ _ _. None,
     e_kListPVCs = \<lambda>_ _ _ _. Inr [],
     e_kGetConfigMap = \<lambda>_ _ _ _. Inl (ApiErr StatusReasonNotFound []),
     e_kGetSecret = \<lambda>_ _ _ _. Inl (ApiErr StatusReasonNotFound []),
     e_readValuesFile = \<lambda>_ _ _. Inl (ApiErr StatusReasonNotFound []),
     e_cronEntry = \<lambda>_ _ _. 0,
     e_cronAdd = \<lambda>_ _ _ _. Inl (ApiErr StatusReasonNotFound []),
     e_createTemp = \<lambda>_ _ _. Inl (ApiErr StatusReasonNotFound []),
     e_writeFile = \<lambda>_ _ _. None,
     e_closeFile = \<lambda>_ _. None,
     e_removeFile = \<lambda>_ _. None,
     e_removeAll = \<lambda>_ _. None,
     e_mkdirTemp = \<lambda>_ _ _. Inl (ApiErr StatusReasonNotFound []),
     e_openFile = \<lambda>_ _. None,
     e_createFile = \<lambda>_ _. None,
     e_httpGet = \<lambda>_ _. Inr (Inr []),
     e_gitClone = \<lambda>_ _ _ _. None,
     e_createSecret = \<lambda>_ _. Inl (ApiErr StatusReasonNotFound []),
     e_deleteSecret = \<lambda>_ _. None,
     e_createPod = \<lambda>_ _. Inl (ApiErr StatusReasonNotFound []),
     e_getPod = \<lambda>_ _. Inl (ApiErr StatusReasonNotFound []),
     e_deletePod = \<lambda>_ _. None,
     e_createService = \<lambda>_ _. Inl (ApiErr StatusReasonNotFound []),
     e_getService = \<lambda>_ _. None,
     e_deleteService = \<lambda>_ _. None,
     e_listEndpoints = \<lambda>_ _. Inl (ApiErr StatusReasonNotFound []),
     e_timeout = \<lambda>_. False,
     e_post = \<lambda>_ _ _. Inl (ApiErr StatusReasonNotFound []),
     e_mGetSecret = \<lambda>_ _ _ _. Inl (ApiErr StatusReasonNotFound []),
     e_mGetConfigMap = \<lambda>_ _ _ _. Inl (ApiErr StatusReasonNotFound []),
     e_mGetPod = \<lambda>_ _ _ _. Inl (ApiErr StatusReasonNotFound []),
     e_mSelect = \<lambda>_. TickerFired,
     e_mWrite = \<lambda>_ _ _. None,
     e_writeKubeconfig = \<lambda>_. Inl (ApiErr StatusReasonNotFound []),
     e_polls = 40,
     e_getenv = \<lambda>_. [],
     e_retries = 4\<rparr>"

definition exampleWorld :: world where
  "exampleWorld = \<lparr>trace = [], renders = 0,
     sleepCronManager = \<lparr>crm_locked = False, crm_idMapper = Map.empty\<rparr>,
     resumeCronManager = \<lparr>crm_locked = False, crm_idMapper = Map.empty\<rparr>\<rparr>"

end
