(* ===== verification/Connection.thy ===== *)
theory Connection
  imports Cluster
begin

text \<open>
  How the operator connects to the cluster of a workspace (\<open>src/internal/controller/helper.go\<close>:
  \<open>NewAPIConfig\<close>, \<open>NewRESTConfig\<close>), and the name a module's source gets in its status
  (\<open>getModuleSourceType\<close>). \<open>rest.InClusterConfig\<close>, the loading of kubeconfigs and the conversion of an
  API configuration to a REST configuration are calls of the environment.
\<close>

text \<open>The certificate authority, user and context of an in-cluster connection.\<close>

definition inClusterCluster :: "rest_config \<Rightarrow> api_cluster" where
  "inClusterCluster rc = \<lparr>cluster_Server = rc_Host rc,
     cluster_CAData = (if 0 < length (rc_CAData rc) then rc_CAData rc else []),
     cluster_CA = (if 0 < length (rc_CAData rc) then [] else if rc_CAFile rc \<noteq> [] then rc_CAFile rc else []),
     cluster_Insecure = rc_Insecure rc\<rparr>"

definition inClusterAuth :: "rest_config \<Rightarrow> string \<Rightarrow> api_auth" where
  "inClusterAuth rc token = \<lparr>auth_Token = token,
     auth_CertData = (if 0 < length (rc_CertData rc) then rc_CertData rc else []),
     auth_Cert = (if 0 < length (rc_CertData rc) then [] else if rc_CertFile rc \<noteq> [] then rc_CertFile rc else []),
     auth_KeyData = (if 0 < length (rc_KeyData rc) then rc_KeyData rc else []),
     auth_Key = (if 0 < length (rc_KeyData rc) then [] else if rc_KeyFile rc \<noteq> [] then rc_KeyFile rc else [])\<rparr>"

definition inClusterAPI :: "rest_config \<Rightarrow> string \<Rightarrow> api_config" where
  "inClusterAPI rc token = \<lparr>api_Clusters = [''default-cluster'' \<mapsto> inClusterCluster rc],
     api_AuthInfos = [''default-user'' \<mapsto> inClusterAuth rc token],
     api_Contexts = [''default-context'' \<mapsto> (''default-cluster'', ''default-user'')],
     api_CurrentContext = ''default-context''\<rparr>"

text \<open>The bearer token: the one of the configuration, or the contents of the token file, or none.\<close>

definition inClusterToken :: "env \<Rightarrow> rest_config \<Rightarrow> (go_error + string) io" where
  "inClusterToken E rc =
     (if rc_BearerToken rc \<noteq> [] then ret (Inr (rc_BearerToken rc))
      else if rc_BearerTokenFile rc \<noteq> []
      then andThen (readFile E (rc_BearerTokenFile rc)) (\<lambda>r. case r of
             Inl err \<Rightarrow> ret (Inl (Wrapped (''failed to read bearer token file '' @ rc_BearerTokenFile rc) err))
           | Inr token \<Rightarrow> ret (Inr token))
      else ret (Inr []))"

definition NewAPIConfig :: "env \<Rightarrow> WorkspaceConnection \<Rightarrow> (go_error + api_config) io" where
  "NewAPIConfig E conn = (case conn_Type conn of
       WorkspaceConnectionTypeInCluster \<Rightarrow>
         andThen (inClusterConfig E) (\<lambda>r. case r of
             Inl err \<Rightarrow> ret (Inl (Wrapped ''failed to get in-cluster REST config'' err))
           | Inr rc \<Rightarrow> andThen (inClusterToken E rc) (\<lambda>r'. case r' of
               Inl err \<Rightarrow> ret (Inl err)
             | Inr token \<Rightarrow> ret (Inr (inClusterAPI rc token))))
     | WorkspaceConnectionTypeLocal \<Rightarrow>
         andThen (loadHomeConfig E) (\<lambda>r. case r of
             Inl err \<Rightarrow> ret (Inl (Wrapped ''failed to load local kubeconfig'' err))
           | Inr c \<Rightarrow> ret (Inr c))
     | WorkspaceConnectionTypeKubeconfig \<Rightarrow> (case conn_SecretReference conn of
           None \<Rightarrow> panic ''nil pointer dereference''
         | Some ref \<Rightarrow>
             andThen (getSecret E \<lparr>nn_Namespace = sref_Namespace ref, nn_Name = sref_Name ref\<rparr>) (\<lambda>r. case r of
                 Inl err \<Rightarrow> ret (Inl (Wrapped (''failed to get secret '' @ sref_Namespace ref @ ''/'' @ sref_Name ref) err))
               | Inr secret \<Rightarrow> (case sec_Data secret (sref_Key ref) of
                     None \<Rightarrow> ret (Inl (ErrText (''secret '' @ sref_Namespace ref @ ''/'' @ sref_Name ref
                       @ '' does not contain key '' @ sref_Key ref)))
                   | Some kubeconfigData \<Rightarrow>
                       andThen (loadKubeconfig E kubeconfigData) (\<lambda>r'. case r' of
                           Inl err \<Rightarrow> ret (Inl (Wrapped ''failed to load kubeconfig from secret data'' err))
                         | Inr c \<Rightarrow> ret (Inr c)))))
     | WorkspaceConnectionTypeOther t \<Rightarrow> ret (Inl (ErrText (''unknown workspace connection type: '' @ t))))"

definition NewRESTConfig :: "env \<Rightarrow> WorkspaceConnection \<Rightarrow> (go_error + rest_config) io" where
  "NewRESTConfig E conn = andThen (NewAPIConfig E conn) (\<lambda>r. case r of
       Inl err \<Rightarrow> ret (Inl err)
     | Inr apiConfig \<Rightarrow> clientConfig E apiConfig)"

definition getModuleSourceType :: "Module \<Rightarrow> string" where
  "getModuleSourceType m = (case ms_Helm (mod_Spec m) of
       Some helm \<Rightarrow> (case helm_ExistingRelease helm of
           Some _ \<Rightarrow> ''Helm/Adopted''
         | None \<Rightarrow> ''Helm/Managed'')
     | None \<Rightarrow> (case ms_Custom (mod_Spec m) of Some _ \<Rightarrow> ''Custom'' | None \<Rightarrow> ''Unknown''))"

section \<open>Connecting only reads\<close>

text \<open>The reads that connecting may do.\<close>

fun connectEvent :: "event \<Rightarrow> bool" where
  "connectEvent (CoreEv (InClusterConfig _)) = True"
| "connectEvent (CoreEv (LoadHomeConfig _)) = True"
| "connectEvent (CoreEv (LoadKubeconfig _ _)) = True"
| "connectEvent (CoreEv (ClientConfig _ _)) = True"
| "connectEvent (CoreEv (ReadFile _ _)) = True"
| "connectEvent (CoreEv (GetSecret _ _)) = True"
| "connectEvent (HelmEv _ (HelmInit _ _)) = True"
| "connectEvent (HelmEv _ (NewForConfig _)) = True"
| "connectEvent _ = False"

lemma keeps_case_connType:
  "\<lbrakk>x = WorkspaceConnectionTypeLocal \<Longrightarrow> keeps R a; x = WorkspaceConnectionTypeInCluster \<Longrightarrow> keeps R b;
    x = WorkspaceConnectionTypeKubeconfig \<Longrightarrow> keeps R c; \<And>t. x = WorkspaceConnectionTypeOther t \<Longrightarrow> keeps R (d t)\<rbrakk> \<Longrightarrow>
   keeps R (case x of WorkspaceConnectionTypeLocal \<Rightarrow> a | WorkspaceConnectionTypeInCluster \<Rightarrow> b
     | WorkspaceConnectionTypeKubeconfig \<Rightarrow> c | WorkspaceConnectionTypeOther t \<Rightarrow> d t)"
  by (cases x) simp_all

lemma NewAPIConfig_reads: "keeps (emits connectEvent) (NewAPIConfig E conn)"
  unfolding NewAPIConfig_def inClusterToken_def calls
  by (intro keeps_case_connType keeps_io) simp_all

lemma NewRESTConfig_reads: "keeps (emits connectEvent) (NewRESTConfig E conn)"
  unfolding NewRESTConfig_def clientConfig_def
  by (intro keeps_io NewAPIConfig_reads) simp_all

text \<open>A connection by kubeconfig names its secret; the workspace webhook admits no other. Such a
  connection never panics.\<close>

definition connectable :: "WorkspaceConnection \<Rightarrow> bool" where
  "connectable conn \<longleftrightarrow> (conn_Type conn = WorkspaceConnectionTypeKubeconfig \<longrightarrow> conn_SecretReference conn \<noteq> None)"

lemma NewAPIConfig_returns:
  assumes "connectable conn"
  shows "returns (NewAPIConfig E conn)"
  unfolding returns_def
  using assms
  by (auto simp: connectable_def NewAPIConfig_def inClusterToken_def calls andThen_run
      split: WorkspaceConnectionType.split sum.split option.split)

end
