(* ===== verification/HelmService.thy ===== *)
theory HelmService
  imports Connection
begin

text \<open>
  The Helm service (\<open>src/pkg/services/helm.go\<close>): installing, reading and uninstalling releases, scaling
  the workloads of a release down and back, merging values, building chart dependencies. A service is
  bound to the cluster of its REST configuration. The code has three copies of the scaling functions,
  for Deployments, ReplicaSets and StatefulSets; the model has one with the kind as argument, and the
  instances. The Helm SDK and the Kubernetes client are calls of the environment.
\<close>

record HelmService =
  hs_config :: rest_config

section \<open>Calls to a cluster\<close>

definition helmInit :: "env \<Rightarrow> rest_config \<Rightarrow> string \<Rightarrow> (go_error option) io" where
  "helmInit E c ns = call (\<lambda>h. e_helmInit E h c ns) (\<lambda>r. HelmEv c (HelmInit ns r))"

definition newForConfig :: "env \<Rightarrow> rest_config \<Rightarrow> (go_error option) io" where
  "newForConfig E c = call (\<lambda>h. e_newForConfig E h c) (\<lambda>r. HelmEv c (NewForConfig r))"

definition locateChart :: "env \<Rightarrow> rest_config \<Rightarrow> install_request \<Rightarrow> string \<Rightarrow> (go_error + string) io" where
  "locateChart E c q n = call (\<lambda>h. e_locateChart E h c q n) (\<lambda>r. HelmEv c (LocateChart q n r))"

definition loadChart :: "env \<Rightarrow> rest_config \<Rightarrow> string \<Rightarrow> (go_error + string) io" where
  "loadChart E c p = call (\<lambda>h. e_loadChart E h c p) (\<lambda>r. HelmEv c (LoadChart p r))"

definition runInstall ::
  "env \<Rightarrow> rest_config \<Rightarrow> install_request \<Rightarrow> string \<Rightarrow> go_map \<Rightarrow> (go_error option) io" where
  "runInstall E c q chart vals = call (\<lambda>h. e_runInstall E h c q chart vals) (\<lambda>r. HelmEv c (RunInstall q chart vals r))"

definition runGet :: "env \<Rightarrow> rest_config \<Rightarrow> string \<Rightarrow> string \<Rightarrow> (go_error + Release) io" where
  "runGet E c ns rel = call (\<lambda>h. e_runGet E h c ns rel) (\<lambda>r. HelmEv c (RunGet ns rel r))"

definition runUninstall :: "env \<Rightarrow> rest_config \<Rightarrow> string \<Rightarrow> string \<Rightarrow> (go_error option) io" where
  "runUninstall E c ns rel = call (\<lambda>h. e_runUninstall E h c ns rel) (\<lambda>r. HelmEv c (RunUninstall ns rel r))"

definition kDeleteNamespace :: "env \<Rightarrow> rest_config \<Rightarrow> string \<Rightarrow> (go_error option) io" where
  "kDeleteNamespace E c ns = call (\<lambda>h. e_kDeleteNamespace E h c ns) (\<lambda>r. HelmEv c (KDeleteNamespace ns r))"

definition kDeletePVCs :: "env \<Rightarrow> rest_config \<Rightarrow> string \<Rightarrow> string \<Rightarrow> (go_error option) io" where
  "kDeletePVCs E c ns sel = call (\<lambda>h. e_kDeletePVCs E h c ns sel) (\<lambda>r. HelmEv c (KDeletePVCs ns sel r))"

definition kListWorkloads ::
  "env \<Rightarrow> rest_config \<Rightarrow> workload_kind \<Rightarrow> string \<Rightarrow> string \<Rightarrow> (go_error + Workload list) io" where
  "kListWorkloads E c k ns sel =
     call (\<lambda>h. e_kListWorkloads E h c k ns sel) (\<lambda>r. HelmEv c (KListWorkloads k ns sel r))"

definition kPatchReplicas ::
  "env \<Rightarrow> rest_config \<Rightarrow> workload_kind \<Rightarrow> string \<Rightarrow> string \<Rightarrow> int \<Rightarrow> (go_error option) io" where
  "kPatchReplicas E c k ns name n =
     call (\<lambda>h. e_kPatchReplicas E h c k ns name n) (\<lambda>r. HelmEv c (KPatchReplicas k ns name n r))"

definition kListPVCs :: "env \<Rightarrow> rest_config \<Rightarrow> string \<Rightarrow> string \<Rightarrow> (go_error + string list) io" where
  "kListPVCs E c ns sel = call (\<lambda>h. e_kListPVCs E h c ns sel) (\<lambda>r. HelmEv c (KListPVCs ns sel r))"

definition kGetConfigMap :: "env \<Rightarrow> rest_config \<Rightarrow> string \<Rightarrow> string \<Rightarrow> (go_error + ConfigMap) io" where
  "kGetConfigMap E c ns name = call (\<lambda>h. e_kGetConfigMap E h c ns name) (\<lambda>r. HelmEv c (KGetConfigMap ns name r))"

definition kGetSecret :: "env \<Rightarrow> rest_config \<Rightarrow> string \<Rightarrow> string \<Rightarrow> (go_error + Secret) io" where
  "kGetSecret E c ns name = call (\<lambda>h. e_kGetSecret E h c ns name) (\<lambda>r. HelmEv c (KGetSecret ns name r))"

definition readValuesFile :: "env \<Rightarrow> rest_config \<Rightarrow> string \<Rightarrow> (go_error + go_map) io" where
  "readValuesFile E c p = call (\<lambda>h. e_readValuesFile E h c p) (\<lambda>r. HelmEv c (ReadValuesFile p r))"

definition stat :: "env \<Rightarrow> string \<Rightarrow> stat_result io" where
  "stat E p = call (\<lambda>h. e_stat E h p) (\<lambda>r. FileEv (Stat p r))"

definition loadDir :: "env \<Rightarrow> string \<Rightarrow> (go_error + nat) io" where
  "loadDir E p = call (\<lambda>h. e_loadDir E h p) (\<lambda>r. FileEv (LoadDir p r))"

definition mkdirAll :: "env \<Rightarrow> string \<Rightarrow> (go_error option) io" where
  "mkdirAll E p = call (\<lambda>h. e_mkdirAll E h p) (\<lambda>r. FileEv (MkdirAll p r))"

definition managerBuild :: "env \<Rightarrow> string \<Rightarrow> (go_error option) io" where
  "managerBuild E p = call (\<lambda>h. e_managerBuild E h p) (\<lambda>r. FileEv (ManagerBuild p r))"

lemmas call_defs = helmInit_def newForConfig_def locateChart_def loadChart_def runInstall_def runGet_def
  runUninstall_def kDeleteNamespace_def kDeletePVCs_def kListWorkloads_def kPatchReplicas_def
  kListPVCs_def  kGetConfigMap_def kGetSecret_def readValuesFile_def stat_def loadDir_def mkdirAll_def managerBuild_def

text \<open>\<open>if err != nil { return ... }\<close> after a call that only yields an error.\<close>

definition guardErr :: "(go_error option) io \<Rightarrow> (go_error \<Rightarrow> 'a) \<Rightarrow> 'a io \<Rightarrow> 'a io" where
  "guardErr m onErr rest = andThen m (\<lambda>e. case e of Some err \<Rightarrow> ret (onErr err) | None \<Rightarrow> rest)"

section \<open>What the Helm SDK is given\<close>

text \<open>
  \<open>action.Configuration.Init\<close> takes an object from which the SDK reads the REST configuration and the
  namespace, directly or through a client configuration. \<open>discovery.NewDiscoveryClientForConfig\<close> is a
  parameter: its client is identified by the configuration it was made from.
\<close>

record helmConfigFlags =
  hcf_config :: rest_config
  hcf_namespace :: string

record helmClientConfig =
  hcc_namespace :: string
  hcc_config :: rest_config

definition ToRESTConfig :: "helmConfigFlags \<Rightarrow> go_error + rest_config" where
  "ToRESTConfig c = Inr (hcf_config c)"

definition ToDiscoveryClient :: "(rest_config \<Rightarrow> go_error + 'd) \<Rightarrow> helmConfigFlags \<Rightarrow> go_error + 'd" where
  "ToDiscoveryClient newDiscoveryClient c = (case newDiscoveryClient (hcf_config c) of
       Inl err \<Rightarrow> Inl err
     | Inr discoveryClient \<Rightarrow> Inr discoveryClient)"

definition ToRESTMapper ::
  "(rest_config \<Rightarrow> go_error + 'd) \<Rightarrow> ('d \<Rightarrow> 'm) \<Rightarrow> helmConfigFlags \<Rightarrow> go_error + 'm" where
  "ToRESTMapper newDiscoveryClient newMapper c = (case ToDiscoveryClient newDiscoveryClient c of
       Inl err \<Rightarrow> Inl err
     | Inr discoveryClient \<Rightarrow> Inr (newMapper discoveryClient))"

definition ToRawKubeConfigLoader :: "helmConfigFlags \<Rightarrow> helmClientConfig" where
  "ToRawKubeConfigLoader c = \<lparr>hcc_namespace = hcf_namespace c, hcc_config = hcf_config c\<rparr>"

definition helmConfigFlags_ClientConfig :: "helmConfigFlags \<Rightarrow> helmClientConfig" where
  "helmConfigFlags_ClientConfig c = \<lparr>hcc_namespace = hcf_namespace c, hcc_config = hcf_config c\<rparr>"

definition helmConfigFlags_Namespace :: "helmConfigFlags \<Rightarrow> string \<times> bool" where
  "helmConfigFlags_Namespace c = (hcf_namespace c, False)"

definition helmClientConfig_Namespace :: "helmClientConfig \<Rightarrow> string \<times> bool" where
  "helmClientConfig_Namespace c = (hcc_namespace c, False)"

definition helmClientConfig_ConfigAccess :: "helmClientConfig \<Rightarrow> 'a option" where
  "helmClientConfig_ConfigAccess c = None"

definition helmClientConfig_RawConfig :: "helmClientConfig \<Rightarrow> go_error + api_config" where
  "helmClientConfig_RawConfig c = Inr \<lparr>api_Clusters = Map.empty, api_AuthInfos = Map.empty,
     api_Contexts = Map.empty, api_CurrentContext = []\<rparr>"

definition helmClientConfig_ClientConfig :: "helmClientConfig \<Rightarrow> go_error + rest_config" where
  "helmClientConfig_ClientConfig c = Inr (hcc_config c)"

text \<open>\<open>actionConfig.Init\<close>: Helm works on the cluster and in the namespace that the flags name.\<close>

definition actionInit :: "env \<Rightarrow> helmConfigFlags \<Rightarrow> string \<Rightarrow> (go_error option) io" where
  "actionInit E flags namespace = (case ToRESTConfig flags of
       Inl err \<Rightarrow> ret (Some err)
     | Inr c \<Rightarrow> helmInit E c namespace)"

lemma actionInit_flags [simp]: "actionInit E \<lparr>hcf_config = c, hcf_namespace = ns\<rparr> ns = helmInit E c ns"
  by (simp add: actionInit_def ToRESTConfig_def)

lemmas helm_calls = actionInit_flags call_defs

text \<open>Every way in which the SDK can ask gives the same cluster and the same namespace.\<close>

lemma flags_agree:
  "helmClientConfig_ClientConfig (ToRawKubeConfigLoader c) = ToRESTConfig c"
  "helmClientConfig_ClientConfig (helmConfigFlags_ClientConfig c) = ToRESTConfig c"
  "helmClientConfig_Namespace (ToRawKubeConfigLoader c) = helmConfigFlags_Namespace c"
  "helmClientConfig_Namespace (helmConfigFlags_ClientConfig c) = helmConfigFlags_Namespace c"
  by (simp_all add: helmClientConfig_ClientConfig_def ToRawKubeConfigLoader_def helmConfigFlags_ClientConfig_def
      ToRESTConfig_def helmClientConfig_Namespace_def helmConfigFlags_Namespace_def)

section \<open>Creating a service\<close>

definition services_NewHelmService :: "env \<Rightarrow> rest_config \<Rightarrow> (go_error + HelmService) io" where
  "services_NewHelmService E c =
     guardErr (actionInit E \<lparr>hcf_config = c, hcf_namespace = ''default''\<rparr> ''default'') Inl (
     guardErr (newForConfig E c) (\<lambda>err. Inl (ErrText (''failed to create clientset: '' @ errString err))) (
     ret (Inr \<lparr>hs_config = c\<rparr>)))"

definition NewHelmService :: "env \<Rightarrow> WorkspaceConnection \<Rightarrow> (go_error + HelmService) io" where
  "NewHelmService E conn = andThen (NewRESTConfig E conn) (\<lambda>r. case r of
       Inl err \<Rightarrow> ret (Inl (Wrapped ''failed to create Kubernetes REST client'' err))
     | Inr c \<Rightarrow> andThen (services_NewHelmService E c) (\<lambda>r'. case r' of
         Inl err \<Rightarrow> ret (Inl (Wrapped ''failed to create Helm service'' err))
       | Inr svc \<Rightarrow> ret (Inr svc)))"

section \<open>Values\<close>

text \<open>The values one entry contributes: its file, its config map's key, its raw document, in this
  order, each where it is given and not empty.\<close>

definition valuesOfFile :: "env \<Rightarrow> HelmService \<Rightarrow> string option \<Rightarrow> (go_error + go_map list) io" where
  "valuesOfFile E svc f = (case f of
       None \<Rightarrow> ret (Inr [])
     | Some p \<Rightarrow> if p = [] then ret (Inr [])
         else andThen (readValuesFile E (hs_config svc) p) (\<lambda>r. case r of
             Inl err \<Rightarrow> ret (Inl (Wrapped (''failed to read values file '' @ quoted p) err))
           | Inr v \<Rightarrow> ret (Inr [v])))"

definition valuesOfConfigMap ::
  "golib \<Rightarrow> env \<Rightarrow> HelmService \<Rightarrow> ModuleSpecHelmValuesConfigMap option \<Rightarrow> (go_error + go_map list) io" where
  "valuesOfConfigMap lib E svc ref = (case ref of
       None \<Rightarrow> ret (Inr [])
     | Some cm \<Rightarrow> if vcm_Name cm = [] then ret (Inr [])
         else andThen (kGetConfigMap E (hs_config svc) (vcm_Namespace cm) (vcm_Name cm)) (\<lambda>r. case r of
             Inl err \<Rightarrow> ret (Inl (Wrapped (''failed to get ConfigMap '' @ quoted (vcm_Name cm) @ '' in namespace '' @ quoted (vcm_Namespace cm)) err))
           | Inr configMap \<Rightarrow> (case cm_Data configMap (vcm_Key cm) of
                 None \<Rightarrow> ret (Inr [])
               | Some doc \<Rightarrow> if doc = [] then ret (Inr [])
                   else (case lib_readValues lib doc of
                       Inl err \<Rightarrow> ret (Inl (Wrapped (''failed to read values from ConfigMap '' @ quoted (vcm_Name cm)
                         @ '' in namespace '' @ quoted (vcm_Namespace cm)) err))
                     | Inr v \<Rightarrow> ret (Inr [v])))))"

definition valuesOfRaw :: "golib \<Rightarrow> RawExtension option \<Rightarrow> (go_error + go_map list) io" where
  "valuesOfRaw lib r = (case r of
       None \<Rightarrow> ret (Inr [])
     | Some ext \<Rightarrow> (case raw_Raw ext of
           None \<Rightarrow> ret (Inr [])
         | Some doc \<Rightarrow> if doc = [] then ret (Inr [])
             else (case lib_yamlUnmarshal lib doc of
                 Inl err \<Rightarrow> ret (Inl (Wrapped ''failed to unmarshal raw helm values'' err))
               | Inr v \<Rightarrow> ret (Inr [v]))))"

fun collectValues ::
  "golib \<Rightarrow> env \<Rightarrow> HelmService \<Rightarrow> ModuleSpecHelmValues list \<Rightarrow> go_map list \<Rightarrow> (go_error + go_map list) io" where
  "collectValues lib E svc [] valuesSlice = ret (Inr valuesSlice)"
| "collectValues lib E svc (v # vs) valuesSlice =
     andThen (valuesOfFile E svc (val_File v)) (\<lambda>r1. case r1 of
         Inl err \<Rightarrow> ret (Inl err)
       | Inr fs \<Rightarrow> andThen (valuesOfConfigMap lib E svc (val_ConfigMap v)) (\<lambda>r2. case r2 of
           Inl err \<Rightarrow> ret (Inl err)
         | Inr cs \<Rightarrow> andThen (valuesOfRaw lib (val_Raw v)) (\<lambda>r3. case r3 of
             Inl err \<Rightarrow> ret (Inl err)
           | Inr rs \<Rightarrow> collectValues lib E svc vs (valuesSlice @ fs @ cs @ rs))))"

text \<open>The merge starts from the first document; each later one wins over what is merged so far.\<close>

definition mergeSlice :: "golib \<Rightarrow> go_map list \<Rightarrow> go_map" where
  "mergeSlice lib valuesSlice = (case valuesSlice of
       [] \<Rightarrow> []
     | v # vs \<Rightarrow> fold (\<lambda>v mergedValues. lib_coalesceTables lib v mergedValues) vs v)"

definition MergeHelmValues ::
  "golib \<Rightarrow> env \<Rightarrow> HelmService \<Rightarrow> ModuleSpecHelmValues list \<Rightarrow> (go_error + go_map) io" where
  "MergeHelmValues lib E svc helmValues = andThen (collectValues lib E svc helmValues []) (\<lambda>r. case r of
       Inl err \<Rightarrow> ret (Inl err)
     | Inr valuesSlice \<Rightarrow> ret (Inr (mergeSlice lib valuesSlice)))"

section \<open>Chart dependencies\<close>

definition buildDependencies :: "env \<Rightarrow> string \<Rightarrow> (go_error option) io" where
  "buildDependencies E chartPath = andThen (stat E chartPath) (\<lambda>info. case info of
       StatNotExist err \<Rightarrow> ret (Some (Wrapped ''failed to stat chart path'' err))
     | StatError err \<Rightarrow> ret (Some (Wrapped ''failed to stat chart path'' err))
     | StatFile \<Rightarrow> ret None
     | StatDir \<Rightarrow> andThen (stat E (pathJoin chartPath ''Chart.yaml'')) (\<lambda>yaml.
         if (case yaml of StatNotExist _ \<Rightarrow> True | _ \<Rightarrow> False) then ret None
         else andThen (loadDir E chartPath) (\<lambda>meta. case meta of
             Inl err \<Rightarrow> ret (Some (Wrapped ''failed to load chart metadata'' err))
           | Inr dependencies \<Rightarrow>
               if dependencies = 0 then ret None
               else andThen (stat E (pathJoin chartPath ''charts'')) (\<lambda>charts.
                 guardErr
                   (if (case charts of StatNotExist _ \<Rightarrow> True | _ \<Rightarrow> False)
                    then mkdirAll E (pathJoin chartPath ''charts'') else ret None)
                   (\<lambda>err. Some (Wrapped ''failed to create charts directory'' err)) (
                 guardErr (managerBuild E chartPath)
                   (\<lambda>err. Some (Wrapped ''failed to build dependencies'' err)) (
                 ret None))))))"

section \<open>Installing and uninstalling\<close>

definition initError :: "string \<Rightarrow> go_error \<Rightarrow> go_error" where
  "initError namespace err = Wrapped (''failed to initialize action config for namespace '' @ quoted namespace) err"

definition InstallFromRepository ::
  "golib \<Rightarrow> env \<Rightarrow> HelmService \<Rightarrow> string \<Rightarrow> string \<Rightarrow> string \<Rightarrow> string \<Rightarrow> string option \<Rightarrow> bool \<Rightarrow>
     ModuleSpecHelmValues list \<Rightarrow> string \<Rightarrow> string \<Rightarrow> (go_error option) io" where
  "InstallFromRepository lib E svc chartName releaseName namespace repoURL version wait helmValues
     username password =
     guardErr (actionInit E \<lparr>hcf_config = hs_config svc, hcf_namespace = namespace\<rparr> namespace) (\<lambda>err. Some (initError namespace err)) (
     let q = \<lparr>inst_Namespace = namespace, inst_ReleaseName = releaseName, inst_RepoURL = repoURL,
       inst_Version = (case version of Some v \<Rightarrow> v | None \<Rightarrow> []), inst_Wait = wait,
       inst_Username = username, inst_Password = password\<rparr> in
     andThen (MergeHelmValues lib E svc helmValues) (\<lambda>r. case r of
         Inl err \<Rightarrow> ret (Some err)
       | Inr mergedValues \<Rightarrow> andThen (locateChart E (hs_config svc) q chartName) (\<lambda>r1. case r1 of
           Inl err \<Rightarrow> ret (Some (Wrapped (''failed to locate chart '' @ chartName) err))
         | Inr chartPath \<Rightarrow> andThen (loadChart E (hs_config svc) chartPath) (\<lambda>r2. case r2 of
             Inl err \<Rightarrow> ret (Some (Wrapped ''failed to load chart from repository'' err))
           | Inr chart \<Rightarrow> andThen (runInstall E (hs_config svc) q chart mergedValues) (\<lambda>r3. case r3 of
               None \<Rightarrow> ret None
             | Some err \<Rightarrow> andThen (spawn (GoUninstall (hs_config svc) releaseName namespace)) (\<lambda>_.
                 ret (Some (Wrapped ''failed to install chart from repository'' err))))))))"

definition InstallFromLocal ::
  "golib \<Rightarrow> env \<Rightarrow> HelmService \<Rightarrow> string \<Rightarrow> string \<Rightarrow> string \<Rightarrow> bool \<Rightarrow> ModuleSpecHelmValues list \<Rightarrow>
     (go_error option) io" where
  "InstallFromLocal lib E svc chartPath releaseName namespace wait helmValues =
     guardErr (actionInit E \<lparr>hcf_config = hs_config svc, hcf_namespace = namespace\<rparr> namespace) (\<lambda>err. Some (initError namespace err)) (
     let q = \<lparr>inst_Namespace = namespace, inst_ReleaseName = releaseName, inst_RepoURL = [],
       inst_Version = [], inst_Wait = wait, inst_Username = [], inst_Password = []\<rparr> in
     andThen (MergeHelmValues lib E svc helmValues) (\<lambda>r. case r of
         Inl err \<Rightarrow> ret (Some err)
       | Inr mergedValues \<Rightarrow>
           guardErr (buildDependencies E chartPath) (\<lambda>err. Some (Wrapped ''failed to build chart dependencies'' err)) (
           andThen (loadChart E (hs_config svc) chartPath) (\<lambda>r2. case r2 of
             Inl err \<Rightarrow> ret (Some (Wrapped ''failed to load chart from archive'' err))
           | Inr chart \<Rightarrow> andThen (runInstall E (hs_config svc) q chart mergedValues) (\<lambda>r3. case r3 of
               None \<Rightarrow> ret None
             | Some err \<Rightarrow> andThen (spawn (GoUninstall (hs_config svc) releaseName namespace)) (\<lambda>_.
                 ret (Some (Wrapped ''failed to install chart from archive'' err))))))))"

definition GetRelease :: "env \<Rightarrow> HelmService \<Rightarrow> string \<Rightarrow> string \<Rightarrow> (go_error + Release) io" where
  "GetRelease E svc releaseName namespace =
     guardErr (actionInit E \<lparr>hcf_config = hs_config svc, hcf_namespace = namespace\<rparr> namespace) (\<lambda>err. Inl (initError namespace err)) (
     andThen (runGet E (hs_config svc) namespace releaseName) (\<lambda>r. case r of
         Inl err \<Rightarrow> ret (Inl (Wrapped (''failed to get release '' @ quoted releaseName @ '' in namespace '' @ quoted namespace) err))
       | Inr rel \<Rightarrow> ret (Inr rel)))"

definition instanceSelector :: "string \<Rightarrow> string" where
  "instanceSelector releaseName = ''app.kubernetes.io/instance='' @ releaseName"

definition UninstallRelease ::
  "env \<Rightarrow> HelmService \<Rightarrow> string \<Rightarrow> string \<Rightarrow> bool \<Rightarrow> bool \<Rightarrow> (go_error option) io" where
  "UninstallRelease E svc releaseName namespace removeNamespace removePVCs =
     guardErr (actionInit E \<lparr>hcf_config = hs_config svc, hcf_namespace = namespace\<rparr> namespace) (\<lambda>err. Some (initError namespace err)) (
     guardErr (runUninstall E (hs_config svc) namespace releaseName)
       (\<lambda>err. Some (Wrapped ''failed to uninstall release'' err)) (
     if removeNamespace \<and> namespace \<noteq> ''default'' \<and> namespace \<noteq> []
     then guardErr (kDeleteNamespace E (hs_config svc) namespace)
       (\<lambda>err. Some (Wrapped (''failed to delete namespace '' @ quoted namespace) err)) (ret None)
     else if removePVCs
     then guardErr (kDeletePVCs E (hs_config svc) namespace (instanceSelector releaseName))
       (\<lambda>err. Some (Wrapped (''failed to delete PersistentVolumeClaims for release '' @ quoted releaseName
          @ '' in namespace '' @ quoted namespace) err)) (ret None)
     else ret None))"

text \<open>The goroutine that a failed installation starts.\<close>

definition uninstallAfterFailedInstall :: "env \<Rightarrow> rest_config \<Rightarrow> string \<Rightarrow> string \<Rightarrow> (go_error option) io" where
  "uninstallAfterFailedInstall E c releaseName namespace =
     UninstallRelease E \<lparr>hs_config = c\<rparr> releaseName namespace True True"

definition GetSecretValue :: "env \<Rightarrow> HelmService \<Rightarrow> string \<Rightarrow> string \<Rightarrow> string \<Rightarrow> (go_error + string) io" where
  "GetSecretValue E svc namespace name key =
     andThen (kGetSecret E (hs_config svc) namespace name) (\<lambda>r. case r of
         Inl err \<Rightarrow> ret (Inl (Wrapped (''failed to get secret '' @ quoted name @ '' in namespace '' @ quoted namespace) err))
       | Inr secret \<Rightarrow> (case sec_Data secret key of
             None \<Rightarrow> ret (Inl (ErrText (''key '' @ quoted key @ '' not found in secret '' @ quoted name
               @ '' in namespace '' @ quoted namespace)))
           | Some v \<Rightarrow> ret (Inr v)))"

text \<open>The volume claims of a release, as names.\<close>

definition ListPVCs :: "env \<Rightarrow> HelmService \<Rightarrow> string \<Rightarrow> string \<Rightarrow> (go_error + string list) io" where
  "ListPVCs E svc releaseName namespace = kListPVCs E (hs_config svc) namespace (instanceSelector releaseName)"

section \<open>Scaling\<close>

text \<open>The words for the kinds in the error messages, as the copies spell them.\<close>

fun kindPlural :: "workload_kind \<Rightarrow> string" where
  "kindPlural Deployments = ''deployments''"
| "kindPlural ReplicaSets = ''replica sets''"
| "kindPlural StatefulSets = ''stateful sets''"

fun kindSingular :: "workload_kind \<Rightarrow> string" where
  "kindSingular Deployments = ''deployment''"
| "kindSingular ReplicaSets = ''replica set''"
| "kindSingular StatefulSets = ''stateful set''"

fun kindBack :: "workload_kind \<Rightarrow> string" where
  "kindBack Deployments = ''deployment''"
| "kindBack ReplicaSets = ''replicaSet''"
| "kindBack StatefulSets = ''satefulSet''"

definition currentReplicas :: "Workload \<Rightarrow> int" where
  "currentReplicas w = (case wl_Replicas w of None \<Rightarrow> 0 | Some n \<Rightarrow> n)"

definition replicaCount :: "Workload \<Rightarrow> ResourceReplicaCount" where
  "replicaCount w = \<lparr>rrc_Namespace = wl_Namespace w, rrc_Name = wl_Name w, rrc_Replicas = currentReplicas w\<rparr>"

fun scaleLoop :: "env \<Rightarrow> HelmService \<Rightarrow> workload_kind \<Rightarrow> string \<Rightarrow> int \<Rightarrow> ResourceReplicaCount list \<Rightarrow>
    Workload list \<Rightarrow> (ResourceReplicaCount list \<times> go_error option) io" where
  "scaleLoop E svc kind namespace replicas oldReplicas [] = ret (oldReplicas, None)"
| "scaleLoop E svc kind namespace replicas oldReplicas (w # ws) =
     (let oldReplicas' = oldReplicas @ [replicaCount w] in
      if currentReplicas w = replicas then scaleLoop E svc kind namespace replicas oldReplicas' ws
      else andThen (kPatchReplicas E (hs_config svc) kind namespace (wl_Name w) replicas) (\<lambda>e. case e of
          Some err \<Rightarrow> ret (oldReplicas',
            Some (Wrapped (''failed to patch '' @ kindSingular kind @ '' '' @ quoted (wl_Name w)
              @ '' in namespace '' @ quoted (wl_Namespace w)) err))
        | None \<Rightarrow> scaleLoop E svc kind namespace replicas oldReplicas' ws))"

definition scaleWorkloads :: "env \<Rightarrow> HelmService \<Rightarrow> workload_kind \<Rightarrow> string \<Rightarrow> string \<Rightarrow> int \<Rightarrow>
    (ResourceReplicaCount list \<times> go_error option) io" where
  "scaleWorkloads E svc kind releaseName namespace replicas =
     andThen (kListWorkloads E (hs_config svc) kind namespace (instanceSelector releaseName)) (\<lambda>r. case r of
         Inl err \<Rightarrow> ret ([], Some (Wrapped (''failed to list '' @ kindPlural kind @ '' for release ''
           @ quoted releaseName @ '' in namespace '' @ quoted namespace) err))
       | Inr items \<Rightarrow> scaleLoop E svc kind namespace replicas [] items)"

definition ScaleDeployments :: "env \<Rightarrow> HelmService \<Rightarrow> string \<Rightarrow> string \<Rightarrow> int \<Rightarrow>
    (ResourceReplicaCount list \<times> go_error option) io" where
  "ScaleDeployments E svc releaseName namespace replicas = scaleWorkloads E svc Deployments releaseName namespace replicas"

definition ScaleReplicaSets :: "env \<Rightarrow> HelmService \<Rightarrow> string \<Rightarrow> string \<Rightarrow> int \<Rightarrow>
    (ResourceReplicaCount list \<times> go_error option) io" where
  "ScaleReplicaSets E svc releaseName namespace replicas = scaleWorkloads E svc ReplicaSets releaseName namespace replicas"

definition ScaleStatefulSets :: "env \<Rightarrow> HelmService \<Rightarrow> string \<Rightarrow> string \<Rightarrow> int \<Rightarrow>
    (ResourceReplicaCount list \<times> go_error option) io" where
  "ScaleStatefulSets E svc releaseName namespace replicas = scaleWorkloads E svc StatefulSets releaseName namespace replicas"

fun scaleBack :: "env \<Rightarrow> HelmService \<Rightarrow> workload_kind \<Rightarrow> ResourceReplicaCount list \<Rightarrow> (go_error option) io" where
  "scaleBack E svc kind [] = ret None"
| "scaleBack E svc kind (r # rs) =
     andThen (kPatchReplicas E (hs_config svc) kind (rrc_Namespace r) (rrc_Name r) (rrc_Replicas r)) (\<lambda>e. case e of
         Some err \<Rightarrow> ret (Some (Wrapped (''failed to patch '' @ kindBack kind @ '' '' @ quoted (rrc_Name r)
           @ '' in namespace '' @ quoted (rrc_Namespace r)) err))
       | None \<Rightarrow> scaleBack E svc kind rs)"

definition ScaleDeploymentsBack :: "env \<Rightarrow> HelmService \<Rightarrow> ResourceReplicaCount list \<Rightarrow> (go_error option) io" where
  "ScaleDeploymentsBack E svc rs = scaleBack E svc Deployments rs"

definition ScaleReplicaSetsBack :: "env \<Rightarrow> HelmService \<Rightarrow> ResourceReplicaCount list \<Rightarrow> (go_error option) io" where
  "ScaleReplicaSetsBack E svc rs = scaleBack E svc ReplicaSets rs"

definition ScaleStatefulSetsBack :: "env \<Rightarrow> HelmService \<Rightarrow> ResourceReplicaCount list \<Rightarrow> (go_error option) io" where
  "ScaleStatefulSetsBack E svc rs = scaleBack E svc StatefulSets rs"

section \<open>What the operations may do\<close>

lemma returns_guardErr: "returns m \<Longrightarrow> returns rest \<Longrightarrow> returns (guardErr m onErr rest)"
  unfolding guardErr_def by (intro returns_io) simp_all

lemma NewHelmService_returns: "connectable conn \<Longrightarrow> returns (NewHelmService E conn)"
  unfolding NewHelmService_def services_NewHelmService_def NewRESTConfig_def clientConfig_def helm_calls
  by (intro returns_io returns_guardErr NewAPIConfig_returns) simp_all

lemma UninstallRelease_returns: "returns (UninstallRelease E svc rel ns removeNamespace removePVCs)"
  unfolding UninstallRelease_def helm_calls by (intro returns_io returns_guardErr)

lemma keeps_guardErr:
  "keeps (emits Q) m \<Longrightarrow> keeps (emits Q) rest \<Longrightarrow> keeps (emits Q) (guardErr m onErr rest)"
  unfolding guardErr_def by (intro keeps_io) simp_all

lemma keeps_case_stat:
  "\<lbrakk>keeps R a; keeps R b; \<And>e. keeps R (c e); \<And>e. keeps R (d e)\<rbrakk> \<Longrightarrow>
   keeps R (case x of StatDir \<Rightarrow> a | StatFile \<Rightarrow> b | StatNotExist e \<Rightarrow> c e | StatError e \<Rightarrow> d e)"
  by (cases x) simp_all

text \<open>The events of an installation of a release into a namespace of a cluster.\<close>

fun installEvent :: "rest_config \<Rightarrow> string \<Rightarrow> string \<Rightarrow> event \<Rightarrow> bool" where
  "installEvent c rel ns (HelmEv c' e) = (c' = c \<and> (case e of
       HelmInit n _ \<Rightarrow> n = ns
     | LocateChart q _ _ \<Rightarrow> inst_ReleaseName q = rel \<and> inst_Namespace q = ns
     | RunInstall q _ _ _ \<Rightarrow> inst_ReleaseName q = rel \<and> inst_Namespace q = ns
     | LoadChart _ _ \<Rightarrow> True | KGetConfigMap _ _ _ \<Rightarrow> True | ReadValuesFile _ _ \<Rightarrow> True
     | _ \<Rightarrow> False))"
| "installEvent c rel ns (FileEv e) = (case e of
       Stat _ _ \<Rightarrow> True | LoadDir _ _ \<Rightarrow> True | MkdirAll _ _ \<Rightarrow> True | ManagerBuild _ _ \<Rightarrow> True | _ \<Rightarrow> False)"
| "installEvent c rel ns (Go g) = (g = GoUninstall c rel ns)"
| "installEvent c rel ns _ = False"

text \<open>The events of an uninstallation: it deletes its own namespace only where asked to, never the
  default one, and otherwise only volume claims labelled with the release.\<close>

fun uninstallEvent :: "rest_config \<Rightarrow> string \<Rightarrow> string \<Rightarrow> bool \<Rightarrow> bool \<Rightarrow> event \<Rightarrow> bool" where
  "uninstallEvent c rel ns removeNamespace removePVCs (HelmEv c' e) = (c' = c \<and> (case e of
       HelmInit n _ \<Rightarrow> n = ns
     | RunUninstall n r _ \<Rightarrow> n = ns \<and> r = rel
     | KDeleteNamespace n _ \<Rightarrow> n = ns \<and> removeNamespace \<and> ns \<noteq> ''default'' \<and> ns \<noteq> []
     | KDeletePVCs n sel _ \<Rightarrow> n = ns \<and> removePVCs \<and> sel = instanceSelector rel
         \<and> \<not> (removeNamespace \<and> ns \<noteq> ''default'' \<and> ns \<noteq> [])
     | _ \<Rightarrow> False))"
| "uninstallEvent c rel ns removeNamespace removePVCs _ = False"

lemma collectValues_emits: "keeps (emits (installEvent (hs_config svc) rel ns)) (collectValues lib E svc vs acc)"
proof (induction vs arbitrary: acc)
  case Nil
  show ?case unfolding collectValues.simps by (rule emits.keeps_ret)
next
  case (Cons v vs)
  show ?case
    unfolding collectValues.simps valuesOfFile_def valuesOfConfigMap_def valuesOfRaw_def helm_calls
    by (intro keeps_io Cons) simp_all
qed

lemma buildDependencies_emits: "keeps (emits (installEvent c rel ns)) (buildDependencies E p)"
  unfolding buildDependencies_def helm_calls
  by (intro keeps_io keeps_guardErr keeps_case_stat) simp_all

lemma InstallFromRepository_emits:
  "keeps (emits (installEvent (hs_config svc) rel ns))
     (InstallFromRepository lib E svc chart rel ns url ver wait vals user pw)"
  unfolding InstallFromRepository_def MergeHelmValues_def helm_calls spawn_def emit_def
  by (intro keeps_io keeps_guardErr collectValues_emits) simp_all

lemma InstallFromLocal_emits:
  "keeps (emits (installEvent (hs_config svc) rel ns)) (InstallFromLocal lib E svc path rel ns wait vals)"
  unfolding InstallFromLocal_def MergeHelmValues_def helm_calls spawn_def emit_def
  by (intro keeps_io keeps_guardErr collectValues_emits buildDependencies_emits) simp_all

lemma UninstallRelease_emits:
  "keeps (emits (uninstallEvent (hs_config svc) rel ns removeNamespace removePVCs))
     (UninstallRelease E svc rel ns removeNamespace removePVCs)"
  unfolding UninstallRelease_def helm_calls
  by (intro keeps_io keeps_guardErr) simp_all

lemma NewHelmService_reads: "keeps (emits connectEvent) (NewHelmService E conn)"
  unfolding NewHelmService_def services_NewHelmService_def helm_calls
  by (intro keeps_io keeps_guardErr NewRESTConfig_reads) simp_all

section \<open>Effect of scaling\<close>

text \<open>The replica counts of a target cluster after a trace, from the counts before it: a successful
  patch sets the count of its workload.\<close>

type_synonym workload_key = "rest_config \<times> workload_kind \<times> string \<times> string"

fun applyPatch :: "event \<Rightarrow> (workload_key \<Rightarrow> int) \<Rightarrow> (workload_key \<Rightarrow> int)" where
  "applyPatch (HelmEv c (KPatchReplicas k ns name n None)) st = st((c, k, ns, name) := n)"
| "applyPatch _ st = st"

definition replicasAfter :: "(workload_key \<Rightarrow> int) \<Rightarrow> history \<Rightarrow> workload_key \<Rightarrow> int" where
  "replicasAfter st h = fold applyPatch h st"

lemma replicasAfter_append [simp]: "replicasAfter st (h @ es) = fold applyPatch es (replicasAfter st h)"
  by (simp add: replicasAfter_def)

definition patchesSucceed :: "env \<Rightarrow> bool" where
  "patchesSucceed E \<longleftrightarrow> (\<forall>h c k ns name n. e_kPatchReplicas E h c k ns name n = None)"

definition downPatches :: "rest_config \<Rightarrow> workload_kind \<Rightarrow> string \<Rightarrow> Workload list \<Rightarrow> event list" where
  "downPatches c kind ns ws = map (\<lambda>w. HelmEv c (KPatchReplicas kind ns (wl_Name w) 0 None))
     (filter (\<lambda>w. currentReplicas w \<noteq> 0) ws)"

definition backPatches :: "rest_config \<Rightarrow> workload_kind \<Rightarrow> ResourceReplicaCount list \<Rightarrow> event list" where
  "backPatches c kind rs =
     map (\<lambda>r. HelmEv c (KPatchReplicas kind (rrc_Namespace r) (rrc_Name r) (rrc_Replicas r) None)) rs"

lemma scaleLoop_run:
  assumes "patchesSucceed E"
  shows "scaleLoop E svc kind ns 0 acc ws s =
    (Ret (acc @ map replicaCount ws, None), s\<lparr>trace := trace s @ downPatches (hs_config svc) kind ns ws\<rparr>)"
  using assms
  by (induction ws arbitrary: acc s)
    (simp_all add: Let_def kPatchReplicas_def andThen_run patchesSucceed_def downPatches_def)

lemma scaleBack_run:
  assumes "patchesSucceed E"
  shows "scaleBack E svc kind rs s = (Ret None, s\<lparr>trace := trace s @ backPatches (hs_config svc) kind rs\<rparr>)"
  using assms
  by (induction rs arbitrary: s)
    (simp_all add: kPatchReplicas_def andThen_run patchesSucceed_def backPatches_def)

text \<open>A listing that is true to the counts: every workload is in the namespace asked for and has the
  count the cluster has.\<close>

definition trueListing :: "(workload_key \<Rightarrow> int) \<Rightarrow> rest_config \<Rightarrow> workload_kind \<Rightarrow> string \<Rightarrow> Workload list \<Rightarrow> bool" where
  "trueListing st c kind ns ws \<longleftrightarrow> (\<forall>w \<in> set ws. wl_Namespace w = ns
     \<and> st (c, kind, ns, wl_Name w) = currentReplicas w)"

lemma fold_downPatches:
  "fold applyPatch (downPatches c kind ns ws) st key =
     (if key \<in> (\<lambda>w. (c, kind, ns, wl_Name w)) ` {w \<in> set ws. currentReplicas w \<noteq> 0} then 0 else st key)"
  unfolding downPatches_def by (induction ws arbitrary: st) auto

lemma fold_backPatches:
  assumes "\<And>r. r \<in> set rs \<Longrightarrow> goal (c, kind, rrc_Namespace r, rrc_Name r) = rrc_Replicas r"
  shows "fold applyPatch (backPatches c kind rs) st key =
     (if key \<in> (\<lambda>r. (c, kind, rrc_Namespace r, rrc_Name r)) ` set rs then goal key else st key)"
  using assms unfolding backPatches_def
proof (induction rs arbitrary: st)
  case (Cons r rs)
  then have "fold applyPatch (map (\<lambda>r. HelmEv c (KPatchReplicas kind (rrc_Namespace r) (rrc_Name r)
      (rrc_Replicas r) None)) rs) st' key = (if key \<in> (\<lambda>r. (c, kind, rrc_Namespace r, rrc_Name r)) ` set rs
      then goal key else st' key)" for st'
    by simp
  with Cons.prems [of r] show ?case by auto
qed simp

text \<open>No deletion of a namespace or of volume claims before a successful uninstallation.\<close>

fun deletesAfterUninstall :: "event list \<Rightarrow> bool" where
  "deletesAfterUninstall [] = True"
| "deletesAfterUninstall (HelmEv _ (RunUninstall _ _ None) # es) = True"
| "deletesAfterUninstall (HelmEv _ (KDeleteNamespace _ _) # es) = False"
| "deletesAfterUninstall (HelmEv _ (KDeletePVCs _ _ _) # es) = False"
| "deletesAfterUninstall (_ # es) = deletesAfterUninstall es"

text \<open>The merge of Helm values: the law of \<open>CoalesceTables\<close> that the code relies on.\<close>

fun plainValue :: "go_any \<Rightarrow> bool" where
  "plainValue ANil = False"
| "plainValue (AMap _) = False"
| "plainValue _ = True"

definition coalesceLaw :: "golib \<Rightarrow> bool" where
  "coalesceLaw lib \<longleftrightarrow> (\<forall>v m k. (case map_of v k of
       None \<Rightarrow> map_of (lib_coalesceTables lib v m) k = map_of m k
     | Some x \<Rightarrow> plainValue x \<longrightarrow> map_of (lib_coalesceTables lib v m) k = Some x))"

lemma merge_keeps_absent:
  assumes "coalesceLaw lib" and "\<forall>u \<in> set us. map_of u k = None"
  shows "map_of (fold (\<lambda>v m. lib_coalesceTables lib v m) us m0) k = map_of m0 k"
  using assms(2)
proof (induction us arbitrary: m0)
  case (Cons u us)
  from assms(1) Cons.prems have "map_of (lib_coalesceTables lib u m0) k = map_of m0 k"
    unfolding coalesceLaw_def by (metis (mono_tags, lifting) list.set_intros(1) option.simps(4))
  with Cons show ?case by simp
qed simp

lemma mergeSlice_last:
  assumes law: "coalesceLaw lib" and "map_of v k = Some x" "plainValue x"
    and later: "\<forall>u \<in> set later. map_of u k = None"
  shows "map_of (mergeSlice lib (pre @ [v] @ later)) k = Some x"
proof (cases pre)
  case Nil
  with merge_keeps_absent [OF law later] assms(2) show ?thesis by (simp add: mergeSlice_def)
next
  case (Cons p ps)
  have "map_of (lib_coalesceTables lib v m) k = Some x" for m
    using law assms(2,3) unfolding coalesceLaw_def by (metis (mono_tags, lifting) option.simps(5))
  with Cons merge_keeps_absent [OF law later] show ?thesis by (simp add: mergeSlice_def)
qed

section \<open>Properties\<close>

text \<open>
  \<open>UninstallRelease\<close> touches only what belongs to the release: it uninstalls this release from this
  namespace, deletes this namespace only when asked and never the default (or empty) one, and otherwise
  at most the volume claims labelled with the release; and it deletes nothing before the uninstallation
  itself has succeeded.
\<close>

theorem uninstallRelease_scope:
  "\<exists>es. trace (snd (UninstallRelease E svc rel ns removeNamespace removePVCs s)) = trace s @ es
     \<and> list_all (uninstallEvent (hs_config svc) rel ns removeNamespace removePVCs) es
     \<and> deletesAfterUninstall es"
  by (auto simp: UninstallRelease_def guardErr_def helm_calls andThen_run split: option.split)

text \<open>
  Later values win. Where Helm's table merge lets the first table win on a plain value and keeps
  what only the second has, a plain value that some document gives for a key, and no later document
  mentions, is the merged value of the key, whatever earlier documents say.
\<close>

theorem later_values_win:
  assumes "coalesceLaw lib"
    and "collectValues lib E svc helmValues [] s = (Ret (Inr (pre @ [v] @ later)), t)"
    and "map_of v k = Some x" and "plainValue x" and "\<forall>u \<in> set later. map_of u k = None"
  shows "\<exists>merged. MergeHelmValues lib E svc helmValues s = (Ret (Inr merged), t) \<and> map_of merged k = Some x"
  using mergeSlice_last [OF assms(1,3,4,5), of pre] assms(2)
  by (simp add: MergeHelmValues_def)

definition exampleConfig :: rest_config where
  "exampleConfig = \<lparr>rc_Host = ''https://10.0.0.1'', rc_CAData = ''ca'', rc_CAFile = [], rc_Insecure = False,
     rc_BearerToken = ''t'', rc_BearerTokenFile = [], rc_CertData = [], rc_CertFile = [], rc_KeyData = [],
     rc_KeyFile = []\<rparr>"

definition exampleService :: HelmService where
  "exampleService = \<lparr>hs_config = exampleConfig\<rparr>"

theorem later_values_win_witness:
  "\<exists>merged t. MergeHelmValues
       (exampleLib\<lparr>lib_yamlUnmarshal := \<lambda>doc. Inr [(''replicas'', AFloat (F64 (int (length doc)) 0))]\<rparr>)
       exampleEnv exampleService
       [\<lparr>val_File = None, val_ConfigMap = None, val_Raw = Some \<lparr>raw_Raw = Some ''abc''\<rparr>\<rparr>,
        \<lparr>val_File = None, val_ConfigMap = None, val_Raw = Some \<lparr>raw_Raw = Some ''ab''\<rparr>\<rparr>]
       \<lparr>trace = [], renders = 0, sleepCronManager = undefined, resumeCronManager = undefined\<rparr>
     = (Ret (Inr merged), t) \<and> map_of merged ''replicas'' = Some (AFloat (F64 2 0))"
proof -
  let ?lib = "exampleLib\<lparr>lib_yamlUnmarshal := \<lambda>doc. Inr [(''replicas'', AFloat (F64 (int (length doc)) 0))]\<rparr>"
  let ?vals = "[\<lparr>val_File = None, val_ConfigMap = None, val_Raw = Some \<lparr>raw_Raw = Some ''abc''\<rparr>\<rparr>,
        \<lparr>val_File = None, val_ConfigMap = None, val_Raw = Some \<lparr>raw_Raw = Some ''ab''\<rparr>\<rparr>]"
  let ?s = "\<lparr>trace = [], renders = 0, sleepCronManager = undefined, resumeCronManager = undefined\<rparr>"
  have law: "coalesceLaw ?lib"
    by (auto simp: coalesceLaw_def exampleLib_def map_add_def split: option.split)
  have run: "collectValues ?lib exampleEnv exampleService ?vals [] ?s =
      (Ret (Inr ([[(''replicas'', AFloat (F64 3 0))]] @ [[(''replicas'', AFloat (F64 2 0))]] @ [])), ?s)"
    by (simp add: valuesOfFile_def valuesOfConfigMap_def valuesOfRaw_def andThen_run)
  show ?thesis using later_values_win [OF law run, of "''replicas''" "AFloat (F64 2 0)"] by auto
qed

end
