(* ===== verification/Manager.thy ===== *)
theory Manager
  imports HelmService "HOL-Library.Countable"
begin

text \<open>
  The manager interface (\<open>src/pkg/manager/base/base.go\<close>) and the Helm manager (\<open>src/pkg/manager/helm.go\<close>).
  A manager's four operations receive the module's metadata, a map that they change in place, so they
  return it. The metadata outlives a reconciliation as JSON in an annotation: \<open>metaString\<close> and
  \<open>metaParse\<close>.
\<close>

section \<open>Metadata and the manager interface\<close>

type_synonym MetaData = go_map

definition metaSet :: "string \<Rightarrow> go_any \<Rightarrow> MetaData \<Rightarrow> MetaData" where
  "metaSet k v md = AList.update k v md"

definition metaString :: "golib \<Rightarrow> MetaData \<Rightarrow> string" where
  "metaString lib md = lib_jsonMarshal lib (AMap md)"

definition metaParse :: "golib \<Rightarrow> MetaData \<Rightarrow> string \<Rightarrow> go_error + MetaData" where
  "metaParse lib md rawData = unmarshalMap lib md rawData"

record IManager =
  im_Install :: "MetaData \<Rightarrow> (go_error option \<times> MetaData) io"
  im_Uninstall :: "MetaData \<Rightarrow> (go_error option \<times> MetaData) io"
  im_Sleep :: "MetaData \<Rightarrow> (go_error option \<times> MetaData) io"
  im_Resume :: "MetaData \<Rightarrow> (go_error option \<times> MetaData) io"

text \<open>What the module controller relies on: whatever a manager's operation does, and however it ends,
  its events are ones the manager is allowed.\<close>

locale manager_scope =
  fixes m :: IManager
    and allowed :: "event \<Rightarrow> bool"
  assumes install_scope: "keeps (emits allowed) (im_Install m md)"
    and uninstall_scope: "keeps (emits allowed) (im_Uninstall m md)"
    and sleep_scope: "keeps (emits allowed) (im_Sleep m md)"
    and resume_scope: "keeps (emits allowed) (im_Resume m md)"
begin

lemma operation_scope:
  assumes "op \<in> {im_Install m, im_Uninstall m, im_Sleep m, im_Resume m}"
  shows "keeps (emits allowed) (op md)"
  using assms install_scope uninstall_scope sleep_scope resume_scope by blast

end

section \<open>The Helm manager\<close>

record ModuleHelmManager =
  hm_helmModule :: ModuleSpecHelm
  hm_helmService :: HelmService
  hm_releaseName :: string

text \<open>The metadata keys.\<close>

definition replicaHistoryKey :: string where
  "replicaHistoryKey = ''replicaHistory''"

definition installOutputsKey :: string where
  "installOutputsKey = ''installOutputs''"

text \<open>A body with a deferred call: the call runs when the body returns or panics.\<close>

definition deferred :: "'a io \<Rightarrow> unit io \<Rightarrow> 'a io" where
  "deferred body cleanup = (\<lambda>s. case body s of
       (Hangs why, t) \<Rightarrow> (Hangs why, t)
     | (r, t) \<Rightarrow> (case cleanup t of
           (Ret _, u) \<Rightarrow> (r, u)
         | (Panicked why, u) \<Rightarrow> (Panicked why, u)
         | (Hangs why, u) \<Rightarrow> (Hangs why, u)))"

text \<open>
  \<open>GetBaseDir\<close>: the directory for temporary files. The function of the package's \<open>sync.Once\<close> runs at the
  first call and sets the package's variable; the trace of the process tells whether it ran and what it
  set.
\<close>

definition BaseDir :: string where
  "BaseDir = ''/internal-data''"

fun baseDirPath :: "history \<Rightarrow> string option" where
  "baseDirPath [] = None"
| "baseDirPath (FileEv (EnsureBaseDir r) # h) = Some (if r = None then BaseDir else ''/tmp'')"
| "baseDirPath (_ # h) = baseDirPath h"

definition ensureBaseDirOnce :: "env \<Rightarrow> string io" where
  "ensureBaseDirOnce E = andThen (call (\<lambda>h. e_mkdirAll E h BaseDir) (\<lambda>r. FileEv (EnsureBaseDir r)))
     (\<lambda>e. ret (case e of Some _ \<Rightarrow> ''/tmp'' | None \<Rightarrow> BaseDir))"

definition GetBaseDir :: "env \<Rightarrow> string io" where
  "GetBaseDir E = (\<lambda>s. case baseDirPath (trace s) of
       Some dir \<Rightarrow> (Ret dir, s)
     | None \<Rightarrow> ensureBaseDirOnce E s)"

definition createTemp :: "env \<Rightarrow> string \<Rightarrow> string \<Rightarrow> (go_error + string) io" where
  "createTemp E dir pat = call (\<lambda>h. e_createTemp E h dir pat) (\<lambda>r. FileEv (CreateTemp dir pat r))"

definition writeFile :: "env \<Rightarrow> string \<Rightarrow> string \<Rightarrow> (go_error option) io" where
  "writeFile E p d = call (\<lambda>h. e_writeFile E h p d) (\<lambda>r. FileEv (WriteFile p d r))"

definition closeFile :: "env \<Rightarrow> string \<Rightarrow> (go_error option) io" where
  "closeFile E p = call (\<lambda>h. e_closeFile E h p) (\<lambda>r. FileEv (CloseFile p r))"

definition removeFile :: "env \<Rightarrow> string \<Rightarrow> (go_error option) io" where
  "removeFile E p = call (\<lambda>h. e_removeFile E h p) (\<lambda>r. FileEv (RemoveFile p r))"

definition mkdirTemp :: "env \<Rightarrow> string \<Rightarrow> string \<Rightarrow> (go_error + string) io" where
  "mkdirTemp E dir pat = call (\<lambda>h. e_mkdirTemp E h dir pat) (\<lambda>r. FileEv (MkdirTemp dir pat r))"

definition removeAll :: "env \<Rightarrow> string \<Rightarrow> (go_error option) io" where
  "removeAll E p = call (\<lambda>h. e_removeAll E h p) (\<lambda>r. FileEv (RemoveAll p r))"

definition gitClone :: "env \<Rightarrow> string \<Rightarrow> string \<Rightarrow> string \<Rightarrow> (go_error option) io" where
  "gitClone E revision url dir = call (\<lambda>h. e_gitClone E h revision url dir)
     (\<lambda>r. FileEv (GitClone revision url dir r))"

lemmas file_calls = createTemp_def writeFile_def closeFile_def removeFile_def mkdirTemp_def removeAll_def
  gitClone_def

text \<open>The directory is one of two, the same one at every call, and is created at most once.\<close>

lemma baseDirPath_append:
  "baseDirPath (h @ es) = (case baseDirPath h of None \<Rightarrow> baseDirPath es | Some dir \<Rightarrow> Some dir)"
  by (induction h rule: baseDirPath.induct) simp_all

lemma baseDirPath_two: "baseDirPath h = Some dir \<Longrightarrow> dir \<in> {BaseDir, ''/tmp''}"
  by (induction h rule: baseDirPath.induct) (auto split: if_splits)

lemma GetBaseDir_run:
  "\<exists>dir es. GetBaseDir E s = (Ret dir, s\<lparr>trace := trace s @ es\<rparr>) \<and> dir \<in> {BaseDir, ''/tmp''}
     \<and> baseDirPath (trace s @ es) = Some dir \<and> (baseDirPath (trace s) \<noteq> None \<longrightarrow> es = [])
     \<and> list_all (\<lambda>e. \<exists>r. e = FileEv (EnsureBaseDir r)) es"
proof (cases "baseDirPath (trace s)")
  case None
  let ?e = "e_mkdirAll E (trace s) BaseDir"
  from None show ?thesis
    by (intro exI [of _ "case ?e of Some _ \<Rightarrow> ''/tmp'' | None \<Rightarrow> BaseDir"] exI [of _ "[FileEv (EnsureBaseDir ?e)]"])
      (simp add: GetBaseDir_def ensureBaseDirOnce_def andThen_run baseDirPath_append split: option.split)
next
  case (Some dir)
  moreover from Some have "dir \<in> {BaseDir, ''/tmp''}" by (rule baseDirPath_two)
  ultimately show ?thesis by (intro exI [of _ dir] exI [of _ "[]"]) (simp add: GetBaseDir_def)
qed

lemma GetBaseDir_stable:
  assumes "GetBaseDir E s = (Ret dir, t)"
  shows "GetBaseDir E (t\<lparr>trace := trace t @ es\<rparr>) = (Ret dir, t\<lparr>trace := trace t @ es\<rparr>)"
proof -
  obtain dir' es' where "GetBaseDir E s = (Ret dir', s\<lparr>trace := trace s @ es'\<rparr>)" "baseDirPath (trace s @ es') = Some dir'"
    using GetBaseDir_run [of E s] by blast
  with assms have "baseDirPath (trace t) = Some dir" by auto
  then show ?thesis by (simp add: GetBaseDir_def baseDirPath_append)
qed

lemma keeps_GetBaseDir:
  assumes "\<And>r. Q (FileEv (EnsureBaseDir r))"
  shows "keeps (emits Q) (GetBaseDir E)"
  using assms by (simp add: keeps_def emits_def sameCrons_def GetBaseDir_def ensureBaseDirOnce_def andThen_run split: option.split)

definition secretLacks :: "string \<Rightarrow> string \<Rightarrow> string \<Rightarrow> go_error" where
  "secretLacks ns name key =
     ErrText (''secret '' @ ns @ ''/'' @ name @ '' does not contain '' @ quoted key @ '' data'')"

definition fetchRepoAuthCredentials ::
  "env \<Rightarrow> ModuleSpecHelmChartRepoAuth \<Rightarrow> (go_error + string \<times> string) io" where
  "fetchRepoAuthCredentials E auth =
     andThen (getSecret E \<lparr>nn_Namespace = rauth_Namespace auth, nn_Name = rauth_Name auth\<rparr>) (\<lambda>r. case r of
         Inl err \<Rightarrow> ret (Inl (Wrapped (''failed to fetch repository auth secret ''
           @ rauth_Namespace auth @ ''/'' @ rauth_Name auth) err))
       | Inr secret \<Rightarrow>
           (let username = (case sec_Data secret ''username'' of Some u \<Rightarrow> u | None \<Rightarrow> []) in
            case sec_Data secret ''password'' of
              None \<Rightarrow> ret (Inl (secretLacks (rauth_Namespace auth) (rauth_Name auth) ''password''))
            | Some password \<Rightarrow> ret (Inr (username, password))))"

definition installFromRepoSource ::
  "golib \<Rightarrow> env \<Rightarrow> ModuleHelmManager \<Rightarrow> ModuleSpecHelmChartRepo \<Rightarrow> (go_error option) io" where
  "installFromRepoSource lib E hm repo =
     andThen (case repo_Auth repo of
         None \<Rightarrow> ret (Inr ([], []))
       | Some auth \<Rightarrow> fetchRepoAuthCredentials E auth) (\<lambda>r. case r of
         Inl err \<Rightarrow> ret (Some err)
       | Inr (username, password) \<Rightarrow>
           InstallFromRepository lib E (hm_helmService hm) (repo_Chart repo) (hm_releaseName hm)
             (GetNamespace (hm_helmModule hm)) (repo_URL repo) (repo_Version repo) True
             (helm_Values (hm_helmModule hm)) username password)"

definition installFromConfigMapSource ::
  "golib \<Rightarrow> env \<Rightarrow> ModuleHelmManager \<Rightarrow> ModuleSpecHelmChartConfigMap \<Rightarrow> (go_error option) io" where
  "installFromConfigMapSource lib E hm ref =
     andThen (getConfigMap E \<lparr>nn_Namespace = chcm_Namespace ref, nn_Name = chcm_Name ref\<rparr>) (\<lambda>r. case r of
         Inl err \<Rightarrow> ret (Some (Wrapped (''failed to fetch ConfigMap '' @ chcm_Namespace ref @ ''/'' @ chcm_Name ref) err))
       | Inr configMap \<Rightarrow> (case cm_BinaryData configMap (chcm_Key ref) of
             None \<Rightarrow> ret (Some (ErrText (''ConfigMap '' @ chcm_Namespace ref @ ''/'' @ chcm_Name ref
               @ '' does not contain '' @ quoted (chcm_Key ref) @ '' data'')))
           | Some chartData \<Rightarrow>
               andThen (andThen (GetBaseDir E) (\<lambda>dir. createTemp E dir ''helm-chart-*.tgz'')) (\<lambda>f. case f of
                   Inl err \<Rightarrow> ret (Some (Wrapped ''failed to create temporary file for Helm chart'' err))
                 | Inr tmpFile \<Rightarrow> deferred (
                     andThen (writeFile E tmpFile chartData) (\<lambda>we. case we of
                         Some err \<Rightarrow> andThen (closeFile E tmpFile) (\<lambda>_.
                           ret (Some (Wrapped (''failed to write chart data to temporary file '' @ tmpFile) err)))
                       | None \<Rightarrow>
                           guardErr (closeFile E tmpFile)
                             (\<lambda>err. Some (Wrapped (''failed to close temporary file '' @ tmpFile) err)) (
                           InstallFromLocal lib E (hm_helmService hm) tmpFile (hm_releaseName hm)
                             (GetNamespace (hm_helmModule hm)) True (helm_Values (hm_helmModule hm)))))
                     (andThen (removeFile E tmpFile) (\<lambda>_. ret ())))))"

text \<open>The URL of a Git source with the credentials of its secret, if any.\<close>

definition gitURL :: "golib \<Rightarrow> env \<Rightarrow> ModuleSpecHelmChartGit \<Rightarrow> (go_error + string) io" where
  "gitURL lib E git = (case lib_urlParse lib (git_Repo git) of
       Inl err \<Rightarrow> ret (Inl err)
     | Inr url \<Rightarrow> (case git_Auth git of
           None \<Rightarrow> ret (Inr (lib_urlString lib url None))
         | Some auth \<Rightarrow> (case gauth_HTTPSSecretRef auth of
               None \<Rightarrow> ret (Inl (ErrText ''unsupported Git chart authentication type provided''))
             | Some ref \<Rightarrow>
                 andThen (getSecret E \<lparr>nn_Namespace = gsec_Namespace ref, nn_Name = gsec_Name ref\<rparr>) (\<lambda>r. case r of
                     Inl err \<Rightarrow> ret (Inl (Wrapped (''failed to fetch secret ''
                       @ gsec_Namespace ref @ ''/'' @ gsec_Name ref) err))
                   | Inr secret \<Rightarrow>
                       (let username = (case sec_Data secret ''username'' of Some u \<Rightarrow> u | None \<Rightarrow> []) in
                        case sec_Data secret ''token'' of
                          None \<Rightarrow> ret (Inl (secretLacks (gsec_Namespace ref) (gsec_Name ref) ''token''))
                        | Some token \<Rightarrow> ret (Inr (lib_urlString lib url (Some (
                            if 0 < length username then UserPassword username token
                            else UserOnly token)))))))))"

text \<open>The environment's error of a clone includes what \<open>git\<close> printed.\<close>

definition installFromGitSource ::
  "golib \<Rightarrow> env \<Rightarrow> ModuleHelmManager \<Rightarrow> ModuleSpecHelmChartGit \<Rightarrow> (go_error option) io" where
  "installFromGitSource lib E hm git = andThen (gitURL lib E git) (\<lambda>u. case u of
       Inl err \<Rightarrow> ret (Some err)
     | Inr url \<Rightarrow> andThen (andThen (GetBaseDir E) (\<lambda>dir. mkdirTemp E dir ''git-helm-chart-'')) (\<lambda>d. case d of
           Inl err \<Rightarrow> ret (Some err)
         | Inr tempDir \<Rightarrow> deferred (
             guardErr (gitClone E (git_Revision git) url tempDir)
               (\<lambda>err. Some (Wrapped ''git clone failed'' err)) (
             InstallFromLocal lib E (hm_helmService hm) (pathJoin tempDir (git_Path git)) (hm_releaseName hm)
               (GetNamespace (hm_helmModule hm)) True (helm_Values (hm_helmModule hm))))
             (andThen (removeAll E tempDir) (\<lambda>_. ret ()))))"

definition outputValue ::
  "golib \<Rightarrow> env \<Rightarrow> ModuleHelmManager \<Rightarrow> ModuleSpecHelmOutput \<Rightarrow> (go_any option) io" where
  "outputValue lib E hm out = (case out_Value out of
       Some v \<Rightarrow> (case lib_jsonUnmarshal lib (case raw_Raw v of Some raw \<Rightarrow> raw | None \<Rightarrow> []) of
           Inl _ \<Rightarrow> ret None
         | Inr parsedValue \<Rightarrow> ret (Some parsedValue))
     | None \<Rightarrow> (case out_ValueFrom out of
           None \<Rightarrow> ret None
         | Some vf \<Rightarrow> (case ovf_Secret vf of
               None \<Rightarrow> ret None
             | Some sec \<Rightarrow>
                 if ofs_Name sec \<noteq> [] \<and> ofs_Key sec \<noteq> []
                 then andThen (GetSecretValue E (hm_helmService hm) (ofs_Namespace sec) (ofs_Name sec) (ofs_Key sec))
                   (\<lambda>r. case r of
                     Inl _ \<Rightarrow> ret None
                   | Inr secretValue \<Rightarrow> ret (Some (AString secretValue)))
                 else ret None)))"

fun extractOutputs ::
  "golib \<Rightarrow> env \<Rightarrow> ModuleHelmManager \<Rightarrow> ModuleSpecHelmOutput list \<Rightarrow> go_map \<Rightarrow> go_map io" where
  "extractOutputs lib E hm [] outputs = ret outputs"
| "extractOutputs lib E hm (out # outs) outputs = andThen (outputValue lib E hm out) (\<lambda>v. case v of
       None \<Rightarrow> extractOutputs lib E hm outs outputs
     | Some x \<Rightarrow> extractOutputs lib E hm outs (AList.update (out_Name out) x outputs))"

definition ModuleHelmManager_Install ::
  "golib \<Rightarrow> env \<Rightarrow> ModuleHelmManager \<Rightarrow> MetaData \<Rightarrow> (go_error option \<times> MetaData) io" where
  "ModuleHelmManager_Install lib E hm metaData = (let chart = helm_Chart (hm_helmModule hm) in
     andThen (case chart_Repo chart of
         Some repo \<Rightarrow> installFromRepoSource lib E hm repo
       | None \<Rightarrow> (case chart_ConfigMap chart of
           Some ref \<Rightarrow> installFromConfigMapSource lib E hm ref
         | None \<Rightarrow> (case chart_Git chart of
             Some git \<Rightarrow> installFromGitSource lib E hm git
           | None \<Rightarrow> ret (Some (ErrText
               ''no Helm chart source (repository, configmap, or git) specified in HelmModule''))))) (\<lambda>e.
     case e of
       Some err \<Rightarrow> ret (Some err, metaData)
     | None \<Rightarrow>
         andThen (extractOutputs lib E hm
           (case helm_Outputs (hm_helmModule hm) of None \<Rightarrow> [] | Some outs \<Rightarrow> outs) []) (\<lambda>outputs.
         ret (None, if 0 < length outputs then metaSet installOutputsKey (AMap outputs) metaData
                    else metaData))))"

definition ModuleHelmManager_Uninstall ::
  "env \<Rightarrow> ModuleHelmManager \<Rightarrow> MetaData \<Rightarrow> (go_error option \<times> MetaData) io" where
  "ModuleHelmManager_Uninstall E hm metaData =
     andThen (UninstallRelease E (hm_helmService hm) (hm_releaseName hm) (GetNamespace (hm_helmModule hm))
       (cl_RemoveNamespace (helm_Cleanup (hm_helmModule hm)))
       (cl_RemovePVCs (helm_Cleanup (hm_helmModule hm)))) (\<lambda>e. ret (e, metaData))"

text \<open>The replica history as the JSON value that the metadata is written with.\<close>

definition encReplicaCount :: "ResourceReplicaCount \<Rightarrow> go_any" where
  "encReplicaCount r = AMap [(''Namespace'', AString (rrc_Namespace r)), (''Name'', AString (rrc_Name r)),
     (''Replicas'', AInt (rrc_Replicas r))]"

definition encReplicaHistory :: "ReplicaHistory \<Rightarrow> go_any" where
  "encReplicaHistory h = AMap (omitEmpty ''deployments'' (map encReplicaCount (rh_Deployments h))
     @ omitEmpty ''replicaSets'' (map encReplicaCount (rh_ReplicaSets h))
     @ omitEmpty ''statefulSets'' (map encReplicaCount (rh_StatefulSets h)))"

definition emptyHistory :: ReplicaHistory where
  "emptyHistory = \<lparr>rh_Deployments = [], rh_ReplicaSets = [], rh_StatefulSets = []\<rparr>"

text \<open>The loops that append the old counts: the metadata is written once per count.\<close>

definition rememberReplicas :: "ReplicaHistory \<Rightarrow> ResourceReplicaCount list \<Rightarrow> MetaData \<Rightarrow> MetaData" where
  "rememberReplicas history oldReplicas metaData =
     (if oldReplicas = [] then metaData
      else metaSet replicaHistoryKey (encReplicaHistory history) metaData)"

definition ModuleHelmManager_Sleep ::
  "env \<Rightarrow> ModuleHelmManager \<Rightarrow> MetaData \<Rightarrow> (go_error option \<times> MetaData) io" where
  "ModuleHelmManager_Sleep E hm metaData =
     (let svc = hm_helmService hm; rel = hm_releaseName hm; ns = GetNamespace (hm_helmModule hm) in
      andThen (ScaleDeployments E svc rel ns 0) (\<lambda>(ds, e1).
      let h1 = emptyHistory\<lparr>rh_Deployments := ds\<rparr>; md1 = rememberReplicas h1 ds metaData in
      case e1 of
        Some err \<Rightarrow> ret (Some err, md1)
      | None \<Rightarrow> andThen (ScaleReplicaSets E svc rel ns 0) (\<lambda>(rs, e2).
          let h2 = h1\<lparr>rh_ReplicaSets := rs\<rparr>; md2 = rememberReplicas h2 rs md1 in
          case e2 of
            Some err \<Rightarrow> ret (Some err, md2)
          | None \<Rightarrow> andThen (ScaleStatefulSets E svc rel ns 0) (\<lambda>(ss, e3).
              let h3 = h2\<lparr>rh_StatefulSets := ss\<rparr>; md3 = rememberReplicas h3 ss md2 in
              ret (e3, md3)))))"

definition ModuleHelmManager_Resume ::
  "golib \<Rightarrow> env \<Rightarrow> ModuleHelmManager \<Rightarrow> MetaData \<Rightarrow> (go_error option \<times> MetaData) io" where
  "ModuleHelmManager_Resume lib E hm metaData = (case map_of metaData replicaHistoryKey of
       None \<Rightarrow> ret (Some (ErrText ''replica history not found in metadata''), metaData)
     | Some replicaHistory \<Rightarrow> (case lib_decodeReplicaHistory lib replicaHistory of
           Inl err \<Rightarrow> ret (Some err, metaData)
         | Inr parsed \<Rightarrow>
             guardErr (ScaleDeploymentsBack E (hm_helmService hm) (rh_Deployments parsed))
               (\<lambda>err. (Some err, metaData)) (
             guardErr (ScaleReplicaSetsBack E (hm_helmService hm) (rh_ReplicaSets parsed))
               (\<lambda>err. (Some err, metaData)) (
             guardErr (ScaleStatefulSetsBack E (hm_helmService hm) (rh_StatefulSets parsed))
               (\<lambda>err. (Some err, metaData)) (
             ret (None, metaData))))))"

definition NewModuleHelmManager :: "golib \<Rightarrow> env \<Rightarrow> ModuleSpecHelm \<Rightarrow> HelmService \<Rightarrow> string \<Rightarrow> IManager" where
  "NewModuleHelmManager lib E helmModule svc releaseName =
     (let hm = \<lparr>hm_helmModule = helmModule, hm_helmService = svc, hm_releaseName = releaseName\<rparr> in
      \<lparr>im_Install = ModuleHelmManager_Install lib E hm, im_Uninstall = ModuleHelmManager_Uninstall E hm,
       im_Sleep = ModuleHelmManager_Sleep E hm, im_Resume = ModuleHelmManager_Resume lib E hm\<rparr>)"

section \<open>What the Helm manager may do\<close>

fun managerEvent :: "rest_config \<Rightarrow> string \<Rightarrow> string \<Rightarrow> ModuleSpecHelmCleanup \<Rightarrow> event \<Rightarrow> bool" where
  "managerEvent c rel ns cleanup (HelmEv c' e) = (c' = c \<and> (case e of
       RunInstall q _ _ _ \<Rightarrow> inst_ReleaseName q = rel \<and> inst_Namespace q = ns
     | RunUninstall n r _ \<Rightarrow> n = ns \<and> r = rel
     | KDeleteNamespace n _ \<Rightarrow> n = ns \<and> cl_RemoveNamespace cleanup \<and> ns \<noteq> ''default'' \<and> ns \<noteq> []
     | KDeletePVCs n sel _ \<Rightarrow> n = ns \<and> cl_RemovePVCs cleanup \<and> sel = instanceSelector rel
     | _ \<Rightarrow> True))"
| "managerEvent c rel ns cleanup (CoreEv (GetSecret _ _)) = True"
| "managerEvent c rel ns cleanup (CoreEv (GetConfigMap _ _)) = True"
| "managerEvent c rel ns cleanup (FileEv _) = True"
| "managerEvent c rel ns cleanup (Go g) = (g = GoUninstall c rel ns)"
| "managerEvent c rel ns cleanup _ = False"

lemma installEvent_manager: "installEvent c rel ns e \<Longrightarrow> managerEvent c rel ns cleanup e"
  by (cases e) (auto split: helm_event.splits)

lemma uninstallEvent_manager:
  "uninstallEvent c rel ns (cl_RemoveNamespace cleanup) (cl_RemovePVCs cleanup) e \<Longrightarrow>
     managerEvent c rel ns cleanup e"
  by (cases e) (auto split: helm_event.splits)

lemma keeps_deferred:
  assumes "keeps (emits Q) body" and "keeps (emits Q) cleanup"
  shows "keeps (emits Q) (deferred body cleanup)"
proof (rule keepsI)
  fix s
  obtain r t where body: "body s = (r, t)" by (cases "body s")
  with assms(1) have st: "emits Q s t" by (rule keepsD)
  obtain r' u where cl: "cleanup t = (r', u)" by (cases "cleanup t")
  with assms(2) have "emits Q t u" by (rule keepsD)
  with st have "emits Q s u" by (rule emits.stable_trans)
  with st show "emits Q s (snd (deferred body cleanup s))"
    by (cases r; cases r') (simp_all add: deferred_def body cl)
qed

text \<open>Scaling lists workloads and patches their replicas.\<close>

fun scalingEvent :: "rest_config \<Rightarrow> event \<Rightarrow> bool" where
  "scalingEvent c (HelmEv c' e) = (c' = c \<and> (case e of
       KListWorkloads _ _ _ _ \<Rightarrow> True | KPatchReplicas _ _ _ _ _ \<Rightarrow> True | _ \<Rightarrow> False))"
| "scalingEvent c _ = False"

lemma scalingEvent_manager: "scalingEvent c e \<Longrightarrow> managerEvent c rel ns cleanup e"
  by (cases e) (auto split: helm_event.splits)

lemma scaleLoop_emits: "keeps (emits (scalingEvent (hs_config svc))) (scaleLoop E svc kind n k acc ws)"
proof (induction ws arbitrary: acc)
  case Nil
  show ?case unfolding scaleLoop.simps by (rule emits.keeps_ret)
next
  case (Cons w ws)
  show ?case unfolding scaleLoop.simps helm_calls by (intro keeps_io Cons) simp_all
qed

lemma scaleBack_emits: "keeps (emits (scalingEvent (hs_config svc))) (scaleBack E svc kind rs)"
proof (induction rs)
  case Nil
  show ?case unfolding scaleBack.simps by (rule emits.keeps_ret)
next
  case (Cons r rs)
  show ?case unfolding scaleBack.simps helm_calls by (intro keeps_io Cons) simp_all
qed

lemma ModuleHelmManager_Sleep_scales:
  "keeps (emits (scalingEvent (hs_config (hm_helmService hm)))) (ModuleHelmManager_Sleep E hm md)"
  unfolding ModuleHelmManager_Sleep_def ScaleDeployments_def ScaleReplicaSets_def ScaleStatefulSets_def
    scaleWorkloads_def helm_calls
  by (intro keeps_io) (simp_all add: scaleLoop_emits)

lemma ModuleHelmManager_Resume_scales:
  "keeps (emits (scalingEvent (hs_config (hm_helmService hm)))) (ModuleHelmManager_Resume lib E hm md)"
  unfolding ModuleHelmManager_Resume_def ScaleDeploymentsBack_def ScaleReplicaSetsBack_def ScaleStatefulSetsBack_def
  by (intro keeps_io keeps_guardErr scaleBack_emits)

lemmas InstallFromRepository_manager = keeps_emits_mono [OF InstallFromRepository_emits installEvent_manager]
lemmas InstallFromLocal_manager = keeps_emits_mono [OF InstallFromLocal_emits installEvent_manager]

lemma extractOutputs_emits:
  "keeps (emits (managerEvent (hs_config (hm_helmService hm)) rel ns cleanup)) (extractOutputs lib E hm outs acc)"
proof (induction outs arbitrary: acc)
  case Nil
  show ?case unfolding extractOutputs.simps by (rule emits.keeps_ret)
next
  case (Cons out outs)
  show ?case
    unfolding extractOutputs.simps outputValue_def GetSecretValue_def helm_calls
    by (intro keeps_io Cons) simp_all
qed

interpretation helmManager: manager_scope "NewModuleHelmManager lib E helm svc rel"
  "managerEvent (hs_config svc) rel (GetNamespace helm) (helm_Cleanup helm)" for lib E helm svc rel
proof
  fix md
  let ?Q = "managerEvent (hs_config svc) rel (GetNamespace helm) (helm_Cleanup helm)"
  let ?hm = "\<lparr>hm_helmModule = helm, hm_helmService = svc, hm_releaseName = rel\<rparr>"
  have outputs: "keeps (emits ?Q) (extractOutputs lib E ?hm outs acc)" for outs acc
    using extractOutputs_emits [of ?hm] by simp
  have "keeps (emits ?Q) (ModuleHelmManager_Install lib E ?hm md)"
    unfolding ModuleHelmManager_Install_def installFromRepoSource_def installFromConfigMapSource_def
      installFromGitSource_def gitURL_def fetchRepoAuthCredentials_def calls file_calls
      ModuleHelmManager.simps
    by (intro keeps_io keeps_guardErr keeps_deferred keeps_GetBaseDir InstallFromRepository_manager
        InstallFromLocal_manager outputs) simp_all
  then show "keeps (emits ?Q) (im_Install (NewModuleHelmManager lib E helm svc rel) md)"
    by (simp add: NewModuleHelmManager_def Let_def)
  have "keeps (emits ?Q) (ModuleHelmManager_Uninstall E ?hm md)"
    unfolding ModuleHelmManager_Uninstall_def ModuleHelmManager.simps
    by (intro keeps_io keeps_emits_mono [OF UninstallRelease_emits uninstallEvent_manager])
  then show "keeps (emits ?Q) (im_Uninstall (NewModuleHelmManager lib E helm svc rel) md)"
    by (simp add: NewModuleHelmManager_def Let_def)
  have "keeps (emits ?Q) (ModuleHelmManager_Sleep E ?hm md)"
    using keeps_emits_mono [OF ModuleHelmManager_Sleep_scales [of ?hm] scalingEvent_manager] by simp
  then show "keeps (emits ?Q) (im_Sleep (NewModuleHelmManager lib E helm svc rel) md)"
    by (simp add: NewModuleHelmManager_def Let_def)
  have "keeps (emits ?Q) (ModuleHelmManager_Resume lib E ?hm md)"
    using keeps_emits_mono [OF ModuleHelmManager_Resume_scales [of ?hm] scalingEvent_manager] by simp
  then show "keeps (emits ?Q) (im_Resume (NewModuleHelmManager lib E helm svc rel) md)"
    by (simp add: NewModuleHelmManager_def Let_def)
qed

section \<open>Metadata survives the annotation\<close>

text \<open>What \<open>encoding/json\<close> makes of a value: numbers become \<open>float64\<close> and slices become \<open>[]any\<close>. The law
  holds for integers that a \<open>float64\<close> represents exactly; and no value is written as the empty text.\<close>

fun jsonView :: "go_any \<Rightarrow> go_any" where
  "jsonView (AInt i) = AFloat (F64 i 0)"
| "jsonView (AStrings ss) = ASlice (map AString ss)"
| "jsonView (ASlice vs) = ASlice (map jsonView vs)"
| "jsonView (AMap kvs) = AMap (map (\<lambda>(k, v). (k, jsonView v)) kvs)"
| "jsonView v = v"

fun smallInts :: "go_any \<Rightarrow> bool" where
  "smallInts (AInt i) = (\<bar>i\<bar> < 2 ^ 53)"
| "smallInts (ASlice vs) = list_all smallInts vs"
| "smallInts (AMap kvs) = list_all (\<lambda>(k, v). smallInts v) kvs"
| "smallInts _ = True"

definition jsonLaw :: "golib \<Rightarrow> bool" where
  "jsonLaw lib \<longleftrightarrow> (\<forall>v. smallInts v \<longrightarrow> lib_jsonUnmarshal lib (lib_jsonMarshal lib v) = Inr (jsonView v))
     \<and> (\<forall>v. lib_jsonMarshal lib v \<noteq> [])"

text \<open>\<open>mapstructure.Decode\<close> of what \<open>encoding/json\<close> reads for a replica history gives the history.\<close>

definition decodeLaw :: "golib \<Rightarrow> bool" where
  "decodeLaw lib \<longleftrightarrow> (\<forall>h. lib_decodeReplicaHistory lib (jsonView (encReplicaHistory h)) = Inr h)"

lemma map_of_metaSet: "map_of (metaSet k v md) k = Some v"
  by (simp add: metaSet_def AList.update_conv')

lemma smallInts_metaSet:
  assumes "smallInts (AMap md)" and "smallInts v"
  shows "smallInts (AMap (metaSet k v md))"
  using assms by (induction md) (auto simp: metaSet_def)

lemma meta_roundtrip:
  assumes "jsonLaw lib" and "smallInts (AMap md)"
  shows "\<exists>md'. metaParse lib [] (metaString lib md) = Inr md'
    \<and> (\<forall>k. map_of md' k = map_option jsonView (map_of md k))"
proof -
  have "lib_jsonUnmarshal lib (lib_jsonMarshal lib (AMap md)) = Inr (jsonView (AMap md))"
    using assms unfolding jsonLaw_def by blast
  then show ?thesis
    by (simp add: metaParse_def metaString_def unmarshalMap_def map_of_map)
qed

section \<open>Sleep and resume\<close>

definition historyOf :: "(workload_kind \<Rightarrow> Workload list) \<Rightarrow> ReplicaHistory" where
  "historyOf items = \<lparr>rh_Deployments = map replicaCount (items Deployments),
     rh_ReplicaSets = map replicaCount (items ReplicaSets),
     rh_StatefulSets = map replicaCount (items StatefulSets)\<rparr>"

definition sleepEvents :: "rest_config \<Rightarrow> string \<Rightarrow> string \<Rightarrow> (workload_kind \<Rightarrow> Workload list) \<Rightarrow> event list" where
  "sleepEvents c rel ns items = concat (map (\<lambda>k.
     HelmEv c (KListWorkloads k ns (instanceSelector rel) (Inr (items k))) # downPatches c k ns (items k))
     [Deployments, ReplicaSets, StatefulSets])"

definition resumeEvents :: "rest_config \<Rightarrow> ReplicaHistory \<Rightarrow> event list" where
  "resumeEvents c h = backPatches c Deployments (rh_Deployments h)
     @ backPatches c ReplicaSets (rh_ReplicaSets h) @ backPatches c StatefulSets (rh_StatefulSets h)"

lemma Sleep_run:
  assumes "patchesSucceed E"
    and "\<And>h k. e_kListWorkloads E h (hs_config (hm_helmService hm)) k (GetNamespace (hm_helmModule hm))
      (instanceSelector (hm_releaseName hm)) = Inr (items k)"
  shows "ModuleHelmManager_Sleep E hm md s =
    (Ret (None, if \<exists>k. items k \<noteq> [] then metaSet replicaHistoryKey (encReplicaHistory (historyOf items)) md else md),
     s\<lparr>trace := trace s @ sleepEvents (hs_config (hm_helmService hm)) (hm_releaseName hm)
       (GetNamespace (hm_helmModule hm)) items\<rparr>)"
proof -
  have ex: "(\<exists>k. items k \<noteq> []) \<longleftrightarrow> items Deployments \<noteq> [] \<or> items ReplicaSets \<noteq> [] \<or> items StatefulSets \<noteq> []"
    by (metis workload_kind.exhaust)
  show ?thesis
    by (simp add: ModuleHelmManager_Sleep_def ScaleDeployments_def ScaleReplicaSets_def ScaleStatefulSets_def
        scaleWorkloads_def kListWorkloads_def andThen_run scaleLoop_run [OF assms(1)] assms(2) Let_def
        rememberReplicas_def sleepEvents_def ex historyOf_def emptyHistory_def metaSet_def AList.update_last)
qed

lemma Resume_run:
  assumes "patchesSucceed E" and "map_of md replicaHistoryKey = Some v" and "lib_decodeReplicaHistory lib v = Inr h"
  shows "ModuleHelmManager_Resume lib E hm md s =
    (Ret (None, md), s\<lparr>trace := trace s @ resumeEvents (hs_config (hm_helmService hm)) h\<rparr>)"
  using assms
  by (simp add: ModuleHelmManager_Resume_def guardErr_def ScaleDeploymentsBack_def ScaleReplicaSetsBack_def
      ScaleStatefulSetsBack_def andThen_run scaleBack_run resumeEvents_def)

lemma fold_sleepEvents:
  "fold applyPatch (sleepEvents c rel ns items) st (c', k, n, name) =
     (if c' = c \<and> n = ns \<and> name \<in> wl_Name ` {w \<in> set (items k). currentReplicas w \<noteq> 0} then 0
      else st (c', k, n, name))"
  by (cases k) (auto simp: sleepEvents_def fold_downPatches)

lemma fold_resumeEvents:
  assumes listing: "\<And>k. trueListing goal c k ns (items k)"
  shows "fold applyPatch (resumeEvents c (historyOf items)) st (c', k, n, name) =
     (if c' = c \<and> n = ns \<and> name \<in> wl_Name ` set (items k) then goal (c', k, n, name)
      else st (c', k, n, name))"
proof -
  have "fold applyPatch (backPatches c kind (map replicaCount (items kind))) st' key =
      (if key \<in> (\<lambda>r. (c, kind, rrc_Namespace r, rrc_Name r)) ` set (map replicaCount (items kind))
       then goal key else st' key)" for kind st' key
    by (rule fold_backPatches) (use listing [of kind] in \<open>auto simp: trueListing_def replicaCount_def\<close>)
  moreover have "(\<lambda>r. (c, kind, rrc_Namespace r, rrc_Name r)) ` set (map replicaCount (items kind))
      = (\<lambda>w. (c, kind, ns, wl_Name w)) ` set (items kind)" for kind
    using listing [of kind] by (force simp: trueListing_def replicaCount_def image_image)
  ultimately have "fold applyPatch (backPatches c kind (map replicaCount (items kind))) st' key =
      (if key \<in> (\<lambda>w. (c, kind, ns, wl_Name w)) ` set (items kind) then goal key else st' key)" for kind st' key
    by simp
  then show ?thesis
    by (cases k) (auto simp: resumeEvents_def historyOf_def)
qed

lemma smallInts_history:
  assumes "\<And>k w. w \<in> set (items k) \<Longrightarrow> \<bar>currentReplicas w\<bar> < 2 ^ 31"
  shows "smallInts (encReplicaHistory (historyOf items))"
proof -
  have "\<bar>currentReplicas w\<bar> < 2 ^ 53" if "w \<in> set (items k)" for k w
    using assms [OF that] by simp
  then show ?thesis
    by (auto simp: encReplicaHistory_def historyOf_def omitEmpty_def encReplicaCount_def replicaCount_def
        list_all_iff)
qed

section \<open>A concrete JSON library and cluster\<close>

text \<open>A JSON library that satisfies the laws: documents are texts whose length, less one, numbers the value.\<close>

instance f64 :: countable
  by countable_datatype

instance go_any :: countable
  by countable_datatype

definition decodeCount :: "go_any \<Rightarrow> ResourceReplicaCount" where
  "decodeCount v = (case v of AMap kvs \<Rightarrow>
       \<lparr>rrc_Namespace = (case map_of kvs ''Namespace'' of Some (AString s) \<Rightarrow> s | _ \<Rightarrow> []),
        rrc_Name = (case map_of kvs ''Name'' of Some (AString s) \<Rightarrow> s | _ \<Rightarrow> []),
        rrc_Replicas = (case map_of kvs ''Replicas'' of Some (AFloat f) \<Rightarrow> truncF64 f | _ \<Rightarrow> 0)\<rparr>
     | _ \<Rightarrow> \<lparr>rrc_Namespace = [], rrc_Name = [], rrc_Replicas = 0\<rparr>)"

definition decodeCounts :: "go_map \<Rightarrow> string \<Rightarrow> ResourceReplicaCount list" where
  "decodeCounts kvs k = (case map_of kvs k of Some (ASlice vs) \<Rightarrow> map decodeCount vs | _ \<Rightarrow> [])"

definition exampleJsonLib :: golib where
  "exampleJsonLib = exampleLib\<lparr>lib_jsonMarshal := \<lambda>v. replicate (Suc (to_nat v)) CHR ''x'',
     lib_jsonUnmarshal := \<lambda>s. Inr (jsonView (from_nat (length s - 1))),
     lib_decodeReplicaHistory := \<lambda>v. (case v of
         AMap kvs \<Rightarrow> Inr \<lparr>rh_Deployments = decodeCounts kvs ''deployments'',
           rh_ReplicaSets = decodeCounts kvs ''replicaSets'', rh_StatefulSets = decodeCounts kvs ''statefulSets''\<rparr>
       | _ \<Rightarrow> Inl (ErrText ''expected a map''))\<rparr>"

lemma exampleJson_law: "jsonLaw exampleJsonLib"
  by (simp add: jsonLaw_def exampleJsonLib_def)

lemma decodeCount_enc: "decodeCount (jsonView (encReplicaCount r)) = r"
  by (simp add: decodeCount_def encReplicaCount_def)

lemma exampleJson_decode: "decodeLaw exampleJsonLib"
proof -
  have "map (decodeCount \<circ> (jsonView \<circ> encReplicaCount)) rs = rs" for rs
    by (rule map_idI) (simp add: decodeCount_enc)
  then show ?thesis
    by (auto simp: decodeLaw_def exampleJsonLib_def encReplicaHistory_def decodeCounts_def omitEmpty_def map_add_def)
qed

definition exampleManager :: ModuleHelmManager where
  "exampleManager = \<lparr>hm_helmModule = exampleHelm, hm_helmService = exampleService, hm_releaseName = ''rel''\<rparr>"

definition exampleItemsOf :: "workload_kind \<Rightarrow> Workload list" where
  "exampleItemsOf k = (case k of Deployments \<Rightarrow> [\<lparr>wl_Namespace = ''apps'', wl_Name = ''web'', wl_Replicas = Some 3\<rparr>]
     | _ \<Rightarrow> [])"

definition exampleScaleEnv :: env where
  "exampleScaleEnv = exampleEnv\<lparr>e_kListWorkloads := \<lambda>h c k ns sel. Inr (exampleItemsOf k)\<rparr>"

section \<open>Properties\<close>

text \<open>
  Sleep and resume of a Helm module are inverse to each other. Where patches succeed, the cluster
  lists the workloads of the release truthfully (at least one) and JSON and \<open>mapstructure\<close> behave as
  documented: \<open>Sleep\<close> scales every workload of the release to zero and touches no other, the metadata
  survives its way through the annotation, and \<open>Resume\<close> with it puts every workload of the cluster back
  to the replica count it had before.
\<close>

theorem sleep_resume_restores:
  assumes "patchesSucceed E" and "jsonLaw lib" and "decodeLaw lib" and "smallInts (AMap md)"
    and "\<forall>h k. e_kListWorkloads E h (hs_config (hm_helmService hm)) k (GetNamespace (hm_helmModule hm))
      (instanceSelector (hm_releaseName hm)) = Inr (items k)"
    and "\<forall>k. trueListing (replicasAfter st (trace s)) (hs_config (hm_helmService hm)) k
      (GetNamespace (hm_helmModule hm)) (items k)"
    and "\<forall>k. \<forall>w \<in> set (items k). \<bar>currentReplicas w\<bar> < 2 ^ 31" and "items k0 \<noteq> []"
  shows "\<exists>md1 t md2 u. ModuleHelmManager_Sleep E hm md s = (Ret (None, md1), t)
    \<and> (\<forall>c k ns name. replicasAfter st (trace t) (c, k, ns, name) =
         (if c = hs_config (hm_helmService hm) \<and> ns = GetNamespace (hm_helmModule hm)
             \<and> name \<in> wl_Name ` set (items k) then 0 else replicasAfter st (trace s) (c, k, ns, name)))
    \<and> metaParse lib [] (metaString lib md1) = Inr md2
    \<and> ModuleHelmManager_Resume lib E hm md2 t = (Ret (None, md2), u)
    \<and> replicasAfter st (trace u) = replicasAfter st (trace s)"
proof -
  let ?c = "hs_config (hm_helmService hm)" and ?ns = "GetNamespace (hm_helmModule hm)"
  let ?R = "replicasAfter st (trace s)" and ?h = "historyOf items"
  let ?md1 = "metaSet replicaHistoryKey (encReplicaHistory ?h) md"
  let ?t = "s\<lparr>trace := trace s @ sleepEvents ?c (hm_releaseName hm) ?ns items\<rparr>"
  let ?u = "?t\<lparr>trace := trace ?t @ resumeEvents ?c ?h\<rparr>"
  have listing: "trueListing ?R ?c k ?ns (items k)" for k using assms(6) by blast
  have sleep: "ModuleHelmManager_Sleep E hm md s = (Ret (None, ?md1), ?t)"
    using Sleep_run [OF assms(1), of hm items md s] assms(5,8) by auto
  have "smallInts (AMap ?md1)"
    using smallInts_metaSet [OF assms(4) smallInts_history] assms(7) by blast
  from meta_roundtrip [OF assms(2) this] obtain md2 where
    md2: "metaParse lib [] (metaString lib ?md1) = Inr md2"
      "map_of md2 replicaHistoryKey = Some (jsonView (encReplicaHistory ?h))"
    by (auto simp: map_of_metaSet)
  have resume: "ModuleHelmManager_Resume lib E hm md2 ?t = (Ret (None, md2), ?u)"
    using Resume_run [OF assms(1) md2(2), of lib ?h hm ?t] assms(3) by (simp add: decodeLaw_def)
  have zero: "replicasAfter st (trace ?t) (c, k, ns, name) =
      (if c = ?c \<and> ns = ?ns \<and> name \<in> wl_Name ` set (items k) then 0 else ?R (c, k, ns, name))" for c k ns name
    using listing [of k] by (auto simp: fold_sleepEvents trueListing_def)
  have "replicasAfter st (trace ?u) (c, k, ns, name) = ?R (c, k, ns, name)" for c k ns name
    using fold_resumeEvents [of ?R ?c ?ns items, OF listing] zero by simp
  then have "replicasAfter st (trace ?u) = ?R" by auto
  with sleep md2(1) resume zero show ?thesis by blast
qed

theorem sleep_resume_restores_witness:
  "\<exists>md1 t md2 u. ModuleHelmManager_Sleep exampleScaleEnv exampleManager [] exampleWorld = (Ret (None, md1), t)
     \<and> replicasAfter (\<lambda>_. 3) (trace t) (exampleConfig, Deployments, ''apps'', ''web'') = 0
     \<and> ModuleHelmManager_Resume exampleJsonLib exampleScaleEnv exampleManager md2 t = (Ret (None, md2), u)
     \<and> replicasAfter (\<lambda>_. 3) (trace u) = (\<lambda>_. 3)"
proof -
  have patches: "patchesSucceed exampleScaleEnv"
    by (simp add: patchesSucceed_def exampleScaleEnv_def exampleEnv_def)
  have listing: "\<forall>h k. e_kListWorkloads exampleScaleEnv h (hs_config (hm_helmService exampleManager)) k
      (GetNamespace (hm_helmModule exampleManager)) (instanceSelector (hm_releaseName exampleManager))
      = Inr (exampleItemsOf k)"
    by (simp add: exampleScaleEnv_def)
  have true: "\<forall>k. trueListing (replicasAfter (\<lambda>_. 3) (trace exampleWorld)) (hs_config (hm_helmService exampleManager)) k
      (GetNamespace (hm_helmModule exampleManager)) (exampleItemsOf k)"
    by (simp add: trueListing_def exampleItemsOf_def exampleManager_def exampleHelm_def GetNamespace_def
        exampleWorld_def replicasAfter_def currentReplicas_def split: workload_kind.split)
  have small: "\<forall>k. \<forall>w \<in> set (exampleItemsOf k). \<bar>currentReplicas w\<bar> < 2 ^ 31"
    by (simp add: exampleItemsOf_def currentReplicas_def split: workload_kind.split)
  have some: "exampleItemsOf Deployments \<noteq> []" by (simp add: exampleItemsOf_def)
  from sleep_resume_restores [OF patches exampleJson_law exampleJson_decode _ listing true small some, of "[]"]
  obtain md1 t md2 u where
    r: "ModuleHelmManager_Sleep exampleScaleEnv exampleManager [] exampleWorld = (Ret (None, md1), t)"
      "ModuleHelmManager_Resume exampleJsonLib exampleScaleEnv exampleManager md2 t = (Ret (None, md2), u)"
      "replicasAfter (\<lambda>_. 3) (trace u) = replicasAfter (\<lambda>_. 3) (trace exampleWorld)"
    and zero: "\<forall>c k ns name. replicasAfter (\<lambda>_. 3) (trace t) (c, k, ns, name) =
         (if c = hs_config (hm_helmService exampleManager) \<and> ns = GetNamespace (hm_helmModule exampleManager)
             \<and> name \<in> wl_Name ` set (exampleItemsOf k) then 0
          else replicasAfter (\<lambda>_. 3) (trace exampleWorld) (c, k, ns, name))"
    by auto
  have "replicasAfter (\<lambda>_. 3) (trace t) (exampleConfig, Deployments, ''apps'', ''web'') = 0"
    using zero by (simp add: exampleManager_def exampleService_def exampleHelm_def GetNamespace_def exampleItemsOf_def)
  with r show ?thesis by (auto simp: replicasAfter_def exampleWorld_def)
qed

text \<open>
  A Helm module without workloads cannot be resumed. If the release has no Deployment, ReplicaSet
  or StatefulSet, \<open>Sleep\<close> succeeds without recording a replica history, and \<open>Resume\<close> with the metadata it
  leaves fails with \<open>replica history not found in metadata\<close>.
\<close>

theorem sleep_without_workloads_blocks_resume:
  assumes "jsonLaw lib" and "smallInts (AMap md)" and "map_of md replicaHistoryKey = None"
    and "\<forall>h k. e_kListWorkloads E h (hs_config (hm_helmService hm)) k (GetNamespace (hm_helmModule hm))
      (instanceSelector (hm_releaseName hm)) = Inr []"
  shows "\<exists>t md2. ModuleHelmManager_Sleep E hm md s = (Ret (None, md), t)
    \<and> metaParse lib [] (metaString lib md) = Inr md2
    \<and> ModuleHelmManager_Resume lib E hm md2 t =
        (Ret (Some (ErrText ''replica history not found in metadata''), md2), t)"
proof -
  from meta_roundtrip [OF assms(1,2)] obtain md2 where
    md2: "metaParse lib [] (metaString lib md) = Inr md2" "map_of md2 replicaHistoryKey = None"
    using assms(3) by (metis option.map_disc_iff)
  have "\<exists>t. ModuleHelmManager_Sleep E hm md s = (Ret (None, md), t)"
    using assms(4)
    by (simp add: ModuleHelmManager_Sleep_def ScaleDeployments_def ScaleReplicaSets_def ScaleStatefulSets_def
        scaleWorkloads_def kListWorkloads_def andThen_run Let_def rememberReplicas_def)
  with md2 show ?thesis by (auto simp: ModuleHelmManager_Resume_def)
qed

theorem sleep_without_workloads_blocks_resume_witness:
  "\<exists>t md2. ModuleHelmManager_Resume exampleJsonLib (exampleEnv\<lparr>e_kListWorkloads := \<lambda>h c k ns sel. Inr []\<rparr>)
     exampleManager md2 t = (Ret (Some (ErrText ''replica history not found in metadata''), md2), t)"
  using sleep_without_workloads_blocks_resume [OF exampleJson_law,
      where md = "[]" and E = "exampleEnv\<lparr>e_kListWorkloads := \<lambda>h c k ns sel. Inr []\<rparr>"
        and hm = exampleManager and s = exampleWorld]
  by auto

text \<open>
  The operations of a Helm manager stay within their release: on the cluster of the service they
  install and uninstall only this release in the module's namespace, delete this namespace or the
  release's volume claims only where the cleanup policy asks for it, never the default namespace, and
  they write no Module and no Workspace object.
\<close>

theorem helmManager_stays_in_release:
  assumes "m = NewModuleHelmManager lib E helm svc rel"
    and "op \<in> {im_Install m, im_Uninstall m, im_Sleep m, im_Resume m}"
  shows "emits (managerEvent (hs_config svc) rel (GetNamespace helm) (helm_Cleanup helm)) s (snd (op md s))"
  using helmManager.operation_scope [of op lib E helm svc rel md] assms by (simp add: keeps_def)

theorem helmManager_stays_in_release_witness:
  "emits (managerEvent exampleConfig ''rel'' ''apps'' \<lparr>cl_RemoveNamespace = False, cl_RemovePVCs = True\<rparr>)
     exampleWorld (snd (im_Uninstall (NewModuleHelmManager exampleLib exampleEnv exampleHelm exampleService ''rel'') []
       exampleWorld))"
  using helmManager_stays_in_release [OF refl, of
      "im_Uninstall (NewModuleHelmManager exampleLib exampleEnv exampleHelm exampleService ''rel'')"
      exampleLib exampleEnv exampleHelm exampleService "''rel''" exampleWorld "[]"]
  by (simp add: exampleHelm_def exampleService_def GetNamespace_def)

end
