(* ===== verification/FileUtils.thy ===== *)
theory FileUtils
  imports Manager
begin

text \<open>
  The helpers that store a document in a file (\<open>src/pkg/utils/file.go\<close>): from a URL, from a key of a config
  map, from a key of a secret. The part after the document was read is the same in the three functions but
  for one message; it is one definition here. The file handle a function returns is given by its path.
\<close>

definition openFile :: "env \<Rightarrow> string \<Rightarrow> (go_error option) io" where
  "openFile E p = call (\<lambda>h. e_openFile E h p) (\<lambda>r. FileEv (OpenFile p r))"

definition createFile :: "env \<Rightarrow> string \<Rightarrow> (go_error option) io" where
  "createFile E p = call (\<lambda>h. e_createFile E h p) (\<lambda>r. FileEv (CreateFile p r))"

definition httpGet :: "env \<Rightarrow> string \<Rightarrow> (go_error + (go_error + string)) io" where
  "httpGet E url = call (\<lambda>h. e_httpGet E h url) (\<lambda>r. FileEv (HttpGet url r))"

lemmas file_calls = openFile_def createFile_def httpGet_def writeFile_def removeFile_def stat_def mkdirAll_def
  getConfigMap_def getSecret_def

section \<open>Storing a document\<close>

definition targetPath :: "golib \<Rightarrow> bool \<Rightarrow> string \<Rightarrow> string \<Rightarrow> string" where
  "targetPath lib fileHash writePath body =
     (if fileHash then lib_sprintf lib writePath (lib_sha256 lib body) else writePath)"

definition createAndWrite :: "golib \<Rightarrow> env \<Rightarrow> string \<Rightarrow> string \<Rightarrow> string \<Rightarrow> (go_error + string) io" where
  "createAndWrite lib E what writePath body = (let dir = pathDir writePath in
     guardErr (mkdirAll E dir) (\<lambda>err. Inl (Wrapped (''failed to create directory '' @ quoted dir) err)) (
     guardErr (createFile E writePath) (\<lambda>err. Inl (Wrapped ''failed to create file'' err)) (
     andThen (writeFile E writePath body) (\<lambda>e. case e of
         Some err \<Rightarrow> andThen (removeFile E writePath) (\<lambda>_. ret (Inl (Wrapped (''failed to write '' @ what) err)))
       | None \<Rightarrow> ret (Inr writePath)))))"

definition existsStat :: "stat_result \<Rightarrow> bool" where
  "existsStat r \<longleftrightarrow> r = StatDir \<or> r = StatFile"

definition storeBody :: "golib \<Rightarrow> env \<Rightarrow> string \<Rightarrow> bool \<Rightarrow> bool \<Rightarrow> string \<Rightarrow> string \<Rightarrow> (go_error + string) io" where
  "storeBody lib E what override fileHash writePath0 body =
     (let writePath = targetPath lib fileHash writePath0 body in
      if override then createAndWrite lib E what writePath body
      else andThen (stat E writePath) (\<lambda>r.
        if existsStat r
        then guardErr (openFile E writePath)
          (\<lambda>err. Inl (Wrapped (''failed to open existing file '' @ quoted writePath) err)) (ret (Inr writePath))
        else createAndWrite lib E what writePath body))"

section \<open>The three sources\<close>

definition WriteHTTPDataToFile ::
  "golib \<Rightarrow> env \<Rightarrow> string \<Rightarrow> string \<Rightarrow> bool \<Rightarrow> bool \<Rightarrow> (go_error + string) io" where
  "WriteHTTPDataToFile lib E fileURL writePath override fileHash = (case lib_urlParse lib fileURL of
       Inl err \<Rightarrow> ret (Inl (Wrapped ''failed to create HTTP request'' err))
     | Inr _ \<Rightarrow> andThen (httpGet E fileURL) (\<lambda>r. case r of
           Inl err \<Rightarrow> ret (Inl (Wrapped (''failed to perform HTTP request to '' @ quoted fileURL) err))
         | Inr (Inl err) \<Rightarrow> ret (Inl (Wrapped ''failed to read response body'' err))
         | Inr (Inr body) \<Rightarrow>
             storeBody lib E ''remote file content to the file'' override fileHash writePath body))"

definition defaultNamespace :: "string \<Rightarrow> string" where
  "defaultNamespace ns = (if ns = [] then ''default'' else ns)"

definition lookupDoc :: "(string \<rightharpoonup> string) \<Rightarrow> string \<Rightarrow> string" where
  "lookupDoc m key = (case m key of None \<Rightarrow> [] | Some d \<Rightarrow> d)"

definition WriteConfigMapToFile ::
  "golib \<Rightarrow> env \<Rightarrow> string \<Rightarrow> string \<Rightarrow> string \<Rightarrow> string \<Rightarrow> bool \<Rightarrow> bool \<Rightarrow> (go_error + string) io" where
  "WriteConfigMapToFile lib E namespace name key writePath override fileHash = (let ns = defaultNamespace namespace in
     andThen (getConfigMap E \<lparr>nn_Namespace = ns, nn_Name = name\<rparr>) (\<lambda>r. case r of
         Inl err \<Rightarrow> ret (Inl (Wrapped (''failed to get ConfigMap '' @ quoted name @ '' in namespace '' @ quoted ns) err))
       | Inr configMap \<Rightarrow>
           if lookupDoc (cm_Data configMap) key = []
           then ret (Inl (ErrText (''ConfigMap '' @ quoted name @ '' in namespace '' @ quoted ns
             @ '' does not contain data under key '' @ quoted key)))
           else storeBody lib E ''config map data to file'' override fileHash writePath
             (lookupDoc (cm_Data configMap) key)))"

definition WriteSecretToFile ::
  "golib \<Rightarrow> env \<Rightarrow> string \<Rightarrow> string \<Rightarrow> string \<Rightarrow> string \<Rightarrow> bool \<Rightarrow> bool \<Rightarrow> (go_error + string) io" where
  "WriteSecretToFile lib E namespace name key writePath override fileHash = (let ns = defaultNamespace namespace in
     andThen (getSecret E \<lparr>nn_Namespace = ns, nn_Name = name\<rparr>) (\<lambda>r. case r of
         Inl err \<Rightarrow> ret (Inl (Wrapped (''failed to get Secret '' @ quoted name @ '' in namespace '' @ quoted ns) err))
       | Inr secret \<Rightarrow>
           if lookupDoc (sec_Data secret) key = []
           then ret (Inl (ErrText (''secret '' @ quoted name @ '' in namespace '' @ quoted ns
             @ '' does not contain data under key '' @ quoted key)))
           else storeBody lib E ''secret data to file'' override fileHash writePath
             (lookupDoc (sec_Data secret) key)))"

section \<open>What is left on disk\<close>

text \<open>The contents of the files after a trace, from those before it, as far as the calls tell: a created file
  is empty, a written one has the document, a removed one is gone.\<close>

fun applyFile :: "event \<Rightarrow> (string \<rightharpoonup> string) \<Rightarrow> (string \<rightharpoonup> string)" where
  "applyFile (FileEv (CreateFile p None)) fs = fs(p \<mapsto> [])"
| "applyFile (FileEv (WriteFile p d None)) fs = fs(p \<mapsto> d)"
| "applyFile (FileEv (RemoveFile p None)) fs = fs(p := None)"
| "applyFile _ fs = fs"

definition filesAfter :: "(string \<rightharpoonup> string) \<Rightarrow> history \<Rightarrow> (string \<rightharpoonup> string)" where
  "filesAfter fs es = fold applyFile es fs"

text \<open>What storing a document promises: with a path as result, the file at the target path has the document,
  or it was found there and the caller did not ask to override it, and no other file changed; with an error,
  the file at the target path is as before, empty, or gone, where removals succeed.\<close>

lemma createAndWrite_files:
  assumes "createAndWrite lib E what p body s = (Ret r, t)" and "\<And>h q. e_removeFile E h q = None"
  shows "\<exists>es. trace t = trace s @ es \<and> (case r of
       Inr q \<Rightarrow> q = p \<and> filesAfter fs es = fs(p \<mapsto> body)
     | Inl _ \<Rightarrow> filesAfter fs es \<in> {fs, fs(p := None)})"
  using assms
  by (auto simp: createAndWrite_def guardErr_def andThen_run file_calls filesAfter_def Let_def
      split: option.splits if_splits)

lemma storeBody_files:
  assumes "storeBody lib E what override fileHash path body s = (Ret r, t)" and "\<And>h q. e_removeFile E h q = None"
  shows "\<exists>es. trace t = trace s @ es \<and> (case r of
       Inr q \<Rightarrow> q = targetPath lib fileHash path body \<and> (filesAfter fs es = fs(q \<mapsto> body)
         \<or> \<not> override \<and> filesAfter fs es = fs \<and> (\<exists>x. existsStat x \<and> FileEv (Stat q x) \<in> set es))
     | Inl _ \<Rightarrow> filesAfter fs es \<in> {fs, fs(targetPath lib fileHash path body := None)})"
proof -
  let ?p = "targetPath lib fileHash path body"
  let ?x = "e_stat E (trace s) ?p"
  let ?s = "s\<lparr>trace := trace s @ [FileEv (Stat ?p ?x)]\<rparr>"
  consider "override" | "\<not> override" "existsStat ?x" | "\<not> override" "\<not> existsStat ?x" by blast
  then show ?thesis
  proof cases
    case 1
    with assms(1) have "createAndWrite lib E what ?p body s = (Ret r, t)" by (simp add: storeBody_def Let_def)
    from createAndWrite_files [OF this assms(2), of fs] obtain es where
      "trace t = trace s @ es" "case r of Inr q \<Rightarrow> q = ?p \<and> filesAfter fs es = fs(?p \<mapsto> body)
        | Inl _ \<Rightarrow> filesAfter fs es \<in> {fs, fs(?p := None)}" by blast
    then show ?thesis by (intro exI [of _ es]) (simp split: sum.splits)
  next
    case 2
    with assms(1) show ?thesis
      by (auto simp: storeBody_def Let_def stat_def guardErr_def andThen_run openFile_def filesAfter_def
          split: option.splits)
  next
    case 3
    with assms(1) have "createAndWrite lib E what ?p body ?s = (Ret r, t)"
      by (simp add: storeBody_def Let_def stat_def andThen_run)
    from createAndWrite_files [OF this assms(2), of fs] obtain es where
      es: "trace t = trace s @ FileEv (Stat ?p ?x) # es" "case r of Inr q \<Rightarrow> q = ?p \<and> filesAfter fs es = fs(?p \<mapsto> body)
        | Inl _ \<Rightarrow> filesAfter fs es \<in> {fs, fs(?p := None)}" by auto
    then show ?thesis
      by (intro exI [of _ "FileEv (Stat ?p ?x) # es"]) (simp add: filesAfter_def split: sum.splits)
  qed
qed

text \<open>
  C34: storing a document in a file is safe. When \<open>WriteConfigMapToFile\<close> returns a path, it read a document
  that is not empty from the config map's key, and either the file at that path has the document now and no
  other file changed, or the caller did not allow overriding, the file was there, and no file changed at all.
  When it returns an error, no file changed, except that the target may be gone after a failed write.
\<close>

theorem stored_file_safe:
  assumes "WriteConfigMapToFile lib E ns name key writePath override fileHash s = (Ret r, t)"
    and "\<And>h q. e_removeFile E h q = None"
  shows "\<exists>es. trace t = trace s @ es \<and> (case r of
       Inr p \<Rightarrow> (\<exists>cm body. CoreEv (GetConfigMap \<lparr>nn_Namespace = defaultNamespace ns, nn_Name = name\<rparr> (Inr cm)) \<in> set es
           \<and> cm_Data cm key = Some body \<and> body \<noteq> [] \<and> p = targetPath lib fileHash writePath body
           \<and> (filesAfter fs es = fs(p \<mapsto> body)
              \<or> \<not> override \<and> filesAfter fs es = fs \<and> (\<exists>x. existsStat x \<and> FileEv (Stat p x) \<in> set es)))
     | Inl _ \<Rightarrow> (\<exists>body. filesAfter fs es \<in> {fs, fs(targetPath lib fileHash writePath body := None)}))"
proof -
  let ?k = "\<lparr>nn_Namespace = defaultNamespace ns, nn_Name = name\<rparr>"
  define g where "g = CoreEv (GetConfigMap ?k (e_getConfigMap E (trace s) ?k))"
  show ?thesis
  proof (cases "\<exists>cm body. e_getConfigMap E (trace s) ?k = Inr cm \<and> cm_Data cm key = Some body \<and> body \<noteq> []")
    case True
    then obtain cm body where cm: "e_getConfigMap E (trace s) ?k = Inr cm" "cm_Data cm key = Some body" "body \<noteq> []"
      by blast
    with assms(1) have "storeBody lib E ''config map data to file'' override fileHash writePath body
        (s\<lparr>trace := trace s @ [g]\<rparr>) = (Ret r, t)"
      by (simp add: WriteConfigMapToFile_def Let_def getConfigMap_def andThen_run lookupDoc_def g_def)
    from storeBody_files [OF this assms(2), of fs] obtain es where tr: "trace t = trace s @ g # es" and es:
      "case r of Inr q \<Rightarrow> q = targetPath lib fileHash writePath body \<and> (filesAfter fs es = fs(q \<mapsto> body)
         \<or> \<not> override \<and> filesAfter fs es = fs \<and> (\<exists>x. existsStat x \<and> FileEv (Stat q x) \<in> set es))
       | Inl _ \<Rightarrow> filesAfter fs es \<in> {fs, fs(targetPath lib fileHash writePath body := None)}" by auto
    have skip: "filesAfter fs (g # es) = filesAfter fs es" by (simp add: filesAfter_def g_def)
    show ?thesis
    proof (intro exI [of _ "g # es"] conjI)
      show "case r of
         Inr p \<Rightarrow> (\<exists>cm body. CoreEv (GetConfigMap ?k (Inr cm)) \<in> set (g # es)
           \<and> cm_Data cm key = Some body \<and> body \<noteq> [] \<and> p = targetPath lib fileHash writePath body
           \<and> (filesAfter fs (g # es) = fs(p \<mapsto> body)
              \<or> \<not> override \<and> filesAfter fs (g # es) = fs \<and> (\<exists>x. existsStat x \<and> FileEv (Stat p x) \<in> set (g # es))))
       | Inl _ \<Rightarrow> (\<exists>body. filesAfter fs (g # es) \<in> {fs, fs(targetPath lib fileHash writePath body := None)})"
      proof (cases r)
        case (Inr q)
        with es have q: "q = targetPath lib fileHash writePath body" and
          res: "filesAfter fs es = fs(q \<mapsto> body)
            \<or> \<not> override \<and> filesAfter fs es = fs \<and> (\<exists>x. existsStat x \<and> FileEv (Stat q x) \<in> set (g # es))" by auto
        have "CoreEv (GetConfigMap ?k (Inr cm)) \<in> set (g # es)" by (simp add: g_def cm(1))
        with Inr q res cm(2,3) show ?thesis unfolding skip by auto
      next
        case (Inl err)
        with es show ?thesis unfolding skip by auto
      qed
    qed (use tr in simp)
  next
    case False
    with assms(1) show ?thesis
      by (intro exI [of _ "[g]"])
        (auto simp: WriteConfigMapToFile_def Let_def getConfigMap_def andThen_run lookupDoc_def filesAfter_def g_def
          split: sum.splits option.splits if_splits)
  qed
qed

definition exampleFileEnv :: env where
  "exampleFileEnv = exampleEnv\<lparr>e_getConfigMap := \<lambda>h k. Inr \<lparr>cm_Data = [''values'' \<mapsto> ''x: 1''], cm_BinaryData = Map.empty\<rparr>\<rparr>"

theorem stored_file_safe_witness:
  "\<exists>t es. WriteConfigMapToFile exampleLib exampleFileEnv [] ''cm'' ''values'' ''/data/v.yaml'' True False exampleWorld
       = (Ret (Inr ''/data/v.yaml''), t) \<and> trace t = es \<and> filesAfter Map.empty es ''/data/v.yaml'' = Some ''x: 1''"
proof -
  have dir: "pathDir ''/data/v.yaml'' = ''/data''" by code_simp
  let ?run = "WriteConfigMapToFile exampleLib exampleFileEnv [] ''cm'' ''values'' ''/data/v.yaml'' True False exampleWorld"
  have run: "?run = (Ret (Inr ''/data/v.yaml''), snd ?run)"
    by (simp add: WriteConfigMapToFile_def storeBody_def createAndWrite_def targetPath_def lookupDoc_def guardErr_def
        andThen_run file_calls Let_def exampleFileEnv_def exampleEnv_def)
  have rem: "\<And>h q. e_removeFile exampleFileEnv h q = None" by (simp add: exampleFileEnv_def exampleEnv_def)
  have get: "\<And>h k. e_getConfigMap exampleFileEnv h k = Inr \<lparr>cm_Data = [''values'' \<mapsto> ''x: 1''], cm_BinaryData = Map.empty\<rparr>"
    by (simp add: exampleFileEnv_def)
  have "trace (snd ?run) = [CoreEv (GetConfigMap \<lparr>nn_Namespace = ''default'', nn_Name = ''cm''\<rparr>
       (Inr \<lparr>cm_Data = [''values'' \<mapsto> ''x: 1''], cm_BinaryData = Map.empty\<rparr>)), FileEv (MkdirAll ''/data'' None),
       FileEv (CreateFile ''/data/v.yaml'' None), FileEv (WriteFile ''/data/v.yaml'' ''x: 1'' None)]"
    by (simp add: WriteConfigMapToFile_def storeBody_def createAndWrite_def targetPath_def lookupDoc_def guardErr_def
        defaultNamespace_def andThen_run file_calls Let_def exampleFileEnv_def exampleEnv_def exampleWorld_def dir)
  with run stored_file_safe [OF run rem, of Map.empty] show ?thesis
    by (auto simp: exampleWorld_def)
qed

end
