(* ===== verification/Migration.thy ===== *)
theory Migration
  imports Manager
begin

text \<open>
  The migration of a module's data (\<open>src/pkg/services/secret_migration.go\<close>, \<open>configmap_migration.go\<close>,
  \<open>pvc_migration.go\<close>): a secret or a config map is copied to the destination cluster, a volume claim
  through two pods and a pipe. Every call names the cluster it goes to, so the events tell which side
  was read and which was written. The two \<open>tar\<close> commands of a volume run concurrently; the model
  has them in one order, as neither the code nor the claims look at it.
\<close>

section \<open>Calls\<close>

definition mGetSecret :: "env \<Rightarrow> rest_config \<Rightarrow> string \<Rightarrow> string \<Rightarrow> (go_error + SecretObject) io" where
  "mGetSecret E c ns n = call (\<lambda>h. e_mGetSecret E h c ns n) (\<lambda>r. MigrationEv c (MGetSecret ns n r))"

definition mGetConfigMap :: "env \<Rightarrow> rest_config \<Rightarrow> string \<Rightarrow> string \<Rightarrow> (go_error + ConfigMapObject) io" where
  "mGetConfigMap E c ns n = call (\<lambda>h. e_mGetConfigMap E h c ns n) (\<lambda>r. MigrationEv c (MGetConfigMap ns n r))"

definition mGetPod :: "env \<Rightarrow> rest_config \<Rightarrow> string \<Rightarrow> string \<Rightarrow> (go_error + MigrationPodStatus) io" where
  "mGetPod E c ns n = call (\<lambda>h. e_mGetPod E h c ns n) (\<lambda>r. MigrationEv c (MGetPod ns n r))"

definition mSelect :: "env \<Rightarrow> rest_config \<Rightarrow> select_case io" where
  "mSelect E c = call (\<lambda>h. e_mSelect E h) (\<lambda>r. MigrationEv c (MSelect r))"

definition mWrite :: "env \<Rightarrow> rest_config \<Rightarrow> migration_write \<Rightarrow> (go_error option) io" where
  "mWrite E c w = call (\<lambda>h. e_mWrite E h c w) (\<lambda>r. MigrationEv c (MWrite w r))"

lemmas migration_calls = mGetSecret_def mGetConfigMap_def mGetPod_def mSelect_def mWrite_def

section \<open>Clients of the two clusters\<close>

text \<open>The four calls that the three services start with; the first error ends the migration.\<close>

definition migrationClients ::
  "env \<Rightarrow> api_config \<Rightarrow> api_config \<Rightarrow> (rest_config \<Rightarrow> rest_config \<Rightarrow> (go_error option) io) \<Rightarrow> (go_error option) io" where
  "migrationClients E sourceConfig destConfig body =
     andThen (clientConfig E sourceConfig) (\<lambda>r1. case r1 of
         Inl err \<Rightarrow> ret (Some (Wrapped ''failed to create source REST config'' err))
       | Inr src \<Rightarrow> andThen (clientConfig E destConfig) (\<lambda>r2. case r2 of
           Inl err \<Rightarrow> ret (Some (Wrapped ''failed to create destination REST config'' err))
         | Inr dst \<Rightarrow>
             guardErr (newForConfig E src) (\<lambda>err. Some (Wrapped ''failed to create source clientset'' err)) (
             guardErr (newForConfig E dst) (\<lambda>err. Some (Wrapped ''failed to create destination clientset'' err)) (
             body src dst))))"

definition objectError :: "string \<Rightarrow> string \<Rightarrow> string \<Rightarrow> go_error \<Rightarrow> go_error option" where
  "objectError what ns name err = Some (Wrapped (what @ '' '' @ ns @ ''/'' @ name) err)"

section \<open>Secrets\<close>

definition releaseNameAnnotation :: string where
  "releaseNameAnnotation = ''meta.helm.sh/release-name''"

definition updateHelmAnnotations :: "string \<Rightarrow> (string \<rightharpoonup> string) option \<Rightarrow> (string \<rightharpoonup> string) option" where
  "updateHelmAnnotations destReleaseName annotations =
     (let updated = (case annotations of None \<Rightarrow> Map.empty | Some a \<Rightarrow> a) in
      Some (if destReleaseName \<noteq> [] \<and> updated releaseNameAnnotation \<noteq> None
        then updated(releaseNameAnnotation \<mapsto> destReleaseName) else updated))"

definition copySecret ::
  "env \<Rightarrow> rest_config \<Rightarrow> SecretObject \<Rightarrow> string \<Rightarrow> string \<Rightarrow> string \<Rightarrow> (go_error option) io" where
  "copySecret E dst source destName destNamespace destReleaseName =
     andThen (mGetSecret E dst destNamespace destName) (\<lambda>r. case r of
         Inl err \<Rightarrow>
           if \<not> isNotFound err
           then ret (objectError ''failed to get destination secret'' destNamespace destName err)
           else guardErr (mWrite E dst (WCreateSecret \<lparr>so_Name = destName, so_Namespace = destNamespace,
               so_Labels = so_Labels source, so_Annotations = updateHelmAnnotations destReleaseName (so_Annotations source),
               so_Type = so_Type source, so_Data = so_Data source, so_StringData = so_StringData source,
               so_Immutable = None\<rparr>))
             (objectError ''failed to create destination secret'' destNamespace destName) (ret None)
       | Inr dest \<Rightarrow>
           if so_Immutable dest = Some True
           then guardErr (mWrite E dst (WDeleteSecret destNamespace destName))
               (objectError ''failed to delete immutable destination secret'' destNamespace destName) (
             guardErr (mWrite E dst (WCreateSecret \<lparr>so_Name = destName, so_Namespace = destNamespace,
               so_Labels = so_Labels dest, so_Annotations = updateHelmAnnotations destReleaseName (so_Annotations dest),
               so_Type = so_Type source, so_Data = so_Data source, so_StringData = so_StringData source,
               so_Immutable = so_Immutable dest\<rparr>))
               (objectError ''failed to recreate immutable destination secret'' destNamespace destName) (ret None))
           else guardErr (mWrite E dst (WUpdateSecret (dest\<lparr>so_Data := so_Data source,
               so_StringData := so_StringData source, so_Type := so_Type source,
               so_Annotations := updateHelmAnnotations destReleaseName (so_Annotations dest)\<rparr>)))
             (objectError ''failed to update destination secret'' destNamespace destName) (ret None))"

definition MigrateSecret ::
  "env \<Rightarrow> api_config \<Rightarrow> string \<Rightarrow> string \<Rightarrow> api_config \<Rightarrow> string \<Rightarrow> string \<Rightarrow> string \<Rightarrow> (go_error option) io" where
  "MigrateSecret E sourceConfig sourceName sourceNamespace destConfig destName destNamespace destReleaseName =
     migrationClients E sourceConfig destConfig (\<lambda>src dst.
     andThen (mGetSecret E src sourceNamespace sourceName) (\<lambda>r. case r of
         Inl err \<Rightarrow> ret (objectError ''failed to get source secret'' sourceNamespace sourceName err)
       | Inr source \<Rightarrow> copySecret E dst source destName destNamespace destReleaseName))"

section \<open>Config maps\<close>

definition copyConfigMap ::
  "env \<Rightarrow> rest_config \<Rightarrow> ConfigMapObject \<Rightarrow> string \<Rightarrow> string \<Rightarrow> (go_error option) io" where
  "copyConfigMap E dst source destName destNamespace =
     andThen (mGetConfigMap E dst destNamespace destName) (\<lambda>r. case r of
         Inl err \<Rightarrow>
           if \<not> isNotFound err
           then ret (objectError ''failed to get destination configmap'' destNamespace destName err)
           else guardErr (mWrite E dst (WCreateConfigMap \<lparr>co_Name = destName, co_Namespace = destNamespace,
               co_Labels = co_Labels source, co_Annotations = co_Annotations source,
               co_Data = co_Data source, co_BinaryData = co_BinaryData source, co_Immutable = None\<rparr>))
             (objectError ''failed to create destination configmap'' destNamespace destName) (ret None)
       | Inr dest \<Rightarrow>
           if co_Immutable dest = Some True
           then guardErr (mWrite E dst (WDeleteConfigMap destNamespace destName))
               (objectError ''failed to delete immutable destination configmap'' destNamespace destName) (
             guardErr (mWrite E dst (WCreateConfigMap \<lparr>co_Name = destName, co_Namespace = destNamespace,
               co_Labels = co_Labels dest, co_Annotations = co_Annotations dest,
               co_Data = co_Data source, co_BinaryData = co_BinaryData source, co_Immutable = co_Immutable dest\<rparr>))
               (objectError ''failed to recreate immutable destination configmap'' destNamespace destName) (ret None))
           else guardErr (mWrite E dst (WUpdateConfigMap (dest\<lparr>co_Data := co_Data source,
               co_BinaryData := co_BinaryData source\<rparr>)))
             (objectError ''failed to update destination configmap'' destNamespace destName) (ret None))"

definition MigrateConfigMap ::
  "env \<Rightarrow> api_config \<Rightarrow> string \<Rightarrow> string \<Rightarrow> api_config \<Rightarrow> string \<Rightarrow> string \<Rightarrow> (go_error option) io" where
  "MigrateConfigMap E sourceConfig sourceName sourceNamespace destConfig destName destNamespace =
     migrationClients E sourceConfig destConfig (\<lambda>src dst.
     andThen (mGetConfigMap E src sourceNamespace sourceName) (\<lambda>r. case r of
         Inl err \<Rightarrow> ret (objectError ''failed to get source configmap'' sourceNamespace sourceName err)
       | Inr source \<Rightarrow> copyConfigMap E dst source destName destNamespace))"

section \<open>Volume claims\<close>

definition createMigrationPod ::
  "env \<Rightarrow> rest_config \<Rightarrow> string \<Rightarrow> string \<Rightarrow> string \<Rightarrow> (go_error option) io" where
  "createMigrationPod E c name namespace pvcName =
     guardErr (mWrite E c (WCreatePod \<lparr>mp_Name = name, mp_Namespace = namespace, mp_Image = ''alpine:latest'',
         mp_Command = [''tail'', ''-f'', ''/dev/null''], mp_MountPath = ''/data'', mp_ClaimName = pvcName\<rparr>))
       (objectError ''failed to create pod'' namespace name) (ret None)"

text \<open>The loop over the conditions of a running pod: a true \<open>Ready\<close> condition ends it; otherwise the flag
  tells whether some \<open>Ready\<close> condition is not true.\<close>

fun conditionsLoop :: "bool \<Rightarrow> (string \<times> string) list \<Rightarrow> bool \<times> bool" where
  "conditionsLoop allReady [] = (False, allReady)"
| "conditionsLoop allReady ((typ, status) # cs) =
     (if typ = ''Ready'' \<and> status = ''True'' then (True, allReady)
      else conditionsLoop (if typ = ''Ready'' \<and> status \<noteq> ''True'' then False else allReady) cs)"

definition podReady :: "MigrationPodStatus \<Rightarrow> bool" where
  "podReady p \<longleftrightarrow> mps_Phase p = ''Running'' \<and>
     (case conditionsLoop True (mps_Conditions p) of (returned, allReady) \<Rightarrow>
        returned \<or> (allReady \<and> 0 < length (mps_Conditions p)))"

text \<open>The loop ends when its timer fires; \<open>n\<close> bounds the ticks before that.\<close>

fun waitForPodReady :: "env \<Rightarrow> nat \<Rightarrow> rest_config \<Rightarrow> string \<Rightarrow> string \<Rightarrow> (go_error option) io" where
  "waitForPodReady E 0 c podName namespace = hang ''waiting for the migration pod''"
| "waitForPodReady E (Suc n) c podName namespace = andThen (mSelect E c) (\<lambda>sel. case sel of
       ContextDone err \<Rightarrow> ret (Some err)
     | TimerFired \<Rightarrow> ret (Some (ErrText (''timeout waiting for pod '' @ namespace @ ''/'' @ podName @ '' to become ready'')))
     | TickerFired \<Rightarrow> andThen (mGetPod E c namespace podName) (\<lambda>r. case r of
         Inl err \<Rightarrow>
           if isNotFound err then waitForPodReady E n c podName namespace
           else ret (objectError ''failed to get pod'' namespace podName err)
       | Inr pod \<Rightarrow>
           if podReady pod then ret None
           else if mps_Phase pod = ''Failed'' \<or> mps_Phase pod = ''Succeeded''
           then ret (Some (ErrText (''pod '' @ namespace @ ''/'' @ podName @ '' entered terminal phase: '' @ mps_Phase pod)))
           else waitForPodReady E n c podName namespace))"

definition execInPodWithStreams ::
  "env \<Rightarrow> rest_config \<Rightarrow> string \<Rightarrow> string \<Rightarrow> string list \<Rightarrow> (go_error option) io" where
  "execInPodWithStreams E c podName namespace command =
     guardErr (mWrite E c (WNewExecutor namespace podName command))
       (\<lambda>err. Some (Wrapped ''failed to create executor'' err)) (
     andThen (mWrite E c (WExec namespace podName command)) (\<lambda>e. ret (map_option (Wrapped ''command execution failed'') e)))"

definition migrateDataViaTar ::
  "env \<Rightarrow> rest_config \<Rightarrow> string \<Rightarrow> string \<Rightarrow> rest_config \<Rightarrow> string \<Rightarrow> string \<Rightarrow> (go_error option) io" where
  "migrateDataViaTar E src sourcePodName sourceNamespace dst destPodName destNamespace =
     andThen (execInPodWithStreams E src sourcePodName sourceNamespace
       [''tar'', ''-czf'', ''-'', ''-C'', ''/data'', ''.'']) (\<lambda>sourceErr.
     andThen (execInPodWithStreams E dst destPodName destNamespace
       [''tar'', ''-xzf'', ''-'', ''-C'', ''/data'']) (\<lambda>destErr.
     ret (case sourceErr of
         Some err \<Rightarrow> Some (Wrapped ''failed to tar source data'' err)
       | None \<Rightarrow> map_option (Wrapped ''failed to untar to destination'') destErr)))"

definition cleanupPod :: "env \<Rightarrow> rest_config \<Rightarrow> string \<Rightarrow> string \<Rightarrow> unit io" where
  "cleanupPod E c podName namespace = andThen (mWrite E c (WDeletePod namespace podName)) (\<lambda>_. ret ())"

definition MigratePVC ::
  "env \<Rightarrow> api_config \<Rightarrow> string \<Rightarrow> string \<Rightarrow> api_config \<Rightarrow> string \<Rightarrow> string \<Rightarrow> (go_error option) io" where
  "MigratePVC E sourceConfig sourcePVCName sourceNamespace destConfig destPVCName destNamespace =
     migrationClients E sourceConfig destConfig (\<lambda>src dst.
     andThen (now E) (\<lambda>t.
       let timestamp = t div seconds 1;
           sourcePodName = ''pvc-migration-source-'' @ showInt timestamp;
           destPodName = ''pvc-migration-dest-'' @ showInt timestamp in
       guardErr (createMigrationPod E src sourcePodName sourceNamespace sourcePVCName)
         (\<lambda>err. Some (Wrapped ''failed to create source migration pod'' err)) (
       deferred (
         guardErr (createMigrationPod E dst destPodName destNamespace destPVCName)
           (\<lambda>err. Some (Wrapped ''failed to create destination migration pod'' err)) (
         deferred (
           guardErr (waitForPodReady E (e_polls E) src sourcePodName sourceNamespace)
             (\<lambda>err. Some (Wrapped ''source pod did not become ready'' err)) (
           guardErr (waitForPodReady E (e_polls E) dst destPodName destNamespace)
             (\<lambda>err. Some (Wrapped ''destination pod did not become ready'' err)) (
           guardErr (migrateDataViaTar E src sourcePodName sourceNamespace dst destPodName destNamespace)
             (\<lambda>err. Some (Wrapped ''failed to migrate data'' err)) (ret None))))
         (cleanupPod E dst destPodName destNamespace)))
       (cleanupPod E src sourcePodName sourceNamespace))))"

section \<open>Which side is written\<close>

fun writesOnly :: "rest_config \<Rightarrow> event \<Rightarrow> bool" where
  "writesOnly c (MigrationEv c' (MWrite _ _)) = (c' = c)"
| "writesOnly c _ = True"

text \<open>A program that starts with the clients of the two sides.\<close>

lemma migrationClients_RetE:
  assumes "migrationClients E sourceConfig destConfig body s = (Ret None, t)"
  obtains src dst s' es where "body src dst s' = (Ret None, t)" and "trace s' = trace s @ es"
    and "list_all (writesOnly dst) es"
  using assms
  by (auto simp: migrationClients_def clientConfig_def newForConfig_def guardErr_def andThen_run
      split: sum.splits option.splits)

lemma updateHelmAnnotations_release:
  "\<exists>a. updateHelmAnnotations rel ann = Some a \<and> (rel \<noteq> [] \<longrightarrow> a releaseNameAnnotation \<in> {None, Some rel})"
  by (auto simp: updateHelmAnnotations_def Let_def)

text \<open>A write that stores the contents of a secret.\<close>

definition storesSecret :: "SecretObject \<Rightarrow> string \<Rightarrow> string \<Rightarrow> string \<Rightarrow> migration_write \<Rightarrow> bool" where
  "storesSecret source name ns rel w \<longleftrightarrow> (\<exists>obj a.
     (w = WCreateSecret obj \<and> so_Name obj = name \<and> so_Namespace obj = ns \<or> w = WUpdateSecret obj)
     \<and> so_Data obj = so_Data source \<and> so_StringData obj = so_StringData source \<and> so_Type obj = so_Type source
     \<and> so_Annotations obj = Some a \<and> (rel \<noteq> [] \<longrightarrow> a releaseNameAnnotation \<in> {None, Some rel}))"

lemma copySecret_stores:
  assumes "copySecret E dst source name ns rel s = (Ret None, t)"
  shows "\<exists>es w. trace t = trace s @ es @ [MigrationEv dst (MWrite w None)] \<and> list_all (writesOnly dst) es
    \<and> storesSecret source name ns rel w"
proof -
  have ann: "\<exists>a. updateHelmAnnotations rel x = Some a \<and> (rel \<noteq> [] \<longrightarrow> a releaseNameAnnotation = None \<or> a releaseNameAnnotation = Some rel)" for x
    using updateHelmAnnotations_release [of rel x] by auto
  show ?thesis
    using assms
    by (auto simp: copySecret_def mGetSecret_def mWrite_def guardErr_def andThen_run objectError_def storesSecret_def ann
        split: sum.splits option.splits if_splits)
qed


section \<open>Pods of a volume migration\<close>

text \<open>The events of waiting for a pod.\<close>

fun pollsPod :: "event \<Rightarrow> bool" where
  "pollsPod (MigrationEv _ (MGetPod _ _ _)) = True"
| "pollsPod (MigrationEv _ (MSelect _)) = True"
| "pollsPod _ = False"

lemma keeps_case_select:
  "\<lbrakk>\<And>e. x = ContextDone e \<Longrightarrow> keeps R (f e); x = TimerFired \<Longrightarrow> keeps R a; x = TickerFired \<Longrightarrow> keeps R b\<rbrakk> \<Longrightarrow>
   keeps R (case x of ContextDone e \<Rightarrow> f e | TimerFired \<Rightarrow> a | TickerFired \<Rightarrow> b)"
  by (cases x) simp_all

lemma waitForPodReady_polls: "keeps (emits pollsPod) (waitForPodReady E n c podName namespace)"
proof (induction n)
  case 0
  show ?case unfolding waitForPodReady.simps by (rule emits.keeps_hang)
next
  case (Suc n)
  show ?case
    unfolding waitForPodReady.simps mSelect_def mGetPod_def
    by (intro keeps_io keeps_case_select Suc) simp_all
qed

text \<open>The loop over the conditions, in one pass with an early return.\<close>

lemma conditionsLoop_returned: "fst (conditionsLoop b cs) \<longleftrightarrow> (''Ready'', ''True'') \<in> set cs"
  by (induction b cs rule: conditionsLoop.induct) auto

lemma conditionsLoop_allReady:
  "(''Ready'', ''True'') \<notin> set cs \<Longrightarrow> snd (conditionsLoop b cs) \<longleftrightarrow> b \<and> ''Ready'' \<notin> fst ` set cs"
  by (induction b cs rule: conditionsLoop.induct) auto

text \<open>
  When a migration pod counts as ready. The loop over the pod's conditions, with its flag and its early
  return, decides this: the pod is running, it reports at least one condition, and it reports the condition
  \<open>Ready\<close> as true or does not report it at all.
\<close>

lemma podReady_iff:
  "podReady p \<longleftrightarrow> mps_Phase p = ''Running'' \<and> mps_Conditions p \<noteq> [] \<and>
    ((''Ready'', ''True'') \<in> set (mps_Conditions p) \<or> ''Ready'' \<notin> fst ` set (mps_Conditions p))"
proof (cases "conditionsLoop True (mps_Conditions p)")
  case (Pair returned allReady)
  then show ?thesis
    using conditionsLoop_returned [of True "mps_Conditions p"] conditionsLoop_allReady [of "mps_Conditions p" True]
    by (auto simp: podReady_def)
qed

text \<open>Every pod that was created is deleted.\<close>

definition podsDeleted :: "history \<Rightarrow> bool" where
  "podsDeleted es \<longleftrightarrow> (\<forall>c p. MigrationEv c (MWrite (WCreatePod p) None) \<in> set es \<longrightarrow>
     (\<exists>d. MigrationEv c (MWrite (WDeletePod (mp_Namespace p) (mp_Name p)) d) \<in> set es))"

lemma podsDeleted_append: "podsDeleted es \<Longrightarrow> podsDeleted fs \<Longrightarrow> podsDeleted (es @ fs)"
  unfolding podsDeleted_def by fastforce

text \<open>A run that ends (does not wait forever) leaves no pod behind.\<close>

definition tidy :: "'a io \<Rightarrow> bool" where
  "tidy m \<longleftrightarrow> (\<forall>s r t. m s = (r, t) \<longrightarrow> (\<forall>w. r \<noteq> Hangs w) \<longrightarrow> (\<exists>es. trace t = trace s @ es \<and> podsDeleted es))"

fun createsPod :: "event \<Rightarrow> bool" where
  "createsPod (MigrationEv _ (MWrite (WCreatePod _) None)) = True"
| "createsPod _ = False"

lemma tidy_quiet:
  assumes "keeps (emits (\<lambda>e. \<not> createsPod e)) m"
  shows "tidy m"
  unfolding tidy_def
proof (intro allI impI)
  fix s r t assume "m s = (r, t)"
  from keepsD [OF assms this] obtain es where es: "trace t = trace s @ es" "list_all (\<lambda>e. \<not> createsPod e) es"
    by (auto simp: emits_def)
  have "podsDeleted es"
    using es(2) by (fastforce simp: podsDeleted_def list_all_iff)
  with es(1) show "\<exists>es. trace t = trace s @ es \<and> podsDeleted es" by blast
qed

lemma tidyD:
  "tidy m \<Longrightarrow> m s = (r, t) \<Longrightarrow> (\<And>w. r \<noteq> Hangs w) \<Longrightarrow> \<exists>es. trace t = trace s @ es \<and> podsDeleted es"
  by (auto simp: tidy_def)

lemma tidy_andThen:
  assumes "tidy m" and "\<And>a. tidy (f a)"
  shows "tidy (andThen m f)"
  unfolding tidy_def
proof (intro allI impI)
  fix s r t assume run: "andThen m f s = (r, t)" and r: "\<forall>w. r \<noteq> Hangs w"
  obtain r1 s1 where m: "m s = (r1, s1)" by (cases "m s")
  with run r have r1: "\<And>w. r1 \<noteq> Hangs w" by (auto simp: andThen_run split: outcome.splits)
  obtain es where es: "trace s1 = trace s @ es" "podsDeleted es"
    using tidyD [OF assms(1) m r1] by blast
  show "\<exists>es. trace t = trace s @ es \<and> podsDeleted es"
  proof (cases r1)
    case (Ret a)
    with run m have "f a s1 = (r, t)" by simp
    with tidyD [OF assms(2)] r obtain fs where "trace t = trace s1 @ fs" "podsDeleted fs" by blast
    with es show ?thesis by (auto intro: podsDeleted_append)
  qed (use run m es r1 in \<open>auto simp: andThen_run\<close>)
qed

lemma tidy_ret: "tidy (ret a)"
  by (rule tidy_quiet) (rule emits.keeps_ret)

lemma tidy_splits:
  "(\<And>a. x = Inl a \<Longrightarrow> tidy (f a)) \<Longrightarrow> (\<And>b. x = Inr b \<Longrightarrow> tidy (g b)) \<Longrightarrow> tidy (case x of Inl a \<Rightarrow> f a | Inr b \<Rightarrow> g b)"
  "(y = None \<Longrightarrow> tidy m) \<Longrightarrow> (\<And>e. y = Some e \<Longrightarrow> tidy (h e)) \<Longrightarrow> tidy (case y of None \<Rightarrow> m | Some e \<Rightarrow> h e)"
  "(\<And>z. tidy (k z)) \<Longrightarrow> tidy (let z = v in k z)"
  by (cases x, simp_all) (cases y, simp_all)

lemma tidy_guardErr: "tidy m \<Longrightarrow> tidy rest \<Longrightarrow> tidy (guardErr m onErr rest)"
  unfolding guardErr_def by (intro tidy_andThen tidy_splits tidy_ret)

text \<open>A pod is created, something tidy runs, and the deferred call deletes the pod.\<close>

lemma tidy_pod:
  assumes "tidy body"
  shows "tidy (guardErr (createMigrationPod E c name ns pvc) onErr (deferred body (cleanupPod E c name ns)))"
  unfolding tidy_def
proof (intro allI impI)
  fix s r t
  assume run: "guardErr (createMigrationPod E c name ns pvc) onErr (deferred body (cleanupPod E c name ns)) s = (r, t)"
    and r: "\<forall>w. r \<noteq> Hangs w"
  let ?pod = "\<lparr>mp_Name = name, mp_Namespace = ns, mp_Image = ''alpine:latest'',
     mp_Command = [''tail'', ''-f'', ''/dev/null''], mp_MountPath = ''/data'', mp_ClaimName = pvc\<rparr>"
  let ?ev = "MigrationEv c (MWrite (WCreatePod ?pod) (e_mWrite E (trace s) c (WCreatePod ?pod)))"
  let ?s = "s\<lparr>trace := trace s @ [?ev]\<rparr>"
  show "\<exists>es. trace t = trace s @ es \<and> podsDeleted es"
  proof (cases "e_mWrite E (trace s) c (WCreatePod ?pod)")
    case (Some err)
    with run have "trace t = trace s @ [?ev]"
      by (auto simp: guardErr_def createMigrationPod_def mWrite_def objectError_def andThen_run)
    with Some show ?thesis by (auto simp: podsDeleted_def)
  next
    case None
    obtain r1 s1 where body: "body ?s = (r1, s1)" by (cases "body ?s")
    let ?del = "MigrationEv c (MWrite (WDeletePod ns name) (e_mWrite E (trace s1) c (WDeletePod ns name)))"
    have "deferred body (cleanupPod E c name ns) ?s = (r, t)"
      using run None by (simp add: guardErr_def createMigrationPod_def mWrite_def andThen_run)
    with r have r1: "\<And>w. r1 \<noteq> Hangs w" and t: "trace t = trace s1 @ [?del]"
      by (auto simp: deferred_def body cleanupPod_def mWrite_def andThen_run split: outcome.splits)
    obtain es where es: "trace s1 = trace ?s @ es" "podsDeleted es"
      using tidyD [OF assms body r1] by blast
    have "podsDeleted ([?ev] @ es @ [?del])"
      using es(2) by (auto simp: podsDeleted_def None)
    with t es(1) show ?thesis by (intro exI [of _ "[?ev] @ es @ [?del]"]) simp
  qed
qed

lemma pollsPod_quiet: "pollsPod e \<Longrightarrow> \<not> createsPod e"
  by (cases e rule: pollsPod.cases) simp_all

lemma migrationClients_tidy:
  assumes "\<And>src dst. tidy (body src dst)"
  shows "tidy (migrationClients E sourceConfig destConfig body)"
proof -
  have quiet: "tidy (call f ev)" if "\<And>r. \<not> createsPod (ev r)" for f :: "history \<Rightarrow> 'b" and ev
    using that by (intro tidy_quiet keeps_call)
  show ?thesis
    unfolding migrationClients_def clientConfig_def newForConfig_def
    by (intro tidy_andThen tidy_splits tidy_ret tidy_guardErr assms quiet) simp_all
qed

text \<open>C22: the migration of a volume claim leaves no pod behind. When \<open>MigratePVC\<close> returns, with an error or
  without, every pod that it created, in either cluster, has been deleted (the call was made).\<close>

theorem pvc_migration_cleans_up:
  assumes "MigratePVC E sourceConfig sourcePVC sourceNamespace destConfig destPVC destNamespace s = (Ret r, t)"
  shows "\<exists>es. trace t = trace s @ es \<and> podsDeleted es"
proof -
  have wait: "tidy (waitForPodReady E n c p ns)" for n c p ns
    by (rule tidy_quiet) (rule keeps_emits_mono [OF waitForPodReady_polls pollsPod_quiet])
  have tar: "tidy (migrateDataViaTar E src p ns dst p' ns')" for src p ns dst p' ns'
    unfolding migrateDataViaTar_def execInPodWithStreams_def mWrite_def
    by (rule tidy_quiet) (intro keeps_io keeps_guardErr, simp_all)
  have clock: "tidy (now E)"
    unfolding now_def by (rule tidy_quiet) (intro keeps_io, simp)
  have "tidy (MigratePVC E sourceConfig sourcePVC sourceNamespace destConfig destPVC destNamespace)"
    unfolding MigratePVC_def
    by (intro migrationClients_tidy tidy_andThen tidy_splits clock tidy_pod tidy_guardErr wait tar tidy_ret)
  from tidyD [OF this assms] show ?thesis by simp
qed

section \<open>Concrete migrations\<close>

definition exampleMigrationEnv :: env where
  "exampleMigrationEnv = exampleEnv\<lparr>e_clientConfig := \<lambda>h c. Inr exampleConfig,
     e_mGetSecret := \<lambda>h c ns n. if n = ''src'' then Inr \<lparr>so_Name = n, so_Namespace = ns, so_Labels = None,
       so_Annotations = None, so_Type = ''Opaque'', so_Data = Some [''k'' \<mapsto> ''v''], so_StringData = None,
       so_Immutable = None\<rparr> else Inl (ApiErr StatusReasonNotFound [])\<rparr>"

definition exampleApi :: api_config where
  "exampleApi = \<lparr>api_Clusters = Map.empty, api_AuthInfos = Map.empty, api_Contexts = Map.empty, api_CurrentContext = []\<rparr>"

lemma migration_env [simp]:
  "e_clientConfig exampleMigrationEnv h c = Inr exampleConfig" "e_newForConfig exampleMigrationEnv h r = None"
  "e_mWrite exampleMigrationEnv h r w = None" "e_now exampleMigrationEnv h = 0"
  "e_mGetSecret exampleMigrationEnv h r ns n = (if n = ''src'' then Inr \<lparr>so_Name = n, so_Namespace = ns, so_Labels = None,
       so_Annotations = None, so_Type = ''Opaque'', so_Data = Some [''k'' \<mapsto> ''v''], so_StringData = None,
       so_Immutable = None\<rparr> else Inl (ApiErr StatusReasonNotFound []))"
  by (simp_all add: exampleMigrationEnv_def exampleEnv_def)


theorem pvc_migration_cleans_up_witness:
  "\<exists>err t. MigratePVC (exampleMigrationEnv\<lparr>e_mSelect := \<lambda>h. TimerFired\<rparr>) exampleApi ''data'' ''a'' exampleApi ''data'' ''b'' exampleWorld
     = (Ret (Some err), t) \<and> podsDeleted (trace t)"
proof -
  let ?E = "exampleMigrationEnv\<lparr>e_mSelect := \<lambda>h. TimerFired\<rparr>"
  obtain m where polls: "e_polls ?E = Suc m"
    by (simp add: exampleMigrationEnv_def exampleEnv_def numeral_eq_Suc)
  have "\<exists>err t. MigratePVC ?E exampleApi ''data'' ''a'' exampleApi ''data'' ''b'' exampleWorld = (Ret (Some err), t)"
    unfolding MigratePVC_def polls
    by (simp add: migrationClients_def clientConfig_def newForConfig_def guardErr_def now_def mSelect_def
        createMigrationPod_def cleanupPod_def mWrite_def andThen_run deferred_def Let_def)
  then obtain err t where run: "MigratePVC ?E exampleApi ''data'' ''a'' exampleApi ''data'' ''b'' exampleWorld = (Ret (Some err), t)"
    by blast
  from pvc_migration_cleans_up [OF run] run show ?thesis by (auto simp: exampleWorld_def)
qed

end
