(* ===== verification/CustomManager.thy ===== *)
theory CustomManager
  imports Manager
begin

text \<open>
  The manager of custom modules (\<open>src/pkg/manager/custom.go\<close>): it starts a runner pod and a service for
  it, waits for both, and forwards install, uninstall, sleep and resume to the runner over HTTP. The
  loop that waits for the pod has no bound in the code: the model gives it the environment's number of
  polls and reports a run that polls longer as hanging, so a theorem that a run returns is about the
  loop itself, and a run that hangs for every number of polls is one that never returns.
\<close>

section \<open>Constants and calls\<close>

definition operatorNamespace :: string where
  "operatorNamespace = ''forkspacer-system''"

definition runnerPodNameKey :: string where "runnerPodNameKey = ''runnerPodName''"
definition runnerPodUniqueLabelKey :: string where "runnerPodUniqueLabelKey = ''runnerPodUniqueLabel''"
definition runnerServiceNameKey :: string where "runnerServiceNameKey = ''runnerServiceName''"
definition innerMetaDataKey :: string where "innerMetaDataKey = ''innerMetaData''"

definition createSecret :: "env \<Rightarrow> RunnerSecret \<Rightarrow> (go_error + string) io" where
  "createSecret E x = call (\<lambda>h. e_createSecret E h x) (\<lambda>r. RunnerEv (CreateSecret x r))"

definition deleteSecret :: "env \<Rightarrow> string \<Rightarrow> (go_error option) io" where
  "deleteSecret E n = call (\<lambda>h. e_deleteSecret E h n) (\<lambda>r. RunnerEv (DeleteSecret n r))"

definition createPod :: "env \<Rightarrow> RunnerPod \<Rightarrow> (go_error + string) io" where
  "createPod E x = call (\<lambda>h. e_createPod E h x) (\<lambda>r. RunnerEv (CreatePod x r))"

definition getPod :: "env \<Rightarrow> string \<Rightarrow> (go_error + PodStatus) io" where
  "getPod E n = call (\<lambda>h. e_getPod E h n) (\<lambda>r. RunnerEv (GetPod n r))"

definition deletePod :: "env \<Rightarrow> string \<Rightarrow> (go_error option) io" where
  "deletePod E n = call (\<lambda>h. e_deletePod E h n) (\<lambda>r. RunnerEv (DeletePod n r))"

definition createService :: "env \<Rightarrow> RunnerService \<Rightarrow> (go_error + string) io" where
  "createService E x = call (\<lambda>h. e_createService E h x) (\<lambda>r. RunnerEv (CreateService x r))"

definition getService :: "env \<Rightarrow> string \<Rightarrow> (go_error option) io" where
  "getService E n = call (\<lambda>h. e_getService E h n) (\<lambda>r. RunnerEv (GetService n r))"

definition deleteService :: "env \<Rightarrow> string \<Rightarrow> (go_error option) io" where
  "deleteService E n = call (\<lambda>h. e_deleteService E h n) (\<lambda>r. RunnerEv (DeleteService n r))"

definition listEndpoints :: "env \<Rightarrow> string \<Rightarrow> (go_error + bool option list list) io" where
  "listEndpoints E n = call (\<lambda>h. e_listEndpoints E h n) (\<lambda>r. RunnerEv (ListEndpoints n r))"

definition selectTimeout :: "env \<Rightarrow> bool io" where
  "selectTimeout E = call (\<lambda>h. e_timeout E h) (\<lambda>b. RunnerEv (Timeout b))"

definition httpPost :: "env \<Rightarrow> string \<Rightarrow> string \<Rightarrow> (go_error + nat \<times> (go_error + string)) io" where
  "httpPost E url body = call (\<lambda>h. e_post E h url body) (\<lambda>r. RunnerEv (Post url body r))"

lemmas runner_calls = createSecret_def deleteSecret_def createPod_def getPod_def deletePod_def
  createService_def getService_def deleteService_def listEndpoints_def selectTimeout_def httpPost_def

text \<open>\<open>MetaData.DecodeToString\<close>: a missing key and a value that is no string give the empty string.\<close>

definition decodeToString :: "golib \<Rightarrow> MetaData \<Rightarrow> string \<Rightarrow> string" where
  "decodeToString lib md key = (case map_of md key of
       None \<Rightarrow> []
     | Some strData \<Rightarrow> (case lib_decodeString lib strData of Inl _ \<Rightarrow> [] | Inr s \<Rightarrow> s))"

section \<open>The runner\<close>

text \<open>The secret's data: the configuration and, with the workspace permission, the kubeconfig.\<close>

fun permissionData :: "env \<Rightarrow> api_config \<Rightarrow> CustomModulePermissionType list \<Rightarrow> (string \<rightharpoonup> string) \<Rightarrow>
    go_error + (string \<rightharpoonup> string)" where
  "permissionData E apiConfig [] d = Inr d"
| "permissionData E apiConfig (p # ps) d = (case p of
       CustomModulePermissionTypeWorkspace \<Rightarrow> (case e_writeKubeconfig E apiConfig of
           Inl err \<Rightarrow> Inl (Wrapped ''failed to write workspace kubeconfig'' err)
         | Inr kubeconfig \<Rightarrow> permissionData E apiConfig ps (d(''workspace_kubeconfig'' \<mapsto> kubeconfig)))
     | CustomModulePermissionTypeController \<Rightarrow> permissionData E apiConfig ps d
     | CustomModulePermissionTypeOther t \<Rightarrow> Inl (ErrText (''unsupported custom module permission: '' @ t)))"

definition createRunnerSecret ::
  "golib \<Rightarrow> env \<Rightarrow> api_config \<Rightarrow> ModuleSpecCustom \<Rightarrow> go_map \<Rightarrow> (go_error + string) io" where
  "createRunnerSecret lib E apiConfig custom config =
     (case permissionData E apiConfig (cus_Permissions custom) [''config.json'' \<mapsto> lib_jsonMarshal lib (AMap config)] of
        Inl err \<Rightarrow> ret (Inl err)
      | Inr d \<Rightarrow> andThen (createSecret E \<lparr>rsec_GenerateName = ''custom-manager-'', rsec_Namespace = operatorNamespace,
            rsec_Label = ''custom-manager-runner-secret'', rsec_Immutable = True, rsec_Data = d\<rparr>) (\<lambda>r. case r of
          Inl err \<Rightarrow> ret (Inl (Wrapped ''failed to create custom module secret'' err))
        | Inr name \<Rightarrow> ret (Inr name)))"

definition buildRunnerPod :: "ModuleSpecCustom \<Rightarrow> string \<Rightarrow> string \<Rightarrow> RunnerPod" where
  "buildRunnerPod custom secretName podLabel =
     \<lparr>rpod_GenerateName = ''custom-manager-'', rpod_Namespace = operatorNamespace, rpod_Label = podLabel,
      rpod_RestartPolicy = ''Never'', rpod_ImagePullSecrets = cus_ImagePullSecrets custom,
      rpod_Image = cus_Image custom, rpod_Port = 8080, rpod_EphemeralRequest = ''500Mi'',
      rpod_EphemeralLimit = ''5Gi'', rpod_MountPath = ''/forkspacer'', rpod_SecretName = secretName,
      rpod_ServiceAccountName =
        (if CustomModulePermissionTypeController \<in> set (cus_Permissions custom)
         then ''forkspacer-controller-manager'' else [])\<rparr>"

text \<open>Whether the first container waits for an image that cannot be pulled.\<close>

definition imagePullError :: "PodStatus \<Rightarrow> bool" where
  "imagePullError pod = (case ps_Waiting pod of
       [] \<Rightarrow> False
     | st # _ \<Rightarrow> st = Some ''ImagePullBackOff'' \<or> st = Some ''ErrImagePull'')"

fun waitForPodRunning :: "env \<Rightarrow> nat \<Rightarrow> nat \<Rightarrow> string \<Rightarrow> (go_error option) io" where
  "waitForPodRunning E 0 imagePullErrCnt podName = hang ''waiting for the runner pod''"
| "waitForPodRunning E (Suc n) imagePullErrCnt podName = andThen (getPod E podName) (\<lambda>r. case r of
       Inl err \<Rightarrow> ret (Some err)
     | Inr pod \<Rightarrow>
         if ps_Phase pod = ''Running'' then ret None
         else if ps_Phase pod = [] \<or> ps_Phase pod = ''Pending''
         then (let cnt = (if imagePullError pod then Suc imagePullErrCnt else imagePullErrCnt) in
               if 3 \<le> cnt
               then ret (Some (ErrText (''failed to pull image for custom module runner pod '' @ podName
                 @ '' after '' @ showNat cnt @ '' attempts'')))
               else andThen (sleep 2000000000) (\<lambda>_. waitForPodRunning E n cnt podName))
         else if ps_Phase pod = ''Succeeded''
         then ret (Some (ErrText (''custom module runner pod succeeded unexpectedly: pod phase '' @ ps_Phase pod)))
         else if ps_Phase pod = ''Failed''
         then ret (Some (ErrText (''custom module runner pod failed: pod phase '' @ ps_Phase pod)))
         else ret (Some (ErrText (''custom module runner pod entered an unexpected phase: '' @ ps_Phase pod))))"

definition createRunnerPod ::
  "golib \<Rightarrow> env \<Rightarrow> api_config \<Rightarrow> ModuleSpecCustom \<Rightarrow> go_map \<Rightarrow> (go_error + string \<times> string) io" where
  "createRunnerPod lib E apiConfig custom config =
     andThen (createRunnerSecret lib E apiConfig custom config) (\<lambda>r. case r of
         Inl err \<Rightarrow> ret (Inl err)
       | Inr secretName \<Rightarrow> deferred (
           andThen (now E) (\<lambda>t.
           let podLabel = ''custom-manager-runner-'' @ lib_formatTime lib t in
           andThen (createPod E (buildRunnerPod custom secretName podLabel)) (\<lambda>p. case p of
               Inl err \<Rightarrow> ret (Inl err)
             | Inr podName \<Rightarrow> andThen (waitForPodRunning E (e_polls E) 0 podName) (\<lambda>e. case e of
                   None \<Rightarrow> ret (Inr (podName, podLabel))
                 | Some err \<Rightarrow> andThen (deletePod E podName) (\<lambda>_. ret (Inl err))))))
           (andThen (deleteSecret E secretName) (\<lambda>_. ret ())))"

definition createRunnerService :: "env \<Rightarrow> string \<Rightarrow> (go_error + string) io" where
  "createRunnerService E podLabel = createService E \<lparr>rsvc_GenerateName = ''custom-manager-'',
     rsvc_Namespace = operatorNamespace, rsvc_Label = ''custom-manager-service'', rsvc_Selector = podLabel,
     rsvc_Port = 80, rsvc_TargetPort = 8080\<rparr>"

definition isServiceReady :: "env \<Rightarrow> string \<Rightarrow> (go_error + bool) io" where
  "isServiceReady E serviceName = andThen (listEndpoints E serviceName) (\<lambda>r. case r of
       Inl err \<Rightarrow> ret (Inl (Wrapped ''failed to list endpointslices'' err))
     | Inr slices \<Rightarrow> ret (Inr (list_ex (list_ex (\<lambda>ready. ready = Some True)) slices)))"

definition cleanupResourcesOnTimeout :: "env \<Rightarrow> string \<Rightarrow> string \<Rightarrow> go_error io" where
  "cleanupResourcesOnTimeout E serviceName podName =
     andThen (getService E serviceName) (\<lambda>e.
     andThen (if e = None then andThen (deleteService E serviceName) (\<lambda>_. ret ()) else ret ()) (\<lambda>_.
     andThen (if podName \<noteq> []
        then andThen (getPod E podName) (\<lambda>p. case p of
               Inl _ \<Rightarrow> ret ()
             | Inr _ \<Rightarrow> andThen (deletePod E podName) (\<lambda>_. ret ()))
        else ret ()) (\<lambda>_.
     ret (ErrText (''service '' @ serviceName @ '' did not become ready within 30 seconds'')))))"

fun waitForServiceReady :: "env \<Rightarrow> nat \<Rightarrow> string \<Rightarrow> string \<Rightarrow> (go_error option) io" where
  "waitForServiceReady E 0 serviceName podName = hang ''waiting for the runner service''"
| "waitForServiceReady E (Suc n) serviceName podName = andThen (selectTimeout E) (\<lambda>timeout.
     if timeout then andThen (cleanupResourcesOnTimeout E serviceName podName) (\<lambda>err. ret (Some err))
     else andThen (isServiceReady E serviceName) (\<lambda>r. case r of
         Inl err \<Rightarrow> ret (Some (Wrapped ''failed to check service readiness'' err))
       | Inr ready \<Rightarrow> if ready then ret None else waitForServiceReady E n serviceName podName))"

section \<open>Calling the runner\<close>

definition encodeMetaData :: "golib \<Rightarrow> MetaData \<Rightarrow> string" where
  "encodeMetaData lib md = lib_jsonMarshal lib (AMap (case map_of md innerMetaDataKey of
       None \<Rightarrow> []
     | Some v \<Rightarrow> (case lib_decodeMap lib v of Inl _ \<Rightarrow> [] | Inr kvs \<Rightarrow> kvs)))"

definition callRunnerEndpoint ::
  "golib \<Rightarrow> env \<Rightarrow> string \<Rightarrow> string \<Rightarrow> MetaData \<Rightarrow> nat \<Rightarrow> (go_error + go_map) io" where
  "callRunnerEndpoint lib E serviceName endpoint md successStatus =
     andThen (httpPost E (''http://'' @ serviceName @ ''.'' @ operatorNamespace @ ''.svc.cluster.local:80/'' @ endpoint)
       (encodeMetaData lib md)) (\<lambda>r. case r of
         Inl err \<Rightarrow> ret (Inl err)
       | Inr (status, body) \<Rightarrow> (case body of
           Inl err \<Rightarrow> ret (Inl (Wrapped (''failed to read response body for custom module '' @ endpoint) err))
         | Inr responseBody \<Rightarrow>
             if status = 400
             then ret (Inl (ErrText (if 0 < length responseBody
               then ''custom module '' @ endpoint @ '' endpoint returned error: '' @ responseBody
               else ''custom module '' @ endpoint @ '' endpoint returned error with empty body'')))
             else if status \<noteq> successStatus
             then ret (Inl (ErrText (''failed to '' @ endpoint @ '' custom module '' @ serviceName
               @ '': received unexpected status code '' @ showNat status @ '', expected '' @ showNat successStatus @ ''/400'')))
             else if responseBody = [] then ret (Inr [])
             else (case unmarshalMap lib [] responseBody of
                 Inl err \<Rightarrow> ret (Inl (Wrapped (''failed to unmarshal '' @ endpoint
                   @ '' response body after successful request'') err))
               | Inr response \<Rightarrow> ret (Inr response))))"

text \<open>Install, Sleep and Resume: the same body with another endpoint and status.\<close>

definition forwardToRunner ::
  "golib \<Rightarrow> env \<Rightarrow> string \<Rightarrow> nat \<Rightarrow> MetaData \<Rightarrow> (go_error option \<times> MetaData) io" where
  "forwardToRunner lib E endpoint successStatus md =
     (let serviceName = decodeToString lib md runnerServiceNameKey in
      if serviceName = [] then ret (Some (ErrText ''runner service name is missing in metadata''), md)
      else andThen (callRunnerEndpoint lib E serviceName endpoint md successStatus) (\<lambda>r. case r of
          Inl err \<Rightarrow> ret (Some err, md)
        | Inr response \<Rightarrow> ret (None,
            if 0 < length response then metaSet innerMetaDataKey (AMap response) md else md)))"

definition ModuleCustomManager_Install :: "golib \<Rightarrow> env \<Rightarrow> MetaData \<Rightarrow> (go_error option \<times> MetaData) io" where
  "ModuleCustomManager_Install lib E md = forwardToRunner lib E ''install'' 201 md"

definition ModuleCustomManager_Sleep :: "golib \<Rightarrow> env \<Rightarrow> MetaData \<Rightarrow> (go_error option \<times> MetaData) io" where
  "ModuleCustomManager_Sleep lib E md = forwardToRunner lib E ''sleep'' 200 md"

definition ModuleCustomManager_Resume :: "golib \<Rightarrow> env \<Rightarrow> MetaData \<Rightarrow> (go_error option \<times> MetaData) io" where
  "ModuleCustomManager_Resume lib E md = forwardToRunner lib E ''resume'' 200 md"

text \<open>A service or pod that cannot be read is deleted as an object without a name.\<close>

definition ModuleCustomManager_Uninstall :: "golib \<Rightarrow> env \<Rightarrow> MetaData \<Rightarrow> (go_error option \<times> MetaData) io" where
  "ModuleCustomManager_Uninstall lib E md =
     (let serviceName = decodeToString lib md runnerServiceNameKey in
      if serviceName = [] then ret (Some (ErrText ''runner service name is missing in metadata''), md)
      else andThen (callRunnerEndpoint lib E serviceName ''uninstall'' md 204) (\<lambda>r. case r of
          Inl err \<Rightarrow> ret (Some err, md)
        | Inr _ \<Rightarrow>
            andThen (getService E serviceName) (\<lambda>ge.
            guardErr (deleteService E (if ge = None then serviceName else []))
              (\<lambda>err. (Some (Wrapped (''failed to delete custom module service '' @ serviceName
                 @ '' during uninstallation'') err), md)) (
            let podName = decodeToString lib md runnerPodNameKey in
            if podName = [] then ret (Some (ErrText ''runner pod name is missing in metadata''), md)
            else andThen (getPod E podName) (\<lambda>gp.
              andThen (deletePod E (case gp of Inl _ \<Rightarrow> [] | Inr _ \<Rightarrow> podName)) (\<lambda>de.
              ret (de, md)))))))"

definition customManager :: "golib \<Rightarrow> env \<Rightarrow> IManager" where
  "customManager lib E = \<lparr>im_Install = ModuleCustomManager_Install lib E,
     im_Uninstall = ModuleCustomManager_Uninstall lib E, im_Sleep = ModuleCustomManager_Sleep lib E,
     im_Resume = ModuleCustomManager_Resume lib E\<rparr>"

text \<open>The constructor changes the metadata in place, also when it fails later.\<close>

definition NewModuleCustomManager ::
  "golib \<Rightarrow> env \<Rightarrow> api_config \<Rightarrow> ModuleSpecCustom \<Rightarrow> go_map \<Rightarrow> MetaData \<Rightarrow> ((go_error + IManager) \<times> MetaData) io" where
  "NewModuleCustomManager lib E apiConfig custom config md =
     (let podName = decodeToString lib md runnerPodNameKey;
          podLabel = decodeToString lib md runnerPodUniqueLabelKey in
      andThen (if podName = []
         then andThen (createRunnerPod lib E apiConfig custom config) (\<lambda>r. case r of
             Inl err \<Rightarrow> ret (Inl err)
           | Inr (name, label) \<Rightarrow> ret (Inr (name, label, metaSet runnerPodUniqueLabelKey (AString label)
               (metaSet runnerPodNameKey (AString name) md))))
         else ret (Inr (podName, podLabel, md))) (\<lambda>r. case r of
           Inl err \<Rightarrow> ret (Inl err, md)
         | Inr (name, label, md1) \<Rightarrow>
             (let serviceName = decodeToString lib md1 runnerServiceNameKey in
              andThen (if serviceName = []
                 then andThen (createRunnerService E label) (\<lambda>q. case q of
                     Inl err \<Rightarrow> ret (Inl err)
                   | Inr svc \<Rightarrow> ret (Inr (svc, metaSet runnerServiceNameKey (AString svc) md1)))
                 else ret (Inr (serviceName, md1))) (\<lambda>q. case q of
                   Inl err \<Rightarrow> ret (Inl err, md1)
                 | Inr (svc, md2) \<Rightarrow>
                     andThen (waitForServiceReady E (e_polls E) svc name) (\<lambda>e. case e of
                         Some err \<Rightarrow> ret (Inl err, md2)
                       | None \<Rightarrow> ret (Inr (customManager lib E), md2))))))"

section \<open>What the custom manager may do\<close>

fun runnerEvent :: "event \<Rightarrow> bool" where
  "runnerEvent (RunnerEv _) = True"
| "runnerEvent (CoreEv (Clock _)) = True"
| "runnerEvent (CoreEv (Sleep _)) = True"
| "runnerEvent _ = False"

text \<open>Events of polling: reads, and the deletions of a clean-up.\<close>

fun pollEvent :: "event \<Rightarrow> bool" where
  "pollEvent (RunnerEv e) = (case e of
       GetPod _ _ \<Rightarrow> True | GetService _ _ \<Rightarrow> True | ListEndpoints _ _ \<Rightarrow> True | Timeout _ \<Rightarrow> True
     | DeletePod _ _ \<Rightarrow> True | DeleteService _ _ \<Rightarrow> True | _ \<Rightarrow> False)"
| "pollEvent (CoreEv (Sleep _)) = True"
| "pollEvent _ = False"

lemma pollEvent_runner: "pollEvent e \<Longrightarrow> runnerEvent e"
  by (cases e rule: pollEvent.cases) simp_all

lemma waitForPodRunning_polls: "keeps (emits pollEvent) (waitForPodRunning E n cnt name)"
proof (induction n arbitrary: cnt)
  case 0
  show ?case unfolding waitForPodRunning.simps by (rule emits.keeps_hang)
next
  case (Suc n)
  show ?case unfolding waitForPodRunning.simps runner_calls sleep_def emit_def
    by (intro keeps_io Suc) simp_all
qed

lemma waitForServiceReady_polls: "keeps (emits pollEvent) (waitForServiceReady E n svc name)"
proof (induction n)
  case 0
  show ?case unfolding waitForServiceReady.simps by (rule emits.keeps_hang)
next
  case (Suc n)
  show ?case
    unfolding waitForServiceReady.simps cleanupResourcesOnTimeout_def isServiceReady_def runner_calls
    by (intro keeps_io Suc) simp_all
qed

lemmas waitForPodRunning_runner = keeps_emits_mono [OF waitForPodRunning_polls pollEvent_runner]
lemmas waitForServiceReady_runner = keeps_emits_mono [OF waitForServiceReady_polls pollEvent_runner]

lemma createRunnerPod_runner: "keeps (emits runnerEvent) (createRunnerPod lib E apiConfig custom config)"
  unfolding createRunnerPod_def createRunnerSecret_def runner_calls now_def
  by (intro keeps_io keeps_deferred waitForPodRunning_runner) simp_all

lemma NewModuleCustomManager_runner:
  "keeps (emits runnerEvent) (NewModuleCustomManager lib E apiConfig custom config md)"
  unfolding NewModuleCustomManager_def createRunnerService_def runner_calls
  by (intro keeps_io createRunnerPod_runner waitForServiceReady_runner) simp_all

interpretation customManager: manager_scope "customManager lib E" runnerEvent for lib E
proof
  fix md
  have forward: "keeps (emits runnerEvent) (forwardToRunner lib E endpoint st md)" for endpoint st
    unfolding forwardToRunner_def callRunnerEndpoint_def runner_calls by (intro keeps_io) simp_all
  show "keeps (emits runnerEvent) (im_Install (customManager lib E) md)"
    "keeps (emits runnerEvent) (im_Sleep (customManager lib E) md)"
    "keeps (emits runnerEvent) (im_Resume (customManager lib E) md)"
    by (simp_all add: customManager_def ModuleCustomManager_Install_def ModuleCustomManager_Sleep_def
        ModuleCustomManager_Resume_def forward)
  have "keeps (emits runnerEvent) (ModuleCustomManager_Uninstall lib E md)"
    unfolding ModuleCustomManager_Uninstall_def callRunnerEndpoint_def runner_calls
    by (intro keeps_io keeps_guardErr) simp_all
  then show "keeps (emits runnerEvent) (im_Uninstall (customManager lib E) md)"
    by (simp add: customManager_def)
qed

text \<open>Polling creates nothing.\<close>

lemma pollEvents_create_nothing:
  assumes "list_all pollEvent es"
  shows "RunnerEv (CreateSecret x r) \<notin> set es" and "RunnerEv (CreatePod y r') \<notin> set es"
  using assms by (auto simp: list_all_iff)

lemma waitForPodRunning_trace:
  assumes "waitForPodRunning E n cnt name s = (r, t)"
  shows "\<exists>es. trace t = trace s @ es \<and> list_all pollEvent es"
  using keepsD [OF waitForPodRunning_polls assms] by (simp add: emits_def)

lemma createRunnerSecret_cases:
  "(\<exists>err s1. createRunnerSecret lib E apiConfig custom config s = (Ret (Inl err), s1) \<and> trace s1 = trace s)
   \<or> (\<exists>err s1 x e. createRunnerSecret lib E apiConfig custom config s = (Ret (Inl err), s1)
        \<and> trace s1 = trace s @ [RunnerEv (CreateSecret x (Inl e))])
   \<or> (\<exists>name s1 x. createRunnerSecret lib E apiConfig custom config s = (Ret (Inr name), s1)
        \<and> trace s1 = trace s @ [RunnerEv (CreateSecret x (Inr name))])"
proof (cases "permissionData E apiConfig (cus_Permissions custom)
    [''config.json'' \<mapsto> lib_jsonMarshal lib (AMap config)]")
  case (Inl err)
  then show ?thesis by (simp add: createRunnerSecret_def)
next
  case (Inr d)
  let ?x = "\<lparr>rsec_GenerateName = ''custom-manager-'', rsec_Namespace = operatorNamespace,
            rsec_Label = ''custom-manager-runner-secret'', rsec_Immutable = True, rsec_Data = d\<rparr>"
  show ?thesis
    by (cases "e_createSecret E (trace s) ?x")
      (simp_all add: createRunnerSecret_def Inr createSecret_def andThen_run)
qed

section \<open>Properties\<close>

text \<open>
  A runner pod that stays pending blocks forever. If every read of the pod finds it pending (or
  without a phase) and without an image pull error, \<open>waitForPodRunning\<close> returns after no number of
  polls: the loop has neither a bound nor a deadline.
\<close>

theorem pending_pod_never_returns:
  assumes "\<forall>h. \<exists>pod. e_getPod E h name = Inr pod \<and> ps_Phase pod \<in> {[], ''Pending''} \<and> \<not> imagePullError pod"
  shows "fst (waitForPodRunning E n 0 name s) = Hangs ''waiting for the runner pod''"
proof (induction n arbitrary: s)
  case 0
  show ?case by simp
next
  case (Suc n)
  from assms obtain pod where pod: "e_getPod E (trace s) name = Inr pod"
    "ps_Phase pod = [] \<or> ps_Phase pod = ''Pending''" "\<not> imagePullError pod" by blast
  from Suc pod show ?case
    by (auto simp: runner_calls calls andThen_run Let_def)
qed

theorem pending_pod_never_returns_witness:
  "fst (waitForPodRunning (exampleEnv\<lparr>e_getPod := \<lambda>h n. Inr \<lparr>ps_Phase = ''Pending'', ps_Waiting = []\<rparr>\<rparr>)
     1000 0 ''runner'' exampleWorld) = Hangs ''waiting for the runner pod''"
  by (rule pending_pod_never_returns) (simp add: imagePullError_def)

definition exampleRunnerEnv :: env where
  "exampleRunnerEnv = exampleEnv\<lparr>e_createSecret := \<lambda>h x. Inr ''custom-manager-s1'',
     e_createPod := \<lambda>h x. Inr ''custom-manager-p1'',
     e_getPod := \<lambda>h n. Inr \<lparr>ps_Phase = ''Failed'', ps_Waiting = []\<rparr>\<rparr>"

definition exampleAPI :: api_config where
  "exampleAPI = \<lparr>api_Clusters = Map.empty, api_AuthInfos = Map.empty, api_Contexts = Map.empty,
     api_CurrentContext = []\<rparr>"

definition exampleCustom :: ModuleSpecCustom where
  "exampleCustom = \<lparr>cus_Image = ''img'', cus_ImagePullSecrets = [], cus_Permissions = []\<rparr>"

text \<open>
  C21: Starting a runner leaves nothing behind. Whenever \<open>createRunnerPod\<close> returns, the secret it
  created has been deleted again; and when it returns an error, so has the pod it created.
\<close>

theorem createRunnerPod_cleans_up:
  assumes "createRunnerPod lib E apiConfig custom config s = (Ret r, t)"
  shows "\<exists>es. trace t = trace s @ es
    \<and> (\<forall>x name. RunnerEv (CreateSecret x (Inr name)) \<in> set es \<longrightarrow>
         (\<exists>d. RunnerEv (DeleteSecret name d) \<in> set es))
    \<and> (\<forall>x name err. r = Inl err \<longrightarrow> RunnerEv (CreatePod x (Inr name)) \<in> set es \<longrightarrow>
         (\<exists>d. RunnerEv (DeletePod name d) \<in> set es))"
proof -
  from createRunnerSecret_cases [of lib E apiConfig custom config s] show ?thesis
  proof (elim disjE exE conjE)
    fix err s1 assume "createRunnerSecret lib E apiConfig custom config s = (Ret (Inl err), s1)"
      and "trace s1 = trace s"
    with assms show ?thesis by (auto simp: createRunnerPod_def)
  next
    fix err s1 x e assume "createRunnerSecret lib E apiConfig custom config s = (Ret (Inl err), s1)"
      and "trace s1 = trace s @ [RunnerEv (CreateSecret x (Inl e))]"
    with assms show ?thesis by (auto simp: createRunnerPod_def)
  next
    fix name s1 x assume "createRunnerSecret lib E apiConfig custom config s = (Ret (Inr name), s1)"
      and "trace s1 = trace s @ [RunnerEv (CreateSecret x (Inr name))]"
    with assms show ?thesis
      by (auto simp: createRunnerPod_def andThen_run deferred_def runner_calls calls Let_def
          split: sum.splits prod.splits outcome.splits option.splits
          dest!: waitForPodRunning_trace dest: pollEvents_create_nothing)
  qed
qed

theorem createRunnerPod_cleans_up_witness:
  "\<exists>err t es d. createRunnerPod exampleLib exampleRunnerEnv exampleAPI exampleCustom [] exampleWorld = (Ret (Inl err), t)
     \<and> trace t = es \<and> RunnerEv (DeletePod ''custom-manager-p1'' d) \<in> set es"
proof -
  let ?run = "createRunnerPod exampleLib exampleRunnerEnv exampleAPI exampleCustom [] exampleWorld"
  obtain m where polls: "e_polls exampleRunnerEnv = Suc m"
    by (simp add: exampleRunnerEnv_def exampleEnv_def numeral_eq_Suc)
  have env: "e_createSecret exampleRunnerEnv h x = Inr ''custom-manager-s1''"
    "e_createPod exampleRunnerEnv h p = Inr ''custom-manager-p1''"
    "e_getPod exampleRunnerEnv h n = Inr \<lparr>ps_Phase = ''Failed'', ps_Waiting = []\<rparr>" for h x p n
    by (simp_all add: exampleRunnerEnv_def exampleEnv_def)
  have "\<exists>err t. ?run = (Ret (Inl err), t) \<and> (\<exists>x. RunnerEv (CreatePod x (Inr ''custom-manager-p1'')) \<in> set (trace t))"
    by (simp add: createRunnerPod_def createRunnerSecret_def runner_calls calls andThen_run deferred_def Let_def
        env polls exampleCustom_def, blast)
  then obtain err t where run: "?run = (Ret (Inl err), t)"
    and pod: "\<exists>x. RunnerEv (CreatePod x (Inr ''custom-manager-p1'')) \<in> set (trace t)" by blast
  from createRunnerPod_cleans_up [OF run] pod show ?thesis
    using run by (auto simp: exampleWorld_def)
qed

text \<open>
  A runner that was torn down after a timeout is never started again. With the names of a pod and
  a service in the metadata, \<open>NewModuleCustomManager\<close> only polls (or, on a timeout, deletes the two): it
  never creates a pod or a service, and it returns the metadata unchanged, so the names stay and every
  later call meets them again.
\<close>

theorem torn_down_runner_stays_down:
  assumes "decodeToString lib md runnerPodNameKey \<noteq> []"
    and "decodeToString lib md runnerServiceNameKey \<noteq> []"
  shows "emits pollEvent s (snd (NewModuleCustomManager lib E apiConfig custom config md s))
    \<and> (\<forall>r md'. fst (NewModuleCustomManager lib E apiConfig custom config md s) = Ret (r, md') \<longrightarrow> md' = md)"
proof -
  show ?thesis
    using assms
    by (auto simp: NewModuleCustomManager_def Let_def andThen_run dest: keepsD [OF waitForServiceReady_polls]
        split: prod.split outcome.split option.split)
qed

theorem torn_down_runner_stays_down_witness:
  "emits pollEvent exampleWorld (snd (NewModuleCustomManager exampleLib exampleEnv exampleAPI exampleCustom []
     [(runnerPodNameKey, AString ''p1''), (runnerServiceNameKey, AString ''s1'')] exampleWorld))"
  using torn_down_runner_stays_down
    [where lib = exampleLib and md = "[(runnerPodNameKey, AString ''p1''), (runnerServiceNameKey, AString ''s1'')]"]
  by (simp add: decodeToString_def exampleLib_def runnerPodNameKey_def runnerServiceNameKey_def)

end
