(* ===== verification/PhaseMachine.thy ===== *)
theory PhaseMachine
  imports Cluster
begin

text \<open>
  How a program moves an object through its phases. The status writes of a run, in order, are the
  phases it goes through; a run is a path when every write is a step that the phase machine allows from
  the phase before. The locale holds the rules by which the parts of a controller are composed; the
  module controller and the workspace controller interpret it on their own phases.
\<close>

locale phase_machine =
  fixes written :: "event \<Rightarrow> 'p option"
    and step :: "'p \<Rightarrow> 'p \<Rightarrow> bool"
begin

definition phases :: "event list \<Rightarrow> 'p list" where
  "phases es = List.map_filter written es"

definition path :: "'p \<Rightarrow> event list \<Rightarrow> bool" where
  "path p es \<longleftrightarrow> successively step (p # phases es)"

definition current :: "'p \<Rightarrow> event list \<Rightarrow> 'p" where
  "current p es = last (p # phases es)"

text \<open>From phase \<open>p\<close>, the program follows a path, and a value it returns is related by \<open>R\<close> to the phase
  it ends in.\<close>

definition moves :: "'p \<Rightarrow> 'a io \<Rightarrow> ('a \<Rightarrow> 'p \<Rightarrow> bool) \<Rightarrow> bool" where
  "moves p m R \<longleftrightarrow> (\<forall>s r t. m s = (r, t) \<longrightarrow> (\<exists>es. trace t = trace s @ es \<and> path p es
     \<and> (\<forall>a. r = Ret a \<longrightarrow> R a (current p es))))"

lemma movesI:
  "(\<And>s r t. m s = (r, t) \<Longrightarrow> \<exists>es. trace t = trace s @ es \<and> path p es \<and> (\<forall>a. r = Ret a \<longrightarrow> R a (current p es))) \<Longrightarrow>
   moves p m R"
  by (simp add: moves_def)

lemma movesD:
  "moves p m R \<Longrightarrow> m s = (r, t) \<Longrightarrow>
   \<exists>es. trace t = trace s @ es \<and> path p es \<and> (\<forall>a. r = Ret a \<longrightarrow> R a (current p es))"
  by (simp add: moves_def)

text \<open>A program without status writes.\<close>

definition quiet :: "event \<Rightarrow> bool" where
  "quiet e \<longleftrightarrow> written e = None"

lemma phases_append [simp]: "phases (es @ fs) = phases es @ phases fs"
  by (simp add: phases_def map_filter_def)

lemma phases_quiet: "list_all quiet es \<Longrightarrow> phases es = []"
  by (auto simp: phases_def map_filter_def quiet_def list_all_iff filter_empty_conv)

lemma path_Nil [simp]: "path p []" and current_Nil [simp]: "current p [] = p"
  by (simp_all add: path_def current_def phases_def map_filter_simps)

lemma path_append: "path p (es @ fs) \<longleftrightarrow> path p es \<and> path (current p es) fs"
proof -
  have "successively step (xs @ ys) \<longleftrightarrow> successively step xs \<and> successively step (last xs # ys)"
    if "xs \<noteq> []" for xs ys
    using that by (cases ys) (auto simp: successively_append_iff)
  from this [of "p # phases es" "phases fs"] show ?thesis
    by (simp add: path_def current_def)
qed

lemma current_append [simp]: "current p (es @ fs) = current (current p es) fs"
  by (simp add: current_def)

lemma moves_ret: "R a p \<Longrightarrow> moves p (ret a) R"
  by (auto simp: moves_def)

lemma moves_panic: "moves p (panic w) R"
  by (auto simp: moves_def)

lemma moves_hang: "moves p (hang w) R"
  by (auto simp: moves_def)

lemma moves_andThen:
  assumes "moves p m M" and "\<And>a q. M a q \<Longrightarrow> moves q (f a) R"
  shows "moves p (andThen m f) R"
proof (rule movesI)
  fix s r t assume run: "andThen m f s = (r, t)"
  obtain r1 s1 where m: "m s = (r1, s1)" by (cases "m s")
  from movesD [OF assms(1) m] obtain es where es: "trace s1 = trace s @ es" "path p es"
    "\<forall>a. r1 = Ret a \<longrightarrow> M a (current p es)" by auto
  show "\<exists>es. trace t = trace s @ es \<and> path p es \<and> (\<forall>a. r = Ret a \<longrightarrow> R a (current p es))"
  proof (cases r1)
    case (Ret a)
    with run m have fa: "f a s1 = (r, t)" by simp
    from es(3) Ret have "M a (current p es)" by simp
    from movesD [OF assms(2) [OF this] fa] obtain fs where
      "trace t = trace s1 @ fs" "path (current p es) fs" "\<forall>b. r = Ret b \<longrightarrow> R b (current (current p es) fs)"
      by auto
    with es show ?thesis by (intro exI [of _ "es @ fs"]) (simp add: path_append)
  next
    case (Panicked w)
    with run m es show ?thesis by (auto simp: andThen_run)
  next
    case (Hangs w)
    with run m es show ?thesis by (auto simp: andThen_run)
  qed
qed

lemma moves_quiet:
  assumes "keeps (emits quiet) m"
  shows "moves p m (\<lambda>a q. q = p)"
  unfolding moves_def
proof (intro allI impI)
  fix s r t assume "m s = (r, t)"
  from keepsD [OF assms this] obtain es where "trace t = trace s @ es" "list_all quiet es"
    by (auto simp: emits_def)
  then show "\<exists>es. trace t = trace s @ es \<and> path p es \<and> (\<forall>a. r = Ret a \<longrightarrow> current p es = p)"
    by (intro exI [of _ es]) (simp add: phases_quiet path_def current_def)
qed

lemma moves_weaken: "moves p m R \<Longrightarrow> (\<And>a q. R a q \<Longrightarrow> R' a q) \<Longrightarrow> moves p m R'"
  by (rule movesI) (fastforce dest: movesD)

lemma moves_if: "(b \<Longrightarrow> moves p m R) \<Longrightarrow> (\<not> b \<Longrightarrow> moves p n R) \<Longrightarrow> moves p (if b then m else n) R"
  by simp

lemma moves_case_option:
  "(x = None \<Longrightarrow> moves p m R) \<Longrightarrow> (\<And>y. x = Some y \<Longrightarrow> moves p (f y) R) \<Longrightarrow>
   moves p (case x of None \<Rightarrow> m | Some y \<Rightarrow> f y) R"
  by (cases x) simp_all

lemma moves_case_sum:
  "(\<And>a. x = Inl a \<Longrightarrow> moves p (f a) R) \<Longrightarrow> (\<And>b. x = Inr b \<Longrightarrow> moves p (g b) R) \<Longrightarrow>
   moves p (case x of Inl a \<Rightarrow> f a | Inr b \<Rightarrow> g b) R"
  by (cases x) simp_all

lemma moves_case_prod:
  "(\<And>a b. x = (a, b) \<Longrightarrow> moves p (f a b) R) \<Longrightarrow> moves p (case x of (a, b) \<Rightarrow> f a b) R"
  by (cases x) simp_all

text \<open>A call: the phase it writes, if any, must be a step.\<close>

lemma moves_call:
  assumes "\<And>h. case written (ev (f h)) of None \<Rightarrow> R (f h) p | Some q \<Rightarrow> step p q \<and> R (f h) q"
  shows "moves p (call f ev) R"
  unfolding moves_def
proof (intro allI impI)
  fix s r t assume run: "call f ev s = (r, t)"
  let ?e = "ev (f (trace s))"
  show "\<exists>es. trace t = trace s @ es \<and> path p es \<and> (\<forall>a. r = Ret a \<longrightarrow> R a (current p es))"
    using run assms [of "trace s"]
    by (intro exI [of _ "[?e]"])
      (auto simp: path_def current_def phases_def map_filter_simps split: option.splits)
qed

text \<open>A function that moves when it returns no error, and stays where it was when it returns one.\<close>

definition onOk :: "'p \<Rightarrow> ('o \<Rightarrow> 'p \<Rightarrow> bool) \<Rightarrow> go_error option \<times> 'o \<Rightarrow> 'p \<Rightarrow> bool" where
  "onOk p G r q \<longleftrightarrow> (case fst r of None \<Rightarrow> G (snd r) q | Some _ \<Rightarrow> q = p)"

lemma onOk_simps [simp]: "onOk p G (None, x) q = G x q" "onOk p G (Some e, x) q = (q = p)"
  by (simp_all add: onOk_def)

lemma moves_retry:
  assumes "\<And>obj. moves p (fn obj) (onOk p G)"
  shows "moves p (retryOnConflict n fn obj) (onOk p G)"
proof (induction n arbitrary: obj)
  case 0
  show ?case using assms by simp
next
  case (Suc n)
  show ?case
    unfolding retryOnConflict.simps
  proof (rule moves_andThen [OF assms])
    fix a :: "go_error option \<times> 'a" and q
    assume "onOk p G a q"
    then show "moves q (case a of (err, obj') \<Rightarrow> (case err of None \<Rightarrow> ret (None, obj')
       | Some e \<Rightarrow> if isConflict e then retryOnConflict n fn obj' else ret (Some e, obj'))) (onOk p G)"
      by (intro moves_case_prod moves_case_option moves_if) (auto intro: moves_ret Suc)
  qed
qed

text \<open>Sequencing: after a part that writes no phase, and after a part whose error is looked at.\<close>

lemma moves_after:
  assumes "moves p m (\<lambda>_ q. q = p)" and "\<And>a. moves p (f a) R"
  shows "moves p (andThen m f) R"
  using assms by (auto intro: moves_andThen)

lemma moves_check:
  assumes "moves p m M" and "\<And>err x q. M (Some err, x) q \<Longrightarrow> moves q (f err x) R"
    and "\<And>x q. M (None, x) q \<Longrightarrow> moves q (g x) R"
  shows "moves p (andThen m (\<lambda>(e, x). case e of None \<Rightarrow> g x | Some err \<Rightarrow> f err x)) R"
  using assms by (intro moves_andThen [OF assms(1)] moves_case_prod moves_case_option) simp_all

lemma moves_any: "moves p (ret a) (\<lambda>_ _. True)"
  by (rule moves_ret) simp

lemma moves_stay: "moves p (ret a) (\<lambda>_ q. q = p)"
  by (rule moves_ret) simp

lemma moves_forget: "moves p m R \<Longrightarrow> moves p m (\<lambda>_ _. True)"
  by (rule moves_weaken) simp_all

lemma moves_let: "(\<And>x. x = e \<Longrightarrow> moves p (f x) R) \<Longrightarrow> moves p (let x = e in f x) R"
  by simp

end

end
