(* ===== verification/ModuleController.thy ===== *)
theory ModuleController
  imports CustomManager PhaseMachine
begin

text \<open>
  The module controller (\<open>src/internal/controller/module_controller.go\<close>, \<open>module_operations.go\<close>,
  \<open>module_deletion.go\<close>): one reconciliation reads the module and, by its phase, installs it, puts it to
  sleep, resumes it, uninstalls it, or times it out. A reconciliation is one run of \<open>ModuleReconcile\<close>.
  The module is passed by pointer in the code, so the operations return it.
\<close>

record Result =
  RequeueAfter :: time

definition noRequeue :: Result where
  "noRequeue = \<lparr>RequeueAfter = 0\<rparr>"

definition requeueAfter :: "time \<Rightarrow> Result" where
  "requeueAfter d = \<lparr>RequeueAfter = d\<rparr>"

section \<open>Lists of phases\<close>

fun phaseNames :: "WorkspacePhase list \<Rightarrow> string" where
  "phaseNames [] = []"
| "phaseNames [p] = quoted (wsPhaseString p)"
| "phaseNames (p # ps) = quoted (wsPhaseString p) @ '', '' @ phaseNames ps"

definition phaseList :: "WorkspacePhase list \<Rightarrow> string" where
  "phaseList ps = ''['' @ phaseNames ps @ '']''"

section \<open>Status and finalizer\<close>

definition deleteFinalizer :: string where
  "deleteFinalizer = ''delete''"

definition addFinalizer :: "string \<Rightarrow> ObjectMeta \<Rightarrow> ObjectMeta" where
  "addFinalizer f meta = (if f \<in> set (meta_Finalizers meta) then meta
     else meta\<lparr>meta_Finalizers := meta_Finalizers meta @ [f]\<rparr>)"

definition removeFinalizer :: "string \<Rightarrow> ObjectMeta \<Rightarrow> ObjectMeta" where
  "removeFinalizer f meta = meta\<lparr>meta_Finalizers := filter (\<lambda>g. g \<noteq> f) (meta_Finalizers meta)\<rparr>"

definition ensureModuleFinalizer :: "env \<Rightarrow> Module \<Rightarrow> (go_error option \<times> Module) io" where
  "ensureModuleFinalizer E = retryOnConflict (e_retries E) (\<lambda>m.
     andThen (getModule E (moduleKey m)) (\<lambda>r. case r of
         Inl err \<Rightarrow> ret (Some err, m)
       | Inr m' \<Rightarrow>
           if deleteFinalizer \<in> set (meta_Finalizers (mod_Meta m')) then ret (None, m')
           else (let m'' = m'\<lparr>mod_Meta := addFinalizer deleteFinalizer (mod_Meta m')\<rparr> in
                 andThen (updateModule E m'') (\<lambda>u. ret (replaced m'' u)))))"

definition dropModuleFinalizer :: "env \<Rightarrow> Module \<Rightarrow> (go_error option \<times> Module) io" where
  "dropModuleFinalizer E = retryOnConflict (e_retries E) (\<lambda>m.
     andThen (getModule E (moduleKey m)) (\<lambda>r. case r of
         Inl err \<Rightarrow> ret (Some err, m)
       | Inr m' \<Rightarrow>
           if deleteFinalizer \<notin> set (meta_Finalizers (mod_Meta m')) then ret (None, m')
           else (let m'' = m'\<lparr>mod_Meta := removeFinalizer deleteFinalizer (mod_Meta m')\<rparr> in
                 andThen (updateModule E m'') (\<lambda>u. ret (replaced m'' u)))))"

definition setPhase :: "env \<Rightarrow> ModulePhaseType \<Rightarrow> string option \<Rightarrow> Module \<Rightarrow> (go_error option \<times> Module) io" where
  "setPhase E phase message = retryOnConflict (e_retries E) (\<lambda>m.
     andThen (getModule E (moduleKey m)) (\<lambda>r. case r of
         Inl err \<Rightarrow> ret (Some err, m)
       | Inr m' \<Rightarrow> andThen (now E) (\<lambda>t.
           let m'' = m'\<lparr>mod_Status := \<lparr>mst_Conditions = [], mst_Phase = phase,
             mst_Source = getModuleSourceType m', mst_LastActivity = Some t, mst_Message = message\<rparr>\<rparr> in
           andThen (statusUpdateModule E m'') (\<lambda>u. ret (replaced m'' u)))))"

definition recordModule :: "Module \<Rightarrow> string \<Rightarrow> string \<Rightarrow> string \<Rightarrow> unit io" where
  "recordModule m typ reason msg = recordEvent ''Module'' (moduleKey m) typ reason msg"

section \<open>The manager of a module\<close>

definition managerDataKey :: string where
  "managerDataKey = ''forkspacer.com/manager-data''"

definition annotationsOf :: "Module \<Rightarrow> string \<rightharpoonup> string" where
  "annotationsOf m = (case meta_Annotations (mod_Meta m) of None \<Rightarrow> Map.empty | Some a \<Rightarrow> a)"

definition setAnnotations :: "(string \<rightharpoonup> string) option \<Rightarrow> Module \<Rightarrow> Module" where
  "setAnnotations a m = m\<lparr>mod_Meta := (mod_Meta m)\<lparr>meta_Annotations := a\<rparr>\<rparr>"

text \<open>\<open>utils.InitMap\<close> and \<open>utils.UpdateMap\<close> on the annotations.\<close>

definition initAnnotations :: "Module \<Rightarrow> Module" where
  "initAnnotations m = setAnnotations (Some (annotationsOf m)) m"

definition updateAnnotation :: "string \<Rightarrow> string \<Rightarrow> Module \<Rightarrow> Module" where
  "updateAnnotation k v m = setAnnotations (Some ((annotationsOf m)(k \<mapsto> v))) m"

text \<open>The metadata in the annotation; metadata that does not parse is taken as empty.\<close>

definition metaDataOf :: "golib \<Rightarrow> Module \<Rightarrow> MetaData" where
  "metaDataOf lib m = (case annotationsOf m managerDataKey of
       None \<Rightarrow> []
     | Some managerData \<Rightarrow> if managerData = [] then []
         else (case metaParse lib [] managerData of Inl _ \<Rightarrow> [] | Inr md \<Rightarrow> md))"

definition configMapOf :: "golib \<Rightarrow> Module \<Rightarrow> go_error + go_map" where
  "configMapOf lib m = (case ms_Config (mod_Spec m) of
       None \<Rightarrow> Inr []
     | Some ext \<Rightarrow> (case raw_Raw ext of
           None \<Rightarrow> Inr []
         | Some raw \<Rightarrow> unmarshalMap lib [] raw))"

text \<open>The patch that stores the metadata; a failed patch is only logged.\<close>

definition patchLogged :: "env \<Rightarrow> Module \<Rightarrow> Module \<Rightarrow> Module io" where
  "patchLogged E base m = andThen (patchModule E base m) (\<lambda>r. ret (snd (replaced m r)))"

definition newManager ::
  "golib \<Rightarrow> env \<Rightarrow> Module \<Rightarrow> WorkspaceConnection \<Rightarrow> MetaData \<Rightarrow> go_map \<Rightarrow>
     ((go_error + IManager) \<times> Module \<times> MetaData) io" where
  "newManager lib E m conn md configMap =
     andThen (case ms_Helm (mod_Spec m) of
         Some helm \<Rightarrow>
           andThen (rendering (RenderHelmSpec lib m)) (\<lambda>r. case r of
               Inl err \<Rightarrow> ret (Inl (Wrapped ''failed to render Helm spec'' err), md)
             | Inr renderedHelmSpec \<Rightarrow> (case GetReleaseName helm of
                   None \<Rightarrow> panic ''nil pointer dereference''
                 | Some releaseName \<Rightarrow> andThen (NewHelmService E conn) (\<lambda>q. case q of
                       Inl err \<Rightarrow> ret (Inl err, md)
                     | Inr svc \<Rightarrow> ret (Inr (NewModuleHelmManager lib E renderedHelmSpec svc releaseName), md))))
       | None \<Rightarrow> (case ms_Custom (mod_Spec m) of
             Some custom \<Rightarrow>
               andThen (rendering (RenderCustomSpec lib m)) (\<lambda>r. case r of
                   Inl err \<Rightarrow> ret (Inl (Wrapped ''failed to render Custom spec'' err), md)
                 | Inr renderedCustomSpec \<Rightarrow> andThen (NewAPIConfig E conn) (\<lambda>q. case q of
                       Inl err \<Rightarrow> ret (Inl (Wrapped ''failed to create Kubernetes config'' err), md)
                     | Inr apiConfig \<Rightarrow>
                         andThen (NewModuleCustomManager lib E apiConfig renderedCustomSpec configMap md) (\<lambda>(x, md').
                         case x of
                           Inl err \<Rightarrow> ret (Inl (Wrapped ''failed to install Custom module'' err), md')
                         | Inr im \<Rightarrow> ret (Inr im, md'))))
           | None \<Rightarrow> ret (Inl (ErrText ''module spec must define either Helm or Custom configuration''), md)))
       (\<lambda>(x, md'). case x of
           Inl err \<Rightarrow> ret (Inl err, m, md')
         | Inr im \<Rightarrow> andThen (patchLogged E m (updateAnnotation managerDataKey (metaString lib md') m)) (\<lambda>m'.
             ret (Inr im, m', md')))"

definition workspaceOf :: "env \<Rightarrow> Module \<Rightarrow> (go_error + Workspace) io" where
  "workspaceOf E m = getWorkspace E \<lparr>nn_Namespace = wref_Namespace (ms_Workspace (mod_Spec m)),
     nn_Name = wref_Name (ms_Workspace (mod_Spec m))\<rparr>"

section \<open>Installing\<close>

text \<open>A value of \<open>go_any\<close> has no part that \<open>json.Marshal\<close> refuses (a function, a cycle, a number that is not
  finite), so the two error checks after it are never taken.\<close>

definition adoptExistingHelmRelease ::
  "golib \<Rightarrow> env \<Rightarrow> Workspace \<Rightarrow> Module \<Rightarrow> ModuleSpecHelm \<Rightarrow> ModuleSpecHelmExistingRelease \<Rightarrow>
     (go_error option \<times> Module) io" where
  "adoptExistingHelmRelease lib E w m helm ref =
     andThen (NewHelmService E (wss_Connection (ws_Spec w))) (\<lambda>q. case q of
         Inl err \<Rightarrow> ret (Some (Wrapped ''failed to create Helm service'' err), m)
       | Inr svc \<Rightarrow> andThen (GetRelease E svc (exr_Name ref) (exr_Namespace ref)) (\<lambda>r. case r of
             Inl err \<Rightarrow> ret (Some (Wrapped ''failed to get release'' err), m)
           | Inr rel \<Rightarrow>
               (let rawValues = (\<lambda>v. \<lparr>val_File = None, val_ConfigMap = None,
                      val_Raw = Some \<lparr>raw_Raw = Some (lib_jsonMarshal lib (AMap v))\<rparr>\<rparr>);
                    oldValues = (case rel_ChartValues rel of
                        None \<Rightarrow> []
                      | Some vs \<Rightarrow> if 0 < length vs then [rawValues vs] else [])
                      @ (if 0 < length (rel_Config rel) then [rawValues (rel_Config rel)] else []);
                    m' = m\<lparr>mod_Spec := (mod_Spec m)\<lparr>ms_Helm :=
                      Some (helm\<lparr>helm_Values := oldValues @ helm_Values helm\<rparr>)\<rparr>\<rparr> in
                andThen (patchModule E m m') (\<lambda>p. case replaced m' p of
                    (Some err, m'') \<Rightarrow> ret (Some (Wrapped ''failed to patch module with adoption annotations'' err), m'')
                  | (None, m'') \<Rightarrow> ret (None, m'')))))"

definition installModule :: "golib \<Rightarrow> env \<Rightarrow> Module \<Rightarrow> (go_error option \<times> Module) io" where
  "installModule lib E m = andThen (workspaceOf E m) (\<lambda>r. case r of
       Inl err \<Rightarrow> ret (Some (ErrText (''failed to get workspace: '' @ errString err)), m)
     | Inr w \<Rightarrow>
         if \<not> wst_Ready (ws_Status w)
         then ret (Some (ErrWorkspaceNotReady (meta_Name (ws_Meta w)) (meta_Namespace (ws_Meta w))
           ''workspace exists but status.ready is false''), m)
         else if wsPhase w \<noteq> WorkspacePhaseReady
         then ret (Some (ErrWorkspaceNotReady (meta_Name (ws_Meta w)) (meta_Namespace (ws_Meta w))
           (''workspace phase is '' @ wsPhaseString (wsPhase w) @ '', waiting for '' @ wsPhaseString WorkspacePhaseReady)), m)
         else (case (case ms_Helm (mod_Spec m) of
                 None \<Rightarrow> None
               | Some helm \<Rightarrow> map_option (\<lambda>ref. (helm, ref)) (helm_ExistingRelease helm)) of
             Some (helm, ref) \<Rightarrow> andThen (adoptExistingHelmRelease lib E w m helm ref) (\<lambda>(e, m').
               ret (map_option (Wrapped ''failed to adopt existing Helm release'') e, m'))
           | None \<Rightarrow> (case configMapOf lib m of
                 Inl err \<Rightarrow> ret (Some (ErrText (''failed to unmarshal module config: '' @ errString err)), m)
               | Inr configMap \<Rightarrow>
                   andThen (newManager lib E m (wss_Connection (ws_Spec w)) (metaDataOf lib m) configMap)
                     (\<lambda>(x, m1, md). case x of
                       Inl err \<Rightarrow> ret (Some err, m1)
                     | Inr im \<Rightarrow> andThen (im_Install im md) (\<lambda>(installErr, md').
                         andThen (patchLogged E m1 (updateAnnotation managerDataKey (metaString lib md') m1)) (\<lambda>m2.
                         ret (map_option (Wrapped ''failed to install module'') installErr, m2)))))))"

section \<open>Uninstalling, sleeping, resuming\<close>

definition uninstallModule :: "golib \<Rightarrow> env \<Rightarrow> Module \<Rightarrow> (go_error option \<times> Module) io" where
  "uninstallModule lib E m =
     (if (case ms_Helm (mod_Spec m) of None \<Rightarrow> False | Some helm \<Rightarrow> helm_ExistingRelease helm \<noteq> None)
      then ret (None, m)
      else andThen (workspaceOf E m) (\<lambda>r. case r of
          Inl err \<Rightarrow>
            if isNotFound err then ret (None, m)
            else ret (Some (ErrText (''failed to get workspace for module '' @ meta_Namespace (mod_Meta m) @ ''/''
              @ meta_Name (mod_Meta m) @ '': '' @ errString err)), m)
        | Inr w \<Rightarrow>
            if meta_DeletionTimestamp (ws_Meta w) = None \<and> \<not> wst_Ready (ws_Status w)
            then ret (Some (ErrText (''workspace not ready: workspace '' @ meta_Namespace (ws_Meta w) @ ''/''
              @ meta_Name (ws_Meta w) @ '' is not ready'')), m)
            else if meta_DeletionTimestamp (ws_Meta w) = None
              \<and> wsPhase w \<notin> {WorkspacePhaseReady, WorkspacePhaseHibernated, WorkspacePhaseFailed}
            then ret (Some (ErrText (''workspace is not in a suitable phase for uninstallation: expected one of ''
              @ phaseList [WorkspacePhaseReady, WorkspacePhaseHibernated, WorkspacePhaseFailed] @ '', but got ''
              @ quoted (wsPhaseString (wsPhase w)))), m)
            else (let m0 = initAnnotations m in
              andThen (newManager lib E m0 (wss_Connection (ws_Spec w)) (metaDataOf lib m0)
                (case configMapOf lib m0 of Inl _ \<Rightarrow> [] | Inr c \<Rightarrow> c)) (\<lambda>(x, m1, md). case x of
                  Inl err \<Rightarrow> ret (Some err, m1)
                | Inr im \<Rightarrow> andThen (im_Uninstall im md) (\<lambda>(e, md').
                    ret (map_option (Wrapped ''failed to uninstall module'') e, m1))))))"

text \<open>\<open>sleepModule\<close> and \<open>resumeModule\<close> are two copies of one body. After the operation the metadata is
  stored in the annotations, which the code writes without a check for nil.\<close>

definition hibernateModule ::
  "golib \<Rightarrow> env \<Rightarrow> (IManager \<Rightarrow> MetaData \<Rightarrow> (go_error option \<times> MetaData) io) \<Rightarrow> string \<Rightarrow> Module \<Rightarrow>
     (go_error option \<times> Module) io" where
  "hibernateModule lib E op failed m = andThen (workspaceOf E m) (\<lambda>r. case r of
       Inl err \<Rightarrow> ret (Some (ErrText (''failed to get workspace for module '' @ meta_Namespace (mod_Meta m) @ ''/''
         @ meta_Name (mod_Meta m) @ '': '' @ errString err)), m)
     | Inr w \<Rightarrow>
         if \<not> wst_Ready (ws_Status w)
         then ret (Some (ErrText (''workspace not ready: workspace '' @ meta_Namespace (ws_Meta w) @ ''/''
           @ meta_Name (ws_Meta w) @ '' is not ready'')), m)
         else if wsPhase w \<notin> {WorkspacePhaseReady, WorkspacePhaseHibernated}
         then ret (Some (ErrText (''workspace is not in a suitable phase for sleeping: expected one of ''
           @ phaseList [WorkspacePhaseReady, WorkspacePhaseHibernated] @ '', but got ''
           @ quoted (wsPhaseString (wsPhase w)))), m)
         else (let m0 = initAnnotations m in
           andThen (newManager lib E m0 (wss_Connection (ws_Spec w)) (metaDataOf lib m0)
             (case configMapOf lib m0 of Inl _ \<Rightarrow> [] | Inr c \<Rightarrow> c)) (\<lambda>(x, m1, md). case x of
               Inl err \<Rightarrow> ret (Some err, m1)
             | Inr im \<Rightarrow> andThen (op im md) (\<lambda>(e, md').
                 if meta_Annotations (mod_Meta m1) = None then panic ''assignment to entry in nil map''
                 else andThen (patchLogged E m1 (updateAnnotation managerDataKey (metaString lib md') m1)) (\<lambda>m2.
                   ret (map_option (Wrapped failed) e, m2))))))"

definition sleepModule :: "golib \<Rightarrow> env \<Rightarrow> Module \<Rightarrow> (go_error option \<times> Module) io" where
  "sleepModule lib E m = hibernateModule lib E im_Sleep ''failed to sleep module'' m"

definition resumeModule :: "golib \<Rightarrow> env \<Rightarrow> Module \<Rightarrow> (go_error option \<times> Module) io" where
  "resumeModule lib E m = hibernateModule lib E im_Resume ''failed to resume module'' m"

section \<open>Reconciliation\<close>

definition sleepStep :: "golib \<Rightarrow> env \<Rightarrow> Module \<Rightarrow> (go_error option \<times> Module) io" where
  "sleepStep lib E m = andThen (setPhase E ModulePhaseSleeping None m) (\<lambda>(e1, m1). case e1 of
       Some err \<Rightarrow> ret (Some err, m1)
     | None \<Rightarrow> andThen (sleepModule lib E m1) (\<lambda>(e2, m2). case e2 of
         Some err \<Rightarrow> andThen (recordModule m2 ''Warning'' ''SleepError'' (''Module sleep failed: '' @ errString err))
           (\<lambda>_. ret (Some err, m2))
       | None \<Rightarrow> setPhase E ModulePhaseSleeped None m2))"

definition resumeStep :: "golib \<Rightarrow> env \<Rightarrow> Module \<Rightarrow> (go_error option \<times> Module) io" where
  "resumeStep lib E m = andThen (setPhase E ModulePhaseResuming None m) (\<lambda>(e1, m1). case e1 of
       Some err \<Rightarrow> ret (Some err, m1)
     | None \<Rightarrow> andThen (resumeModule lib E m1) (\<lambda>(e2, m2). case e2 of
         Some err \<Rightarrow> andThen (recordModule m2 ''Warning'' ''ResumeError'' (''Module resume failed: '' @ errString err))
           (\<lambda>_. ret (Some err, m2))
       | None \<Rightarrow> setPhase E ModulePhaseReady None m2))"

definition module_handleHibernation :: "golib \<Rightarrow> env \<Rightarrow> Module \<Rightarrow> (Result \<times> go_error option) io" where
  "module_handleHibernation lib E m =
     andThen (if modPhase m = ModulePhaseReady \<and> ms_Hibernated (mod_Spec m)
        then sleepStep lib E m else ret (None, m)) (\<lambda>(e1, m1). case e1 of
       Some err \<Rightarrow> ret (noRequeue, Some err)
     | None \<Rightarrow>
         andThen (if modPhase m1 = ModulePhaseSleeped \<and> \<not> ms_Hibernated (mod_Spec m1)
            then resumeStep lib E m1 else ret (None, m1)) (\<lambda>(e2, m2). case e2 of
           Some err \<Rightarrow> ret (noRequeue, Some err)
         | None \<Rightarrow> ret (requeueAfter (seconds 2), None)))"

definition module_handleEmptyPhase :: "golib \<Rightarrow> env \<Rightarrow> Module \<Rightarrow> (Result \<times> go_error option) io" where
  "module_handleEmptyPhase lib E m = andThen (ensureModuleFinalizer E m) (\<lambda>(e1, m1). case e1 of
       Some err \<Rightarrow> ret (noRequeue, Some err)
     | None \<Rightarrow> andThen (setPhase E ModulePhaseInstalling None m1) (\<lambda>(e2, m2). case e2 of
         Some err \<Rightarrow> ret (noRequeue, Some err)
       | None \<Rightarrow> andThen (installModule lib E m2) (\<lambda>(e3, m3). case e3 of
           Some err \<Rightarrow>
             if asWorkspaceNotReady err then ret (requeueAfter (seconds 5), None)
             else andThen (recordModule m3 ''Warning'' ''InstallError''
                    (''Module installation failed: '' @ errString err)) (\<lambda>_.
                  andThen (setPhase E ModulePhaseFailed
                    (Some ''Module installation failed. Check events for more information.'') m3) (\<lambda>(e4, m4).
                  ret (noRequeue, e4)))
         | None \<Rightarrow>
             andThen (setPhase E ModulePhaseReady (Some ''Module installed successfully'') m3) (\<lambda>(e4, m4). case e4 of
                 Some err \<Rightarrow> ret (noRequeue, Some err)
               | None \<Rightarrow> module_handleHibernation lib E m4))))"

definition module_handleDeletion :: "golib \<Rightarrow> env \<Rightarrow> Module \<Rightarrow> (Result \<times> go_error option) io" where
  "module_handleDeletion lib E m =
     (if modPhase m \<notin> {ModulePhaseReady, ModulePhaseFailed, ModulePhaseSleeped}
      then ret (requeueAfter (seconds 2), None)
      else andThen (setPhase E ModulePhaseUninstalling None m) (\<lambda>(e1, m1). case e1 of
          Some err \<Rightarrow> ret (noRequeue, Some err)
        | None \<Rightarrow> andThen (uninstallModule lib E m1) (\<lambda>(e2, m2).
            andThen (case e2 of
                None \<Rightarrow> ret ()
              | Some err \<Rightarrow> recordModule m2 ''Warning'' ''UninstallError'' (''Module uninstallation failed: ''
                  @ errString err @ ''. Finalizer will be removed to allow deletion.'')) (\<lambda>_.
            andThen (dropModuleFinalizer E m2) (\<lambda>(e3, m3). ret (noRequeue, e3))))))"

text \<open>A module in a transitional phase: it fails after five minutes without activity, otherwise it is
  looked at again.\<close>

definition checkTransition :: "golib \<Rightarrow> env \<Rightarrow> Module \<Rightarrow> (Result \<times> go_error option) io" where
  "checkTransition lib E m = (case mst_LastActivity (mod_Status m) of
       None \<Rightarrow> ret (requeueAfter (seconds 2), None)
     | Some lastActivity \<Rightarrow> andThen (now E) (\<lambda>t.
         let d = t - lastActivity in
         if d > seconds 300
         then andThen (recordModule m ''Warning'' ''PhaseTimeout'' (''Module stuck in '' @ modPhaseString (modPhase m)
                @ '' phase for '' @ lib_showDuration lib d @ '', marking as failed'')) (\<lambda>_.
              andThen (setPhase E ModulePhaseFailed (Some (''Timed out in '' @ modPhaseString (modPhase m)
                @ '' phase after '' @ lib_showDuration lib d)) m) (\<lambda>(e, m').
              ret (noRequeue, e)))
         else ret (requeueAfter (seconds 2), None)))"

text \<open>What a reconciliation does with the module it read.\<close>

definition moduleSwitch :: "golib \<Rightarrow> env \<Rightarrow> Module \<Rightarrow> (Result \<times> go_error option) io" where
  "moduleSwitch lib E m =
     (if meta_DeletionTimestamp (mod_Meta m) \<noteq> None then module_handleDeletion lib E m
      else (case modPhase m of
          ModulePhaseEmpty \<Rightarrow> module_handleEmptyPhase lib E m
        | ModulePhaseReady \<Rightarrow> module_handleHibernation lib E m
        | ModulePhaseSleeped \<Rightarrow> module_handleHibernation lib E m
        | ModulePhaseFailed \<Rightarrow> ret (noRequeue, None)
        | ModulePhaseInstalling \<Rightarrow> checkTransition lib E m
        | ModulePhaseUninstalling \<Rightarrow> checkTransition lib E m
        | ModulePhaseSleeping \<Rightarrow> checkTransition lib E m
        | ModulePhaseResuming \<Rightarrow> checkTransition lib E m
        | ModulePhaseOther p \<Rightarrow> andThen (recordModule m ''Warning'' ''InternalError''
            (''encountered unknown module phase: '' @ p)) (\<lambda>_. ret (noRequeue, None))))"

definition ModuleReconcile :: "golib \<Rightarrow> env \<Rightarrow> NamespacedName \<Rightarrow> (Result \<times> go_error option) io" where
  "ModuleReconcile lib E req = andThen (getModule E req) (\<lambda>r. case r of
       Inl err \<Rightarrow> if isNotFound err then ret (noRequeue, None) else ret (noRequeue, Some err)
     | Inr m \<Rightarrow> moduleSwitch lib E m)"

lemma ModuleReconcile_read:
  assumes "e_getModule E (trace s) req = Inr m"
  shows "ModuleReconcile lib E req s = moduleSwitch lib E m (s\<lparr>trace := trace s @ [ModuleEv (GetM req (Inr m))]\<rparr>)"
  using assms by (simp add: ModuleReconcile_def getModule_def)

lemma keeps_case_modPhase:
  "\<lbrakk>x = ModulePhaseEmpty \<Longrightarrow> keeps R a; x = ModulePhaseReady \<Longrightarrow> keeps R b;
    x = ModulePhaseInstalling \<Longrightarrow> keeps R c; x = ModulePhaseUninstalling \<Longrightarrow> keeps R d;
    x = ModulePhaseSleeping \<Longrightarrow> keeps R e; x = ModulePhaseSleeped \<Longrightarrow> keeps R f;
    x = ModulePhaseResuming \<Longrightarrow> keeps R g; x = ModulePhaseFailed \<Longrightarrow> keeps R h;
    \<And>p. x = ModulePhaseOther p \<Longrightarrow> keeps R (i p)\<rbrakk> \<Longrightarrow>
   keeps R (case x of ModulePhaseEmpty \<Rightarrow> a | ModulePhaseReady \<Rightarrow> b | ModulePhaseInstalling \<Rightarrow> c
     | ModulePhaseUninstalling \<Rightarrow> d | ModulePhaseSleeping \<Rightarrow> e | ModulePhaseSleeped \<Rightarrow> f
     | ModulePhaseResuming \<Rightarrow> g | ModulePhaseFailed \<Rightarrow> h | ModulePhaseOther p \<Rightarrow> i p)"
  by (cases x) simp_all

section \<open>What the operations on a module may do\<close>

text \<open>The events of installing, uninstalling, sleeping and resuming a module with release name \<open>rel\<close>:
  connecting, what its manager does for this release, reading the workspace, patching the module.\<close>

definition moduleOpEvent :: "string \<Rightarrow> event \<Rightarrow> bool" where
  "moduleOpEvent rel e \<longleftrightarrow> connectEvent e \<or> runnerEvent e \<or> (\<exists>c ns cleanup. managerEvent c rel ns cleanup e)
     \<or> (case e of WorkspaceEv (GetW _ _) \<Rightarrow> True | ModuleEv (PatchM _ _ _) \<Rightarrow> True | _ \<Rightarrow> False)"

text \<open>A manager all of whose operations emit only events of \<open>Q\<close>.\<close>

definition scopedBy :: "(event \<Rightarrow> bool) \<Rightarrow> IManager \<Rightarrow> bool" where
  "scopedBy Q im \<longleftrightarrow> (\<forall>md. keeps (emits Q) (im_Install im md) \<and> keeps (emits Q) (im_Uninstall im md)
     \<and> keeps (emits Q) (im_Sleep im md) \<and> keeps (emits Q) (im_Resume im md))"

definition releaseOf :: "Module \<Rightarrow> string \<Rightarrow> bool" where
  "releaseOf m rel \<longleftrightarrow> (case ms_Helm (mod_Spec m) of None \<Rightarrow> True | Some helm \<Rightarrow> GetReleaseName helm = Some rel)"

lemma moduleOp_intros:
  "connectEvent e \<Longrightarrow> moduleOpEvent rel e" "runnerEvent e \<Longrightarrow> moduleOpEvent rel e"
  "managerEvent c rel ns cleanup e \<Longrightarrow> moduleOpEvent rel e"
  by (auto simp: moduleOpEvent_def)

lemma moduleOp_calls [simp]:
  "moduleOpEvent rel (WorkspaceEv (GetW k r))" "moduleOpEvent rel (ModuleEv (PatchM b m q))"
  by (simp_all add: moduleOpEvent_def)

lemmas NewHelmService_op = keeps_emits_mono [OF NewHelmService_reads moduleOp_intros(1)]
lemmas NewAPIConfig_op = keeps_emits_mono [OF NewAPIConfig_reads moduleOp_intros(1)]
lemmas NewModuleCustomManager_op = keeps_emits_mono [OF NewModuleCustomManager_runner moduleOp_intros(2)]

lemma scopedBy_helm: "scopedBy (moduleOpEvent rel) (NewModuleHelmManager lib E helm svc rel)"
  unfolding scopedBy_def
  by (intro allI conjI keeps_emits_mono [OF helmManager.install_scope moduleOp_intros(3)]
      keeps_emits_mono [OF helmManager.uninstall_scope moduleOp_intros(3)]
      keeps_emits_mono [OF helmManager.sleep_scope moduleOp_intros(3)]
      keeps_emits_mono [OF helmManager.resume_scope moduleOp_intros(3)])

lemma scopedBy_custom: "scopedBy (moduleOpEvent rel) (customManager lib E)"
  unfolding scopedBy_def
  by (intro allI conjI keeps_emits_mono [OF customManager.install_scope moduleOp_intros(2)]
      keeps_emits_mono [OF customManager.uninstall_scope moduleOp_intros(2)]
      keeps_emits_mono [OF customManager.sleep_scope moduleOp_intros(2)]
      keeps_emits_mono [OF customManager.resume_scope moduleOp_intros(2)])

lemma NewModuleCustomManager_returned:
  assumes "NewModuleCustomManager lib E apiConfig custom config md s = (Ret (Inr im, md'), t)"
  shows "im = customManager lib E"
  using assms
  by (auto simp: NewModuleCustomManager_def Let_def elim!: andThen_RetE
      split: sum.splits prod.splits option.splits if_splits)

lemma newManager_scoped:
  assumes "newManager lib E m conn md configMap s = (Ret (Inr im, m', md'), t)" and "releaseOf m rel"
  shows "scopedBy (moduleOpEvent rel) im"
proof (cases "ms_Helm (mod_Spec m)")
  case None
  with assms(1) have "im = customManager lib E"
    by (auto simp: newManager_def elim!: andThen_RetE split: option.splits sum.splits prod.splits)
      (use NewModuleCustomManager_returned in fastforce)+
  then show ?thesis using scopedBy_custom by simp
next
  case (Some helm)
  with assms obtain helm' svc where "im = NewModuleHelmManager lib E helm' svc rel"
    by (auto simp: newManager_def releaseOf_def elim!: andThen_RetE split: option.splits sum.splits prod.splits)
  then show ?thesis using scopedBy_helm by simp
qed

lemma patchLogged_op: "keeps (emits (moduleOpEvent rel)) (patchLogged E b m)"
  unfolding patchLogged_def patchModule_def by (intro keeps_io) simp_all

lemma newManager_op: "keeps (emits (moduleOpEvent rel)) (newManager lib E m conn md configMap)"
  unfolding newManager_def
  by (intro keeps_io NewHelmService_op NewAPIConfig_op NewModuleCustomManager_op patchLogged_op)

text \<open>A module of an existing Helm release.\<close>

definition adopted :: "Module \<Rightarrow> bool" where
  "adopted m \<longleftrightarrow> (case ms_Helm (mod_Spec m) of None \<Rightarrow> False | Some helm \<Rightarrow> helm_ExistingRelease helm \<noteq> None)"

text \<open>
  The contract between the operations on a module and its manager. \<open>ok\<close> holds of the modules considered,
  \<open>Q\<close> of the events allowed. The manager made for such a module sleeps and resumes within \<open>Q\<close>; unless
  the module is adopted, it installs and uninstalls within \<open>Q\<close>.
\<close>

locale module_scope =
  fixes Q :: "event \<Rightarrow> bool" and ok :: "Module \<Rightarrow> bool" and lib :: golib and E :: env
  assumes connects: "connectEvent e \<Longrightarrow> Q e"
    and reads: "Q (WorkspaceEv (GetW k w))" "Q (ModuleEv (PatchM b n q))" "Q (HelmEv c (RunGet ns rel rls))"
    and creates: "ok m \<Longrightarrow> keeps (emits Q) (newManager lib E m conn md cfg)"
    and hibernates: "ok m \<Longrightarrow> newManager lib E m conn md cfg s = (Ret (Inr im, m', md'), t) \<Longrightarrow>
      keeps (emits Q) (im_Sleep im md'') \<and> keeps (emits Q) (im_Resume im md'')"
    and installs: "ok m \<Longrightarrow> \<not> adopted m \<Longrightarrow> newManager lib E m conn md cfg s = (Ret (Inr im, m', md'), t) \<Longrightarrow>
      keeps (emits Q) (im_Install im md'') \<and> keeps (emits Q) (im_Uninstall im md'')"
    and spec_only: "mod_Spec m = mod_Spec n \<Longrightarrow> ok m \<Longrightarrow> ok n"
begin

lemma managed:
  assumes "ok m"
    and "\<And>s im m1 md1 t. newManager lib E m conn md cfg s = (Ret (Inr im, m1, md1), t) \<Longrightarrow>
      keeps (emits Q) (f im m1 md1)"
  shows "keeps (emits Q) (andThen (newManager lib E m conn md cfg)
    (\<lambda>(x, m1, md1). case x of Inl err \<Rightarrow> ret (Some err, m1) | Inr im \<Rightarrow> f im m1 md1))"
proof (rule emits.keeps_andThen_returned [OF creates [OF assms(1)]])
  fix s a t assume run: "newManager lib E m conn md cfg s = (Ret a, t)"
  show "keeps (emits Q) (case a of (x, m1, md1) \<Rightarrow>
      (case x of Inl err \<Rightarrow> ret (Some err, m1) | Inr im \<Rightarrow> f im m1 md1))"
    using run by (intro keeps_splits emits.keeps_ret assms(2)) simp
qed

lemma patch_scope: "keeps (emits Q) (patchLogged E b m)"
  unfolding patchLogged_def patchModule_def by (intro keeps_io) (simp add: reads)

lemma workspace_scope: "keeps (emits Q) (workspaceOf E m)"
  unfolding workspaceOf_def getWorkspace_def by (intro keeps_io) (simp add: reads)

lemma adopt_scope: "keeps (emits Q) (adoptExistingHelmRelease lib E w m helm ref)"
  unfolding adoptExistingHelmRelease_def GetRelease_def helm_calls patchModule_def
  by (intro keeps_io keeps_guardErr keeps_emits_mono [OF NewHelmService_reads connects])
    (simp_all add: reads connects)

lemma install_scope:
  assumes "ok m"
  shows "keeps (emits Q) (installModule lib E m)"
proof (cases "adopted m")
  case True
  then obtain helm ref where "ms_Helm (mod_Spec m) = Some helm" "helm_ExistingRelease helm = Some ref"
    by (auto simp: adopted_def split: option.splits)
  then have *: "(case ms_Helm (mod_Spec m) of None \<Rightarrow> None
      | Some helm \<Rightarrow> map_option (\<lambda>ref. (helm, ref)) (helm_ExistingRelease helm)) = Some (helm, ref)"
    by simp
  show ?thesis
    unfolding installModule_def * option.case prod.case
    by (intro keeps_io workspace_scope adopt_scope)
next
  case False
  show ?thesis
    unfolding installModule_def
    by (intro keeps_io workspace_scope adopt_scope managed patch_scope)
      (use assms False installs in blast)+
qed

lemma uninstall_scope:
  assumes "ok m"
  shows "keeps (emits Q) (uninstallModule lib E m)"
proof (cases "adopted m")
  case True
  then have "uninstallModule lib E m = ret (None, m)"
    by (simp add: uninstallModule_def adopted_def)
  then show ?thesis by (simp only: emits.keeps_ret)
next
  case False
  have "ok (initAnnotations m)" "\<not> adopted (initAnnotations m)"
    using assms False spec_only [of m "initAnnotations m"]
    by (auto simp: initAnnotations_def setAnnotations_def adopted_def)
  then show ?thesis
    unfolding uninstallModule_def Let_def
    by (intro keeps_io workspace_scope managed) (use installs in blast)+
qed

lemma hibernate_scope:
  assumes "ok m" and "op \<in> {im_Sleep, im_Resume}"
  shows "keeps (emits Q) (hibernateModule lib E op failed m)"
proof -
  have "ok (initAnnotations m)"
    using assms spec_only [of m "initAnnotations m"] by (auto simp: initAnnotations_def setAnnotations_def)
  then show ?thesis
    unfolding hibernateModule_def Let_def
    by (intro keeps_io workspace_scope managed patch_scope) (use assms hibernates in blast)+
qed

end

text \<open>The module's release: nothing else is installed or removed.\<close>

interpretation releaseScope: module_scope "moduleOpEvent rel" "\<lambda>m. releaseOf m rel" lib E for rel lib E
proof
  show "connectEvent e \<Longrightarrow> moduleOpEvent rel e" for e by (rule moduleOp_intros)
  show "keeps (emits (moduleOpEvent rel)) (newManager lib E m conn md cfg)" for m conn md cfg
    by (rule newManager_op)
  fix m conn md cfg s im m' md' md'' t
  assume "releaseOf m rel" "newManager lib E m conn md cfg s = (Ret (Inr im, m', md'), t)"
  from newManager_scoped [OF this(2,1)]
  show "keeps (emits (moduleOpEvent rel)) (im_Sleep im md'') \<and> keeps (emits (moduleOpEvent rel)) (im_Resume im md'')"
    and "keeps (emits (moduleOpEvent rel)) (im_Install im md'') \<and> keeps (emits (moduleOpEvent rel)) (im_Uninstall im md'')"
    by (simp_all add: scopedBy_def)
qed (auto simp: moduleOpEvent_def releaseOf_def)

text \<open>Any release: the events of an operation, whatever the module.\<close>

definition operationEvent :: "event \<Rightarrow> bool" where
  "operationEvent e \<longleftrightarrow> (\<exists>rel. moduleOpEvent rel e)"

lemma operationEventI: "moduleOpEvent rel e \<Longrightarrow> operationEvent e"
  by (auto simp: operationEvent_def)

lemma newManager_scoped_any:
  assumes "newManager lib E m conn md cfg s = (Ret (Inr im, m', md'), t)"
  shows "scopedBy operationEvent im"
proof -
  obtain rel where rel: "releaseOf m rel"
    using assms
    by (cases "ms_Helm (mod_Spec m)")
      (auto simp: newManager_def releaseOf_def elim!: andThen_RetE split: option.splits sum.splits)
  from newManager_scoped [OF assms rel] show ?thesis
    by (auto simp: scopedBy_def intro: keeps_emits_mono operationEventI)
qed

interpretation anyScope: module_scope operationEvent "\<lambda>_. True" lib E for lib E
proof
  show "connectEvent e \<Longrightarrow> operationEvent e" for e by (auto simp: operationEvent_def intro: moduleOp_intros)
  show "keeps (emits operationEvent) (newManager lib E m conn md cfg)" for m conn md cfg
    by (rule keeps_emits_mono [OF newManager_op operationEventI])
  fix m conn md cfg s im m' md' md'' t
  assume "newManager lib E m conn md cfg s = (Ret (Inr im, m', md'), t)"
  from newManager_scoped_any [OF this]
  show "keeps (emits operationEvent) (im_Sleep im md'') \<and> keeps (emits operationEvent) (im_Resume im md'')"
    and "keeps (emits operationEvent) (im_Install im md'') \<and> keeps (emits operationEvent) (im_Uninstall im md'')"
    by (simp_all add: scopedBy_def)
qed (auto simp: operationEvent_def moduleOpEvent_def)

section \<open>The phases of a module\<close>

text \<open>The phase that a successful status update writes.\<close>

fun modWritten :: "event \<Rightarrow> ModulePhaseType option" where
  "modWritten (ModuleEv (StatusUpdateM m (Inr _))) = Some (modPhase m)"
| "modWritten _ = None"

fun modStep :: "ModulePhaseType \<Rightarrow> ModulePhaseType \<Rightarrow> bool" where
  "modStep ModulePhaseEmpty q = (q = ModulePhaseInstalling)"
| "modStep ModulePhaseInstalling q = (q = ModulePhaseReady \<or> q = ModulePhaseFailed)"
| "modStep ModulePhaseReady q = (q = ModulePhaseSleeping \<or> q = ModulePhaseUninstalling)"
| "modStep ModulePhaseSleeping q = (q = ModulePhaseSleeped \<or> q = ModulePhaseFailed)"
| "modStep ModulePhaseSleeped q = (q = ModulePhaseResuming \<or> q = ModulePhaseUninstalling)"
| "modStep ModulePhaseResuming q = (q = ModulePhaseReady \<or> q = ModulePhaseFailed)"
| "modStep ModulePhaseFailed q = (q = ModulePhaseUninstalling)"
| "modStep ModulePhaseUninstalling q = (q = ModulePhaseFailed)"
| "modStep (ModulePhaseOther _) q = False"

interpretation modPhases: phase_machine modWritten modStep .

text \<open>The answer to a status update carries the status that was sent.\<close>

definition statusEchoes :: "env \<Rightarrow> bool" where
  "statusEchoes E \<longleftrightarrow> (\<forall>h m m'. e_statusUpdateModule E h m = Inr m' \<longrightarrow> mod_Status m' = mod_Status m)"

lemma connectEvent_quiet: "connectEvent e \<Longrightarrow> modWritten e = None"
  by (cases e rule: connectEvent.cases) simp_all

lemma runnerEvent_quiet: "runnerEvent e \<Longrightarrow> modWritten e = None"
  by (cases e rule: runnerEvent.cases) simp_all

lemma managerEvent_quiet: "managerEvent c rel ns cleanup e \<Longrightarrow> modWritten e = None"
  by (cases e rule: modWritten.cases) simp_all

lemma operationEvent_quiet: "operationEvent e \<Longrightarrow> modPhases.quiet e"
  unfolding operationEvent_def moduleOpEvent_def modPhases.quiet_def
  by (cases e rule: modWritten.cases)
    (auto dest: connectEvent_quiet runnerEvent_quiet managerEvent_quiet)

lemmas quiet_op = modPhases.moves_quiet [OF keeps_emits_mono [OF _ operationEvent_quiet]]

lemmas moves_rules = modPhases.moves_panic modPhases.moves_hang modPhases.moves_if modPhases.moves_case_option
  modPhases.moves_case_prod

lemma getModule_quiet: "modPhases.moves p (getModule E k) (\<lambda>_ q. q = p)"
  unfolding getModule_def by (rule modPhases.moves_call) simp

lemma now_quiet: "modPhases.moves p (now E) (\<lambda>_ q. q = p)"
  unfolding now_def by (rule modPhases.moves_call) simp

lemma record_quiet: "modPhases.moves p (recordModule m typ reason msg) (\<lambda>_ q. q = p)"
  unfolding recordModule_def recordEvent_def emit_def by (rule modPhases.moves_call) simp

lemma statusUpdate_moves:
  assumes "statusEchoes E" and "modStep p (modPhase m)"
  shows "modPhases.moves p (statusUpdateModule E m)
    (\<lambda>r q. case r of Inl _ \<Rightarrow> q = p | Inr m' \<Rightarrow> q = modPhase m \<and> modPhase m' = q)"
  unfolding statusUpdateModule_def
  using assms by (intro modPhases.moves_call) (auto simp: statusEchoes_def split: sum.splits)

abbreviation reached :: "ModulePhaseType \<Rightarrow> ModulePhaseType \<Rightarrow> go_error option \<times> Module \<Rightarrow> ModulePhaseType \<Rightarrow> bool" where
  "reached p phase \<equiv> modPhases.onOk p (\<lambda>m' q. q = phase \<and> modPhase m' = phase)"

lemma setPhase_moves:
  assumes "statusEchoes E" and "modStep p phase"
  shows "modPhases.moves p (setPhase E phase message m) (reached p phase)"
  unfolding setPhase_def
proof (rule modPhases.moves_retry)
  fix m
  let ?body = "\<lambda>r. case r of Inl err \<Rightarrow> ret (Some err, m)
       | Inr m' \<Rightarrow> andThen (now E) (\<lambda>t.
           let m'' = m'\<lparr>mod_Status := \<lparr>mst_Conditions = [], mst_Phase = phase,
             mst_Source = getModuleSourceType m', mst_LastActivity = Some t, mst_Message = message\<rparr>\<rparr> in
           andThen (statusUpdateModule E m'') (\<lambda>u. ret (replaced m'' u)))"
  have "modPhases.moves p (?body r) (reached p phase)" for r
  proof (cases r)
    case (Inl err)
    then show ?thesis by (simp add: modPhases.moves_ret del: ret_run)
  next
    case (Inr m')
    show ?thesis
      unfolding Inr sum.case Let_def
      by (rule modPhases.moves_andThen [OF now_quiet], hypsubst,
          rule modPhases.moves_andThen [OF statusUpdate_moves [OF assms(1)]])
        (auto simp: assms replaced_def intro!: modPhases.moves_ret split: sum.splits)
  qed
  then show "modPhases.moves p (andThen (getModule E (moduleKey m)) ?body) (reached p phase)"
    by (intro modPhases.moves_andThen [OF getModule_quiet]) simp
qed

lemma finalizer_moves:
  "modPhases.moves p (ensureModuleFinalizer E m) (\<lambda>_ q. q = p)"
  "modPhases.moves p (dropModuleFinalizer E m) (\<lambda>_ q. q = p)"
proof -
  have "keeps (emits modPhases.quiet) (ensureModuleFinalizer E m)"
    unfolding ensureModuleFinalizer_def calls by (intro keeps_io) (simp_all add: modPhases.quiet_def)
  then show "modPhases.moves p (ensureModuleFinalizer E m) (\<lambda>_ q. q = p)" by (rule modPhases.moves_quiet)
  have "keeps (emits modPhases.quiet) (dropModuleFinalizer E m)"
    unfolding dropModuleFinalizer_def calls by (intro keeps_io) (simp_all add: modPhases.quiet_def)
  then show "modPhases.moves p (dropModuleFinalizer E m) (\<lambda>_ q. q = p)" by (rule modPhases.moves_quiet)
qed

lemmas install_quiet = quiet_op [OF anyScope.install_scope [OF TrueI]]
lemmas uninstall_quiet = quiet_op [OF anyScope.uninstall_scope [OF TrueI]]

lemma sleep_quiet: "modPhases.moves p (sleepModule lib E m) (\<lambda>_ q. q = p)"
  unfolding sleepModule_def by (rule quiet_op [OF anyScope.hibernate_scope]) simp_all

lemma resume_quiet: "modPhases.moves p (resumeModule lib E m) (\<lambda>_ q. q = p)"
  unfolding resumeModule_def by (rule quiet_op [OF anyScope.hibernate_scope]) simp_all

text \<open>A step of the module: it reached the phase and the object it returns says so, or it returned an error.\<close>

abbreviation stepped :: "ModulePhaseType \<Rightarrow> go_error option \<times> Module \<Rightarrow> ModulePhaseType \<Rightarrow> bool" where
  "stepped phase x q \<equiv> fst x = None \<longrightarrow> q = phase \<and> modPhase (snd x) = phase"

lemma stepped_reached: "reached p phase x q \<Longrightarrow> stepped phase x q"
  by (cases x) (auto simp: modPhases.onOk_def)

lemma setPhase_check:
  assumes "statusEchoes E" and "modStep p phase" and "\<And>err m'. modPhases.moves p (f err m') R"
    and "\<And>m'. modPhase m' = phase \<Longrightarrow> modPhases.moves phase (g m') R"
  shows "modPhases.moves p (andThen (setPhase E phase msg m)
    (\<lambda>(e, m'). case e of None \<Rightarrow> g m' | Some err \<Rightarrow> f err m')) R"
  by (rule modPhases.moves_check [OF setPhase_moves [OF assms(1,2)]]) (auto simp: assms)

lemma setPhase_last:
  assumes "statusEchoes E" and "modStep p phase"
  shows "modPhases.moves p (andThen (setPhase E phase msg m) (\<lambda>(e, m'). ret (noRequeue, e))) (\<lambda>x _. fst x = noRequeue)"
  by (intro modPhases.moves_andThen [OF setPhase_moves [OF assms]] moves_rules modPhases.moves_ret) simp

lemma setPhase_end:
  assumes "statusEchoes E" and "modStep p phase" and "\<And>e q. R (noRequeue, e) q"
  shows "modPhases.moves p (andThen (setPhase E phase msg m) (\<lambda>(e, m'). ret (noRequeue, e))) R"
  using assms(3) by (intro modPhases.moves_weaken [OF setPhase_last [OF assms(1,2)]]) (metis prod.collapse)

lemmas quiet_parts = sleep_quiet resume_quiet install_quiet uninstall_quiet record_quiet now_quiet finalizer_moves
lemmas moves_after_parts = quiet_parts [THEN modPhases.moves_after]

lemma sleepStep_moves:
  assumes "statusEchoes E"
  shows "modPhases.moves ModulePhaseReady (sleepStep lib E m) (stepped ModulePhaseSleeped)"
  unfolding sleepStep_def
  by (rule setPhase_check [OF assms]; (intro moves_after_parts moves_rules
        modPhases.moves_weaken [OF setPhase_moves [OF assms] stepped_reached] modPhases.moves_ret)?) simp_all

lemma resumeStep_moves:
  assumes "statusEchoes E"
  shows "modPhases.moves ModulePhaseSleeped (resumeStep lib E m) (stepped ModulePhaseReady)"
  unfolding resumeStep_def
  by (rule setPhase_check [OF assms]; (intro moves_after_parts moves_rules
        modPhases.moves_weaken [OF setPhase_moves [OF assms] stepped_reached] modPhases.moves_ret)?) simp_all

abbreviation tracked :: "go_error option \<times> Module \<Rightarrow> ModulePhaseType \<Rightarrow> bool" where
  "tracked x q \<equiv> fst x = None \<longrightarrow> q = modPhase (snd x)"

lemma sleepPart_moves:
  assumes "statusEchoes E"
  shows "modPhases.moves (modPhase m) (if modPhase m = ModulePhaseReady \<and> ms_Hibernated (mod_Spec m)
      then sleepStep lib E m else ret (None, m)) tracked"
  using modPhases.moves_weaken [OF sleepStep_moves [OF assms, of lib m], of tracked]
  by (intro modPhases.moves_if modPhases.moves_ret) simp_all

lemma resumePart_moves:
  assumes "statusEchoes E"
  shows "modPhases.moves (modPhase m) (if modPhase m = ModulePhaseSleeped \<and> \<not> ms_Hibernated (mod_Spec m)
      then resumeStep lib E m else ret (None, m)) tracked"
  using modPhases.moves_weaken [OF resumeStep_moves [OF assms, of lib m], of tracked]
  by (intro modPhases.moves_if modPhases.moves_ret) simp_all

text \<open>A reconciliation is asked for again after five seconds only where an installation waits for its workspace.\<close>

abbreviation waits :: "Result \<times> go_error option \<Rightarrow> ModulePhaseType \<Rightarrow> bool" where
  "waits x q \<equiv> RequeueAfter (fst x) = seconds 5 \<longrightarrow> q = ModulePhaseInstalling"

lemma waits_other: "waits (noRequeue, e) q" "waits (requeueAfter (seconds 2), e) q"
    "waits (requeueAfter (seconds 5), e) ModulePhaseInstalling"
  by (simp_all add: noRequeue_def requeueAfter_def)

lemma moves_waits: "modPhases.moves p (ret (noRequeue, e)) waits"
    "modPhases.moves p (ret (requeueAfter (seconds 2), e)) waits"
    "modPhases.moves ModulePhaseInstalling (ret (requeueAfter (seconds 5), e)) waits"
  by (intro modPhases.moves_ret waits_other)+

lemma hibernation_moves:
  assumes "statusEchoes E" and "modPhase m = p"
  shows "modPhases.moves p (module_handleHibernation lib E m) waits"
  unfolding module_handleHibernation_def assms(2) [symmetric]
proof (rule modPhases.moves_check [OF sleepPart_moves [OF assms(1)]])
  fix m1 q assume "tracked (None, m1) q"
  then have "q = modPhase m1" by simp
  then show "modPhases.moves q (andThen (if modPhase m1 = ModulePhaseSleeped \<and> \<not> ms_Hibernated (mod_Spec m1)
      then resumeStep lib E m1 else ret (None, m1)) (\<lambda>(e2, m2). case e2 of
        Some err \<Rightarrow> ret (noRequeue, Some err) | None \<Rightarrow> ret (requeueAfter (seconds 2), None))) waits"
    by (hypsubst, intro modPhases.moves_check [OF resumePart_moves [OF assms(1)]] moves_waits)
qed (rule moves_waits)

lemma emptyPhase_moves:
  assumes "statusEchoes E"
  shows "modPhases.moves ModulePhaseEmpty (module_handleEmptyPhase lib E m) waits"
  unfolding module_handleEmptyPhase_def
  by (intro moves_after_parts moves_rules setPhase_check [OF assms] setPhase_end [OF assms]
      hibernation_moves [OF assms] moves_waits waits_other) simp_all

lemma deletion_moves:
  assumes "statusEchoes E"
  shows "modPhases.moves (modPhase m) (module_handleDeletion lib E m) (\<lambda>_ _. True)"
  unfolding module_handleDeletion_def
  by (intro modPhases.moves_if setPhase_check [OF assms] moves_after_parts moves_rules modPhases.moves_any
      modPhases.moves_after [OF modPhases.moves_case_option] modPhases.moves_stay record_quiet) auto

lemma transition_moves:
  assumes "statusEchoes E" and "modStep p ModulePhaseFailed"
  shows "modPhases.moves p (checkTransition lib E m) (\<lambda>_ _. True)"
  unfolding checkTransition_def
  by (intro moves_after_parts moves_rules modPhases.moves_let setPhase_end assms TrueI modPhases.moves_any)

text \<open>C1: the phases of a module follow its life cycle. A reconciliation reads the module and then, by its
  phase, installs, sleeps, resumes, uninstalls or fails it; the phases it writes, starting from the phase it
  read, go through the steps of the life cycle only, however the calls answer and however the run ends.\<close>

theorem module_lifecycle:
  assumes "statusEchoes E" and "e_getModule E (trace s) req = Inr m" and "ModuleReconcile lib E req s = (r, t)"
  shows "\<exists>es. trace t = trace s @ ModuleEv (GetM req (Inr m)) # es \<and>
    successively modStep (modPhase m # List.map_filter modWritten es)"
proof -
  let ?s' = "s\<lparr>trace := trace s @ [ModuleEv (GetM req (Inr m))]\<rparr>"
  have "moduleSwitch lib E m ?s' = (r, t)"
    using assms(3) by (simp add: ModuleReconcile_read [OF assms(2)])
  moreover have "modPhases.moves (modPhase m) (moduleSwitch lib E m) (\<lambda>_ _. True)"
    unfolding moduleSwitch_def
    by (cases "modPhase m"; rule modPhases.moves_if)
      (use deletion_moves [OF assms(1), of m lib] in \<open>simp_all add: emptyPhase_moves [THEN modPhases.moves_forget]
        hibernation_moves [THEN modPhases.moves_forget] transition_moves assms(1) modPhases.moves_any modPhases.moves_after [OF record_quiet] del: ret_run\<close>)
  ultimately obtain es where "trace t = trace ?s' @ es" "modPhases.path (modPhase m) es"
    using modPhases.movesD by blast
  then show ?thesis by (auto simp: modPhases.path_def modPhases.phases_def)
qed

section \<open>Adopted releases\<close>

text \<open>The API server keeps names, and a status update keeps the specification.\<close>

definition namesStable :: "env \<Rightarrow> bool" where
  "namesStable E \<longleftrightarrow> (\<forall>h k m. e_getModule E h k = Inr m \<longrightarrow> moduleKey m = k)
     \<and> (\<forall>h m m'. e_updateModule E h m = Inr m' \<longrightarrow> moduleKey m' = moduleKey m)
     \<and> (\<forall>h b m m'. e_patchModule E h b m = Inr m' \<longrightarrow> moduleKey m' = moduleKey m)
     \<and> (\<forall>h m m'. e_statusUpdateModule E h m = Inr m' \<longrightarrow> moduleKey m' = moduleKey m \<and> mod_Spec m' = mod_Spec m)"

lemma setAnnotations_key [simp]:
  "meta_Namespace (mod_Meta (setAnnotations a m)) = meta_Namespace (mod_Meta m)"
  "meta_Name (mod_Meta (setAnnotations a m)) = meta_Name (mod_Meta m)"
  by (simp_all add: setAnnotations_def)

lemma patchLogged_key:
  "namesStable E \<Longrightarrow> patchLogged E b m s = (Ret m', t) \<Longrightarrow> moduleKey m' = moduleKey m"
  by (auto simp: patchLogged_def patchModule_def replaced_def namesStable_def split: sum.splits)

lemma newManager_key:
  assumes "namesStable E" and "newManager lib E m conn md cfg s = (Ret (x, m', md'), t)"
  shows "moduleKey m' = moduleKey m"
  using assms(2) unfolding newManager_def
  by (auto elim!: andThen_RetE dest!: patchLogged_key [OF assms(1)] simp: updateAnnotation_def
      split: sum.splits prod.splits)

lemma adopt_key:
  assumes "namesStable E" and "adoptExistingHelmRelease lib E w m helm ref s = (Ret (e, m'), t)"
  shows "moduleKey m' = moduleKey m"
proof -
  have patch: "moduleKey m' = moduleKey n" if "e_patchModule E h m n = Inr m'" for h n
    using assms(1) that by (simp add: namesStable_def)
  show ?thesis
    using assms(2) unfolding adoptExistingHelmRelease_def Let_def
    by (auto elim!: andThen_RetE simp: patchModule_def replaced_def dest!: patch split: sum.splits)
qed

lemma installModule_key:
  assumes "namesStable E" and "installModule lib E m s = (Ret (e, m'), t)"
  shows "moduleKey m' = moduleKey m"
  using assms(2) unfolding installModule_def
  by (auto elim!: andThen_RetE dest!: adopt_key [OF assms(1)] patchLogged_key [OF assms(1)]
      newManager_key [OF assms(1)] simp: updateAnnotation_def
      split: sum.splits prod.splits if_splits option.splits)

lemma uninstallModule_key:
  assumes "namesStable E" and "uninstallModule lib E m s = (Ret (e, m'), t)"
  shows "moduleKey m' = moduleKey m"
  using assms(2) unfolding uninstallModule_def Let_def
  by (auto elim!: andThen_RetE dest!: newManager_key [OF assms(1)] simp: initAnnotations_def
      split: sum.splits prod.splits if_splits)

lemma hibernateModule_key:
  assumes "namesStable E" and "hibernateModule lib E op failed m s = (Ret (e, m'), t)"
  shows "moduleKey m' = moduleKey m"
  using assms(2) unfolding hibernateModule_def Let_def
  by (auto elim!: andThen_RetE dest!: patchLogged_key [OF assms(1)] newManager_key [OF assms(1)]
      simp: initAnnotations_def updateAnnotation_def split: sum.splits prod.splits if_splits)

text \<open>The events of a reconciliation beside those of the operations.\<close>

fun adminEvent :: "event \<Rightarrow> bool" where
  "adminEvent (ModuleEv (GetM _ _)) = True"
| "adminEvent (ModuleEv (UpdateM _ _)) = True"
| "adminEvent (ModuleEv (StatusUpdateM _ _)) = True"
| "adminEvent (CoreEv (Clock _)) = True"
| "adminEvent (RecordEv _ _ _ _ _) = True"
| "adminEvent _ = False"

text \<open>The contract of a whole reconciliation: the modules the API server answers with for the key are \<open>ok\<close>.\<close>

locale module_server = module_scope +
  fixes k :: NamespacedName
  assumes names: "namesStable E"
    and answers: "e_getModule E h k = Inr m \<Longrightarrow> ok m"
begin

definition allowed :: "event \<Rightarrow> bool" where
  "allowed e \<longleftrightarrow> Q e \<or> adminEvent e"

lemma operation_allowed: "keeps (emits Q) m \<Longrightarrow> keeps (emits allowed) m"
  by (erule keeps_emits_mono) (simp add: allowed_def)

lemma record_allowed: "keeps (emits allowed) (recordModule m typ reason msg)"
  unfolding recordModule_def calls by (intro keeps_io) (simp add: allowed_def)

lemma now_allowed: "keeps (emits allowed) (now E)"
  unfolding now_def by (intro keeps_io) (simp add: allowed_def)

lemma key_step:
  "moduleKey m = k \<Longrightarrow> obeys allowed (getModule E (moduleKey m)) (\<lambda>r. \<forall>m'. r = Inr m' \<longrightarrow> ok m' \<and> moduleKey m' = k)"
  unfolding getModule_def using answers names
  by (intro obeys_call) (auto simp: allowed_def namesStable_def)

lemma status_step:
  "moduleKey m = k \<Longrightarrow> ok m \<Longrightarrow> obeys allowed (statusUpdateModule E m)
     (\<lambda>r. \<forall>m'. r = Inr m' \<longrightarrow> ok m' \<and> moduleKey m' = k)"
  unfolding statusUpdateModule_def using names
  by (intro obeys_call) (auto simp: allowed_def namesStable_def intro: spec_only [rotated])

lemma update_step:
  "moduleKey m = k \<Longrightarrow> obeys allowed (updateModule E m) (\<lambda>r. \<forall>m'. r = Inr m' \<longrightarrow> moduleKey m' = k)"
  unfolding updateModule_def using names
  by (intro obeys_call) (auto simp: allowed_def namesStable_def)

lemma setPhase_ok:
  assumes "moduleKey m = k"
  shows "obeys allowed (setPhase E phase message m) (\<lambda>(e, m'). moduleKey m' = k \<and> (e = None \<longrightarrow> ok m'))"
  unfolding setPhase_def
proof (rule obeys_retry [where I = "\<lambda>m. moduleKey m = k" and P = "\<lambda>e m'. e = None \<longrightarrow> ok m'"])
  show "moduleKey m = k" by (rule assms)
  fix n assume n: "moduleKey n = k"
  show "obeys allowed (andThen (getModule E (moduleKey n)) (\<lambda>r. case r of
         Inl err \<Rightarrow> ret (Some err, n)
       | Inr m' \<Rightarrow> andThen (now E) (\<lambda>t.
           let m'' = m'\<lparr>mod_Status := \<lparr>mst_Conditions = [], mst_Phase = phase,
             mst_Source = getModuleSourceType m', mst_LastActivity = Some t, mst_Message = message\<rparr>\<rparr> in
           andThen (statusUpdateModule E m'') (\<lambda>u. ret (replaced m'' u)))))
    (\<lambda>(e, m'). moduleKey m' = k \<and> (e = None \<longrightarrow> ok m'))"
    using n
    by (intro obeys_andThen [OF key_step] obeys_splits obeys_ret obeys_andThen [OF keeps_obeys [OF now_allowed]]
        obeys_andThen [OF status_step])
      (auto simp: replaced_def intro: spec_only [rotated] split: sum.splits)
qed

lemma finalizer_ok:
  assumes "moduleKey m = k"
  shows "obeys allowed (ensureModuleFinalizer E m) (\<lambda>(e, m'). moduleKey m' = k)"
proof -
  have "obeys allowed (ensureModuleFinalizer E m) (\<lambda>(e, m'). moduleKey m' = k \<and> True)"
    unfolding ensureModuleFinalizer_def
    by (rule obeys_retry [where I = "\<lambda>m. moduleKey m = k"], rule obeys_andThen [OF key_step],
        assumption, intro obeys_splits obeys_ret obeys_andThen [OF update_step])
      (auto simp: assms replaced_def addFinalizer_def split: sum.splits)
  then show ?thesis by simp
qed

lemma drop_allowed:
  "keeps (emits allowed) (dropModuleFinalizer E m)"
  unfolding dropModuleFinalizer_def calls by (intro keeps_io) (simp_all add: allowed_def)

lemma operations_ok:
  assumes "ok m" and "moduleKey m = k"
  shows "obeys allowed (installModule lib E m) (\<lambda>(e, m'). moduleKey m' = k)"
    and "obeys allowed (sleepModule lib E m) (\<lambda>(e, m'). moduleKey m' = k)"
    and "obeys allowed (resumeModule lib E m) (\<lambda>(e, m'). moduleKey m' = k)"
  unfolding obeys_def sleepModule_def resumeModule_def
  using assms installModule_key [OF names] hibernateModule_key [OF names]
  by (auto intro: operation_allowed install_scope hibernate_scope)

lemma sleepStep_ok:
  assumes "moduleKey m = k"
  shows "obeys allowed (sleepStep lib E m) (\<lambda>(e, m'). e = None \<longrightarrow> moduleKey m' = k \<and> ok m')"
  unfolding sleepStep_def
  using assms
  by (intro obeys_check [OF setPhase_ok] obeys_check [OF operations_ok(2)] obeys_ret
      obeys_andThen [OF keeps_obeys [OF record_allowed]] obeys_weaken [OF setPhase_ok]) auto

lemma resumeStep_ok:
  assumes "moduleKey m = k"
  shows "keeps (emits allowed) (resumeStep lib E m)"
  unfolding resumeStep_def
  using assms
  by (intro obeys_keeps [OF obeys_check [OF setPhase_ok]] obeys_check [OF operations_ok(3)] obeys_ret
      obeys_andThen [OF keeps_obeys [OF record_allowed]] obeys_weaken [OF setPhase_ok]) auto

lemma hibernation_allowed:
  assumes "moduleKey m = k" and "ok m"
  shows "keeps (emits allowed) (module_handleHibernation lib E m)"
proof (rule obeys_keeps [of _ _ "\<lambda>_. True"])
  have sleeps: "obeys allowed (if modPhase m = ModulePhaseReady \<and> ms_Hibernated (mod_Spec m)
      then sleepStep lib E m else ret (None, m)) (\<lambda>(e, m'). e = None \<longrightarrow> moduleKey m' = k \<and> ok m')"
    by (intro obeys_if obeys_ret sleepStep_ok) (auto simp: assms)
  show "obeys allowed (module_handleHibernation lib E m) (\<lambda>_. True)"
    unfolding module_handleHibernation_def
    by (intro obeys_check [OF sleeps] obeys_ret keeps_obeys keeps_io resumeStep_ok) auto
qed

lemma emptyPhase_allowed:
  assumes "moduleKey m = k"
  shows "keeps (emits allowed) (module_handleEmptyPhase lib E m)"
proof (rule obeys_keeps [of _ _ "\<lambda>_. True"])
  show "obeys allowed (module_handleEmptyPhase lib E m) (\<lambda>_. True)"
    unfolding module_handleEmptyPhase_def
    by (intro obeys_check [OF finalizer_ok] obeys_check [OF setPhase_ok] obeys_check [OF operations_ok(1)]
        obeys_if obeys_ret obeys_andThen [OF keeps_obeys [OF record_allowed]] obeys_pair [OF setPhase_ok]
        keeps_obeys [OF hibernation_allowed])
      (auto simp: assms)
qed

lemma deletion_allowed:
  assumes "moduleKey m = k"
  shows "keeps (emits allowed) (module_handleDeletion lib E m)"
proof (rule obeys_keeps [of _ _ "\<lambda>_. True"])
  show "obeys allowed (module_handleDeletion lib E m) (\<lambda>_. True)"
    unfolding module_handleDeletion_def
    by (intro obeys_if obeys_check [OF setPhase_ok] obeys_ret keeps_obeys keeps_io record_allowed drop_allowed
        operation_allowed [OF uninstall_scope]) (auto simp: assms)
qed

lemma transition_allowed:
  assumes "moduleKey m = k"
  shows "keeps (emits allowed) (checkTransition lib E m)"
  unfolding checkTransition_def
  by (intro keeps_io now_allowed record_allowed obeys_keeps [OF setPhase_ok]) (rule assms)

lemma reconcile_allowed: "keeps (emits allowed) (ModuleReconcile lib E k)"
  unfolding ModuleReconcile_def
proof (rule emits.keeps_andThen_returned)
  show "keeps (emits allowed) (getModule E k)"
    unfolding getModule_def by (intro keeps_io) (simp add: allowed_def)
  fix s a t assume read: "getModule E k s = (Ret a, t)"
  have "keeps (emits allowed) (moduleSwitch lib E m)" if "a = Inr m" for m
  proof -
    have m: "moduleKey m = k" "ok m"
      using read that names answers by (auto simp: getModule_def namesStable_def)
    show ?thesis
      unfolding moduleSwitch_def
      by (intro keeps_io keeps_case_modPhase record_allowed transition_allowed deletion_allowed
          emptyPhase_allowed hibernation_allowed m)
  qed
  then show "keeps (emits allowed) (case a of
      Inl err \<Rightarrow> if isNotFound err then ret (noRequeue, None) else ret (noRequeue, Some err)
    | Inr m \<Rightarrow> moduleSwitch lib E m)"
    by (intro keeps_io) simp_all
qed

end

text \<open>Events that install a release, remove one or something of one, or act through a runner.\<close>

fun changesRelease :: "event \<Rightarrow> bool" where
  "changesRelease (HelmEv _ (RunInstall _ _ _ _)) = True"
| "changesRelease (HelmEv _ (RunUninstall _ _ _)) = True"
| "changesRelease (HelmEv _ (KDeleteNamespace _ _)) = True"
| "changesRelease (HelmEv _ (KDeletePVCs _ _ _)) = True"
| "changesRelease (RunnerEv _) = True"
| "changesRelease (Go _) = True"
| "changesRelease _ = False"

abbreviation sparesRelease :: "event \<Rightarrow> bool" where
  "sparesRelease e \<equiv> \<not> changesRelease e"

lemma connectEvent_spares: "connectEvent e \<Longrightarrow> sparesRelease e"
  by (cases e rule: changesRelease.cases) simp_all

lemma scalingEvent_spares: "scalingEvent c e \<Longrightarrow> sparesRelease e"
  by (cases e rule: changesRelease.cases) simp_all

lemma helmManager_hibernation_spares:
  "keeps (emits sparesRelease) (im_Sleep (NewModuleHelmManager lib E helm svc rel) md)"
  "keeps (emits sparesRelease) (im_Resume (NewModuleHelmManager lib E helm svc rel) md)"
  using keeps_emits_mono [OF ModuleHelmManager_Sleep_scales scalingEvent_spares]
    keeps_emits_mono [OF ModuleHelmManager_Resume_scales scalingEvent_spares]
  by (simp_all add: NewModuleHelmManager_def Let_def)

lemma newManager_adopted:
  assumes "adopted m" and "newManager lib E m conn md cfg s = (Ret (Inr im, m', md'), t)"
  shows "\<exists>helm svc rel. im = NewModuleHelmManager lib E helm svc rel"
proof -
  obtain helm where helm: "ms_Helm (mod_Spec m) = Some helm"
    using assms(1) by (auto simp: adopted_def split: option.splits)
  show ?thesis
    using assms(2) by (auto simp: newManager_def helm elim!: andThen_RetE split: option.splits sum.splits) blast
qed

lemma newManager_adopted_spares:
  assumes "adopted m"
  shows "keeps (emits sparesRelease) (newManager lib E m conn md cfg)"
proof -
  obtain helm where helm: "ms_Helm (mod_Spec m) = Some helm"
    using assms by (auto simp: adopted_def split: option.splits)
  show ?thesis
    unfolding newManager_def helm option.case patchLogged_def patchModule_def
    by (intro keeps_io keeps_emits_mono [OF NewHelmService_reads connectEvent_spares]) simp_all
qed

interpretation adoptedScope: module_scope sparesRelease adopted lib E for lib E
proof
  show "connectEvent e \<Longrightarrow> sparesRelease e" for e by (rule connectEvent_spares)
  show "adopted m \<Longrightarrow> keeps (emits sparesRelease) (newManager lib E m conn md cfg)" for m conn md cfg
    by (rule newManager_adopted_spares)
  show "keeps (emits sparesRelease) (im_Sleep im md'') \<and> keeps (emits sparesRelease) (im_Resume im md'')"
    if "adopted m" "newManager lib E m conn md cfg s = (Ret (Inr im, m', md'), t)"
    for m conn md cfg s im m' md' md'' t
    using newManager_adopted [OF that] helmManager_hibernation_spares by auto
qed (auto simp: adopted_def)

text \<open>An API server that keeps names and answers with adopted modules for a key; \<open>adoptedEnv\<close> is \<open>E\<close> when
  \<open>E\<close> is one.\<close>

definition answersAdopted :: "env \<Rightarrow> NamespacedName \<Rightarrow> bool" where
  "answersAdopted E k \<longleftrightarrow> namesStable E \<and> (\<forall>h m. e_getModule E h k = Inr m \<longrightarrow> adopted m)"

definition adoptedEnv :: "env \<Rightarrow> NamespacedName \<Rightarrow> env" where
  "adoptedEnv E k = (if answersAdopted E k then E else exampleEnv)"

lemma adoptedEnv_answers: "answersAdopted (adoptedEnv E k) k"
  by (simp add: adoptedEnv_def answersAdopted_def namesStable_def exampleEnv_def)

interpretation adoptedServer: module_server sparesRelease adopted lib "adoptedEnv E k" k for lib E k
  using adoptedEnv_answers by unfold_locales (auto simp: answersAdopted_def)

text \<open>C6: a module that adopts an existing Helm release never installs, uninstalls or cleans up anything.
  When the API server answers with such modules only for the key (the webhook lets nobody change it), no
  reconciliation of the key, its deletion included, installs or removes a release, deletes a namespace or
  volume claims, or creates a runner.\<close>

theorem adopted_release_kept:
  assumes "answersAdopted E k" and "ModuleReconcile lib E k s = (r, t)"
  shows "\<exists>es. trace t = trace s @ es \<and> \<not> list_ex changesRelease es"
proof -
  have "adoptedEnv E k = E" using assms(1) by (simp add: adoptedEnv_def)
  with adoptedServer.reconcile_allowed [of lib E k] have "keeps (emits (adoptedServer.allowed)) (ModuleReconcile lib E k)"
    by simp
  moreover have "sparesRelease e" if "adoptedServer.allowed e" for e
    using that by (cases e rule: changesRelease.cases) (auto simp: adoptedServer.allowed_def)
  ultimately have "keeps (emits sparesRelease) (ModuleReconcile lib E k)"
    by (blast intro: keeps_emits_mono)
  from keepsD [OF this assms(2)] show ?thesis
    by (auto simp: emits_def list_all_iff list_ex_iff)
qed

section \<open>Waiting for a workspace\<close>

text \<open>What a reconciliation of a module in a transitional phase may do.\<close>

lemma setPhase_writes:
  assumes "\<And>e. adminEvent e \<Longrightarrow> modWritten e = None \<or> modWritten e = Some phase \<Longrightarrow> Q e"
  shows "keeps (emits Q) (setPhase E phase message m)"
proof -
  have "Q (ModuleEv (StatusUpdateM n r))" if "modPhase n = phase" for n r
    using assms [of "ModuleEv (StatusUpdateM n r)"] that by (cases r) simp_all
  then show ?thesis
    unfolding setPhase_def calls by (intro keeps_io) (simp_all add: assms)
qed

definition timeoutEvent :: "event \<Rightarrow> bool" where
  "timeoutEvent e \<longleftrightarrow> adminEvent e \<and> modWritten e \<in> {None, Some ModulePhaseFailed}"

lemma checkTransition_events: "keeps (emits timeoutEvent) (checkTransition lib E m)"
  unfolding checkTransition_def now_def recordModule_def recordEvent_def emit_def
  by (intro keeps_io setPhase_writes) (auto simp: timeoutEvent_def)

text \<open>C38: an installation that waits for its workspace is never taken up again. When a reconciliation of a new
  module finds the workspace not ready it asks to be repeated after five seconds, but by then it has
  written the phase \<open>installing\<close>; and a reconciliation of a module in that phase installs nothing: it reads,
  or it writes the phase \<open>failed\<close>.\<close>

theorem waiting_install_lost:
  assumes "statusEchoes E"
    and "e_getModule E (trace s) req = Inr m" "modPhase m = ModulePhaseEmpty"
      "meta_DeletionTimestamp (mod_Meta m) = None"
    and "ModuleReconcile lib E req s = (Ret (res, err), t)" "RequeueAfter res = seconds 5"
    and "e_getModule E (trace u) req = Inr m'" "modPhase m' = ModulePhaseInstalling"
      "meta_DeletionTimestamp (mod_Meta m') = None"
    and "ModuleReconcile lib E req u = (r, v)"
  shows "(\<exists>es. trace t = trace s @ ModuleEv (GetM req (Inr m)) # es \<and>
      last (modPhase m # List.map_filter modWritten es) = ModulePhaseInstalling) \<and>
    (\<exists>es. trace v = trace u @ es \<and> list_all timeoutEvent es)"
proof (intro conjI)
  have "module_handleEmptyPhase lib E m (s\<lparr>trace := trace s @ [ModuleEv (GetM req (Inr m))]\<rparr>) = (Ret (res, err), t)"
    using assms(3-5) by (simp add: ModuleReconcile_read [OF assms(2)] moduleSwitch_def)
  from modPhases.movesD [OF emptyPhase_moves [OF assms(1)] this]
  show "\<exists>es. trace t = trace s @ ModuleEv (GetM req (Inr m)) # es \<and>
      last (modPhase m # List.map_filter modWritten es) = ModulePhaseInstalling"
    using assms(3,6) by (auto simp: modPhases.current_def modPhases.phases_def split: if_splits)
  have "checkTransition lib E m' (u\<lparr>trace := trace u @ [ModuleEv (GetM req (Inr m'))]\<rparr>) = (r, v)"
    using assms(8-10) by (simp add: ModuleReconcile_read [OF assms(7)] moduleSwitch_def)
  from keepsD [OF checkTransition_events this]
  show "\<exists>es. trace v = trace u @ es \<and> list_all timeoutEvent es"
    by (auto simp: emits_def timeoutEvent_def)
qed

section \<open>Deletion\<close>

text \<open>A key that is reconciled a number of times.\<close>

fun reconcileTimes :: "nat \<Rightarrow> golib \<Rightarrow> env \<Rightarrow> NamespacedName \<Rightarrow> unit io" where
  "reconcileTimes 0 lib E req = ret ()"
| "reconcileTimes (Suc n) lib E req = andThen (ModuleReconcile lib E req) (\<lambda>_. reconcileTimes n lib E req)"

text \<open>a deletion that was interrupted is never completed. A module that is being deleted and whose phase is
  not \<open>ready\<close>, \<open>failed\<close> or \<open>sleeped\<close> (\<open>uninstalling\<close>, when the removal of the finalizer failed) is only
  read, however often it is reconciled: nothing uninstalls it, removes its finalizer or times it out.\<close>

theorem interrupted_deletion_stuck:
  assumes "\<And>h. e_getModule E h req = Inr m" and "meta_DeletionTimestamp (mod_Meta m) \<noteq> None"
    and "modPhase m \<notin> {ModulePhaseReady, ModulePhaseFailed, ModulePhaseSleeped}"
  shows "reconcileTimes n lib E req s = (Ret (), s\<lparr>trace := trace s @ replicate n (ModuleEv (GetM req (Inr m)))\<rparr>)"
proof (induction n arbitrary: s)
  case 0
  show ?case by simp
next
  case (Suc n)
  have "ModuleReconcile lib E req s = (Ret (requeueAfter (seconds 2), None),
      s\<lparr>trace := trace s @ [ModuleEv (GetM req (Inr m))]\<rparr>)" for s
    using assms(2,3) by (simp add: ModuleReconcile_read [OF assms(1)] moduleSwitch_def module_handleDeletion_def)
  then show ?case by (simp add: Suc.IH)
qed

lemma retry_first:
  assumes "fn obj s = (Ret (None, obj'), t)"
  shows "retryOnConflict n fn obj s = (Ret (None, obj'), t)"
  by (cases n) (simp_all add: assms)


section \<open>Concrete runs\<close>

text \<open>An API server with one answer for every key, which accepts writes, and knows no workspace.\<close>

definition named :: "NamespacedName \<Rightarrow> Module \<Rightarrow> Module" where
  "named k m = m\<lparr>mod_Meta := (mod_Meta m)\<lparr>meta_Namespace := nn_Namespace k, meta_Name := nn_Name k\<rparr>\<rparr>"

definition servingEnv :: "(history \<Rightarrow> Module) \<Rightarrow> env" where
  "servingEnv cur = exampleEnv\<lparr>e_getModule := \<lambda>h k. Inr (named k (cur h)), e_updateModule := \<lambda>h m. Inr m,
     e_statusUpdateModule := \<lambda>h m. Inr m, e_patchModule := \<lambda>h b m. Inr m\<rparr>"

definition inPhase :: "ModulePhaseType \<Rightarrow> Module" where
  "inPhase p = exampleHelmModule\<lparr>mod_Status := (mod_Status exampleHelmModule)\<lparr>mst_Phase := p\<rparr>\<rparr>"

definition deleting :: "Module \<Rightarrow> Module" where
  "deleting m = m\<lparr>mod_Meta := (mod_Meta m)\<lparr>meta_DeletionTimestamp := Some 0\<rparr>\<rparr>"

definition exampleKey :: NamespacedName where
  "exampleKey = \<lparr>nn_Namespace = ''default'', nn_Name = ''redis''\<rparr>"

lemma serving_calls [simp]:
  "e_getModule (servingEnv cur) h k = Inr (named k (cur h))" "e_updateModule (servingEnv cur) h m = Inr m"
  "e_statusUpdateModule (servingEnv cur) h m = Inr m" "e_patchModule (servingEnv cur) h b m = Inr m"
  "e_getWorkspace (servingEnv cur) h k = Inl (ApiErr StatusReasonNotFound [])" "e_now (servingEnv cur) h = 0"
  by (simp_all add: servingEnv_def exampleEnv_def)

lemma named_simps [simp]:
  "meta_Namespace (mod_Meta (named k m)) = nn_Namespace k" "meta_Name (mod_Meta (named k m)) = nn_Name k"
  "mod_Status (named k m) = mod_Status m" "mod_Spec (named k m) = mod_Spec m"
  "meta_DeletionTimestamp (mod_Meta (named k m)) = meta_DeletionTimestamp (mod_Meta m)"
  by (simp_all add: named_def)

lemma inPhase_simps [simp]:
  "modPhase (inPhase p) = p" "mod_Spec (inPhase p) = mod_Spec exampleHelmModule"
  "meta_DeletionTimestamp (mod_Meta (inPhase p)) = None"
  "meta_DeletionTimestamp (mod_Meta (deleting m)) = Some 0" "mod_Status (deleting m) = mod_Status m"
  "mod_Spec (deleting m) = mod_Spec m"
  by (simp_all add: inPhase_def deleting_def exampleHelmModule_def exampleModule_def exampleMeta_def)

lemma serving_laws: "statusEchoes (servingEnv cur)" "namesStable (servingEnv cur)"
  by (simp_all add: statusEchoes_def namesStable_def)

theorem module_lifecycle_witness:
  "\<exists>es. trace (snd (ModuleReconcile exampleLib (servingEnv (\<lambda>h. inPhase ModulePhaseEmpty)) exampleKey exampleWorld))
      = ModuleEv (GetM exampleKey (Inr (named exampleKey (inPhase ModulePhaseEmpty)))) # es
    \<and> successively modStep (ModulePhaseEmpty # List.map_filter modWritten es)"
  using module_lifecycle [OF serving_laws(1) serving_calls(1) surjective_pairing,
    of exampleLib "\<lambda>h. inPhase ModulePhaseEmpty" exampleKey exampleWorld]
  by (simp add: exampleWorld_def)

definition exampleAdopted :: Module where
  "exampleAdopted = deleting (exampleHelmModule\<lparr>mod_Spec := (mod_Spec exampleHelmModule)\<lparr>ms_Helm :=
     Some (exampleHelm\<lparr>helm_ExistingRelease := Some \<lparr>exr_Name = ''rel'', exr_Namespace = ''apps''\<rparr>\<rparr>)\<rparr>\<rparr>)"

theorem adopted_release_kept_witness:
  "\<not> list_ex changesRelease (trace (snd (ModuleReconcile exampleLib (servingEnv (\<lambda>h. exampleAdopted)) exampleKey exampleWorld)))"
proof -
  have "answersAdopted (servingEnv (\<lambda>h. exampleAdopted)) exampleKey"
    using serving_laws(2) by (auto simp: answersAdopted_def adopted_def exampleAdopted_def)
  from adopted_release_kept [OF this surjective_pairing, of exampleLib exampleWorld] show ?thesis
    by (auto simp: exampleWorld_def)
qed

text \<open>A server whose module is new until its status is written, and whose workspace is not ready.\<close>

definition waitingEnv :: env where
  "waitingEnv = (servingEnv (\<lambda>h. inPhase (if list_ex (\<lambda>e. modWritten e \<noteq> None) h then ModulePhaseInstalling
     else ModulePhaseEmpty)))\<lparr>e_getWorkspace := \<lambda>h k. Inr (exampleWorkspace\<lparr>ws_Status :=
       (ws_Status exampleWorkspace)\<lparr>wst_Ready := False\<rparr>\<rparr>)\<rparr>"

lemma waiting_run:
  "\<exists>res t. ModuleReconcile exampleLib waitingEnv exampleKey exampleWorld = (Ret (res, None), t)
     \<and> RequeueAfter res = seconds 5 \<and> list_ex (\<lambda>e. modWritten e \<noteq> None) (trace t)"
proof -
  have env: "e_getModule waitingEnv h k = Inr (named k (inPhase (if list_ex (\<lambda>e. modWritten e \<noteq> None) h
      then ModulePhaseInstalling else ModulePhaseEmpty)))"
    "e_updateModule waitingEnv h m = Inr m" "e_statusUpdateModule waitingEnv h m = Inr m"
    "e_getWorkspace waitingEnv h k = Inr (exampleWorkspace\<lparr>ws_Status := (ws_Status exampleWorkspace)\<lparr>wst_Ready := False\<rparr>\<rparr>)"
    for h k m
    by (simp_all add: waitingEnv_def servingEnv_def)
  have fin: "\<exists>m' t. ensureModuleFinalizer waitingEnv m s = (Ret (None, m'), t)" for m s
    unfolding ensureModuleFinalizer_def
    by (cases "deleteFinalizer \<in> set (meta_Finalizers (mod_Meta (named (moduleKey m) (inPhase
          (if list_ex (\<lambda>e. modWritten e \<noteq> None) (trace s) then ModulePhaseInstalling else ModulePhaseEmpty)))))")
      (intro exI retry_first, simp add: getModule_def updateModule_def env andThen_run Let_def replaced_def)+
  have set: "\<exists>m' t. setPhase waitingEnv ModulePhaseInstalling None m s = (Ret (None, m'), t)
      \<and> list_ex (\<lambda>e. modWritten e \<noteq> None) (trace t)" for m s
    unfolding setPhase_def
    by (intro exI conjI retry_first, simp add: getModule_def now_def statusUpdateModule_def env andThen_run
        Let_def replaced_def, simp)
  let ?read = "exampleWorld\<lparr>trace := [ModuleEv (GetM exampleKey (Inr (named exampleKey (inPhase ModulePhaseEmpty))))]\<rparr>"
  obtain m1 s1 where s1: "ensureModuleFinalizer waitingEnv (named exampleKey (inPhase ModulePhaseEmpty)) ?read = (Ret (None, m1), s1)"
    using fin by blast
  obtain m2 s2 where s2: "setPhase waitingEnv ModulePhaseInstalling None m1 s1 = (Ret (None, m2), s2)"
    and written: "list_ex (\<lambda>e. modWritten e \<noteq> None) (trace s2)"
    using set by blast
  have "\<exists>a b c m3 s3. installModule exampleLib waitingEnv m2 s2 = (Ret (Some (ErrWorkspaceNotReady a b c), m3), s3)
      \<and> list_ex (\<lambda>e. modWritten e \<noteq> None) (trace s3)"
    using written by (simp add: installModule_def workspaceOf_def getWorkspace_def env)
  then obtain a b c m3 s3 where "installModule exampleLib waitingEnv m2 s2 = (Ret (Some (ErrWorkspaceNotReady a b c), m3), s3)"
    "list_ex (\<lambda>e. modWritten e \<noteq> None) (trace s3)" by blast
  then have "module_handleEmptyPhase exampleLib waitingEnv (named exampleKey (inPhase ModulePhaseEmpty)) ?read
      = (Ret (requeueAfter (seconds 5), None), s3)"
    by (simp add: module_handleEmptyPhase_def s1 s2)
  moreover have "e_getModule waitingEnv (trace exampleWorld) exampleKey = Inr (named exampleKey (inPhase ModulePhaseEmpty))"
    by (simp add: env exampleWorld_def)
  ultimately show ?thesis
    using \<open>list_ex _ (trace s3)\<close>
    by (simp add: ModuleReconcile_read moduleSwitch_def requeueAfter_def exampleWorld_def)
qed

theorem waiting_install_lost_witness:
  "\<exists>t res. ModuleReconcile exampleLib waitingEnv exampleKey exampleWorld = (Ret (res, None), t) \<and>
     RequeueAfter res = seconds 5 \<and>
     (\<exists>es. trace (snd (ModuleReconcile exampleLib waitingEnv exampleKey t)) = trace t @ es \<and> list_all timeoutEvent es)"
proof -
  obtain res t where run: "ModuleReconcile exampleLib waitingEnv exampleKey exampleWorld = (Ret (res, None), t)"
    "RequeueAfter res = seconds 5" "list_ex (\<lambda>e. modWritten e \<noteq> None) (trace t)"
    using waiting_run by blast
  have env: "statusEchoes waitingEnv" "e_getModule waitingEnv (trace t) exampleKey = Inr (named exampleKey (inPhase ModulePhaseInstalling))"
    "e_getModule waitingEnv (trace exampleWorld) exampleKey = Inr (named exampleKey (inPhase ModulePhaseEmpty))"
    using run(3) by (simp_all add: statusEchoes_def waitingEnv_def servingEnv_def exampleWorld_def)
  from waiting_install_lost [OF env(1,3) _ _ run(1,2) env(2) _ _ surjective_pairing] run(1,2) show ?thesis
    by simp
qed

theorem interrupted_deletion_stuck_witness:
  "trace (snd (reconcileTimes 3 exampleLib (servingEnv (\<lambda>h. deleting (inPhase ModulePhaseUninstalling))) exampleKey exampleWorld))
     = replicate 3 (ModuleEv (GetM exampleKey (Inr (named exampleKey (deleting (inPhase ModulePhaseUninstalling))))))"
  by (subst interrupted_deletion_stuck [where m = "named exampleKey (deleting (inPhase ModulePhaseUninstalling))"])
    (simp_all add: exampleWorld_def)


end
