(* ===== verification/WorkspaceFork.thy ===== *)
theory WorkspaceFork
  imports Migration ModuleController
begin

text \<open>
  Forking a workspace (\<open>src/internal/controller/workspace_fork.go\<close>, with \<open>getRelatedModules\<close> and
  \<open>hibernateModuleAndWait\<close> of \<open>workspace_controller.go\<close>). The fork starts one goroutine per module of the
  source; its body is \<open>forkModule\<close>, which creates the copy, waits for it and migrates its data.
\<close>

definition getRelatedModules :: "env \<Rightarrow> string \<Rightarrow> string \<Rightarrow> (go_error + Module list) io" where
  "getRelatedModules E workspaceNamespace workspaceName =
     andThen (listModules E workspaceNamespace workspaceName) (\<lambda>r. case r of
         Inl err \<Rightarrow> ret (Inl (Wrapped (''failed to get modules for workspace '' @ workspaceNamespace @ ''/''
           @ workspaceName) err))
       | Inr modules \<Rightarrow> ret (Inr modules))"

section \<open>Putting a module to sleep and waiting for it\<close>

definition withHibernated :: "bool \<Rightarrow> Module \<Rightarrow> Module" where
  "withHibernated b m = m\<lparr>mod_Spec := (mod_Spec m)\<lparr>ms_Hibernated := b\<rparr>\<rparr>"

fun hibernationWait :: "env \<Rightarrow> string \<Rightarrow> nat \<Rightarrow> Module \<Rightarrow> (go_error option \<times> Module) io" where
  "hibernationWait E moduleType 0 m =
     (if modPhase m \<noteq> ModulePhaseSleeped
      then ret (Some (ErrText (''timed out waiting for '' @ moduleType @ '' module '' @ meta_Namespace (mod_Meta m) @ ''/''
        @ meta_Name (mod_Meta m) @ '' to become hibernated, current phase: '' @ modPhaseString (modPhase m))), m)
      else ret (None, m))"
| "hibernationWait E moduleType (Suc n) m = andThen (getModule E (moduleKey m)) (\<lambda>r. case r of
       Inl err \<Rightarrow> andThen (sleep (seconds 3)) (\<lambda>_. hibernationWait E moduleType n m)
     | Inr m' \<Rightarrow>
         if modPhase m' = ModulePhaseSleeped then ret (None, m')
         else if modPhase m' \<in> {ModulePhaseEmpty, ModulePhaseReady, ModulePhaseInstalling, ModulePhaseSleeping,
           ModulePhaseResuming}
         then andThen (sleep (seconds 3)) (\<lambda>_. hibernationWait E moduleType n m')
         else if modPhase m' = ModulePhaseUninstalling
         then ret (Some (ErrText (moduleType @ '' module '' @ meta_Namespace (mod_Meta m') @ ''/''
           @ meta_Name (mod_Meta m') @ '' is uninstalling, cannot proceed with hibernation'')), m')
         else if modPhase m' = ModulePhaseFailed
         then ret (Some (ErrText (moduleType @ '' module '' @ meta_Namespace (mod_Meta m') @ ''/''
           @ meta_Name (mod_Meta m') @ '' has failed, cannot proceed with hibernation'')), m')
         else ret (Some (ErrText (''unexpected '' @ moduleType @ '' module phase '' @ [CHR 0x27] @ modPhaseString (modPhase m')
           @ [CHR 0x27] @ '' encountered during hibernation wait for module '' @ meta_Namespace (mod_Meta m') @ ''/''
           @ meta_Name (mod_Meta m'))), m'))"

definition hibernateModuleAndWait :: "env \<Rightarrow> string \<Rightarrow> Module \<Rightarrow> (go_error option \<times> Module) io" where
  "hibernateModuleAndWait E moduleType m =
     andThen (if \<not> ms_Hibernated (mod_Spec m)
        then andThen (patchModule E m (withHibernated True m)) (\<lambda>p. ret (replaced (withHibernated True m) p))
        else ret (None, m)) (\<lambda>(e, m'). case e of
       Some err \<Rightarrow> ret (Some err, m')
     | None \<Rightarrow> hibernationWait E moduleType 180 m')"

section \<open>Migrating the data of a module\<close>

text \<open>A migration per name of the source, with the name at the same index of the destination; a failed
  migration is only logged.\<close>

fun migrateEach :: "(string \<Rightarrow> string \<Rightarrow> (go_error option) io) \<Rightarrow> string list \<Rightarrow> string list \<Rightarrow> unit io" where
  "migrateEach op [] ds = ret ()"
| "migrateEach op (s # ss) [] = panic ''index out of range''"
| "migrateEach op (s # ss) (d # ds) = andThen (op s d) (\<lambda>_. migrateEach op ss ds)"

definition migrationConfigs ::
  "env \<Rightarrow> Workspace \<Rightarrow> Workspace \<Rightarrow> (api_config \<Rightarrow> api_config \<Rightarrow> (go_error option) io) \<Rightarrow> (go_error option) io" where
  "migrationConfigs E sourceWorkspace destWorkspace body =
     andThen (NewAPIConfig E (wss_Connection (ws_Spec destWorkspace))) (\<lambda>r. case r of
         Inl err \<Rightarrow> ret (Some (Wrapped ''failed to get destination kubeconfig'' err))
       | Inr destKubeConfig \<Rightarrow>
           andThen (NewAPIConfig E (wss_Connection (ws_Spec sourceWorkspace))) (\<lambda>r'. case r' of
               Inl err \<Rightarrow> ret (Some (Wrapped ''failed to get source kubeconfig'' err))
             | Inr sourceKubeConfig \<Rightarrow> body sourceKubeConfig destKubeConfig))"

definition migratePVCs ::
  "env \<Rightarrow> ModuleSpecHelm \<Rightarrow> ModuleSpecHelm \<Rightarrow> Workspace \<Rightarrow> Workspace \<Rightarrow> (go_error option) io" where
  "migratePVCs E sourceHelm destHelm sourceWorkspace destWorkspace =
     (if length (mig_PVCs (helm_Migration sourceHelm)) = 0 then ret None
      else migrationConfigs E sourceWorkspace destWorkspace (\<lambda>src dst.
        andThen (migrateEach (\<lambda>s d. MigratePVC E src s (GetNamespace sourceHelm) dst d (GetNamespace destHelm))
          (mig_PVCs (helm_Migration sourceHelm)) (mig_PVCs (helm_Migration destHelm))) (\<lambda>_. ret None)))"

definition migrateSecrets ::
  "env \<Rightarrow> ModuleSpecHelm \<Rightarrow> ModuleSpecHelm \<Rightarrow> Workspace \<Rightarrow> Workspace \<Rightarrow> Module \<Rightarrow> (go_error option) io" where
  "migrateSecrets E sourceHelm destHelm sourceWorkspace destWorkspace destModule =
     (if length (mig_Secrets (helm_Migration sourceHelm)) = 0 then ret None
      else migrationConfigs E sourceWorkspace destWorkspace (\<lambda>src dst.
        case Option.bind (ms_Helm (mod_Spec destModule)) GetReleaseName of
          None \<Rightarrow> panic ''nil pointer dereference''
        | Some destReleaseName \<Rightarrow>
            andThen (migrateEach (\<lambda>s d. MigrateSecret E src s (GetNamespace sourceHelm) dst d (GetNamespace destHelm)
                destReleaseName)
              (mig_Secrets (helm_Migration sourceHelm)) (mig_Secrets (helm_Migration destHelm))) (\<lambda>_. ret None)))"

definition migrateConfigMaps ::
  "env \<Rightarrow> ModuleSpecHelm \<Rightarrow> ModuleSpecHelm \<Rightarrow> Workspace \<Rightarrow> Workspace \<Rightarrow> (go_error option) io" where
  "migrateConfigMaps E sourceHelm destHelm sourceWorkspace destWorkspace =
     (if length (mig_ConfigMaps (helm_Migration sourceHelm)) = 0 then ret None
      else migrationConfigs E sourceWorkspace destWorkspace (\<lambda>src dst.
        andThen (migrateEach (\<lambda>s d. MigrateConfigMap E src s (GetNamespace sourceHelm) dst d (GetNamespace destHelm))
          (mig_ConfigMaps (helm_Migration sourceHelm)) (mig_ConfigMaps (helm_Migration destHelm))) (\<lambda>_. ret None)))"

text \<open>The two deferred calls of \<open>migrateModuleData\<close>.\<close>

definition wakeDestination :: "env \<Rightarrow> Module \<Rightarrow> unit io" where
  "wakeDestination E destModule =
     andThen (patchModule E destModule (withHibernated False destModule)) (\<lambda>_. ret ())"

definition restoreSource :: "env \<Rightarrow> bool \<Rightarrow> Module \<Rightarrow> unit io" where
  "restoreSource E old sourceModule =
     (if ms_Hibernated (mod_Spec sourceModule) \<noteq> old
      then andThen (patchModule E sourceModule (withHibernated old sourceModule)) (\<lambda>_. ret ())
      else ret ())"

definition migrateModuleData ::
  "golib \<Rightarrow> env \<Rightarrow> Module \<Rightarrow> Module \<Rightarrow> Workspace \<Rightarrow> Workspace \<Rightarrow> (go_error option) io" where
  "migrateModuleData lib E sourceModule destModule sourceWorkspace destWorkspace =
     (if ms_Helm (mod_Spec sourceModule) = None then ret None
      else andThen (rendering (RenderHelmSpec lib sourceModule)) (\<lambda>r. case r of
          Inl err \<Rightarrow> ret (Some (Wrapped ''failed to render source module Helm spec'' err))
        | Inr sourceHelm \<Rightarrow> andThen (rendering (RenderHelmSpec lib destModule)) (\<lambda>r'. case r' of
            Inl err \<Rightarrow> ret (Some (Wrapped ''failed to render destination module Helm spec'' err))
          | Inr destHelm \<Rightarrow>
              if length (mig_PVCs (helm_Migration sourceHelm)) = 0 then ret None
              else andThen (hibernateModuleAndWait E ''destination'' destModule) (\<lambda>(e, dm). case e of
                  Some err \<Rightarrow> ret (Some err)
                | None \<Rightarrow> deferred (
                    andThen (hibernateModuleAndWait E ''source'' sourceModule) (\<lambda>(e', sm). case e' of
                        Some err \<Rightarrow> ret (Some err)
                      | None \<Rightarrow> deferred (
                          guardErr (migratePVCs E sourceHelm destHelm sourceWorkspace destWorkspace)
                            (\<lambda>err. Some (Wrapped ''failed to migrate PVCs'' err)) (
                          guardErr (migrateSecrets E sourceHelm destHelm sourceWorkspace destWorkspace dm)
                            (\<lambda>err. Some (Wrapped ''failed to migrate Secrets'' err)) (
                          guardErr (migrateConfigMaps E sourceHelm destHelm sourceWorkspace destWorkspace)
                            (\<lambda>err. Some (Wrapped ''failed to migrate ConfigMaps'' err)) (ret None))))
                        (restoreSource E (ms_Hibernated (mod_Spec sourceModule)) sm)))
                  (wakeDestination E dm)))))"

section \<open>Forking\<close>

definition emptyModuleStatus :: ModuleStatus where
  "emptyModuleStatus = \<lparr>mst_Conditions = [], mst_Phase = ModulePhaseEmpty, mst_Source = [],
     mst_LastActivity = None, mst_Message = None\<rparr>"

definition forkedModule :: "Module \<Rightarrow> Workspace \<Rightarrow> Module" where
  "forkedModule source destWorkspace =
     \<lparr>mod_Meta = \<lparr>meta_Name = [], meta_GenerateName = meta_Name (mod_Meta source) @ ''-'',
        meta_Namespace = meta_Namespace (mod_Meta source), meta_UID = [], meta_DeletionTimestamp = None,
        meta_Annotations = Some Map.empty, meta_Finalizers = []\<rparr>,
      mod_Config = mod_Config source,
      mod_Spec = \<lparr>ms_Helm = map_option (\<lambda>helm. helm\<lparr>helm_ExistingRelease := None\<rparr>) (ms_Helm (mod_Spec source)),
        ms_Custom = ms_Custom (mod_Spec source),
        ms_Workspace = \<lparr>wref_Name = meta_Name (ws_Meta destWorkspace), wref_Namespace = meta_Namespace (ws_Meta destWorkspace)\<rparr>,
        ms_Config = ms_Config (mod_Spec source), ms_Hibernated = ms_Hibernated (mod_Spec source)\<rparr>,
      mod_Status = emptyModuleStatus\<rparr>"

text \<open>The wait for the copy: \<open>None\<close> where the goroutine returns.\<close>

fun waitForInitialNewModuleState :: "env \<Rightarrow> nat \<Rightarrow> Module \<Rightarrow> (Module option) io" where
  "waitForInitialNewModuleState E 0 m = ret (Some m)"
| "waitForInitialNewModuleState E (Suc n) m = andThen (getModule E (moduleKey m)) (\<lambda>r. case r of
       Inl err \<Rightarrow> andThen (sleep (seconds 3)) (\<lambda>_. waitForInitialNewModuleState E n m)
     | Inr m' \<Rightarrow>
         if modPhase m' \<in> {ModulePhaseReady, ModulePhaseSleeped} then ret (Some m')
         else if modPhase m' \<in> {ModulePhaseEmpty, ModulePhaseInstalling, ModulePhaseSleeping, ModulePhaseResuming}
         then andThen (sleep (seconds 3)) (\<lambda>_. waitForInitialNewModuleState E n m')
         else ret None)"

definition forkModule :: "golib \<Rightarrow> env \<Rightarrow> Module \<Rightarrow> Workspace \<Rightarrow> Workspace \<Rightarrow> unit io" where
  "forkModule lib E module sourceWorkspace destWorkspace =
     andThen (createModule E (forkedModule module destWorkspace)) (\<lambda>r. case r of
         Inl err \<Rightarrow> ret ()
       | Inr newModule \<Rightarrow>
           andThen (sleep (seconds 1 div 2)) (\<lambda>_.
           andThen (waitForInitialNewModuleState E 180 newModule) (\<lambda>w. case w of
               None \<Rightarrow> ret ()
             | Some m \<Rightarrow>
                 if modPhase m \<notin> {ModulePhaseReady, ModulePhaseSleeped} then ret ()
                 else (case wss_From (ws_Spec destWorkspace) of
                     None \<Rightarrow> panic ''nil pointer dereference''
                   | Some from \<Rightarrow>
                       if from_MigrateData from
                       then andThen (migrateModuleData lib E module m sourceWorkspace destWorkspace) (\<lambda>e. case e of
                           None \<Rightarrow> ret ()
                         | Some err \<Rightarrow> recordEvent ''Workspace'' (workspaceKey destWorkspace) ''Warning'' ''DataMigration''
                             (''Failed to migrate data for new module '' @ meta_Namespace (mod_Meta m) @ ''/''
                              @ meta_Name (mod_Meta m) @ '' (from source '' @ meta_Namespace (mod_Meta module) @ ''/''
                              @ meta_Name (mod_Meta module) @ ''): '' @ errString err))
                       else ret ()))))"

definition notReadyModule :: "Module \<Rightarrow> bool" where
  "notReadyModule m \<longleftrightarrow> modPhase m \<noteq> ModulePhaseReady \<and> modPhase m \<noteq> ModulePhaseSleeped"

definition forkWorkspace :: "env \<Rightarrow> Workspace \<Rightarrow> Workspace \<Rightarrow> (go_error option) io" where
  "forkWorkspace E sourceWorkspace destWorkspace =
     andThen (getRelatedModules E (meta_Namespace (ws_Meta sourceWorkspace)) (meta_Name (ws_Meta sourceWorkspace))) (\<lambda>r. case r of
         Inl err \<Rightarrow> ret (Some (Wrapped (''failed to get related modules for source workspace ''
           @ meta_Namespace (ws_Meta sourceWorkspace) @ ''/'' @ meta_Name (ws_Meta sourceWorkspace)) err))
       | Inr modules \<Rightarrow> (case List.find notReadyModule modules of
             Some m \<Rightarrow> ret (Some (ErrText (''source module '' @ meta_Namespace (mod_Meta m) @ ''/''
               @ meta_Name (mod_Meta m) @ '' is not ready (phase: '' @ modPhaseString (modPhase m)
               @ ''), cannot fork yet, will retry'')))
           | None \<Rightarrow> andThen (forEach (\<lambda>m. spawn (GoForkModule m sourceWorkspace destWorkspace)) modules) (\<lambda>_. ret None)))"

section \<open>What the goroutine of a fork may do\<close>

text \<open>It connects, works on modules and migrates; it never calls Helm for a release and never writes a
  workspace.\<close>

definition forkEvent :: "event \<Rightarrow> bool" where
  "forkEvent e \<longleftrightarrow> connectEvent e \<or> (case e of
       ModuleEv _ \<Rightarrow> True | MigrationEv _ _ \<Rightarrow> True | CoreEv (Clock _) \<Rightarrow> True | CoreEv (Sleep _) \<Rightarrow> True
     | RecordEv _ _ _ _ _ \<Rightarrow> True | _ \<Rightarrow> False)"

lemma forkEvent_simps [simp]:
  "forkEvent (ModuleEv e)" "forkEvent (MigrationEv c x)" "forkEvent (CoreEv (Clock t))" "forkEvent (CoreEv (Sleep d))"
  "forkEvent (RecordEv k n y r m)" "forkEvent (CoreEv (ClientConfig a q))" "forkEvent (HelmEv c (NewForConfig e'))"
  by (simp_all add: forkEvent_def)

lemma pollsPod_fork: "pollsPod e \<Longrightarrow> forkEvent e"
  by (cases e rule: pollsPod.cases) simp_all

lemma connectEvent_fork: "connectEvent e \<Longrightarrow> forkEvent e"
  by (simp add: forkEvent_def)

lemmas fork_connect = keeps_emits_mono [OF NewAPIConfig_reads connectEvent_fork]

lemma migrations_fork:
  "keeps (emits forkEvent) (MigratePVC E sc sp sn dc dp dn)" "keeps (emits forkEvent) (MigrateSecret E sc sp sn dc dp dn rel)"
  "keeps (emits forkEvent) (MigrateConfigMap E sc sp sn dc dp dn)"
proof -
  show "keeps (emits forkEvent) (MigratePVC E sc sp sn dc dp dn)"
    unfolding MigratePVC_def migrationClients_def createMigrationPod_def migrateDataViaTar_def execInPodWithStreams_def
      cleanupPod_def migration_calls newForConfig_def clientConfig_def now_def
    by (intro keeps_io keeps_guardErr keeps_deferred keeps_emits_mono [OF waitForPodReady_polls pollsPod_fork]) simp_all
  show "keeps (emits forkEvent) (MigrateSecret E sc sp sn dc dp dn rel)"
    unfolding MigrateSecret_def migrationClients_def copySecret_def migration_calls newForConfig_def clientConfig_def
    by (intro keeps_io keeps_guardErr) simp_all
  show "keeps (emits forkEvent) (MigrateConfigMap E sc sp sn dc dp dn)"
    unfolding MigrateConfigMap_def migrationClients_def copyConfigMap_def migration_calls newForConfig_def clientConfig_def
    by (intro keeps_io keeps_guardErr) simp_all
qed

lemma migrateEach_fork:
  assumes "\<And>a b. keeps (emits forkEvent) (op a b)"
  shows "keeps (emits forkEvent) (migrateEach op ss ds)"
proof (induction ss arbitrary: ds)
  case Nil
  show ?case unfolding migrateEach.simps by (rule emits.keeps_ret)
next
  case (Cons s ss)
  show ?case
  proof (cases ds)
    case Nil
    show ?thesis unfolding Nil migrateEach.simps by (rule emits.keeps_panic)
  next
    case (Cons d ds')
    show ?thesis unfolding Cons migrateEach.simps by (intro keeps_io assms \<open>\<And>ds. keeps (emits forkEvent) (migrateEach op ss ds)\<close>)
  qed
qed

lemma waits_fork:
  "keeps (emits forkEvent) (hibernationWait E moduleType n m)"
  "keeps (emits forkEvent) (waitForInitialNewModuleState E n m)"
proof (induction n arbitrary: m)
  case 0
  case 1 show ?case unfolding hibernationWait.simps by (intro keeps_io)
  case 2 show ?case unfolding waitForInitialNewModuleState.simps by (intro keeps_io)
next
  case (Suc n)
  case 1 show ?case unfolding hibernationWait.simps calls by (intro keeps_io Suc) simp_all
  case 2 show ?case unfolding waitForInitialNewModuleState.simps calls by (intro keeps_io Suc) simp_all
qed

lemma migrateModuleData_fork: "keeps (emits forkEvent) (migrateModuleData lib E sm dm src dst)"
  unfolding migrateModuleData_def hibernateModuleAndWait_def migratePVCs_def migrateSecrets_def migrateConfigMaps_def
    migrationConfigs_def wakeDestination_def restoreSource_def patchModule_def
  by (intro keeps_io keeps_guardErr keeps_deferred waits_fork fork_connect migrateEach_fork migrations_fork) simp_all

lemma forkModule_events: "keeps (emits forkEvent) (forkModule lib E m src dst)"
  unfolding forkModule_def createModule_def sleep_def emit_def recordEvent_def
  by (intro keeps_io waits_fork migrateModuleData_fork) simp_all

section \<open>How long the waits last\<close>

text \<open>The reads of modules and the time slept in a trace.\<close>

fun readsModule :: "event \<Rightarrow> bool" where
  "readsModule (ModuleEv (GetM _ _)) = True"
| "readsModule _ = False"

fun sleptIn :: "event \<Rightarrow> time" where
  "sleptIn (CoreEv (Sleep d)) = d"
| "sleptIn _ = 0"

definition waitsWithin :: "nat \<Rightarrow> event list \<Rightarrow> bool" where
  "waitsWithin n es \<longleftrightarrow> length (filter readsModule es) \<le> n \<and> sum_list (map sleptIn es) \<le> int n * seconds 3"

lemma waitsWithin_more: "waitsWithin n es \<Longrightarrow> waitsWithin (Suc n) (ModuleEv (GetM k r) # es)"
  "waitsWithin n es \<Longrightarrow> waitsWithin (Suc n) (ModuleEv (GetM k r) # CoreEv (Sleep (seconds 3)) # es)"
  "waitsWithin (Suc n) [ModuleEv (GetM k r)]"
  by (simp_all add: waitsWithin_def algebra_simps)

lemma hibernationWait_within:
  "\<exists>e m' es. hibernationWait E moduleType n m s = (Ret (e, m'), s\<lparr>trace := trace s @ es\<rparr>) \<and> waitsWithin n es
     \<and> (e = None \<longleftrightarrow> modPhase m' = ModulePhaseSleeped)"
proof (induction n arbitrary: m s)
  case 0
  show ?case by (auto simp: waitsWithin_def intro!: exI [of _ "[]"])
next
  case (Suc n)
  let ?k = "moduleKey m"
  let ?g = "ModuleEv (GetM ?k (e_getModule E (trace s) ?k))"
  have again: ?case if run: "hibernationWait E moduleType (Suc n) m s = hibernationWait E moduleType n m'
      (s\<lparr>trace := trace s @ [?g, CoreEv (Sleep (seconds 3))]\<rparr>)" for m'
  proof -
    from Suc.IH [of m' "s\<lparr>trace := trace s @ [?g, CoreEv (Sleep (seconds 3))]\<rparr>"] obtain e m'' es where
      "hibernationWait E moduleType (Suc n) m s = (Ret (e, m''), s\<lparr>trace := trace s @ ?g # CoreEv (Sleep (seconds 3)) # es\<rparr>)"
      "waitsWithin n es" "e = None \<longleftrightarrow> modPhase m'' = ModulePhaseSleeped" unfolding run by auto
    then show ?thesis by (blast intro: waitsWithin_more(2))
  qed
  show ?case
  proof (cases "e_getModule E (trace s) ?k")
    case (Inl err)
    then show ?thesis by (intro again) (simp add: getModule_def sleep_def emit_def andThen_run)
  next
    case (Inr m')
    show ?thesis
    proof (cases "modPhase m' \<in> {ModulePhaseEmpty, ModulePhaseReady, ModulePhaseInstalling, ModulePhaseSleeping,
        ModulePhaseResuming}")
      case True
      with Inr show ?thesis by (intro again [of m']) (auto simp: getModule_def sleep_def emit_def andThen_run)
    next
      case False
      with Inr have "\<exists>e. hibernationWait E moduleType (Suc n) m s = (Ret (e, m'), s\<lparr>trace := trace s @ [?g]\<rparr>)
          \<and> (e = None \<longleftrightarrow> modPhase m' = ModulePhaseSleeped)"
        by (simp add: getModule_def andThen_run)
      then show ?thesis using waitsWithin_more(3) by blast
    qed
  qed
qed

text \<open>
  C31: waiting for a module to sleep is bounded. \<open>hibernateModuleAndWait\<close> returns, whatever the API server
  answers: it reads the module at most 180 times and sleeps at most nine minutes in all, and it reports no
  error exactly when the module was already to hibernate or the patch that asks for it succeeded, and the
  module it has read last sleeps.
\<close>

theorem hibernation_wait_bounded:
  "\<exists>e m' es. hibernateModuleAndWait E moduleType m s = (Ret (e, m'), s\<lparr>trace := trace s @ es\<rparr>)
    \<and> length (filter readsModule es) \<le> 180 \<and> sum_list (map sleptIn es) \<le> seconds 540
    \<and> (e = None \<longleftrightarrow> modPhase m' = ModulePhaseSleeped \<and>
         (ms_Hibernated (mod_Spec m) \<or> (\<exists>m1. e_patchModule E (trace s) m (withHibernated True m) = Inr m1)))"
proof -
  let ?m = "withHibernated True m"
  let ?p = "e_patchModule E (trace s) m ?m"
  have ended: ?thesis if run: "hibernateModuleAndWait E moduleType m s = hibernationWait E moduleType 180 m0 (s\<lparr>trace := trace s @ fs\<rparr>)"
    and fs: "filter readsModule fs = []" "sum_list (map sleptIn fs) = 0"
    and asked: "ms_Hibernated (mod_Spec m) \<or> (\<exists>m1. ?p = Inr m1)" for m0 fs
  proof -
    from hibernationWait_within [of E moduleType 180 m0 "s\<lparr>trace := trace s @ fs\<rparr>"] obtain e m' es where
      "hibernateModuleAndWait E moduleType m s = (Ret (e, m'), s\<lparr>trace := trace s @ (fs @ es)\<rparr>)"
      "waitsWithin 180 es" "e = None \<longleftrightarrow> modPhase m' = ModulePhaseSleeped" unfolding run by auto
    with fs asked show ?thesis
      by (intro exI [of _ e] exI [of _ m'] exI [of _ "fs @ es"]) (simp add: waitsWithin_def)
  qed
  show ?thesis
  proof (cases "ms_Hibernated (mod_Spec m)")
    case True
    then show ?thesis by (intro ended [of m "[]"]) (simp_all add: hibernateModuleAndWait_def andThen_run)
  next
    case False
    show ?thesis
    proof (cases ?p)
      case (Inl err)
      with False show ?thesis
        by (intro exI [of _ "Some err"] exI [of _ ?m] exI [of _ "[ModuleEv (PatchM m ?m ?p)]"])
          (simp add: hibernateModuleAndWait_def patchModule_def replaced_def andThen_run)
    next
      case (Inr m0)
      with False show ?thesis
        by (intro ended [of m0 "[ModuleEv (PatchM m ?m ?p)]"])
          (simp_all add: hibernateModuleAndWait_def patchModule_def replaced_def andThen_run)
    qed
  qed
qed

section \<open>What a fork does\<close>

lemma spawn_all:
  "forEach (\<lambda>x. spawn (g x)) xs s = (Ret (), s\<lparr>trace := trace s @ map (\<lambda>x. Go (g x)) xs\<rparr>)"
  by (induction xs arbitrary: s) (simp_all add: spawn_def emit_def)

lemma find_notReady: "List.find notReadyModule ms = None \<longleftrightarrow>
    (\<forall>m \<in> set ms. modPhase m = ModulePhaseReady \<or> modPhase m = ModulePhaseSleeped)"
  by (auto simp: find_None_iff notReadyModule_def)

text \<open>C16: a fork copies all modules of the source or none. It starts one goroutine per module, in the order of
  the list, when every module is \<open>ready\<close> or \<open>sleeped\<close>; otherwise it starts none and returns an error.\<close>

theorem fork_all_or_nothing:
  assumes "e_listModules E (trace s) (meta_Namespace (ws_Meta src)) (meta_Name (ws_Meta src)) = Inr ms"
    and "ok \<longleftrightarrow> (\<forall>m \<in> set ms. modPhase m = ModulePhaseReady \<or> modPhase m = ModulePhaseSleeped)"
  shows "\<exists>e. forkWorkspace E src dst s = (Ret e, s\<lparr>trace := trace s
      @ ModuleEv (ListM (meta_Namespace (ws_Meta src)) (meta_Name (ws_Meta src)) (Inr ms))
      # (if ok then map (\<lambda>m. Go (GoForkModule m src dst)) ms else [])\<rparr>) \<and> (e = None \<longleftrightarrow> ok)"
proof (cases "List.find notReadyModule ms")
  case None
  then have "ok" using assms(2) find_notReady [of ms] by simp
  with None assms(1) show ?thesis
    by (simp add: forkWorkspace_def getRelatedModules_def listModules_def andThen_run spawn_all)
next
  case (Some m)
  then have "\<not> ok" using assms(2) find_notReady [of ms] by simp
  with Some assms(1) show ?thesis
    by (simp add: forkWorkspace_def getRelatedModules_def listModules_def andThen_run)
qed


text \<open>Without volume claims nothing is migrated. A module whose migration names secrets or config maps but
  no volume claims has nothing migrated: \<open>migrateModuleData\<close> makes no call at all.\<close>

theorem migration_needs_pvcs:
  assumes "ms_Helm (mod_Spec src) \<noteq> None" and "RenderHelmSpec lib src (renders s) = (Ret (Inr helm), n)"
    and "mig_PVCs (helm_Migration helm) = []"
    and "migrateModuleData lib E src dst sw dw s = (Ret e, t)"
  shows "trace t = trace s \<and> (e = None \<longleftrightarrow> (\<exists>h n'. RenderHelmSpec lib dst n = (Ret (Inr h), n')))"
  using assms
  by (auto simp: migrateModuleData_def rendering_def andThen_run split: prod.splits outcome.splits sum.splits)

section \<open>Concrete forks\<close>

theorem fork_all_or_nothing_witness:
  "\<exists>e. forkWorkspace (exampleEnv\<lparr>e_listModules := \<lambda>h ns n. Inr [inPhase ModulePhaseReady, inPhase ModulePhaseInstalling]\<rparr>)
     exampleWorkspace exampleWorkspace exampleWorld = (Ret (Some e), exampleWorld\<lparr>trace := trace exampleWorld @
       [ModuleEv (ListM (meta_Namespace (ws_Meta exampleWorkspace)) (meta_Name (ws_Meta exampleWorkspace))
         (Inr [inPhase ModulePhaseReady, inPhase ModulePhaseInstalling]))]\<rparr>)"
  using fork_all_or_nothing [where E = "exampleEnv\<lparr>e_listModules := \<lambda>h ns n. Inr [inPhase ModulePhaseReady, inPhase ModulePhaseInstalling]\<rparr>"
    and src = exampleWorkspace and dst = exampleWorkspace and s = exampleWorld and ok = False
    and ms = "[inPhase ModulePhaseReady, inPhase ModulePhaseInstalling]"]
  by auto


definition exampleNoPVCs :: Module where
  "exampleNoPVCs = exampleModule\<lparr>mod_Spec := (mod_Spec exampleModule)\<lparr>ms_Helm :=
     Some (exampleHelm\<lparr>helm_Migration := \<lparr>mig_PVCs = [], mig_ConfigMaps = [], mig_Secrets = [''s'']\<rparr>\<rparr>)\<rparr>\<rparr>"

lemma exampleNoPVCs_renders:
  "RenderHelmSpec exampleLib exampleNoPVCs n =
     (Ret (Inr (exampleHelm\<lparr>helm_Migration := \<lparr>mig_PVCs = [], mig_ConfigMaps = [], mig_Secrets = [''s'']\<rparr>\<rparr>)), n)"
proof (rule RenderHelmSpec_plain)
  show "ms_Helm (mod_Spec exampleNoPVCs) =
      Some (exampleHelm\<lparr>helm_Migration := \<lparr>mig_PVCs = [], mig_ConfigMaps = [], mig_Secrets = [''s'']\<rparr>\<rparr>)"
    by (simp add: exampleNoPVCs_def)
  show "plainHelm exampleLib (exampleHelm\<lparr>helm_Migration := \<lparr>mig_PVCs = [], mig_ConfigMaps = [], mig_Secrets = [''s'']\<rparr>\<rparr>)"
    by (simp add: plainHelm_def stableHelm_def exampleHelm_def enc_defs hasTemplate_def)
  show "GetValidatedConfig exampleLib exampleNoPVCs = Inr [(''n'', AInt 7), (''s'', AString ''x'')]"
    using example_validated
    by (simp add: GetValidatedConfig_def inputConfigOf_def exampleNoPVCs_def cong: sum.case_cong)
  show "GetReleaseName (exampleHelm\<lparr>helm_Migration := \<lparr>mig_PVCs = [], mig_ConfigMaps = [], mig_Secrets = [''s'']\<rparr>\<rparr>) = Some ''rel''"
    by (simp add: GetReleaseName_def exampleHelm_def)
qed

theorem migration_needs_pvcs_witness:
  "\<exists>t. migrateModuleData exampleLib exampleEnv exampleNoPVCs exampleNoPVCs exampleWorkspace exampleWorkspace exampleWorld
     = (Ret None, t) \<and> trace t = trace exampleWorld"
proof -
  have "\<exists>e t. migrateModuleData exampleLib exampleEnv exampleNoPVCs exampleNoPVCs exampleWorkspace exampleWorkspace exampleWorld
     = (Ret e, t)"
    by (simp add: migrateModuleData_def rendering_def andThen_run exampleNoPVCs_renders)
  then obtain e t where run: "migrateModuleData exampleLib exampleEnv exampleNoPVCs exampleNoPVCs exampleWorkspace
      exampleWorkspace exampleWorld = (Ret e, t)" by blast
  from migration_needs_pvcs [OF _ exampleNoPVCs_renders _ run] run show ?thesis
    by (simp add: exampleNoPVCs_def [THEN arg_cong [of _ _ "\<lambda>m. ms_Helm (mod_Spec m)"]] exampleNoPVCs_renders)
qed

end
