(* ===== verification/ForkSafety.thy ===== *)
theory ForkSafety
  imports WorkspaceFork
begin

text \<open>
  The goroutine of a fork does not panic. Nothing recovers a panic of that goroutine, so one would end the
  operator; \<open>src/internal/controller/workspace_fork.go\<close> dereferences the release name of the copy and the
  \<open>from\<close> reference of the workspace, and indexes the copy's migration lists by the positions of the source's.
  The theory holds the rules for programs that may not panic, one lemma per function the goroutine calls, and
  the conditions under which the whole goroutine is safe.
\<close>

section \<open>Programs that may not panic\<close>

text \<open>A run never panics, and a value it returns satisfies \<open>P\<close>; it may wait for ever.\<close>

definition safely :: "('a \<Rightarrow> bool) \<Rightarrow> 'a io \<Rightarrow> bool" where
  "safely P m \<longleftrightarrow> (\<forall>s. case fst (m s) of Ret a \<Rightarrow> P a | Panicked _ \<Rightarrow> False | Hangs _ \<Rightarrow> True)"

abbreviation unpanicked :: "'a io \<Rightarrow> bool" where
  "unpanicked \<equiv> safely (\<lambda>_. True)"

lemma safelyI: "(\<And>s. case fst (m s) of Ret a \<Rightarrow> P a | Panicked _ \<Rightarrow> False | Hangs _ \<Rightarrow> True) \<Longrightarrow> safely P m"
  by (simp add: safely_def)

lemma safelyD: "safely P m \<Longrightarrow> fst (m s) \<noteq> Panicked w"
  unfolding safely_def by (metis outcome.simps(11))

lemma safely_ret: "P a \<Longrightarrow> safely P (ret a)"
  by (simp add: safely_def)

lemma safely_hang: "safely P (hang w)"
  by (simp add: safely_def)

lemma safely_call: "(\<And>h. P (f h)) \<Longrightarrow> safely P (call f ev)"
  by (simp add: safely_def call_def Let_def)

lemma safely_andThen:
  assumes "safely M m" and "\<And>a. M a \<Longrightarrow> safely P (f a)"
  shows "safely P (andThen m f)"
proof (rule safelyI)
  fix s
  obtain r t where m: "m s = (r, t)" by (cases "m s")
  with assms(1) have r: "case r of Ret a \<Rightarrow> M a | Panicked _ \<Rightarrow> False | Hangs _ \<Rightarrow> True"
    unfolding safely_def by (metis fst_conv)
  show "case fst (andThen m f s) of Ret a \<Rightarrow> P a | Panicked _ \<Rightarrow> False | Hangs _ \<Rightarrow> True"
  proof (cases r)
    case (Ret a)
    with r have "safely P (f a)" by (auto intro: assms(2))
    with m Ret show ?thesis by (simp add: andThen_run safely_def)
  qed (use m r in \<open>simp_all add: andThen_run\<close>)
qed

lemma safely_seq: "unpanicked m \<Longrightarrow> (\<And>a. safely P (f a)) \<Longrightarrow> safely P (andThen m f)"
  by (rule safely_andThen)

lemma safely_if: "(b \<Longrightarrow> safely P m) \<Longrightarrow> (\<not> b \<Longrightarrow> safely P n) \<Longrightarrow> safely P (if b then m else n)"
  by simp

lemma safely_let: "(\<And>x. x = e \<Longrightarrow> safely P (f x)) \<Longrightarrow> safely P (let x = e in f x)"
  by simp

lemma safely_case_option:
  "(x = None \<Longrightarrow> safely P m) \<Longrightarrow> (\<And>y. x = Some y \<Longrightarrow> safely P (f y)) \<Longrightarrow>
   safely P (case x of None \<Rightarrow> m | Some y \<Rightarrow> f y)"
  by (cases x) simp_all

lemma safely_case_sum:
  "(\<And>a. x = Inl a \<Longrightarrow> safely P (f a)) \<Longrightarrow> (\<And>b. x = Inr b \<Longrightarrow> safely P (g b)) \<Longrightarrow>
   safely P (case x of Inl a \<Rightarrow> f a | Inr b \<Rightarrow> g b)"
  by (cases x) simp_all

lemma safely_case_prod:
  "(\<And>a b. x = (a, b) \<Longrightarrow> safely P (f a b)) \<Longrightarrow> safely P (case x of (a, b) \<Rightarrow> f a b)"
  by (cases x) simp_all

lemma safely_case_select:
  "\<lbrakk>\<And>e. x = ContextDone e \<Longrightarrow> safely P (f e); x = TimerFired \<Longrightarrow> safely P a; x = TickerFired \<Longrightarrow> safely P b\<rbrakk> \<Longrightarrow>
   safely P (case x of ContextDone e \<Rightarrow> f e | TimerFired \<Rightarrow> a | TickerFired \<Rightarrow> b)"
  by (cases x) simp_all

lemma safely_guardErr:
  "unpanicked m \<Longrightarrow> (\<And>e. P (onErr e)) \<Longrightarrow> safely P rest \<Longrightarrow> safely P (guardErr m onErr rest)"
  unfolding guardErr_def by (intro safely_seq safely_case_option safely_ret)

lemma safely_deferred:
  assumes "safely P body" and "unpanicked cleanup"
  shows "safely P (deferred body cleanup)"
proof (rule safelyI)
  fix s
  obtain r t where body: "body s = (r, t)" by (cases "body s")
  obtain q u where cleanup: "cleanup t = (q, u)" by (cases "cleanup t")
  from assms(1) body have "case r of Ret a \<Rightarrow> P a | Panicked _ \<Rightarrow> False | Hangs _ \<Rightarrow> True"
    unfolding safely_def by (metis fst_conv)
  moreover from assms(2) cleanup have "case q of Ret _ \<Rightarrow> True | Panicked _ \<Rightarrow> False | Hangs _ \<Rightarrow> True"
    unfolding safely_def by (metis fst_conv)
  ultimately show "case fst (deferred body cleanup s) of Ret a \<Rightarrow> P a | Panicked _ \<Rightarrow> False | Hangs _ \<Rightarrow> True"
    by (cases r; cases q) (simp_all add: deferred_def body cleanup)
qed

lemmas safely_basic = TrueI safely_ret safely_hang safely_call safely_if safely_let safely_case_option
  safely_case_sum safely_case_prod safely_case_select safely_guardErr safely_deferred safely_seq

section \<open>Connecting and migrating\<close>

lemma NewAPIConfig_safely:
  assumes "connectable conn"
  shows "unpanicked (NewAPIConfig E conn)"
proof (rule safelyI)
  fix s
  obtain r t where "NewAPIConfig E conn s = (Ret r, t)"
    using returnsD [OF NewAPIConfig_returns [OF assms]] by blast
  then show "case fst (NewAPIConfig E conn s) of Ret _ \<Rightarrow> True | Panicked _ \<Rightarrow> False | Hangs _ \<Rightarrow> True" by simp
qed

lemma migrationClients_safely:
  "(\<And>src dst. unpanicked (body src dst)) \<Longrightarrow> unpanicked (migrationClients E sc dc body)"
  unfolding migrationClients_def newForConfig_def clientConfig_def by (intro safely_basic)

lemma copies_safely:
  "unpanicked (MigrateSecret E sc sp sn dc dp dn rel)" "unpanicked (MigrateConfigMap E sc sp sn dc dp dn)"
  unfolding MigrateSecret_def copySecret_def MigrateConfigMap_def copyConfigMap_def migration_calls
  by (intro migrationClients_safely safely_basic)+

lemma waitForPodReady_safely: "unpanicked (waitForPodReady E n c podName namespace)"
proof (induction n)
  case (Suc n)
  show ?case unfolding waitForPodReady.simps mSelect_def mGetPod_def by (intro safely_basic Suc)
qed (simp add: safely_hang del: hang_run)

lemma MigratePVC_safely: "unpanicked (MigratePVC E sc sp sn dc dp dn)"
  unfolding MigratePVC_def createMigrationPod_def migrateDataViaTar_def execInPodWithStreams_def cleanupPod_def
    mWrite_def now_def
  by (intro migrationClients_safely safely_basic waitForPodReady_safely)

text \<open>The lists are walked by the index of the source's; equal lengths keep every index in range.\<close>

lemma migrateEach_safely:
  assumes "length ss = length ds" and "\<And>a b. unpanicked (op a b)"
  shows "unpanicked (migrateEach op ss ds)"
  using assms(1)
proof (induction ss ds rule: list_induct2)
  case Nil
  show ?case unfolding migrateEach.simps by (intro safely_basic)
next
  case (Cons s ss d ds)
  show ?case unfolding migrateEach.simps by (intro safely_basic assms(2) Cons.IH)
qed

text \<open>A longer list of the source does panic, whatever the migrations do before.\<close>

lemma migrateEach_panics:
  assumes "length ds < length ss" and "\<And>a b. returns (op a b)"
  shows "fst (migrateEach op ss ds s) = Panicked ''index out of range''"
  using assms(1)
proof (induction ss arbitrary: ds s)
  case (Cons a ss)
  show ?case
  proof (cases ds)
    case (Cons d ds')
    obtain x t where "op a d s = (Ret x, t)" using assms(2) by (blast dest: returnsD)
    with Cons Cons.IH Cons.prems show ?thesis by (simp add: andThen_run)
  qed simp
qed simp

definition sameMigrations :: "ModuleSpecHelm \<Rightarrow> ModuleSpecHelm \<Rightarrow> bool" where
  "sameMigrations h h' \<longleftrightarrow> length (mig_PVCs (helm_Migration h)) = length (mig_PVCs (helm_Migration h'))
     \<and> length (mig_ConfigMaps (helm_Migration h)) = length (mig_ConfigMaps (helm_Migration h'))
     \<and> length (mig_Secrets (helm_Migration h)) = length (mig_Secrets (helm_Migration h'))"

lemma migrationConfigs_safely:
  assumes "connectable (wss_Connection (ws_Spec src))" and "connectable (wss_Connection (ws_Spec dst))"
    and "\<And>a b. unpanicked (body a b)"
  shows "unpanicked (migrationConfigs E src dst body)"
  unfolding migrationConfigs_def
  by (rule safely_seq [OF NewAPIConfig_safely [OF assms(2)]])
    (intro safely_basic NewAPIConfig_safely assms)

lemma migrations_safely:
  assumes "connectable (wss_Connection (ws_Spec src))" and "connectable (wss_Connection (ws_Spec dst))"
    and "sameMigrations h h'"
  shows "unpanicked (migratePVCs E h h' src dst)" and "unpanicked (migrateConfigMaps E h h' src dst)"
    and "Option.bind (ms_Helm (mod_Spec m)) GetReleaseName \<noteq> None \<Longrightarrow> unpanicked (migrateSecrets E h h' src dst m)"
proof -
  show "unpanicked (migratePVCs E h h' src dst)" "unpanicked (migrateConfigMaps E h h' src dst)"
    using assms(3) unfolding sameMigrations_def migratePVCs_def migrateConfigMaps_def
    by (auto intro!: safely_basic migrationConfigs_safely assms migrateEach_safely MigratePVC_safely copies_safely
        simp del: ret_run)
  assume "Option.bind (ms_Helm (mod_Spec m)) GetReleaseName \<noteq> None"
  then show "unpanicked (migrateSecrets E h h' src dst m)"
    using assms(3) unfolding sameMigrations_def migrateSecrets_def
    by (auto intro!: safely_basic migrationConfigs_safely assms migrateEach_safely copies_safely simp del: ret_run)
qed

section \<open>The copy of a module\<close>

text \<open>
  What the goroutine needs of the copy: it is a Helm module with a release name, and its migration lists are
  as long as the source's. Where the source is no Helm module it needs nothing.
\<close>

definition copyOf :: "Module \<Rightarrow> Module \<Rightarrow> bool" where
  "copyOf source m \<longleftrightarrow> (case ms_Helm (mod_Spec source) of None \<Rightarrow> True
     | Some h \<Rightarrow> (case ms_Helm (mod_Spec m) of None \<Rightarrow> False
       | Some h' \<Rightarrow> GetReleaseName h' \<noteq> None \<and> sameMigrations h h'))"

text \<open>
  The API server with the webhooks of the operator: a copy it creates has a release name (the defaulting
  webhook sets one), a read of the copy finds its specification unchanged as far as \<open>copyOf\<close> looks, and so
  does the patch of its hibernation.
\<close>

definition keepsCopies :: "env \<Rightarrow> Module \<Rightarrow> Workspace \<Rightarrow> bool" where
  "keepsCopies E source dst \<longleftrightarrow>
     (\<forall>h m. e_createModule E h (forkedModule source dst) = Inr m \<longrightarrow> copyOf source m)
   \<and> (\<forall>h m m'. copyOf source m \<longrightarrow> e_getModule E h (moduleKey m) = Inr m' \<longrightarrow> copyOf source m')
   \<and> (\<forall>h m b m'. copyOf source m \<longrightarrow> e_patchModule E h m (withHibernated b m) = Inr m' \<longrightarrow> copyOf source m')"

lemma copyOf_withHibernated [simp]: "copyOf source (withHibernated b m) = copyOf source m"
  by (simp add: copyOf_def withHibernated_def split: option.split)

lemma copyOf_source:
  assumes "\<And>h. ms_Helm (mod_Spec source) = Some h \<Longrightarrow> GetReleaseName h \<noteq> None"
  shows "copyOf source source"
  using assms by (simp add: copyOf_def sameMigrations_def split: option.split)

lemma read_copy:
  assumes "keepsCopies E source dst" and "copyOf source m"
  shows "safely (\<lambda>r. \<forall>m'. r = Inr m' \<longrightarrow> copyOf source m') (getModule E (moduleKey m))"
  using assms unfolding getModule_def keepsCopies_def by (intro safely_call) blast

lemma hibernationWait_copy:
  assumes server: "keepsCopies E source dst"
  shows "copyOf source m \<Longrightarrow> safely (\<lambda>(e, m'). copyOf source m') (hibernationWait E moduleType n m)"
proof (induction n arbitrary: m)
  case 0
  then show ?case unfolding hibernationWait.simps by (intro safely_basic) simp_all
next
  case (Suc n)
  show ?case unfolding hibernationWait.simps sleep_def emit_def
    by (rule safely_andThen [OF read_copy [OF server Suc.prems]], intro safely_basic Suc.IH Suc.prems) simp_all
qed

lemma patch_copy:
  assumes "keepsCopies E source dst" and "copyOf source m"
  shows "safely (\<lambda>(e, m'). copyOf source m')
    (andThen (patchModule E m (withHibernated b m)) (\<lambda>p. ret (replaced (withHibernated b m) p)))"
proof (rule safely_andThen)
  show "safely (\<lambda>r. \<forall>m'. r = Inr m' \<longrightarrow> copyOf source m') (patchModule E m (withHibernated b m))"
    using assms unfolding patchModule_def keepsCopies_def by (intro safely_call) blast
  fix p :: "go_error + Module"
  assume "\<forall>m'. p = Inr m' \<longrightarrow> copyOf source m'"
  with assms(2) show "safely (\<lambda>(e, m'). copyOf source m') (ret (replaced (withHibernated b m) p))"
    by (intro safely_ret) (simp add: replaced_def split: sum.split)
qed

lemma hibernate_copy:
  assumes "keepsCopies E source dst" and "copyOf source m"
  shows "safely (\<lambda>(e, m'). copyOf source m') (hibernateModuleAndWait E moduleType m)"
  unfolding hibernateModuleAndWait_def
proof (rule safely_andThen)
  show "safely (\<lambda>(e, m'). copyOf source m') (if \<not> ms_Hibernated (mod_Spec m)
      then andThen (patchModule E m (withHibernated True m)) (\<lambda>p. ret (replaced (withHibernated True m) p))
      else ret (None, m))"
    using assms by (intro safely_if patch_copy safely_ret) simp_all
  fix x :: "go_error option \<times> Module"
  assume "case x of (e, m') \<Rightarrow> copyOf source m'"
  then show "safely (\<lambda>(e, m'). copyOf source m') (case x of (e, m') \<Rightarrow>
      (case e of Some err \<Rightarrow> ret (Some err, m') | None \<Rightarrow> hibernationWait E moduleType 180 m'))"
    using assms(1) by (intro safely_basic hibernationWait_copy) simp_all
qed

lemma waitForInitial_copy:
  assumes server: "keepsCopies E source dst"
  shows "copyOf source m \<Longrightarrow>
    safely (\<lambda>r. \<forall>m'. r = Some m' \<longrightarrow> copyOf source m') (waitForInitialNewModuleState E n m)"
proof (induction n arbitrary: m)
  case 0
  then show ?case unfolding waitForInitialNewModuleState.simps by (intro safely_basic) simp
next
  case (Suc n)
  show ?case unfolding waitForInitialNewModuleState.simps sleep_def emit_def
    by (rule safely_andThen [OF read_copy [OF server Suc.prems]], intro safely_basic Suc.IH Suc.prems) simp_all
qed

section \<open>The goroutine\<close>

text \<open>A module with a release name renders without a panic, and its lists keep their lengths.\<close>

lemma rendering_safely:
  assumes "ms_Helm (mod_Spec m) = Some h" and "GetReleaseName h \<noteq> None"
  shows "safely (\<lambda>r. \<forall>helm. r = Inr helm \<longrightarrow> sameMigrations h helm) (rendering (RenderHelmSpec lib m))"
proof (rule safelyI)
  fix s :: world
  have named: "\<not> (\<exists>h cfg. ms_Helm (mod_Spec m) = Some h \<and> GetValidatedConfig lib m = Inr cfg \<and>
      helm_ExistingRelease h = None \<and> helm_ReleaseName h = None)"
    using assms by (auto simp: GetReleaseName_def)
  obtain r n' where run: "RenderHelmSpec lib m (renders s) = (Ret r, n')"
    using RenderHelmSpec_outcome [of m lib "renders s"] unfolding if_not_P [OF named] by blast
  have "sameMigrations h helm" if "r = Inr helm" for helm
    using renderHelm_migration_lengths [OF run [unfolded that] assms(1)] by (simp add: sameMigrations_def)
  with run show "case fst (rendering (RenderHelmSpec lib m) s) of
      Ret r \<Rightarrow> \<forall>helm. r = Inr helm \<longrightarrow> sameMigrations h helm | Panicked _ \<Rightarrow> False | Hangs _ \<Rightarrow> True"
    by (simp add: rendering_def)
qed

lemma patch_safely: "unpanicked (wakeDestination E m)" "unpanicked (restoreSource E b m)"
  unfolding wakeDestination_def restoreSource_def patchModule_def by (intro safely_basic)+

lemma hibernationWait_safely: "unpanicked (hibernationWait E moduleType n m)"
proof (induction n arbitrary: m)
  case 0
  show ?case unfolding hibernationWait.simps by (intro safely_basic)
next
  case (Suc n)
  show ?case unfolding hibernationWait.simps getModule_def sleep_def emit_def by (intro safely_basic Suc.IH)
qed

lemma hibernate_safely: "unpanicked (hibernateModuleAndWait E moduleType m)"
  unfolding hibernateModuleAndWait_def patchModule_def by (intro safely_basic hibernationWait_safely)

lemma migrateModuleData_safely:
  assumes server: "keepsCopies E source dst" and copy: "copyOf source m"
    and named: "\<And>h. ms_Helm (mod_Spec source) = Some h \<Longrightarrow> GetReleaseName h \<noteq> None"
    and conn: "connectable (wss_Connection (ws_Spec src))" "connectable (wss_Connection (ws_Spec dst))"
  shows "unpanicked (migrateModuleData lib E source m src dst)"
proof (cases "ms_Helm (mod_Spec source)")
  case None
  then show ?thesis unfolding migrateModuleData_def by (simp add: safely_ret del: ret_run)
next
  case (Some h)
  with copy obtain h' where h': "ms_Helm (mod_Spec m) = Some h'" "GetReleaseName h' \<noteq> None" "sameMigrations h h'"
    by (auto simp: copyOf_def split: option.splits)
  have dest: "Option.bind (ms_Helm (mod_Spec dm)) GetReleaseName \<noteq> None" if "copyOf source dm" for dm
    using that Some by (auto simp: copyOf_def split: option.splits)
  have same: "sameMigrations a b" if "sameMigrations h a" "sameMigrations h' b" for a b
    using that h'(3) by (simp add: sameMigrations_def)
  note migrations = migrations_safely [OF conn]
  show ?thesis
    unfolding migrateModuleData_def
    by (rule safely_if, intro safely_basic, rule safely_andThen [OF rendering_safely [OF Some named [OF Some]]],
        rule safely_case_sum, intro safely_basic, rule safely_andThen [OF rendering_safely [OF h'(1,2)]],
        rule safely_case_sum, intro safely_basic, rule safely_if, intro safely_basic,
        rule safely_andThen [OF hibernate_copy [OF server copy]],
        intro safely_basic migrations hibernate_safely patch_safely dest) (auto intro: same)
qed

lemma forkModule_safely:
  assumes server: "keepsCopies E source dst" and ref: "wss_From (ws_Spec dst) = Some ref"
    and named: "\<And>h. ms_Helm (mod_Spec source) = Some h \<Longrightarrow> GetReleaseName h \<noteq> None"
    and conn: "connectable (wss_Connection (ws_Spec src))" "connectable (wss_Connection (ws_Spec dst))"
  shows "unpanicked (forkModule lib E source src dst)"
proof -
  have created: "safely (\<lambda>r. \<forall>m. r = Inr m \<longrightarrow> copyOf source m) (createModule E (forkedModule source dst))"
    using server unfolding createModule_def keepsCopies_def by (intro safely_call) blast
  show ?thesis
    unfolding forkModule_def sleep_def recordEvent_def emit_def ref option.case
    by (rule safely_andThen [OF created], rule safely_case_sum, intro safely_basic, rule safely_seq, intro safely_basic,
        rule safely_andThen [OF waitForInitial_copy [OF server]], blast)
      (intro safely_basic migrateModuleData_safely [OF server _ named conn], blast)
qed


text \<open>A fork whose copy sleeps at once and whose data is then migrated.\<close>

definition exampleCopy :: Module where
  "exampleCopy = exampleHelmModule\<lparr>mod_Status := emptyModuleStatus\<lparr>mst_Phase := ModulePhaseSleeped\<rparr>\<rparr>"

definition exampleForkEnv :: env where
  "exampleForkEnv = exampleEnv\<lparr>e_createModule := \<lambda>h m. Inr exampleCopy, e_getModule := \<lambda>h k. Inr exampleCopy,
     e_patchModule := \<lambda>h old m. Inr exampleCopy\<rparr>"

definition exampleForked :: Workspace where
  "exampleForked = exampleWorkspace\<lparr>ws_Spec := (ws_Spec exampleWorkspace)\<lparr>wss_From :=
     Some \<lparr>from_Name = ''dev'', from_Namespace = ''default'', from_MigrateData = True\<rparr>\<rparr>\<rparr>"


end
