(* ===== verification/ChartFiles.thy ===== *)
theory ChartFiles
  imports Manager
begin

text \<open>
  The temporary files of an installation: the clone of a Git chart and the archive of a config map's chart. They
  are removed however the installation ends, and the chart that is loaded lies in the clone, provided the
  path the module names does not climb out of it; the code does not check that it does not.
\<close>

section \<open>Where the chart handling looks\<close>

text \<open>The file names that loading a chart and building its dependencies are given.\<close>

fun chartPath :: "event \<Rightarrow> string option" where
  "chartPath (FileEv (Stat p _)) = Some p"
| "chartPath (FileEv (LoadDir p _)) = Some p"
| "chartPath (FileEv (MkdirAll p _)) = Some p"
| "chartPath (FileEv (ManagerBuild p _)) = Some p"
| "chartPath (HelmEv _ (LoadChart p _)) = Some p"
| "chartPath _ = None"

definition within :: "string \<Rightarrow> event \<Rightarrow> bool" where
  "within dir e \<longleftrightarrow> (case chartPath e of None \<Rightarrow> True | Some p \<Rightarrow> under dir p)"

text \<open>An event of working in a clone that was made before.\<close>

fun makesTemp :: "event \<Rightarrow> bool" where
  "makesTemp (FileEv (MkdirTemp _ _ _)) = True"
| "makesTemp _ = False"

definition inClone :: "string \<Rightarrow> event \<Rightarrow> bool" where
  "inClone dir e \<longleftrightarrow> within dir e \<and> \<not> makesTemp e"

lemma under_refl [simp]: "under p p"
  by (simp add: under_def)

lemma under_trans: "under a b \<Longrightarrow> under b c \<Longrightarrow> under a c"
  by (auto simp: under_def)

lemma under_file:
  assumes "under dir p" and "p \<noteq> []" and "staysBelow 0 (pathElements f)"
  shows "under dir (pathJoin p f)"
  using under_trans [OF assms(1) pathJoin_under [OF assms(2,3)]] .

lemma chart_files: "staysBelow 0 (pathElements ''Chart.yaml'')" "staysBelow 0 (pathElements ''charts'')"
  by code_simp+

lemma buildDependencies_inClone:
  assumes "under dir p" and "p \<noteq> []"
  shows "keeps (emits (inClone dir)) (buildDependencies E p)"
  unfolding buildDependencies_def helm_calls
  by (intro keeps_io keeps_guardErr keeps_case_stat)
    (simp_all add: inClone_def within_def assms under_file [OF assms] chart_files)

lemma collectValues_inClone: "keeps (emits (inClone dir)) (collectValues lib E svc vs acc)"
proof (induction vs arbitrary: acc)
  case (Cons v vs)
  show ?case
    unfolding collectValues.simps valuesOfFile_def valuesOfConfigMap_def valuesOfRaw_def helm_calls
    by (intro keeps_io Cons) (simp_all add: inClone_def within_def)
qed (simp add: emits.keeps_ret del: ret_run)

lemma InstallFromLocal_inClone:
  assumes "under dir p" and "p \<noteq> []"
  shows "keeps (emits (inClone dir)) (InstallFromLocal lib E svc p rel ns wait vals)"
  unfolding InstallFromLocal_def MergeHelmValues_def helm_calls spawn_def emit_def
  by (intro keeps_io keeps_guardErr collectValues_inClone buildDependencies_inClone assms)
    (simp_all add: inClone_def within_def assms)

section \<open>Installations return\<close>

lemma returns_case_stat:
  "\<lbrakk>returns a; returns b; \<And>e. returns (c e); \<And>e. returns (d e)\<rbrakk> \<Longrightarrow>
   returns (case x of StatDir \<Rightarrow> a | StatFile \<Rightarrow> b | StatNotExist e \<Rightarrow> c e | StatError e \<Rightarrow> d e)"
  by (cases x) simp_all

lemma collectValues_returns: "returns (collectValues lib E svc vs acc)"
proof (induction vs arbitrary: acc)
  case (Cons v vs)
  show ?case
    unfolding collectValues.simps valuesOfFile_def valuesOfConfigMap_def valuesOfRaw_def helm_calls
    by (intro returns_io Cons)
qed (simp add: returns_ret del: ret_run)

lemma InstallFromLocal_returns: "returns (InstallFromLocal lib E svc p rel ns wait vals)"
  unfolding InstallFromLocal_def MergeHelmValues_def buildDependencies_def helm_calls spawn_def emit_def
  by (intro returns_io returns_guardErr returns_case_stat collectValues_returns)

text \<open>A deferred call after a body that returns.\<close>

lemma deferred_run:
  "body s = (Ret a, t) \<Longrightarrow> cleanup t = (Ret c, u) \<Longrightarrow> deferred body cleanup s = (Ret a, u)"
  by (simp add: deferred_def)

section \<open>The clone\<close>

text \<open>What is left of a clone: nothing, when its directory is removed last.\<close>

definition cloneConfined :: "event list \<Rightarrow> bool" where
  "cloneConfined es \<longleftrightarrow> (\<forall>base pat dir. FileEv (MkdirTemp base pat (Inr dir)) \<in> set es \<longrightarrow>
     (\<exists>r. last es = FileEv (RemoveAll dir r)) \<and> list_all (within dir) es)"

lemma gitURL_quiet: "keeps (emits (\<lambda>e. chartPath e = None \<and> \<not> makesTemp e)) (gitURL lib E git)"
  unfolding gitURL_def getSecret_def Let_def by (intro keeps_io) simp_all

lemma gitURL_returns: "returns (gitURL lib E git)"
  unfolding gitURL_def getSecret_def Let_def by (intro returns_io)

lemma pathJoin_nonempty: "dir \<noteq> [] \<Longrightarrow> pathJoin dir f \<noteq> []"
proof -
  have plain: "joinSlash es \<noteq> []" if "es \<noteq> []" "list_all element es" for es
    using that by (cases es rule: joinSlash.cases) (auto simp: element_def)
  have "pathClean p \<noteq> []" for p
    using plain [of "rev (stackOf p)"] stackOf_normal [of p]
    by (auto simp: pathClean_def pathOf_def stackOf_def normal_def)
  then show "dir \<noteq> [] \<Longrightarrow> pathJoin dir f \<noteq> []" by (simp add: pathJoin_def)
qed

lemma cloneConfinedD:
  "cloneConfined es \<Longrightarrow> FileEv (MkdirTemp b p (Inr dir)) \<in> set es \<Longrightarrow> FileEv (Stat f r) \<in> set es \<Longrightarrow> under dir f"
  by (fastforce simp: cloneConfined_def list_all_iff within_def)

text \<open>Making the directory: the events before it are of no chart.\<close>

lemma cloneConfined_none: "list_all (\<lambda>e. \<not> makesTemp e) es \<Longrightarrow> cloneConfined (es @ [FileEv (MkdirTemp b p (Inl err))])"
    "list_all (\<lambda>e. \<not> makesTemp e) es \<Longrightarrow> cloneConfined es"
  by (auto simp: cloneConfined_def list_all_iff)

lemma cloneConfined_clone:
  assumes "list_all (\<lambda>e. chartPath e = None \<and> \<not> makesTemp e) before" and "list_all (inClone dir) es"
  shows "cloneConfined (before @ FileEv (MkdirTemp b p (Inr dir)) # es @ [FileEv (RemoveAll dir r)])"
proof -
  have "list_all (within dir) before" using assms(1) by (auto simp: list_all_iff within_def)
  moreover have "list_all (within dir) es" using assms(2) by (auto simp: list_all_iff inClone_def)
  moreover have "FileEv (MkdirTemp b' p' r') \<notin> set before \<union> set es" for b' p' r'
    using assms by (auto simp: list_all_iff inClone_def)
  ultimately show ?thesis by (auto simp: cloneConfined_def within_def)
qed

text \<open>Working in the clone.\<close>

definition inCloneInstall :: "golib \<Rightarrow> env \<Rightarrow> ModuleHelmManager \<Rightarrow> ModuleSpecHelmChartGit \<Rightarrow> string \<Rightarrow> string \<Rightarrow> (go_error option) io" where
  "inCloneInstall lib E hm git url dir = guardErr (gitClone E (git_Revision git) url dir)
     (\<lambda>err. Some (Wrapped ''git clone failed'' err)) (
     InstallFromLocal lib E (hm_helmService hm) (pathJoin dir (git_Path git)) (hm_releaseName hm)
       (GetNamespace (hm_helmModule hm)) True (helm_Values (hm_helmModule hm)))"

lemma inCloneInstall_run:
  assumes "staysBelow 0 (pathElements (git_Path git))" and "dir \<noteq> []"
  shows "\<exists>r t es. inCloneInstall lib E hm git url dir s = (Ret r, t) \<and> trace t = trace s @ es \<and> list_all (inClone dir) es"
proof -
  have "returns (inCloneInstall lib E hm git url dir)"
    unfolding inCloneInstall_def gitClone_def by (intro returns_guardErr returns_call InstallFromLocal_returns)
  then obtain r t where run: "inCloneInstall lib E hm git url dir s = (Ret r, t)" by (blast dest: returnsD)
  have "keeps (emits (inClone dir)) (inCloneInstall lib E hm git url dir)"
    unfolding inCloneInstall_def gitClone_def
    by (intro keeps_guardErr keeps_call InstallFromLocal_inClone pathJoin_under pathJoin_nonempty assms)
      (simp add: inClone_def within_def)
  from keepsD [OF this run] run show ?thesis by (auto simp: emits_def)
qed

text \<open>
  C23: A Git chart leaves nothing behind and is read from its clone only. When the path that the module names never
  climbs above its start, an installation from Git returns, whatever the calls answer; when it made its
  temporary directory, the last thing it does is to remove it, and every path at which it looked for the chart
  or for its dependencies lies in that directory.
\<close>

theorem git_clone_confined:
  assumes path: "staysBelow 0 (pathElements (git_Path git))" and temp: "\<forall>h b p dir. e_mkdirTemp E h b p = Inr dir \<longrightarrow> dir \<noteq> []"
  shows "\<exists>r t es. installFromGitSource lib E hm git s = (Ret r, t) \<and> trace t = trace s @ es \<and> cloneConfined es"
proof -
  obtain u s1 where u: "gitURL lib E git s = (Ret u, s1)" using gitURL_returns by (blast dest: returnsD)
  from keepsD [OF gitURL_quiet u] obtain es1 where
    es1: "trace s1 = trace s @ es1" "list_all (\<lambda>e. chartPath e = None \<and> \<not> makesTemp e) es1" by (auto simp: emits_def)
  have quiet: "list_all (\<lambda>e. \<not> makesTemp e) es1" using es1(2) by (auto simp: list_all_iff)
  show ?thesis
  proof (cases u)
    case (Inl err)
    with u es1(1) cloneConfined_none(2) [OF quiet] show ?thesis by (simp add: installFromGitSource_def)
  next
    case (Inr url)
    obtain base es2 where base: "GetBaseDir E s1 = (Ret base, s1\<lparr>trace := trace s1 @ es2\<rparr>)"
        "list_all (\<lambda>e. \<exists>r. e = FileEv (EnsureBaseDir r)) es2"
      using GetBaseDir_run [of E s1] by blast
    then have es2: "list_all (\<lambda>e. chartPath e = None \<and> \<not> makesTemp e) (es1 @ es2)" using es1(2) by (auto simp: list_all_iff)
    let ?made = "e_mkdirTemp E (trace s1 @ es2) base ''git-helm-chart-''"
    let ?s2 = "s1\<lparr>trace := (trace s1 @ es2) @ [FileEv (MkdirTemp base ''git-helm-chart-'' ?made)]\<rparr>"
    have mk: "andThen (GetBaseDir E) (\<lambda>dir. mkdirTemp E dir ''git-helm-chart-'') s1 = (Ret ?made, ?s2)"
      by (simp add: base mkdirTemp_def)
    show ?thesis
    proof (cases ?made)
      case made: (Inl err)
      have "list_all (\<lambda>e. \<not> makesTemp e) (es1 @ es2)" using es2 by (auto simp: list_all_iff)
      from cloneConfined_none(1) [OF this] u Inr mk made es1(1) show ?thesis
        by (simp add: installFromGitSource_def)
    next
      case made: (Inr dir)
      then have "dir \<noteq> []" using temp by blast
      from inCloneInstall_run [OF path this, of lib E hm url ?s2] obtain r t es where
        t: "inCloneInstall lib E hm git url dir ?s2 = (Ret r, t)" "trace t = trace ?s2 @ es" "list_all (inClone dir) es" by blast
      let ?rm = "FileEv (RemoveAll dir (e_removeAll E (trace t) dir))"
      have "installFromGitSource lib E hm git s = (Ret r, t\<lparr>trace := trace t @ [?rm]\<rparr>)"
        using u Inr mk made deferred_run [where body = "inCloneInstall lib E hm git url dir", OF t(1),
            of "andThen (removeAll E dir) (\<lambda>_. ret ())"]
        by (simp add: installFromGitSource_def inCloneInstall_def removeAll_def)
      moreover have "trace t @ [?rm] = trace s @ ((es1 @ es2) @ FileEv (MkdirTemp base ''git-helm-chart-'' (Inr dir)) # es @ [?rm])"
        using t(2) made es1(1) by simp
      ultimately show ?thesis
        using cloneConfined_clone [OF es2 t(3)]
        by (intro exI [of _ r] exI [of _ "t\<lparr>trace := trace t @ [?rm]\<rparr>"] exI [of _ "(es1 @ es2) @
            FileEv (MkdirTemp base ''git-helm-chart-'' (Inr dir)) # es @ [?rm]"]) simp
    qed
  qed
qed

text \<open>A path that climbs is not stopped: the chart is then looked for outside of the clone.\<close>

lemma path_escapes:
  "pathJoin ''/internal-data/git-helm-chart-1'' ''../../etc/chart'' = ''/etc/chart''"
  "\<not> under ''/internal-data/git-helm-chart-1'' ''/etc/chart''"
proof -
  show "pathJoin ''/internal-data/git-helm-chart-1'' ''../../etc/chart'' = ''/etc/chart''" by code_simp
  have "stackOf ''/etc/chart'' = [''chart'', ''etc'']" "stackOf ''/internal-data/git-helm-chart-1'' = [''git-helm-chart-1'', ''internal-data'']"
    by code_simp+
  then show "\<not> under ''/internal-data/git-helm-chart-1'' ''/etc/chart''" by (simp add: under_def Cons_eq_append_conv)
qed

definition exampleGit :: ModuleSpecHelmChartGit where
  "exampleGit = \<lparr>git_Repo = ''https://git/charts'', git_Path = ''charts/./redis'', git_Revision = ''main'', git_Auth = None\<rparr>"

definition exampleGitEnv :: env where
  "exampleGitEnv = exampleEnv\<lparr>e_mkdirTemp := \<lambda>h b p. Inr (b @ ''/git-1''), e_stat := \<lambda>h p. StatDir,
     e_readValuesFile := \<lambda>h c p. Inr []\<rparr>"

theorem git_clone_confined_witness:
  "\<exists>t. installFromGitSource (exampleLib\<lparr>lib_urlParse := \<lambda>u. Inr u, lib_urlString := \<lambda>u _. u\<rparr>) exampleGitEnv exampleManager exampleGit exampleWorld
       = (Ret (Some (Wrapped ''failed to build chart dependencies'' (Wrapped ''failed to load chart metadata''
           (ApiErr StatusReasonNotFound [])))), t)
     \<and> last (trace t) = FileEv (RemoveAll ''/internal-data/git-1'' None)
     \<and> FileEv (Stat ''/internal-data/git-1/charts/redis'' StatDir) \<in> set (trace t)
     \<and> under ''/internal-data/git-1'' ''/internal-data/git-1/charts/redis''"
proof -
  let ?lib = "exampleLib\<lparr>lib_urlParse := \<lambda>u. Inr u, lib_urlString := \<lambda>u _. u\<rparr>"
  have join: "pathJoin ''/internal-data/git-1'' ''charts/./redis'' = ''/internal-data/git-1/charts/redis''" by code_simp
  have "staysBelow 0 (pathElements (git_Path exampleGit))" by code_simp
  moreover have "\<forall>h b p dir. e_mkdirTemp exampleGitEnv h b p = Inr dir \<longrightarrow> dir \<noteq> []" by (auto simp: exampleGitEnv_def)
  ultimately obtain r t es where run: "installFromGitSource ?lib exampleGitEnv exampleManager exampleGit exampleWorld = (Ret r, t)"
    "trace t = trace exampleWorld @ es" "cloneConfined es"
    using git_clone_confined [of exampleGit exampleGitEnv ?lib exampleManager exampleWorld] by blast
  have events: "FileEv (MkdirTemp ''/internal-data'' ''git-helm-chart-'' (Inr ''/internal-data/git-1'')) \<in> set (trace t)
    \<and> FileEv (Stat ''/internal-data/git-1/charts/redis'' StatDir) \<in> set (trace t)
    \<and> r = Some (Wrapped ''failed to build chart dependencies'' (Wrapped ''failed to load chart metadata'' (ApiErr StatusReasonNotFound [])))
    \<and> last (trace t) = FileEv (RemoveAll ''/internal-data/git-1'' None)"
    using run(1)
    by (auto simp: installFromGitSource_def gitURL_def exampleGit_def exampleGitEnv_def exampleEnv_def GetBaseDir_def exampleWorld_def
        ensureBaseDirOnce_def BaseDir_def mkdirTemp_def gitClone_def removeAll_def deferred_def guardErr_def InstallFromLocal_def
        helmInit_def MergeHelmValues_def exampleManager_def exampleHelm_def valuesOfFile_def valuesOfConfigMap_def valuesOfRaw_def
        readValuesFile_def buildDependencies_def stat_def loadDir_def join andThen_run Let_def)
  moreover have "trace t = es" using run(2) by (simp add: exampleWorld_def)
  ultimately have "under ''/internal-data/git-1'' ''/internal-data/git-1/charts/redis''"
    using cloneConfinedD [OF run(3)] by metis
  with run(1) events show ?thesis by (intro exI [of _ t]) metis
qed

end
