(* ===== verification/CronManager.thy ===== *)
theory CronManager
  imports Cluster
begin

text \<open>
  The two cron managers of the workspace controller (\<open>src/internal/controller/workspace_controller.go\<close>,
  \<open>sleepCronManager\<close> and \<open>resumeCronManager\<close>): a mutex, a map from workspace UIDs to cron entries, and
  the cron library. The code has two copies of each operation, one per manager; the model has one
  definition with the manager as argument, and the two instances. The mutex is \<open>sync.RWMutex\<close>, which is
  not reentrant: locking it while it is held by the same goroutine never returns.
\<close>

section \<open>State of a manager\<close>

definition managerOf :: "cron_kind \<Rightarrow> world \<Rightarrow> cron_manager" where
  "managerOf kind s = (case kind of SleepCron \<Rightarrow> sleepCronManager s | ResumeCron \<Rightarrow> resumeCronManager s)"

definition updManager :: "cron_kind \<Rightarrow> (cron_manager \<Rightarrow> cron_manager) \<Rightarrow> world \<Rightarrow> world" where
  "updManager kind f s = (case kind of
       SleepCron \<Rightarrow> s\<lparr>sleepCronManager := f (sleepCronManager s)\<rparr>
     | ResumeCron \<Rightarrow> s\<lparr>resumeCronManager := f (resumeCronManager s)\<rparr>)"

definition setLocked :: "cron_kind \<Rightarrow> bool \<Rightarrow> world \<Rightarrow> world" where
  "setLocked kind b = updManager kind (\<lambda>m. m\<lparr>crm_locked := b\<rparr>)"

text \<open>\<open>Lock\<close>, the body, and the deferred \<open>Unlock\<close>, which runs when the body returns or panics.\<close>

definition withLock :: "cron_kind \<Rightarrow> 'a io \<Rightarrow> 'a io" where
  "withLock kind body = (\<lambda>s.
     if crm_locked (managerOf kind s) then (Hangs ''mutex is held'', s)
     else case body (setLocked kind True s) of
         (Ret a, t) \<Rightarrow> (Ret a, setLocked kind False t)
       | (Panicked why, t) \<Rightarrow> (Panicked why, setLocked kind False t)
       | (Hangs why, t) \<Rightarrow> (Hangs why, t))"

definition lookupEntry :: "cron_kind \<Rightarrow> string \<Rightarrow> (nat option) io" where
  "lookupEntry kind uid = (\<lambda>s. (Ret (crm_idMapper (managerOf kind s) uid), s))"

definition setEntry :: "cron_kind \<Rightarrow> string \<Rightarrow> nat option \<Rightarrow> unit io" where
  "setEntry kind uid e = (\<lambda>s. (Ret (),
     updManager kind (\<lambda>m. m\<lparr>crm_idMapper := (crm_idMapper m)(uid := e)\<rparr>) s))"

definition cronEntry :: "env \<Rightarrow> cron_kind \<Rightarrow> nat \<Rightarrow> nat io" where
  "cronEntry E kind entryID = call (\<lambda>h. e_cronEntry E h kind entryID) (\<lambda>sched. CronEv kind (CronEntry entryID sched))"

definition cronAddFunc :: "env \<Rightarrow> cron_kind \<Rightarrow> string \<Rightarrow> string \<Rightarrow> (go_error + nat) io" where
  "cronAddFunc E kind spec uid = call (\<lambda>h. e_cronAdd E h kind spec uid) (\<lambda>r. CronEv kind (CronAdd spec uid r))"

definition cronRemove :: "cron_kind \<Rightarrow> nat \<Rightarrow> unit io" where
  "cronRemove kind entryID = emit (CronEv kind (CronRemove entryID))"

section \<open>Operations\<close>

definition removeCron :: "cron_kind \<Rightarrow> string \<Rightarrow> unit io" where
  "removeCron kind uid = withLock kind (
     andThen (lookupEntry kind uid) (\<lambda>e. case e of
         None \<Rightarrow> ret ()
       | Some entryID \<Rightarrow>
           andThen (cronRemove kind entryID) (\<lambda>_.
           setEntry kind uid None)))"

abbreviation kindText :: "cron_kind \<Rightarrow> string" where
  "kindText kind \<equiv> (case kind of SleepCron \<Rightarrow> ''sleep'' | ResumeCron \<Rightarrow> ''resume'')"

definition registerCron :: "env \<Rightarrow> cron_kind \<Rightarrow> Workspace \<Rightarrow> string \<Rightarrow> (go_error option) io" where
  "registerCron E kind w schedule =
     andThen (cronAddFunc E kind schedule (meta_UID (ws_Meta w))) (\<lambda>r. case r of
         Inl err \<Rightarrow> ret (Some (Wrapped (''failed to add '' @ kindText kind @ '' cron entry for workspace ''
           @ meta_Namespace (ws_Meta w) @ ''/'' @ meta_Name (ws_Meta w)) err))
       | Inr entryID \<Rightarrow>
           andThen (setEntry kind (meta_UID (ws_Meta w)) (Some entryID)) (\<lambda>_. ret None))"

definition addCron ::
  "golib \<Rightarrow> env \<Rightarrow> cron_kind \<Rightarrow> Workspace \<Rightarrow> string \<Rightarrow> bool \<Rightarrow> (go_error option) io" where
  "addCron lib E kind w schedule override = withLock kind (
     andThen (lookupEntry kind (meta_UID (ws_Meta w))) (\<lambda>e. case e of
         None \<Rightarrow> registerCron E kind w schedule
       | Some entryID \<Rightarrow>
           if override
           then (case lib_cronParse lib schedule of
               Inl err \<Rightarrow> ret (Some err)
             | Inr newSchedule \<Rightarrow>
                 andThen (cronEntry E kind entryID) (\<lambda>oldSchedule.
                 andThen (now E) (\<lambda>t.
                 if lib_next lib oldSchedule t = lib_next lib newSchedule t then ret None
                 else andThen (removeCron kind (meta_UID (ws_Meta w))) (\<lambda>_.
                      registerCron E kind w schedule))))
           else ret (Some (ErrText (kindText kind @ '' cron entry for workspace ''
             @ meta_Namespace (ws_Meta w) @ ''/'' @ meta_Name (ws_Meta w) @ '' already exists'')))))"

text \<open>The instances; the schedules are read through pointers.\<close>

definition addSleepCron :: "golib \<Rightarrow> env \<Rightarrow> Workspace \<Rightarrow> bool \<Rightarrow> (go_error option) io" where
  "addSleepCron lib E w override = (case wss_AutoHibernation (ws_Spec w) of
       None \<Rightarrow> panic ''nil pointer dereference''
     | Some ah \<Rightarrow> addCron lib E SleepCron w (ah_Schedule ah) override)"

definition addResumeCron :: "golib \<Rightarrow> env \<Rightarrow> Workspace \<Rightarrow> bool \<Rightarrow> (go_error option) io" where
  "addResumeCron lib E w override = (case wss_AutoHibernation (ws_Spec w) of
       None \<Rightarrow> panic ''nil pointer dereference''
     | Some ah \<Rightarrow> (case ah_WakeSchedule ah of
           None \<Rightarrow> panic ''nil pointer dereference''
         | Some wake \<Rightarrow> addCron lib E ResumeCron w wake override))"

definition removeSleepCron :: "string \<Rightarrow> unit io" where
  "removeSleepCron uid = removeCron SleepCron uid"

definition removeResumeCron :: "string \<Rightarrow> unit io" where
  "removeResumeCron uid = removeCron ResumeCron uid"

text \<open>The jobs: they read the workspace again and patch \<open>spec.hibernated\<close> where it differs.\<close>

definition cronJob :: "env \<Rightarrow> bool \<Rightarrow> Workspace \<Rightarrow> unit io" where
  "cronJob E hibernate w = andThen (getWorkspace E (workspaceKey w)) (\<lambda>r. case r of
       Inl _ \<Rightarrow> ret ()
     | Inr w' \<Rightarrow>
         if wss_Hibernated (ws_Spec w') \<noteq> hibernate
         then andThen (patchWorkspace E w' (w'\<lparr>ws_Spec := (ws_Spec w')\<lparr>wss_Hibernated := hibernate\<rparr>\<rparr>))
                (\<lambda>_. ret ())
         else ret ())"

definition sleepCronJob :: "env \<Rightarrow> Workspace \<Rightarrow> unit io" where
  "sleepCronJob E w = cronJob E True w"

definition resumeCronJob :: "env \<Rightarrow> Workspace \<Rightarrow> unit io" where
  "resumeCronJob E w = cronJob E False w"

section \<open>Runs of the operations\<close>

lemma managerOf_upd [simp]:
  "managerOf kind (updManager kind f s) = f (managerOf kind s)"
  "kind \<noteq> kind' \<Longrightarrow> managerOf kind (updManager kind' f s) = managerOf kind s"
  "trace (updManager kind f s) = trace s"
  by (cases kind; cases kind'; simp add: managerOf_def updManager_def)+

lemma managerOf_trace [simp]: "managerOf kind (s\<lparr>trace := es\<rparr>) = managerOf kind s"
  by (simp add: managerOf_def split: cron_kind.split)

lemma managerOf_setLocked [simp]:
  "crm_locked (managerOf kind (setLocked kind b s)) = b"
  "crm_idMapper (managerOf kind (setLocked kind' b s)) = crm_idMapper (managerOf kind s)"
  "trace (setLocked kind b s) = trace s"
  by (cases kind; cases kind'; simp add: setLocked_def managerOf_def updManager_def)+

lemma withLock_held:
  "crm_locked (managerOf kind s) \<Longrightarrow> withLock kind body s = (Hangs ''mutex is held'', s)"
  by (simp add: withLock_def)

lemmas cron_calls = cronEntry_def cronAddFunc_def cronRemove_def lookupEntry_def setEntry_def calls

section \<open>Live entries\<close>

text \<open>The entries of the cron library, read off the trace: added and not removed since, each with the
  UID of the workspace it was added for.\<close>

fun applyCron :: "cron_kind \<Rightarrow> event \<Rightarrow> (nat \<rightharpoonup> string) \<Rightarrow> (nat \<rightharpoonup> string)" where
  "applyCron kind (CronEv k (CronAdd spec uid (Inr entryID))) m = (if k = kind then m(entryID \<mapsto> uid) else m)"
| "applyCron kind (CronEv k (CronRemove entryID)) m = (if k = kind then m(entryID := None) else m)"
| "applyCron kind e m = m"

definition liveEntries :: "cron_kind \<Rightarrow> history \<Rightarrow> nat \<rightharpoonup> string" where
  "liveEntries kind h = fold (applyCron kind) h Map.empty"

text \<open>The documented law of the library: \<open>AddFunc\<close> numbers entries one by one, so a new entry has an
  identifier that no live entry has.\<close>

definition freshEntries :: "env \<Rightarrow> bool" where
  "freshEntries E \<longleftrightarrow> (\<forall>h kind spec uid entryID.
     e_cronAdd E h kind spec uid = Inr entryID \<longrightarrow> liveEntries kind h entryID = None)"

text \<open>The manager's map and the library agree: the live entries are exactly the mapped ones.\<close>

definition cronInv :: "cron_kind \<Rightarrow> world \<Rightarrow> bool" where
  "cronInv kind s \<longleftrightarrow> (\<forall>entryID uid. liveEntries kind (trace s) entryID = Some uid \<longleftrightarrow>
     crm_idMapper (managerOf kind s) uid = Some entryID)"

interpretation cronInv: world_invariant "cronInv kind" for kind .

lemma liveEntries_append [simp]: "liveEntries kind (h @ es) = fold (applyCron kind) es (liveEntries kind h)"
  by (simp add: liveEntries_def)

lemma cronInv_setLocked [simp]: "cronInv kind (setLocked kind' b s) \<longleftrightarrow> cronInv kind s"
  by (simp add: cronInv_def)

lemma cronInv_withLock:
  assumes "keeps (cronInv.preserves kind) body"
  shows "keeps (cronInv.preserves kind) (withLock kind' body)"
proof (rule keepsI)
  fix s
  have "cronInv.preserves kind (setLocked kind' True s) (snd (body (setLocked kind' True s)))"
    using assms by (simp add: keeps_def)
  then show "cronInv.preserves kind s (snd (withLock kind' body s))"
    by (auto simp: withLock_def cronInv.preserves_def split: prod.split outcome.split)
qed

lemma cronInv_call:
  assumes "\<And>r m. applyCron kind (ev r) m = m"
  shows "keeps (cronInv.preserves kind) (call f ev)"
  by (simp add: keeps_def cronInv.preserves_def cronInv_def assms)

lemma cronInv_removeEntry:
  assumes "cronInv kind s" and "lookupEntry kind uid s = (Ret (Some entryID), t)"
  shows "cronInv kind (snd (andThen (cronRemove kind entryID) (\<lambda>_. setEntry kind uid None) t))"
  using assms by (auto simp: cronInv_def cron_calls andThen_run) (metis option.inject)

lemma cronInv_registerCron:
  assumes "freshEntries E" and "cronInv kind s"
    and "crm_idMapper (managerOf kind s) (meta_UID (ws_Meta w)) = None"
  shows "cronInv kind (snd (registerCron E kind w schedule s))"
proof (cases "e_cronAdd E (trace s) kind schedule (meta_UID (ws_Meta w))")
  case (Inl err)
  then show ?thesis using assms(2) by (simp add: registerCron_def cron_calls andThen_run cronInv_def)
next
  case (Inr entryID)
  then have "liveEntries kind (trace s) entryID = None"
    using assms(1) by (auto simp: freshEntries_def)
  with Inr show ?thesis using assms(2,3)
    by (auto simp: registerCron_def cron_calls andThen_run cronInv_def) (metis option.distinct(1))
qed

lemma cronInv_removeCron: "keeps (cronInv.preserves kind) (removeCron kind uid)"
proof -
  have "keeps (cronInv.preserves kind) (andThen (lookupEntry kind uid) (\<lambda>e. case e of
         None \<Rightarrow> ret ()
       | Some entryID \<Rightarrow> andThen (cronRemove kind entryID) (\<lambda>_. setEntry kind uid None)))"
    using cronInv_removeEntry [of kind _ uid]
    by (auto simp: keeps_def cronInv.preserves_def lookupEntry_def andThen_run [of "lookupEntry kind uid"]
        split: option.split)
  then show ?thesis unfolding removeCron_def by (rule cronInv_withLock)
qed

lemma removeCron_held: "crm_locked (managerOf kind s) \<Longrightarrow> removeCron kind uid s = (Hangs ''mutex is held'', s)"
  by (simp add: removeCron_def withLock_held)

lemma addCron_held:
  "crm_locked (managerOf kind s) \<Longrightarrow> addCron lib E kind w sched ov s = (Hangs ''mutex is held'', s)"
  by (simp add: addCron_def withLock_held)

text \<open>What \<open>addCron\<close> does on every branch, from an unlocked manager.\<close>

lemma addCron_new:
  assumes "\<not> crm_locked (managerOf kind s)"
    and "crm_idMapper (managerOf kind s) (meta_UID (ws_Meta w)) = None"
  shows "addCron lib E kind w schedule ov s =
    (case registerCron E kind w schedule (setLocked kind True s) of (r, t) \<Rightarrow> (r, setLocked kind False t))"
  using assms
  by (auto simp: addCron_def withLock_def lookupEntry_def andThen_run registerCron_def cron_calls
      split: sum.splits)

lemma addCron_existing:
  assumes "\<not> crm_locked (managerOf kind s)"
    and "crm_idMapper (managerOf kind s) (meta_UID (ws_Meta w)) = Some entryID"
    and "lib_cronParse lib schedule = Inr newSchedule"
    and old: "old = e_cronEntry E (trace s) kind entryID"
    and t: "t = e_now E (trace s @ [CronEv kind (CronEntry entryID old)])"
    and es: "es = [CronEv kind (CronEntry entryID old), CoreEv (Clock t)]"
  shows "addCron lib E kind w schedule True s =
    (if lib_next lib old t = lib_next lib newSchedule t
     then (Ret None, setLocked kind False ((setLocked kind True s)\<lparr>trace := trace s @ es\<rparr>))
     else (Hangs ''mutex is held'', (setLocked kind True s)\<lparr>trace := trace s @ es\<rparr>))"
  using assms
  by (simp add: addCron_def withLock_def lookupEntry_def andThen_run cron_calls removeCron_held)

lemma cronInv_addCron:
  assumes "freshEntries E"
  shows "keeps (cronInv.preserves kind) (addCron lib E kind w schedule ov)"
proof -
  let ?body = "andThen (lookupEntry kind (meta_UID (ws_Meta w))) (\<lambda>e. case e of
         None \<Rightarrow> registerCron E kind w schedule
       | Some entryID \<Rightarrow>
           if ov
           then (case lib_cronParse lib schedule of
               Inl err \<Rightarrow> ret (Some err)
             | Inr newSchedule \<Rightarrow>
                 andThen (cronEntry E kind entryID) (\<lambda>oldSchedule.
                 andThen (now E) (\<lambda>t.
                 if lib_next lib oldSchedule t = lib_next lib newSchedule t then ret None
                 else andThen (removeCron kind (meta_UID (ws_Meta w))) (\<lambda>_.
                      registerCron E kind w schedule))))
           else ret (Some (ErrText (kindText kind @ '' cron entry for workspace ''
             @ meta_Namespace (ws_Meta w) @ ''/'' @ meta_Name (ws_Meta w) @ '' already exists''))))"
  have body: "cronInv kind (snd (?body s))" if "cronInv kind s" "crm_locked (managerOf kind s)" for s
    using that cronInv_registerCron [OF assms that(1)]
    by (auto simp: lookupEntry_def andThen_run cron_calls removeCron_held cronInv_def
        split: option.split sum.split)
  show ?thesis
  proof (rule keepsI)
    fix s
    show "cronInv.preserves kind s (snd (addCron lib E kind w schedule ov s))"
      using body [of "setLocked kind True s"]
      by (auto simp: addCron_def withLock_def cronInv.preserves_def
          split: prod.split outcome.split)
  qed
qed

lemma managerOf_other [simp]:
  "k \<noteq> kind \<Longrightarrow> managerOf k (setLocked kind b s) = managerOf k s"
  by (simp add: setLocked_def)

section \<open>One manager leaves the other alone\<close>

text \<open>What an operation on one manager does to the other: nothing, neither to its state nor to its entries.\<close>

definition sparesOther :: "cron_kind \<Rightarrow> world \<Rightarrow> world \<Rightarrow> bool" where
  "sparesOther kind s t \<longleftrightarrow> (\<forall>k. k \<noteq> kind \<longrightarrow> managerOf k t = managerOf k s
     \<and> liveEntries k (trace t) = liveEntries k (trace s))"

lemma applyCron_other [simp]: "k \<noteq> kind \<Longrightarrow> applyCron k (CronEv kind e) m = m"
  by (cases "(k, CronEv kind e, m)" rule: applyCron.cases) simp_all

interpretation spares: stable_rel "sparesOther kind" for kind
  by unfold_locales (auto simp: sparesOther_def)

lemma spares_call:
  assumes "\<And>r k m. k \<noteq> kind \<Longrightarrow> applyCron k (ev r) m = m"
  shows "keeps (sparesOther kind) (call f ev)"
  using assms by (simp add: keeps_def sparesOther_def)

lemma spares_entries:
  "keeps (sparesOther kind) (lookupEntry kind uid)" "keeps (sparesOther kind) (setEntry kind uid x)"
  by (auto simp: keeps_def sparesOther_def lookupEntry_def setEntry_def)

lemma spares_withLock:
  assumes "keeps (sparesOther kind) body"
  shows "keeps (sparesOther kind) (withLock kind body)"
proof (rule keepsI)
  fix s
  have "sparesOther kind (setLocked kind True s) (snd (body (setLocked kind True s)))"
    using assms by (simp add: keeps_def)
  then show "sparesOther kind s (snd (withLock kind body s))"
    by (auto simp: withLock_def sparesOther_def split: prod.split outcome.split)
qed

lemma spares_removeCron: "keeps (sparesOther kind) (removeCron kind uid)"
  unfolding removeCron_def cronRemove_def emit_def
  by (intro spares_withLock spares.keeps_basic keeps_splits spares_entries spares_call) auto

lemma spares_addCron: "keeps (sparesOther kind) (addCron lib E kind w schedule ov)"
proof -
  have reg: "keeps (sparesOther kind) (registerCron E kind w schedule)"
    unfolding registerCron_def cronAddFunc_def
    by (intro spares.keeps_basic keeps_splits spares_entries spares_call) simp
  show ?thesis
    unfolding addCron_def cronEntry_def now_def
    by (intro spares_withLock spares.keeps_basic keeps_splits spares_entries reg spares_removeCron spares_call) auto
qed

text \<open>
  What every program of the operator keeps of the cron managers: their agreement with the library, where
  the library numbers its entries freshly; and a manager whose mutex is held stays as it is.
\<close>

definition cronSafe :: "env \<Rightarrow> world \<Rightarrow> world \<Rightarrow> bool" where
  "cronSafe E s t \<longleftrightarrow> (\<forall>k. (freshEntries E \<longrightarrow> cronInv k s \<longrightarrow> cronInv k t)
     \<and> (crm_locked (managerOf k s) \<longrightarrow> managerOf k t = managerOf k s))"

interpretation cronSafe: stable_rel "cronSafe E" for E
  by unfold_locales (auto simp: cronSafe_def)

lemma cronSafe_operation:
  assumes "freshEntries E \<Longrightarrow> keeps (cronInv.preserves kind) m" and "keeps (sparesOther kind) m"
    and "\<And>s. crm_locked (managerOf kind s) \<Longrightarrow> snd (m s) = s"
  shows "keeps (cronSafe E) m"
  unfolding keeps_def cronSafe_def
proof (intro allI conjI impI)
  fix s k
  have other: "k \<noteq> kind \<Longrightarrow> managerOf k (snd (m s)) = managerOf k s \<and>
      liveEntries k (trace (snd (m s))) = liveEntries k (trace s)"
    using assms(2) by (simp add: keeps_def sparesOther_def)
  show "cronInv k (snd (m s))" if "freshEntries E" "cronInv k s"
  proof (cases "k = kind")
    case True
    with assms(1) that show ?thesis by (simp add: keeps_def cronInv.preserves_def)
  next
    case False
    with other that(2) show ?thesis by (simp add: cronInv_def)
  qed
  show "managerOf k (snd (m s)) = managerOf k s" if "crm_locked (managerOf k s)"
    using other assms(3) [of s] that by (cases "k = kind") simp_all
qed

lemma cronSafe_removeCron: "keeps (cronSafe E) (removeCron kind uid)"
  by (rule cronSafe_operation [OF cronInv_removeCron spares_removeCron]) (simp add: removeCron_held)

lemma cronSafe_addCron: "keeps (cronSafe E) (addCron lib E kind w schedule ov)"
  by (rule cronSafe_operation [OF cronInv_addCron spares_addCron]) (simp_all add: addCron_held)

text \<open>A program that does not call the cron library.\<close>

fun noCron :: "event \<Rightarrow> bool" where
  "noCron (CronEv _ _) = False"
| "noCron _ = True"

lemma applyCron_noCron: "noCron e \<Longrightarrow> applyCron k e m = m"
  by (cases e) simp_all

lemma cronSafe_noCron:
  assumes "keeps (emits noCron) m"
  shows "keeps (cronSafe E) m"
proof (rule keepsI)
  fix s
  have em: "emits noCron s (snd (m s))" using assms by (simp add: keeps_def)
  then obtain es where es: "trace (snd (m s)) = trace s @ es" "list_all noCron es" by (auto simp: emits_def)
  from es(2) have "fold (applyCron k) es l = l" for k l by (induction es) (simp_all add: applyCron_noCron)
  moreover have "managerOf k (snd (m s)) = managerOf k s" for k
    using emits_sameCrons [OF em] by (simp add: sameCrons_def managerOf_def split: cron_kind.split)
  ultimately show "cronSafe E s (snd (m s))" by (simp add: cronSafe_def cronInv_def es(1))
qed

section \<open>The set of jobs\<close>

text \<open>
  What a cron manager promises: it keeps a set of workspaces that have a job. Adding puts the workspace
  into the set unless it reports an error, removing takes it out, and nothing else changes. The locale
  states this for any implementation with an abstraction to sets; a sequence of operations that return
  then has the effect of the same sequence on sets.
\<close>

datatype cron_op = AddJob Workspace string | RemoveJob string

fun specJobs :: "(cron_op \<times> go_error option) list \<Rightarrow> string set \<Rightarrow> string set" where
  "specJobs [] js = js"
| "specJobs ((AddJob w sched, e) # ops) js =
     specJobs ops (if e = None then insert (meta_UID (ws_Meta w)) js else js)"
| "specJobs ((RemoveJob uid, e) # ops) js = specJobs ops (js - {uid})"

fun runJobs :: "(Workspace \<Rightarrow> string \<Rightarrow> (go_error option) io) \<Rightarrow> (string \<Rightarrow> unit io) \<Rightarrow> cron_op list \<Rightarrow>
    ((go_error option) list) io" where
  "runJobs add remove [] = ret []"
| "runJobs add remove (AddJob w sched # ops) =
     andThen (add w sched) (\<lambda>e. andThen (runJobs add remove ops) (\<lambda>es. ret (e # es)))"
| "runJobs add remove (RemoveJob uid # ops) =
     andThen (remove uid) (\<lambda>_. andThen (runJobs add remove ops) (\<lambda>es. ret (None # es)))"

locale job_table =
  fixes inv :: "world \<Rightarrow> bool" and jobs :: "world \<Rightarrow> string set"
    and add :: "Workspace \<Rightarrow> string \<Rightarrow> (go_error option) io" and remove :: "string \<Rightarrow> unit io"
  assumes add_job: "inv s \<Longrightarrow> add w sched s = (Ret e, t) \<Longrightarrow>
      inv t \<and> jobs t = (if e = None then insert (meta_UID (ws_Meta w)) (jobs s) else jobs s)"
    and remove_job: "inv s \<Longrightarrow> remove uid s = (Ret u, t) \<Longrightarrow> inv t \<and> jobs t = jobs s - {uid}"
begin

lemma runJobs_spec:
  "inv s \<Longrightarrow> runJobs add remove ops s = (Ret es, t) \<Longrightarrow>
   inv t \<and> length es = length ops \<and> jobs t = specJobs (zip ops es) (jobs s)"
proof (induction ops arbitrary: s es)
  case Nil
  then show ?case by simp
next
  case (Cons op ops)
  show ?case
  proof (cases op)
    case (AddJob w sched)
    with Cons.prems(2) obtain e u es' where "add w sched s = (Ret e, u)"
      "runJobs add remove ops u = (Ret es', t)" "es = e # es'" by (auto elim!: andThen_RetE)
    with Cons.IH [of u es'] add_job [OF Cons.prems(1), of w sched e u] AddJob show ?thesis by simp
  next
    case (RemoveJob uid)
    with Cons.prems(2) obtain x u es' where "remove uid s = (Ret x, u)"
      "runJobs add remove ops u = (Ret es', t)" "es = None # es'" by (auto elim!: andThen_RetE)
    with Cons.IH [of u es'] remove_job [OF Cons.prems(1), of uid x u] RemoveJob show ?thesis by simp
  qed
qed

end

text \<open>The managers implement it: the jobs are the live entries of the library.\<close>

definition jobsOf :: "cron_kind \<Rightarrow> world \<Rightarrow> string set" where
  "jobsOf kind s = ran (liveEntries kind (trace s))"

lemma jobsOf_setLocked [simp]: "jobsOf kind (setLocked kind' b s) = jobsOf kind s"
  by (simp add: jobsOf_def)

lemma jobsOf_dom: "cronInv kind s \<Longrightarrow> jobsOf kind s = dom (crm_idMapper (managerOf kind s))"
  by (auto simp: jobsOf_def cronInv_def ran_def dom_def)

lemma addCron_jobs:
  assumes "freshEntries E" and "cronInv kind s" and run: "addCron lib E kind w sched True s = (Ret e, t)"
  shows "jobsOf kind t = (if e = None then insert (meta_UID (ws_Meta w)) (jobsOf kind s) else jobsOf kind s)"
proof -
  have inv: "cronInv kind t"
    using keepsD [OF cronInv_addCron [OF assms(1)] run] assms(2) by (simp add: cronInv.preserves_def)
  have free: "\<not> crm_locked (managerOf kind s)" using run by (auto simp: addCron_held)
  show ?thesis
  proof (cases "crm_idMapper (managerOf kind s) (meta_UID (ws_Meta w))")
    case None
    with run free show ?thesis
      unfolding jobsOf_dom [OF inv] jobsOf_dom [OF assms(2)]
      by (auto simp: addCron_new registerCron_def cron_calls andThen_run split: sum.splits)
  next
    case (Some entryID)
    with run free show ?thesis
      unfolding jobsOf_dom [OF inv] jobsOf_dom [OF assms(2)]
      by (auto simp: addCron_def withLock_def lookupEntry_def andThen_run cron_calls removeCron_held
          split: sum.splits if_splits)
  qed
qed

lemma removeCron_jobs:
  assumes "cronInv kind s" and run: "removeCron kind uid s = (Ret u, t)"
  shows "jobsOf kind t = jobsOf kind s - {uid}"
proof -
  have inv: "cronInv kind t"
    using keepsD [OF cronInv_removeCron run] assms(1) by (simp add: cronInv.preserves_def)
  from run show ?thesis
    unfolding jobsOf_dom [OF inv] jobsOf_dom [OF assms(1)]
    by (auto simp: removeCron_def withLock_def lookupEntry_def andThen_run cron_calls split: option.splits if_splits)
qed

interpretation cronJobs: job_table "\<lambda>s. freshEntries E \<and> cronInv kind s" "jobsOf kind"
  "\<lambda>w sched. addCron lib E kind w sched True" "removeCron kind" for E kind lib
proof unfold_locales
  show "(freshEntries E \<and> cronInv kind t) \<and> jobsOf kind t =
      (if e = None then insert (meta_UID (ws_Meta w)) (jobsOf kind s) else jobsOf kind s)"
    if "freshEntries E \<and> cronInv kind s" "addCron lib E kind w sched True s = (Ret e, t)" for s w sched e t
    using that keepsD [OF cronInv_addCron that(2)] addCron_jobs [OF _ _ that(2)]
    by (simp add: cronInv.preserves_def)
  show "(freshEntries E \<and> cronInv kind t) \<and> jobsOf kind t = jobsOf kind s - {uid}"
    if "freshEntries E \<and> cronInv kind s" "removeCron kind uid s = (Ret u, t)" for s uid u t
    using that keepsD [OF cronInv_removeCron that(2)] removeCron_jobs [OF _ that(2)]
    by (simp add: cronInv.preserves_def)
qed

section \<open>A concrete cron library\<close>

text \<open>Entries are numbered above every number in the trace so far.\<close>

fun entryIDs :: "history \<Rightarrow> nat list" where
  "entryIDs [] = []"
| "entryIDs (CronEv k (CronAdd spec uid (Inr entryID)) # h) = entryID # entryIDs h"
| "entryIDs (_ # h) = entryIDs h"

definition exampleCronEnv :: env where
  "exampleCronEnv = exampleEnv\<lparr>e_cronAdd := \<lambda>h kind spec uid. Inr (Suc (sum_list (entryIDs h)))\<rparr>"

lemma liveEntries_in_IDs:
  "fold (applyCron kind) h m entryID = Some uid \<Longrightarrow> entryID \<in> set (entryIDs h) \<or> m entryID = Some uid"
  by (induction h arbitrary: m rule: entryIDs.induct) (fastforce split: if_splits)+

lemma exampleCron_fresh: "freshEntries exampleCronEnv"
proof -
  have "liveEntries kind h (Suc (sum_list (entryIDs h))) = None" for kind h
    using liveEntries_in_IDs [of kind h Map.empty "Suc (sum_list (entryIDs h))"]
      member_le_sum_list [of "Suc (sum_list (entryIDs h))" "entryIDs h"]
    by (cases "liveEntries kind h (Suc (sum_list (entryIDs h)))") (auto simp: liveEntries_def)
  then show ?thesis by (simp add: freshEntries_def exampleCronEnv_def)
qed

lemma exampleWorld_cronInv: "cronInv kind exampleWorld"
  by (cases kind) (simp_all add: cronInv_def liveEntries_def exampleWorld_def managerOf_def)

definition exampleScheduled :: Workspace where
  "exampleScheduled = exampleWorkspace\<lparr>ws_Spec := (ws_Spec exampleWorkspace)\<lparr>wss_AutoHibernation :=
     Some \<lparr>ah_Enabled = True, ah_Schedule = ''0 20 * * *'', ah_WakeSchedule = None\<rparr>\<rparr>\<rparr>"

section \<open>Properties\<close>

text \<open>
  C35: A changed schedule deadlocks its cron manager. When a workspace already has an entry and the
  next activation of its new schedule differs from the one of the entry, \<open>addSleepCron\<close> (called with
  \<open>override\<close>) calls \<open>removeSleepCron\<close> while holding the mutex: it never returns, the mutex stays locked,
  and from then on every \<open>addSleepCron\<close> and \<open>removeSleepCron\<close>, of any workspace, never returns either.
\<close>

theorem changed_schedule_deadlocks:
  assumes "\<not> crm_locked (sleepCronManager s)"
    and "crm_idMapper (sleepCronManager s) (meta_UID (ws_Meta w)) = Some entryID"
    and "wss_AutoHibernation (ws_Spec w) = Some ah"
    and "lib_cronParse lib (ah_Schedule ah) = Inr newSchedule"
    and "\<forall>t. lib_next lib (e_cronEntry E (trace s) SleepCron entryID) t \<noteq> lib_next lib newSchedule t"
  shows "\<exists>s'. addSleepCron lib E w True s = (Hangs ''mutex is held'', s')
    \<and> (\<forall>uid. removeSleepCron uid s' = (Hangs ''mutex is held'', s'))
    \<and> (\<forall>w' ah' ov. wss_AutoHibernation (ws_Spec w') = Some ah' \<longrightarrow>
         addSleepCron lib E w' ov s' = (Hangs ''mutex is held'', s'))"
proof -
  define s' where "s' = (setLocked SleepCron True s)\<lparr>trace := trace s @
    [CronEv SleepCron (CronEntry entryID (e_cronEntry E (trace s) SleepCron entryID)),
     CoreEv (Clock (e_now E (trace s @
       [CronEv SleepCron (CronEntry entryID (e_cronEntry E (trace s) SleepCron entryID))])))]\<rparr>"
  have held: "crm_locked (managerOf SleepCron s')" by (simp add: s'_def)
  have "addCron lib E SleepCron w (ah_Schedule ah) True s = (Hangs ''mutex is held'', s')"
    using addCron_existing [of SleepCron s w entryID lib "ah_Schedule ah" newSchedule, OF _ _ _ refl refl refl] assms
    by (simp add: managerOf_def s'_def)
  with assms(3) held show ?thesis
    by (intro exI [of _ s']) (simp add: addSleepCron_def removeSleepCron_def removeCron_held addCron_held)
qed

theorem changed_schedule_deadlocks_witness:
  "\<exists>s'. addSleepCron (exampleLib\<lparr>lib_cronParse := \<lambda>_. Inr 2, lib_next := \<lambda>n t. t + int n\<rparr>) exampleEnv
     exampleScheduled True (exampleWorld\<lparr>sleepCronManager := \<lparr>crm_locked = False,
       crm_idMapper = [meta_UID (ws_Meta exampleScheduled) \<mapsto> 1]\<rparr>\<rparr>) = (Hangs ''mutex is held'', s')"
  using changed_schedule_deadlocks
    [where s = "exampleWorld\<lparr>sleepCronManager := \<lparr>crm_locked = False,
       crm_idMapper = [meta_UID (ws_Meta exampleScheduled) \<mapsto> 1]\<rparr>\<rparr>" and w = exampleScheduled
     and lib = "exampleLib\<lparr>lib_cronParse := \<lambda>_. Inr 2, lib_next := \<lambda>n t. t + int n\<rparr>" and E = exampleEnv
     and entryID = 1 and newSchedule = 2
     and ah = "\<lparr>ah_Enabled = True, ah_Schedule = ''0 20 * * *'', ah_WakeSchedule = None\<rparr>"]
  by (auto simp: exampleScheduled_def exampleEnv_def)

text \<open>
  C13: A cron manager refines a set of jobs. Where the cron library numbers its entries freshly and the
  manager agrees with it, any sequence of additions (with override) and removals that returns leaves
  exactly the jobs that the same sequence leaves in a set of workspaces: an addition that reports no error
  puts its workspace in, one that reports an error changes nothing, a removal takes the workspace out; and
  the manager agrees with the library again.
\<close>

theorem cron_manager_refines_jobs:
  assumes "freshEntries E" and "cronInv kind s"
    and "runJobs (\<lambda>w sched. addCron lib E kind w sched True) (removeCron kind) ops s = (Ret es, t)"
  shows "jobsOf kind t = specJobs (zip ops es) (jobsOf kind s) \<and> length es = length ops \<and> cronInv kind t"
  using cronJobs.runJobs_spec [of E kind s lib ops es t] assms by simp

theorem cron_manager_refines_jobs_witness:
  "\<exists>t. runJobs (\<lambda>w sched. addCron exampleLib exampleCronEnv SleepCron w sched True) (removeCron SleepCron)
      [RemoveJob ''a'', AddJob exampleScheduled ''0 20 * * *''] exampleWorld = (Ret [None, None], t)
    \<and> jobsOf SleepCron t = {meta_UID (ws_Meta exampleScheduled)}"
proof -
  let ?run = "runJobs (\<lambda>w sched. addCron exampleLib exampleCronEnv SleepCron w sched True) (removeCron SleepCron)
      [RemoveJob ''a'', AddJob exampleScheduled ''0 20 * * *''] exampleWorld"
  have run: "?run = (Ret [None, None], snd ?run)"
    by (simp add: removeCron_def addCron_def withLock_def lookupEntry_def registerCron_def cron_calls andThen_run
        exampleWorld_def exampleCronEnv_def managerOf_def setLocked_def updManager_def)
  have "jobsOf SleepCron exampleWorld = {}" by (simp add: jobsOf_def liveEntries_def exampleWorld_def)
  then show ?thesis
    using cron_manager_refines_jobs [OF exampleCron_fresh exampleWorld_cronInv run] run by auto
qed

end
