(* ===== verification/VCluster.thy ===== *)
theory VCluster
  imports HelmService
begin

text \<open>
  The virtual cluster of a managed workspace (\<open>src/internal/controller/workspace_managed.go\<close>): its
  configuration from the environment, its namespace and its release, both named after the workspace,
  installing and uninstalling it through Helm.
\<close>

record VClusterConfig =
  vc_chartRepo :: string
  vc_chartVersion :: string
  vc_chartName :: string
  vc_secretName :: string

definition envOr :: "env \<Rightarrow> string \<Rightarrow> string \<Rightarrow> string" where
  "envOr E var fallback = (if e_getenv E var = [] then fallback else e_getenv E var)"

definition getVClusterConfig :: "env \<Rightarrow> VClusterConfig" where
  "getVClusterConfig E = \<lparr>vc_chartRepo = envOr E ''VCLUSTER_CHART_REPO'' ''https://charts.loft.sh'',
     vc_chartVersion = envOr E ''VCLUSTER_CHART_VERSION'' ''0.21.0-alpha.4'',
     vc_chartName = envOr E ''VCLUSTER_CHART_NAME'' ''vcluster'',
     vc_secretName = envOr E ''VCLUSTER_KUBECONFIG_SECRET_NAME'' ''vc-kubeconfig''\<rparr>"

definition getVClusterNamespace :: "Workspace \<Rightarrow> string" where
  "getVClusterNamespace w = ''forkspacer-'' @ meta_Name (ws_Meta w)"

definition vclusterRelease :: "Workspace \<Rightarrow> string" where
  "vclusterRelease w = ''forkspacer-'' @ meta_Name (ws_Meta w)"

definition controllerConnection :: WorkspaceConnection where
  "controllerConnection = \<lparr>conn_Type = WorkspaceConnectionTypeInCluster, conn_SecretReference = None\<rparr>"

definition vclusterSecretName :: "env \<Rightarrow> Workspace \<Rightarrow> string" where
  "vclusterSecretName E w = vc_secretName (getVClusterConfig E) @ ''-'' @ meta_Name (ws_Meta w)"

definition vclusterValues :: "env \<Rightarrow> Workspace \<Rightarrow> go_map" where
  "vclusterValues E w = [(''exportKubeConfig'', AMap [
     (''secret'', AMap [(''name'', AString (vclusterSecretName E w))]),
     (''server'', AString (''https://'' @ vclusterRelease w @ ''.'' @ getVClusterNamespace w @ '':443''))])]"

definition installVCluster :: "golib \<Rightarrow> env \<Rightarrow> Workspace \<Rightarrow> (go_error option) io" where
  "installVCluster lib E w =
     (let cfg = getVClusterConfig E; vclusterNamespace = getVClusterNamespace w in
      andThen (createNamespace E vclusterNamespace) (\<lambda>e.
      if (case e of None \<Rightarrow> False | Some err \<Rightarrow> \<not> isAlreadyExists err)
      then ret (map_option (Wrapped (''failed to create namespace '' @ vclusterNamespace)) e)
      else andThen (NewHelmService E controllerConnection) (\<lambda>r. case r of
          Inl err \<Rightarrow> ret (Some (Wrapped ''failed to create Helm service'' err))
        | Inr svc \<Rightarrow>
            andThen (InstallFromRepository lib E svc (vc_chartName cfg) (vclusterRelease w) vclusterNamespace
              (vc_chartRepo cfg) (Some (vc_chartVersion cfg)) True
              [\<lparr>val_File = None, val_ConfigMap = None,
                val_Raw = Some \<lparr>raw_Raw = Some (lib_jsonMarshal lib (AMap (vclusterValues E w)))\<rparr>\<rparr>] [] []) (\<lambda>e'.
            ret (map_option (Wrapped ''failed to install vcluster'') e')))))"

definition uninstallVCluster :: "env \<Rightarrow> Workspace \<Rightarrow> (go_error option) io" where
  "uninstallVCluster E w =
     (let vclusterNamespace = getVClusterNamespace w in
      andThen (NewHelmService E controllerConnection) (\<lambda>r. case r of
          Inl err \<Rightarrow> ret (Some (Wrapped ''failed to create Helm service'' err))
        | Inr svc \<Rightarrow>
            andThen (UninstallRelease E svc (vclusterRelease w) vclusterNamespace False False) (\<lambda>e. case e of
                Some err \<Rightarrow> ret (Some (Wrapped ''failed to uninstall vcluster'' err))
              | None \<Rightarrow> andThen (deleteNamespace E vclusterNamespace) (\<lambda>e'. case e' of
                    None \<Rightarrow> ret None
                  | Some err \<Rightarrow>
                      if isNotFound err then ret None
                      else ret (Some (Wrapped (''failed to delete namespace '' @ vclusterNamespace) err))))))"

section \<open>Whose cluster it is\<close>

text \<open>The events of the two operations for a namespace that is also the name of the release.\<close>

definition vclusterEvent :: "string \<Rightarrow> event \<Rightarrow> bool" where
  "vclusterEvent ns e \<longleftrightarrow> connectEvent e \<or> (\<exists>c. installEvent c ns ns e) \<or> (\<exists>c. uninstallEvent c ns ns False False e)
     \<or> (case e of CoreEv (CreateNamespace n _) \<Rightarrow> n = ns | CoreEv (DeleteNamespace n _) \<Rightarrow> n = ns | _ \<Rightarrow> False)"

lemma vclusterEvent_intros:
  "connectEvent e \<Longrightarrow> vclusterEvent ns e" "installEvent c ns ns e \<Longrightarrow> vclusterEvent ns e"
  "uninstallEvent c ns ns False False e \<Longrightarrow> vclusterEvent ns e"
  by (auto simp: vclusterEvent_def)

lemma installVCluster_events: "keeps (emits (vclusterEvent (getVClusterNamespace w))) (installVCluster lib E w)"
  unfolding installVCluster_def createNamespace_def vclusterRelease_def getVClusterNamespace_def
  by (intro keeps_io keeps_emits_mono [OF NewHelmService_reads vclusterEvent_intros(1)]
      keeps_emits_mono [OF InstallFromRepository_emits vclusterEvent_intros(2)])
    (auto simp: vclusterEvent_def)

lemma uninstallVCluster_events: "keeps (emits (vclusterEvent (getVClusterNamespace w))) (uninstallVCluster E w)"
  unfolding uninstallVCluster_def deleteNamespace_def vclusterRelease_def getVClusterNamespace_def
  by (intro keeps_io keeps_emits_mono [OF NewHelmService_reads vclusterEvent_intros(1)]
      keeps_emits_mono [OF UninstallRelease_emits vclusterEvent_intros(3)])
    (auto simp: vclusterEvent_def)

end
