(* ===== verification/WorkspaceController.thy ===== *)
theory WorkspaceController
  imports WorkspaceFork CronManager VCluster
begin

text \<open>
  The workspace controller (\<open>src/internal/controller/workspace_controller.go\<close>): one reconciliation reads the
  workspace and, by its phase, sets it up (with its virtual cluster and its fork), puts its modules to
  sleep or resumes them, schedules the cron jobs, or deletes it with its modules. A reconciliation is one
  run of \<open>WorkspaceReconcile\<close>.
\<close>

section \<open>Status and finalizer\<close>

definition ensureWorkspaceFinalizer :: "env \<Rightarrow> Workspace \<Rightarrow> (go_error option \<times> Workspace) io" where
  "ensureWorkspaceFinalizer E = retryOnConflict (e_retries E) (\<lambda>w.
     andThen (getWorkspace E (workspaceKey w)) (\<lambda>r. case r of
         Inl err \<Rightarrow> ret (Some err, w)
       | Inr w' \<Rightarrow>
           if deleteFinalizer \<in> set (meta_Finalizers (ws_Meta w')) then ret (None, w')
           else (let w'' = w'\<lparr>ws_Meta := addFinalizer deleteFinalizer (ws_Meta w')\<rparr> in
                 andThen (updateWorkspace E w'') (\<lambda>u. ret (replaced w'' u)))))"

definition dropWorkspaceFinalizer :: "env \<Rightarrow> Workspace \<Rightarrow> (go_error option \<times> Workspace) io" where
  "dropWorkspaceFinalizer E = retryOnConflict (e_retries E) (\<lambda>w.
     andThen (getWorkspace E (workspaceKey w)) (\<lambda>r. case r of
         Inl err \<Rightarrow> ret (Some err, w)
       | Inr w' \<Rightarrow>
           if deleteFinalizer \<notin> set (meta_Finalizers (ws_Meta w')) then ret (None, w')
           else (let w'' = w'\<lparr>ws_Meta := removeFinalizer deleteFinalizer (ws_Meta w')\<rparr> in
                 andThen (updateWorkspace E w'') (\<lambda>u. ret (replaced w'' u)))))"

text \<open>The body that the four \<open>setPhase\<close> functions share: read the workspace, replace its status, write it.\<close>

definition writeStatus :: "env \<Rightarrow> WorkspaceStatus io \<Rightarrow> Workspace \<Rightarrow> (go_error option \<times> Workspace) io" where
  "writeStatus E newStatus = retryOnConflict (e_retries E) (\<lambda>w.
     andThen (getWorkspace E (workspaceKey w)) (\<lambda>r. case r of
         Inl err \<Rightarrow> ret (Some err, w)
       | Inr w' \<Rightarrow> andThen newStatus (\<lambda>st.
           let w'' = w'\<lparr>ws_Status := st\<rparr> in
           andThen (statusUpdateWorkspace E w'') (\<lambda>u. ret (replaced w'' u)))))"

definition phaseStatus :: "env \<Rightarrow> WorkspacePhase \<Rightarrow> bool \<Rightarrow> string option \<Rightarrow> WorkspaceStatus io" where
  "phaseStatus E phase ready message = andThen (now E) (\<lambda>t.
     ret \<lparr>wst_Conditions = [], wst_Phase = phase, wst_Ready = ready, wst_LastActivity = Some t,
       wst_HibernatedAt = None, wst_Message = message\<rparr>)"

definition setPhaseReady :: "env \<Rightarrow> string option \<Rightarrow> Workspace \<Rightarrow> (go_error option \<times> Workspace) io" where
  "setPhaseReady E message = writeStatus E (phaseStatus E WorkspacePhaseReady True message)"

definition setPhaseFailed :: "env \<Rightarrow> string option \<Rightarrow> Workspace \<Rightarrow> (go_error option \<times> Workspace) io" where
  "setPhaseFailed E message = writeStatus E (phaseStatus E WorkspacePhaseFailed False message)"

definition setPhaseInstalling :: "env \<Rightarrow> string option \<Rightarrow> Workspace \<Rightarrow> (go_error option \<times> Workspace) io" where
  "setPhaseInstalling E message = writeStatus E (phaseStatus E WorkspacePhaseInstalling False message)"

definition setPhaseHibernated :: "env \<Rightarrow> string option \<Rightarrow> Workspace \<Rightarrow> (go_error option \<times> Workspace) io" where
  "setPhaseHibernated E message = writeStatus E (
     andThen (now E) (\<lambda>t. andThen (now E) (\<lambda>t'.
     ret \<lparr>wst_Conditions = [], wst_Phase = WorkspacePhaseHibernated, wst_Ready = True, wst_LastActivity = Some t,
       wst_HibernatedAt = Some t', wst_Message = message\<rparr>)))"

definition recordWorkspace :: "Workspace \<Rightarrow> string \<Rightarrow> string \<Rightarrow> string \<Rightarrow> unit io" where
  "recordWorkspace w typ reason msg = recordEvent ''Workspace'' (workspaceKey w) typ reason msg"

section \<open>Sleeping and resuming the modules\<close>

text \<open>One module of the loop; a failed patch is only logged.\<close>

definition patchHibernated :: "env \<Rightarrow> bool \<Rightarrow> Module \<Rightarrow> unit io" where
  "patchHibernated E b m = (if \<not> ms_Hibernated (mod_Spec m)
     then andThen (patchModule E m (withHibernated b m)) (\<lambda>_. ret ()) else ret ())"

definition sleepModules :: "env \<Rightarrow> Workspace \<Rightarrow> (go_error option) io" where
  "sleepModules E w = (if wst_HibernatedAt (ws_Status w) \<noteq> None then ret None
     else andThen (getRelatedModules E (meta_Namespace (ws_Meta w)) (meta_Name (ws_Meta w))) (\<lambda>r. case r of
         Inl err \<Rightarrow> ret (Some err)
       | Inr modules \<Rightarrow> andThen (forEach (patchHibernated E True) modules) (\<lambda>_. ret None)))"

definition resumeModules :: "env \<Rightarrow> Workspace \<Rightarrow> (go_error option) io" where
  "resumeModules E w = (if wst_HibernatedAt (ws_Status w) = None then ret None
     else andThen (getRelatedModules E (meta_Namespace (ws_Meta w)) (meta_Name (ws_Meta w))) (\<lambda>r. case r of
         Inl err \<Rightarrow> ret (Some err)
       | Inr modules \<Rightarrow> andThen (forEach (patchHibernated E False) modules) (\<lambda>_. ret None)))"

definition handleHibernation :: "env \<Rightarrow> Workspace \<Rightarrow> ((Result \<times> go_error option) \<times> Workspace) io" where
  "handleHibernation E w =
     (if wst_HibernatedAt (ws_Status w) = None \<and> wss_Hibernated (ws_Spec w)
      then andThen (sleepModules E w) (\<lambda>err. case err of
          Some e \<Rightarrow> andThen (setPhaseFailed E
              (Some ''Workspace hibernation failed. Check events for more information.'') w) (\<lambda>(e1, w1). case e1 of
              Some err1 \<Rightarrow> ret ((noRequeue, Some err1), w1)
            | None \<Rightarrow> andThen (recordWorkspace w1 ''Warning'' ''HibernateError''
                (''Workspace hibernation failed: '' @ errString e)) (\<lambda>_. ret ((noRequeue, err), w1)))
        | None \<Rightarrow> andThen (setPhaseHibernated E None w) (\<lambda>(e1, w1). ret ((noRequeue, e1), w1)))
      else if wst_HibernatedAt (ws_Status w) \<noteq> None \<and> \<not> wss_Hibernated (ws_Spec w)
      then andThen (resumeModules E w) (\<lambda>err. case err of
          Some e \<Rightarrow> andThen (setPhaseFailed E
              (Some ''Workspace resume failed. Check events for more information.'') w) (\<lambda>(e1, w1). case e1 of
              Some err1 \<Rightarrow> ret ((noRequeue, Some err1), w1)
            | None \<Rightarrow> andThen (recordWorkspace w1 ''Warning'' ''HibernateError''
                (''Workspace hibernation failed: '' @ errString e)) (\<lambda>_. ret ((noRequeue, err), w1)))
        | None \<Rightarrow> andThen (setPhaseReady E None w) (\<lambda>(e1, w1). ret ((noRequeue, e1), w1)))
      else ret ((noRequeue, None), w))"

section \<open>Schedules\<close>

definition addLogged :: "Workspace \<Rightarrow> string \<Rightarrow> (go_error option) io \<Rightarrow> unit io" where
  "addLogged w msg add = andThen add (\<lambda>e. case e of
       None \<Rightarrow> ret ()
     | Some err \<Rightarrow> recordWorkspace w ''Warning'' ''HibernationCron'' (msg @ '': '' @ errString err))"

definition handleAutoHibernation :: "golib \<Rightarrow> env \<Rightarrow> Workspace \<Rightarrow> Result io" where
  "handleAutoHibernation lib E w =
     andThen (case wss_AutoHibernation (ws_Spec w) of
         None \<Rightarrow> ret ()
       | Some ah \<Rightarrow>
           if ah_Enabled ah
           then andThen (addLogged w ''Failed to add auto-hibernation schedule'' (addSleepCron lib E w True)) (\<lambda>_.
                if ah_WakeSchedule ah \<noteq> None
                then addLogged w ''Failed to add auto-resume schedule'' (addResumeCron lib E w True)
                else removeResumeCron (meta_UID (ws_Meta w)))
           else andThen (removeSleepCron (meta_UID (ws_Meta w))) (\<lambda>_. removeResumeCron (meta_UID (ws_Meta w))))
     (\<lambda>_. ret noRequeue)"

text \<open>A specification without \<open>autoHibernation\<close> changes no schedule: the ones registered before go on.\<close>

lemma removed_schedule_goes_on: "wss_AutoHibernation (ws_Spec w) = None \<Longrightarrow> handleAutoHibernation lib E w s = (Ret noRequeue, s)"
  by (simp add: handleAutoHibernation_def)

section \<open>A new workspace\<close>

text \<open>The fork at the end of the set-up; the reasons and messages differ in the two places it stands.\<close>

definition forkFrom ::
  "env \<Rightarrow> string \<Rightarrow> string \<Rightarrow> string \<Rightarrow> Workspace \<Rightarrow> ((Result \<times> go_error option) \<times> Workspace) io" where
  "forkFrom E reason msg failed w = (case wss_From (ws_Spec w) of
       None \<Rightarrow> ret ((noRequeue, None), w)
     | Some from \<Rightarrow>
         andThen (getWorkspace E \<lparr>nn_Namespace = from_Namespace from, nn_Name = from_Name from\<rparr>) (\<lambda>r. case r of
             Inl err \<Rightarrow>
               andThen (recordWorkspace w ''Warning'' reason (msg @ '' to get source workspace ''
                 @ from_Namespace from @ ''/'' @ from_Name from @ '': '' @ errString err)) (\<lambda>_.
               andThen (setPhaseFailed E (Some failed) w) (\<lambda>(e1, w1). case e1 of
                   Some err1 \<Rightarrow> ret ((noRequeue, Some err1), w1)
                 | None \<Rightarrow> ret ((noRequeue, Some (Wrapped (''failed to get source workspace ''
                     @ from_Namespace from @ ''/'' @ from_Name from) err)), w1)))
           | Inr fromWorkspace \<Rightarrow>
               andThen (forkWorkspace E fromWorkspace w) (\<lambda>e. case e of
                   Some err \<Rightarrow> ret ((requeueAfter (seconds 5), None), w)
                 | None \<Rightarrow> ret ((noRequeue, None), w))))"

definition setUpManaged :: "golib \<Rightarrow> env \<Rightarrow> Workspace \<Rightarrow> ((Result \<times> go_error option) \<times> Workspace) io" where
  "setUpManaged lib E w =
     andThen (setPhaseInstalling E (Some ''Installing virtual cluster'') w) (\<lambda>(e1, w1). case e1 of
         Some err \<Rightarrow> ret ((noRequeue, Some err), w1)
       | None \<Rightarrow> andThen (installVCluster lib E w1) (\<lambda>e2. case e2 of
           Some err \<Rightarrow>
             andThen (recordWorkspace w1 ''Warning'' ''VirtualClusterInstallError''
               (''Failed to install virtual cluster: '' @ errString err)) (\<lambda>_.
             andThen (setPhaseFailed E
               (Some ''Failed to install virtual cluster. Check events for more information.'') w1) (\<lambda>(e3, w3). case e3 of
                 Some err3 \<Rightarrow> ret ((noRequeue, Some err3), w3)
               | None \<Rightarrow> ret ((noRequeue, Some err), w3)))
         | None \<Rightarrow>
             andThen (recordWorkspace w1 ''Normal'' ''VirtualClusterInstalled''
               ''Successfully installed virtual cluster for managed workspace'') (\<lambda>_.
             andThen (setPhaseReady E None w1) (\<lambda>(e3, w3). case e3 of
                 Some err3 \<Rightarrow> ret ((noRequeue, Some err3), w3)
               | None \<Rightarrow> forkFrom E ''ForkError'' ''Failed''
                   ''Failed to fork workspace. Check events for more information.'' w3))))"

definition handleEmptyPhase :: "golib \<Rightarrow> env \<Rightarrow> Workspace \<Rightarrow> ((Result \<times> go_error option) \<times> Workspace) io" where
  "handleEmptyPhase lib E w = andThen (ensureWorkspaceFinalizer E w) (\<lambda>(e1, w1). case e1 of
       Some err \<Rightarrow> ret ((noRequeue, Some err), w1)
     | None \<Rightarrow>
         if wss_Type (ws_Spec w1) = WorkspaceTypeManaged then setUpManaged lib E w1
         else if wss_Hibernated (ws_Spec w1)
         then andThen (setPhaseHibernated E None w1) (\<lambda>(e2, w2). ret ((noRequeue, e2), w2))
         else andThen (setPhaseReady E None w1) (\<lambda>(e2, w2). case e2 of
             Some err \<Rightarrow> ret ((noRequeue, Some err), w2)
           | None \<Rightarrow> forkFrom E ''Start'' ''failed''
               ''Failed to start workspace. Check events for more information.'' w2))"

section \<open>Deletion\<close>

text \<open>The wait for a module to be gone, until the deadline; \<open>n\<close> bounds the polls.\<close>

fun waitModuleDeleted :: "env \<Rightarrow> nat \<Rightarrow> time \<Rightarrow> Module \<Rightarrow> (bool \<times> Module) io" where
  "waitModuleDeleted E 0 deadline m = hang ''waiting for the deletion of a module''"
| "waitModuleDeleted E (Suc n) deadline m = andThen (now E) (\<lambda>t.
     if t < deadline
     then andThen (getModule E (moduleKey m)) (\<lambda>r. case r of
         Inl err \<Rightarrow>
           if isNotFound err then ret (True, m)
           else andThen (sleep (seconds 2)) (\<lambda>_. waitModuleDeleted E n deadline m)
       | Inr m' \<Rightarrow> andThen (sleep (seconds 2)) (\<lambda>_. waitModuleDeleted E n deadline m'))
     else ret (False, m))"

definition deleteModuleAndWait :: "env \<Rightarrow> Workspace \<Rightarrow> Module \<Rightarrow> unit io" where
  "deleteModuleAndWait E w m = andThen (deleteModule E (moduleKey m)) (\<lambda>e. case e of
       Some err \<Rightarrow> ret ()
     | None \<Rightarrow> andThen (now E) (\<lambda>t.
         andThen (waitModuleDeleted E (e_polls E) (t + seconds 60) m) (\<lambda>(deleted, m').
         if deleted then ret ()
         else recordWorkspace w ''Warning'' ''ModuleDeletionTimeout'' (''Module '' @ meta_Namespace (mod_Meta m') @ ''/''
           @ meta_Name (mod_Meta m') @ '' deletion timed out. Manual cleanup may be required.''))))"

definition cleanUpManaged :: "env \<Rightarrow> Workspace \<Rightarrow> unit io" where
  "cleanUpManaged E w = andThen (uninstallVCluster E w) (\<lambda>e. case e of
       Some err \<Rightarrow> recordWorkspace w ''Warning'' ''VClusterUninstallError'' (''Failed to uninstall vcluster: '' @ errString err)
     | None \<Rightarrow> recordWorkspace w ''Normal'' ''VClusterUninstalled'' ''Successfully uninstalled vcluster for managed workspace'')"

text \<open>The schedules and the modules; the error is that of the list.\<close>

definition deleteModules :: "env \<Rightarrow> Workspace \<Rightarrow> (go_error option) io" where
  "deleteModules E w = andThen (getRelatedModules E (meta_Namespace (ws_Meta w)) (meta_Name (ws_Meta w))) (\<lambda>r. case r of
       Inl err \<Rightarrow> ret (Some err)
     | Inr modules \<Rightarrow>
         andThen (removeSleepCron (meta_UID (ws_Meta w))) (\<lambda>_.
         andThen (removeResumeCron (meta_UID (ws_Meta w))) (\<lambda>_.
         andThen (forEach (deleteModuleAndWait E w) modules) (\<lambda>_. ret None))))"

definition handleDeletion :: "env \<Rightarrow> Workspace \<Rightarrow> (Result \<times> go_error option) io" where
  "handleDeletion E w =
     (if wsPhase w \<notin> {WorkspacePhaseReady, WorkspacePhaseHibernated, WorkspacePhaseFailed}
      then ret (requeueAfter (seconds 2), None)
      else andThen (deleteModules E w) (\<lambda>e. case e of
          Some err \<Rightarrow> ret (noRequeue, Some err)
        | None \<Rightarrow>
            andThen (if wss_Type (ws_Spec w) = WorkspaceTypeManaged then cleanUpManaged E w else ret ()) (\<lambda>_.
            andThen (dropWorkspaceFinalizer E w) (\<lambda>(e, w'). ret (noRequeue, e)))))"

section \<open>Reconciliation\<close>

text \<open>After the set-up or the hibernation: an error is returned, otherwise the schedules are updated and their
  result is returned instead.\<close>

definition scheduleAfter ::
  "golib \<Rightarrow> env \<Rightarrow> (Result \<times> go_error option) \<times> Workspace \<Rightarrow> (Result \<times> go_error option) io" where
  "scheduleAfter lib E x = (case snd (fst x) of
       Some e \<Rightarrow> ret (fst (fst x), Some e)
     | None \<Rightarrow> andThen (handleAutoHibernation lib E (snd x)) (\<lambda>r. ret (r, None)))"

definition workspaceSwitch :: "golib \<Rightarrow> env \<Rightarrow> Workspace \<Rightarrow> (Result \<times> go_error option) io" where
  "workspaceSwitch lib E w =
     (if meta_DeletionTimestamp (ws_Meta w) \<noteq> None then handleDeletion E w
      else if wsPhase w = WorkspacePhaseEmpty
      then andThen (handleEmptyPhase lib E w) (scheduleAfter lib E)
      else if wsPhase w \<in> {WorkspacePhaseReady, WorkspacePhaseHibernated}
      then andThen (handleHibernation E w) (scheduleAfter lib E)
      else if wsPhase w = WorkspacePhaseInstalling then ret (requeueAfter (seconds 5), None)
      else ret (noRequeue, None))"

definition WorkspaceReconcile :: "golib \<Rightarrow> env \<Rightarrow> NamespacedName \<Rightarrow> (Result \<times> go_error option) io" where
  "WorkspaceReconcile lib E req = andThen (getWorkspace E req) (\<lambda>r. case r of
       Inl err \<Rightarrow> if isNotFound err then ret (noRequeue, None) else ret (noRequeue, Some err)
     | Inr w \<Rightarrow> workspaceSwitch lib E w)"

section \<open>What sleeping and resuming send\<close>

fun patchOf :: "event \<Rightarrow> (Module \<times> Module) option" where
  "patchOf (ModuleEv (PatchM base m _)) = Some (base, m)"
| "patchOf _ = None"

lemma patch_all:
  "\<exists>es. forEach (patchHibernated E b) ms s = (Ret (), s\<lparr>trace := trace s @ es\<rparr>)
     \<and> List.map_filter patchOf es = map (\<lambda>m. (m, withHibernated b m)) (filter (\<lambda>m. \<not> ms_Hibernated (mod_Spec m)) ms)"
proof (induction ms arbitrary: s)
  case Nil
  show ?case by (intro exI [of _ "[]"]) (simp add: map_filter_simps)
next
  case (Cons m ms)
  let ?ev = "ModuleEv (PatchM m (withHibernated b m) (e_patchModule E (trace s) m (withHibernated b m)))"
  show ?case
  proof (cases "ms_Hibernated (mod_Spec m)")
    case True
    then have "patchHibernated E b m s = (Ret (), s)" by (simp add: patchHibernated_def)
    with Cons [of s] True show ?thesis by simp
  next
    case False
    obtain es where "forEach (patchHibernated E b) ms (s\<lparr>trace := trace s @ [?ev]\<rparr>) = (Ret (), s\<lparr>trace := trace s @ [?ev] @ es\<rparr>)"
      "List.map_filter patchOf es = map (\<lambda>m. (m, withHibernated b m)) (filter (\<lambda>m. \<not> ms_Hibernated (mod_Spec m)) ms)"
      using Cons [of "s\<lparr>trace := trace s @ [?ev]\<rparr>"] by auto
    moreover have "patchHibernated E b m s = (Ret (), s\<lparr>trace := trace s @ [?ev]\<rparr>)"
      using False by (simp add: patchHibernated_def patchModule_def)
    ultimately show ?thesis
      using False by (intro exI [of _ "?ev # es"]) (simp add: map_filter_simps)
  qed
qed

text \<open>sleeping a workspace asks every module to hibernate. With the list of its modules, \<open>sleepModules\<close>
  sends one patch per module that is not hibernated yet, in the order of the list, each setting
  \<open>spec.hibernated\<close>, and returns no error, whatever the patches answer.\<close>

theorem sleepModules_patches_all:
  assumes "wst_HibernatedAt (ws_Status w) = None"
    and "e_listModules E (trace s) (meta_Namespace (ws_Meta w)) (meta_Name (ws_Meta w)) = Inr ms"
  shows "\<exists>es. sleepModules E w s = (Ret None, s\<lparr>trace := trace s @ es\<rparr>) \<and>
    List.map_filter patchOf es = map (\<lambda>m. (m, withHibernated True m)) (filter (\<lambda>m. \<not> ms_Hibernated (mod_Spec m)) ms)"
proof -
  let ?ev = "ModuleEv (ListM (meta_Namespace (ws_Meta w)) (meta_Name (ws_Meta w)) (Inr ms))"
  obtain es where "forEach (patchHibernated E True) ms (s\<lparr>trace := trace s @ [?ev]\<rparr>) = (Ret (), s\<lparr>trace := trace s @ [?ev] @ es\<rparr>)"
    "List.map_filter patchOf es = map (\<lambda>m. (m, withHibernated True m)) (filter (\<lambda>m. \<not> ms_Hibernated (mod_Spec m)) ms)"
    using patch_all [of E True ms "s\<lparr>trace := trace s @ [?ev]\<rparr>"] by auto
  with assms show ?thesis
    by (intro exI [of _ "?ev # es"])
      (simp add: sleepModules_def getRelatedModules_def listModules_def andThen_run map_filter_simps)
qed

text \<open>C37: resuming a workspace wakes no module. \<open>resumeModules\<close> looks at the modules that are not hibernated,
  so every patch it sends changes nothing, and a module that sleeps gets no patch at all.\<close>

theorem resumeModules_wakes_nothing:
  assumes "resumeModules E w s = (r, t)"
  shows "\<exists>es. trace t = trace s @ es \<and> (\<forall>(base, m) \<in> set (List.map_filter patchOf es). m = base \<and> \<not> ms_Hibernated (mod_Spec base))"
proof (cases "wst_HibernatedAt (ws_Status w) = None")
  case True
  with assms show ?thesis by (auto simp: resumeModules_def map_filter_simps intro!: exI [of _ "[]"])
next
  case False
  let ?ns = "meta_Namespace (ws_Meta w)" and ?n = "meta_Name (ws_Meta w)"
  let ?ev = "ModuleEv (ListM ?ns ?n (e_listModules E (trace s) ?ns ?n))"
  show ?thesis
  proof (cases "e_listModules E (trace s) ?ns ?n")
    case (Inl err)
    with False assms show ?thesis
      by (auto simp: resumeModules_def getRelatedModules_def listModules_def andThen_run map_filter_simps intro!: exI [of _ "[?ev]"])
  next
    case (Inr ms)
    let ?ev = "ModuleEv (ListM ?ns ?n (Inr ms))"
    obtain es where run: "forEach (patchHibernated E False) ms (s\<lparr>trace := trace s @ [?ev]\<rparr>) = (Ret (), s\<lparr>trace := trace s @ [?ev] @ es\<rparr>)"
      and es: "List.map_filter patchOf es = map (\<lambda>m. (m, withHibernated False m)) (filter (\<lambda>m. \<not> ms_Hibernated (mod_Spec m)) ms)"
      using patch_all [of E False ms "s\<lparr>trace := trace s @ [?ev]\<rparr>"] by auto
    have same: "withHibernated False m = m" if "\<not> ms_Hibernated (mod_Spec m)" for m
      using that by (simp add: withHibernated_def)
    have "trace t = trace s @ ?ev # es"
      using assms False Inr run by (auto simp: resumeModules_def getRelatedModules_def listModules_def andThen_run)
    with es same show ?thesis
      by (intro exI [of _ "?ev # es"]) (auto simp: map_filter_simps)
  qed
qed

section \<open>The phases of a workspace\<close>

fun wsWritten :: "event \<Rightarrow> WorkspacePhase option" where
  "wsWritten (WorkspaceEv (StatusUpdateW w (Inr _))) = Some (wsPhase w)"
| "wsWritten _ = None"

fun wsStep :: "WorkspacePhase \<Rightarrow> WorkspacePhase \<Rightarrow> bool" where
  "wsStep WorkspacePhaseEmpty q = (q = WorkspacePhaseInstalling \<or> q = WorkspacePhaseReady \<or> q = WorkspacePhaseHibernated)"
| "wsStep WorkspacePhaseInstalling q = (q = WorkspacePhaseReady \<or> q = WorkspacePhaseFailed)"
| "wsStep WorkspacePhaseReady q = (q = WorkspacePhaseHibernated \<or> q = WorkspacePhaseFailed)"
| "wsStep WorkspacePhaseHibernated q = (q = WorkspacePhaseReady \<or> q = WorkspacePhaseFailed)"
| "wsStep _ q = False"

interpretation wsPhases: phase_machine wsWritten wsStep .

text \<open>A status that agrees with itself: hibernated exactly in the phase of that name, ready exactly in the two
  phases in which modules may be worked on.\<close>

definition coherent :: "WorkspaceStatus \<Rightarrow> bool" where
  "coherent st \<longleftrightarrow> (wst_HibernatedAt st \<noteq> None \<longleftrightarrow> wst_Phase st = WorkspacePhaseHibernated)
     \<and> (wst_Ready st \<longleftrightarrow> wst_Phase st \<in> {WorkspacePhaseReady, WorkspacePhaseHibernated})"

text \<open>What a status write may be.\<close>

fun wsWrite :: "(WorkspaceStatus \<Rightarrow> bool) \<Rightarrow> event \<Rightarrow> bool" where
  "wsWrite P (WorkspaceEv (StatusUpdateW w _)) = P (ws_Status w)"
| "wsWrite P _ = True"

lemma writeStatus_moves:
  assumes "obeys (\<lambda>e. wsWritten e = None) newStatus (\<lambda>st. wst_Phase st = phase)" and "wsStep p phase"
  shows "wsPhases.moves p (writeStatus E newStatus w) (wsPhases.onOk p (\<lambda>_ q. q = phase))"
  unfolding writeStatus_def
proof (rule wsPhases.moves_retry)
  fix w
  have get: "wsPhases.moves p (getWorkspace E k) (\<lambda>_ q. q = p)" for k
    unfolding getWorkspace_def by (rule wsPhases.moves_call) simp
  have st: "wsPhases.moves p newStatus (\<lambda>st q. q = p \<and> wst_Phase st = phase)"
    unfolding wsPhases.moves_def
    using wsPhases.movesD [OF wsPhases.moves_quiet [OF obeys_keeps [OF assms(1) [folded wsPhases.quiet_def]]], of _ _ _ p]
      obeysD [OF assms(1)] by fast
  have upd: "wsPhases.moves p (statusUpdateWorkspace E w'') (\<lambda>r q. case r of Inl _ \<Rightarrow> q = p | Inr _ \<Rightarrow> q = phase)"
    if "wsPhase w'' = phase" for w''
    unfolding statusUpdateWorkspace_def
    by (rule wsPhases.moves_call) (use that assms(2) in \<open>auto split: sum.split\<close>)
  have body: "wsPhases.moves p (andThen newStatus (\<lambda>st. let w'' = w'\<lparr>ws_Status := st\<rparr> in
      andThen (statusUpdateWorkspace E w'') (\<lambda>u. ret (replaced w'' u)))) (wsPhases.onOk p (\<lambda>_ q. q = phase))" for w'
    unfolding Let_def
    by (rule wsPhases.moves_andThen [OF st], elim conjE, hypsubst, rule wsPhases.moves_andThen [OF upd])
      (auto simp: replaced_def intro!: wsPhases.moves_ret split: sum.splits)
  show "wsPhases.moves p (andThen (getWorkspace E (workspaceKey w)) (\<lambda>r. case r of
         Inl err \<Rightarrow> ret (Some err, w)
       | Inr w' \<Rightarrow> andThen newStatus (\<lambda>st. let w'' = w'\<lparr>ws_Status := st\<rparr> in
           andThen (statusUpdateWorkspace E w'') (\<lambda>u. ret (replaced w'' u))))) (wsPhases.onOk p (\<lambda>_ q. q = phase))"
    by (rule wsPhases.moves_after [OF get])
      (auto simp del: ret_run intro: wsPhases.moves_ret body split: sum.split)
qed

lemma phaseStatus_obeys:
  "obeys (\<lambda>e. wsWritten e = None) (phaseStatus E phase ready message)
     (\<lambda>st. wst_Phase st = phase \<and> wst_Ready st = ready \<and> wst_HibernatedAt st = None)"
  unfolding phaseStatus_def
  by (intro obeys_andThen [OF keeps_obeys] obeys_ret) (auto simp: now_def intro: keeps_call)

lemmas set_moves = writeStatus_moves [OF obeys_weaken [OF phaseStatus_obeys]]

lemma wsSetPhase_moves:
  "wsStep p WorkspacePhaseReady \<Longrightarrow>
     wsPhases.moves p (setPhaseReady E msg w) (wsPhases.onOk p (\<lambda>_ q. q = WorkspacePhaseReady))"
  "wsStep p WorkspacePhaseFailed \<Longrightarrow>
     wsPhases.moves p (setPhaseFailed E msg w) (wsPhases.onOk p (\<lambda>_ q. q = WorkspacePhaseFailed))"
  "wsStep p WorkspacePhaseInstalling \<Longrightarrow>
     wsPhases.moves p (setPhaseInstalling E msg w) (wsPhases.onOk p (\<lambda>_ q. q = WorkspacePhaseInstalling))"
  "wsStep p WorkspacePhaseHibernated \<Longrightarrow>
     wsPhases.moves p (setPhaseHibernated E msg w) (wsPhases.onOk p (\<lambda>_ q. q = WorkspacePhaseHibernated))"
proof -
  show "wsStep p WorkspacePhaseReady \<Longrightarrow>
     wsPhases.moves p (setPhaseReady E msg w) (wsPhases.onOk p (\<lambda>_ q. q = WorkspacePhaseReady))"
    unfolding setPhaseReady_def by (rule set_moves) simp_all
  show "wsStep p WorkspacePhaseFailed \<Longrightarrow>
     wsPhases.moves p (setPhaseFailed E msg w) (wsPhases.onOk p (\<lambda>_ q. q = WorkspacePhaseFailed))"
    unfolding setPhaseFailed_def by (rule set_moves) simp_all
  show "wsStep p WorkspacePhaseInstalling \<Longrightarrow>
     wsPhases.moves p (setPhaseInstalling E msg w) (wsPhases.onOk p (\<lambda>_ q. q = WorkspacePhaseInstalling))"
    unfolding setPhaseInstalling_def by (rule set_moves) simp_all
  show "wsStep p WorkspacePhaseHibernated \<Longrightarrow>
     wsPhases.moves p (setPhaseHibernated E msg w) (wsPhases.onOk p (\<lambda>_ q. q = WorkspacePhaseHibernated))"
    unfolding setPhaseHibernated_def
    by (rule writeStatus_moves)
      (intro obeys_andThen [OF keeps_obeys] obeys_ret, auto simp: now_def intro: keeps_call)
qed

text \<open>Setting a phase and looking at the error, and setting the last phase of a handler.\<close>

lemma set_check:
  assumes "wsPhases.moves p m (wsPhases.onOk p (\<lambda>_ q. q = phase))"
    and "\<And>err w'. wsPhases.moves p (f err w') R" and "\<And>w'. wsPhases.moves phase (g w') R"
  shows "wsPhases.moves p (andThen m (\<lambda>(e, w'). case e of None \<Rightarrow> g w' | Some err \<Rightarrow> f err w')) R"
  by (rule wsPhases.moves_check [OF assms(1)]) (auto simp: assms)

lemma set_last:
  assumes "wsPhases.moves p m (wsPhases.onOk p (\<lambda>_ q. q = phase))"
  shows "wsPhases.moves p (andThen m (\<lambda>(e, w'). ret (g e w'))) (\<lambda>_ _. True)"
  by (intro wsPhases.moves_andThen [OF assms] wsPhases.moves_case_prod wsPhases.moves_any)

section \<open>Parts that write no phase\<close>

text \<open>The events of the parts around the status writes, by what they are for.\<close>

fun cronEvent :: "event \<Rightarrow> bool" where
  "cronEvent (CronEv _ _) = True"
| "cronEvent (CoreEv (Clock _)) = True"
| "cronEvent (RecordEv _ _ _ _ _) = True"
| "cronEvent _ = False"

lemma keeps_withLock:
  assumes "keeps (emits cronEvent) body"
  shows "keeps (emits cronEvent) (withLock kind body)"
proof (rule keepsI)
  fix s
  have "emits cronEvent (setLocked kind True s) (snd (body (setLocked kind True s)))"
    using assms by (simp add: keeps_def)
  then show "emits cronEvent s (snd (withLock kind body s))"
    by (auto simp: withLock_def emits_def split: prod.split outcome.split)
qed

lemma keeps_manager: "keeps (emits cronEvent) (lookupEntry kind uid)" "keeps (emits cronEvent) (setEntry kind uid x)"
  by (auto simp: keeps_def emits_def lookupEntry_def setEntry_def)

lemma removeCron_cron: "keeps (emits cronEvent) (removeCron kind uid)"
  unfolding removeCron_def cronRemove_def emit_def
  by (intro keeps_withLock keeps_io keeps_manager) simp

lemma addCron_cron: "keeps (emits cronEvent) (addCron lib E kind w schedule override)"
  unfolding addCron_def registerCron_def cronEntry_def cronAddFunc_def now_def
  by (intro keeps_withLock keeps_io keeps_manager removeCron_cron) simp_all

lemma handleAutoHibernation_cron: "keeps (emits cronEvent) (handleAutoHibernation lib E w)"
  unfolding handleAutoHibernation_def addLogged_def addSleepCron_def addResumeCron_def removeSleepCron_def
    removeResumeCron_def recordWorkspace_def recordEvent_def emit_def
  by (intro keeps_io addCron_cron removeCron_cron) simp_all

lemma cronEvent_quiet: "cronEvent e \<Longrightarrow> wsPhases.quiet e"
  unfolding wsPhases.quiet_def by (cases e rule: cronEvent.cases) simp_all

lemma vclusterEvent_quiet: "vclusterEvent ns e \<Longrightarrow> wsPhases.quiet e"
  unfolding vclusterEvent_def wsPhases.quiet_def by (cases e rule: wsWritten.cases) auto

lemma handleAutoHibernation_quiet: "wsPhases.moves p (handleAutoHibernation lib E w) (\<lambda>_ q. q = p)"
  by (rule wsPhases.moves_quiet) (rule keeps_emits_mono [OF handleAutoHibernation_cron cronEvent_quiet])

lemma installVCluster_quiet: "wsPhases.moves p (installVCluster lib E w) (\<lambda>_ q. q = p)"
  by (rule wsPhases.moves_quiet) (rule keeps_emits_mono [OF installVCluster_events vclusterEvent_quiet])

lemmas quiet_parts = handleAutoHibernation_quiet installVCluster_quiet

lemma quiet_calls:
  "wsPhases.moves p (recordWorkspace w typ reason msg) (\<lambda>_ q. q = p)"
  "wsPhases.moves p (getWorkspace E k) (\<lambda>_ q. q = p)"
  unfolding recordWorkspace_def recordEvent_def emit_def getWorkspace_def
  by (intro wsPhases.moves_call; simp)+

lemma quiet_modules:
  "wsPhases.moves p (sleepModules E w) (\<lambda>_ q. q = p)" "wsPhases.moves p (resumeModules E w) (\<lambda>_ q. q = p)"
  "wsPhases.moves p (forkWorkspace E src dst) (\<lambda>_ q. q = p)" "wsPhases.moves p (ensureWorkspaceFinalizer E w) (\<lambda>_ q. q = p)"
  unfolding sleepModules_def resumeModules_def forkWorkspace_def ensureWorkspaceFinalizer_def patchHibernated_def
    getRelatedModules_def calls
  by (intro wsPhases.moves_quiet keeps_io; simp add: wsPhases.quiet_def)+

lemmas moves_after_parts = quiet_parts [THEN wsPhases.moves_after] quiet_calls [THEN wsPhases.moves_after]
  quiet_modules [THEN wsPhases.moves_after]

lemmas ws_rules = wsPhases.moves_if wsPhases.moves_case_option wsPhases.moves_case_prod wsPhases.moves_case_sum
  set_check [OF wsSetPhase_moves(1)] set_check [OF wsSetPhase_moves(2)] set_check [OF wsSetPhase_moves(3)]
  set_last [OF wsSetPhase_moves(1)] set_last [OF wsSetPhase_moves(4)] moves_after_parts wsPhases.moves_any

lemma forkFrom_moves: "wsPhases.moves WorkspacePhaseReady (forkFrom E reason msg failed w) (\<lambda>_ _. True)"
  unfolding forkFrom_def by (intro ws_rules) simp_all

lemma setUpManaged_moves: "wsPhases.moves WorkspacePhaseEmpty (setUpManaged lib E w) (\<lambda>_ _. True)"
  unfolding setUpManaged_def by (intro ws_rules forkFrom_moves) simp_all

lemma handleEmptyPhase_moves: "wsPhases.moves WorkspacePhaseEmpty (handleEmptyPhase lib E w) (\<lambda>_ _. True)"
  unfolding handleEmptyPhase_def by (intro ws_rules forkFrom_moves setUpManaged_moves) simp_all

lemma handleHibernation_moves:
  assumes "coherent (ws_Status w)" and "wsPhase w \<in> {WorkspacePhaseReady, WorkspacePhaseHibernated}"
  shows "wsPhases.moves (wsPhase w) (handleHibernation E w) (\<lambda>_ _. True)"
proof (cases "wst_HibernatedAt (ws_Status w)")
  case None
  with assms have "wsPhase w = WorkspacePhaseReady" by (auto simp: coherent_def)
  with None show ?thesis unfolding handleHibernation_def by (intro ws_rules) simp_all
next
  case (Some t)
  with assms have "wsPhase w = WorkspacePhaseHibernated" by (auto simp: coherent_def)
  with Some show ?thesis unfolding handleHibernation_def by (intro ws_rules) simp_all
qed

section \<open>Deletion in parts\<close>

text \<open>The events of the three parts of a deletion: the schedules and the modules, the virtual cluster, the
  finalizer.\<close>

fun modulesEvent :: "event \<Rightarrow> bool" where
  "modulesEvent (ModuleEv e) = (case e of ListM _ _ _ \<Rightarrow> True | GetM _ _ \<Rightarrow> True | DeleteM _ _ \<Rightarrow> True | _ \<Rightarrow> False)"
| "modulesEvent (CronEv _ _) = True"
| "modulesEvent (CoreEv (Clock _)) = True"
| "modulesEvent (CoreEv (Sleep _)) = True"
| "modulesEvent (RecordEv _ _ _ _ _) = True"
| "modulesEvent _ = False"

definition clusterEvent :: "string \<Rightarrow> event \<Rightarrow> bool" where
  "clusterEvent ns e \<longleftrightarrow> vclusterEvent ns e \<or> (\<exists>k n t r m. e = RecordEv k n t r m)"

fun finalizerEvent :: "event \<Rightarrow> bool" where
  "finalizerEvent (WorkspaceEv (GetW _ _)) = True"
| "finalizerEvent (WorkspaceEv (UpdateW _ _)) = True"
| "finalizerEvent _ = False"

lemma cronEvent_modules: "cronEvent e \<Longrightarrow> modulesEvent e"
  by (cases e rule: cronEvent.cases) simp_all

lemma waitModuleDeleted_events: "keeps (emits (\<lambda>e. modulesEvent e \<and> noCron e)) (waitModuleDeleted E n deadline m)"
proof (induction n arbitrary: m)
  case 0
  show ?case unfolding waitModuleDeleted.simps by (rule emits.keeps_hang)
next
  case (Suc n)
  show ?case unfolding waitModuleDeleted.simps calls by (intro keeps_io Suc) simp_all
qed

lemma deleteModuleAndWait_events: "keeps (emits (\<lambda>e. modulesEvent e \<and> noCron e)) (deleteModuleAndWait E w m)"
  unfolding deleteModuleAndWait_def recordWorkspace_def calls
  by (intro keeps_io waitModuleDeleted_events) simp_all

lemma cleanUpManaged_events: "keeps (emits (clusterEvent (getVClusterNamespace w))) (cleanUpManaged E w)"
proof -
  have un: "keeps (emits (clusterEvent (getVClusterNamespace w))) (uninstallVCluster E w)"
    by (rule keeps_emits_mono [OF uninstallVCluster_events]) (simp add: clusterEvent_def)
  show ?thesis
    unfolding cleanUpManaged_def recordWorkspace_def recordEvent_def emit_def
    by (intro keeps_io un) (simp_all add: clusterEvent_def)
qed

lemma dropWorkspaceFinalizer_events: "keeps (emits finalizerEvent) (dropWorkspaceFinalizer E w)"
  unfolding dropWorkspaceFinalizer_def calls by (intro keeps_io) simp_all

lemma deleteModules_events: "keeps (emits modulesEvent) (deleteModules E w)"
  unfolding deleteModules_def getRelatedModules_def listModules_def removeSleepCron_def removeResumeCron_def
  by (intro keeps_io keeps_emits_mono [OF deleteModuleAndWait_events] keeps_emits_mono [OF removeCron_cron cronEvent_modules])
    simp_all

lemma handleDeletion_seq:
  "keeps (emitsSeq [modulesEvent, clusterEvent (getVClusterNamespace w), finalizerEvent]) (handleDeletion E w)"
proof -
  let ?C = "clusterEvent (getVClusterNamespace w)"
  have err: "keeps (emitsSeq [?C, finalizerEvent]) (ret x)" for x :: "Result \<times> go_error option"
    by (intro keeps_seq_first emits.keeps_ret)
  have fin: "keeps (emitsSeq [finalizerEvent]) (andThen (dropWorkspaceFinalizer E w) (\<lambda>(e, w'). ret (noRequeue, e)))"
    by (intro keeps_seq_first keeps_io dropWorkspaceFinalizer_events)
  have rest: "keeps (emitsSeq [?C, finalizerEvent])
      (andThen (if wss_Type (ws_Spec w) = WorkspaceTypeManaged then cleanUpManaged E w else ret ()) (\<lambda>_.
       andThen (dropWorkspaceFinalizer E w) (\<lambda>(e, w'). ret (noRequeue, e))))"
    by (intro keeps_seq_next fin keeps_if cleanUpManaged_events emits.keeps_ret)
  show ?thesis
    unfolding handleDeletion_def
    by (intro keeps_if keeps_seq_next deleteModules_events keeps_case_option err rest)
      (intro keeps_seq_first emits.keeps_ret)
qed

text \<open>C2: a workspace is deleted in order. Whatever the calls answer and however the run ends, the events of
  \<open>handleDeletion\<close> come in three parts: first the schedules are removed and the modules deleted and awaited;
  then only the virtual cluster of this workspace is touched; and last only the workspace itself is read
  and updated. No module is deleted after the virtual cluster was touched, and the finalizer goes last.\<close>

theorem workspace_deletion_ordered:
  assumes "handleDeletion E w s = (r, t)"
  shows "\<exists>modules cluster fin. trace t = trace s @ modules @ cluster @ fin \<and> list_all modulesEvent modules
    \<and> list_all (clusterEvent (getVClusterNamespace w)) cluster \<and> list_all finalizerEvent fin"
proof -
  from keepsD [OF handleDeletion_seq assms] obtain ess where
    "trace t = trace s @ concat ess"
    "list_all2 (\<lambda>Q es. list_all Q es) [modulesEvent, clusterEvent (getVClusterNamespace w), finalizerEvent] ess"
    by (auto simp: emitsSeq_def)
  then show ?thesis by (auto simp: list_all2_Cons1) blast
qed

section \<open>The life cycle\<close>

lemma modulesEvent_quiet: "modulesEvent e \<Longrightarrow> wsPhases.quiet e"
  unfolding wsPhases.quiet_def by (cases e rule: wsWritten.cases) simp_all

lemma clusterEvent_quiet: "clusterEvent ns e \<Longrightarrow> wsPhases.quiet e"
  unfolding clusterEvent_def by (auto simp: wsPhases.quiet_def dest: vclusterEvent_quiet)

lemma finalizerEvent_quiet: "finalizerEvent e \<Longrightarrow> wsPhases.quiet e"
  unfolding wsPhases.quiet_def by (cases e rule: finalizerEvent.cases) simp_all

lemma emitsSeq_all:
  assumes "emitsSeq Qs s t" and "\<And>Q e. Q \<in> set Qs \<Longrightarrow> Q e \<Longrightarrow> P e" and "P (CronEv kind ev)"
  shows "emits P s t"
proof -
  obtain ess where ess: "trace t = trace s @ concat ess" "list_all2 (\<lambda>Q es. list_all Q es) Qs ess"
    using assms(1) by (auto simp: emitsSeq_def)
  have "list_all P es" if "es \<in> set ess" for es
    using ess(2) that assms(2) by (fastforce simp: list_all2_conv_all_nth in_set_conv_nth list_all_iff)
  with ess(1) assms(3) show ?thesis by (auto simp: emits_def list_all_iff)
qed

lemma handleDeletion_quiet: "keeps (emits wsPhases.quiet) (handleDeletion E w)"
  by (rule keeps_mono [OF handleDeletion_seq], rule emitsSeq_all [of _ _ _ _ SleepCron "CronRemove 0"])
    (auto simp: wsPhases.quiet_def [of "CronEv _ _"] dest: modulesEvent_quiet clusterEvent_quiet finalizerEvent_quiet)

lemma workspaceSwitch_moves:
  assumes "coherent (ws_Status w)"
  shows "wsPhases.moves (wsPhase w) (workspaceSwitch lib E w) (\<lambda>_ _. True)"
proof -
  have del: "wsPhases.moves p (handleDeletion E w) (\<lambda>_ _. True)" for p
    by (rule wsPhases.moves_forget [OF wsPhases.moves_quiet [OF handleDeletion_quiet]])
  have auto: "wsPhases.moves p (scheduleAfter lib E x) (\<lambda>_ _. True)" for p x
    unfolding scheduleAfter_def by (intro ws_rules)
  have new: "wsPhases.moves (wsPhase w) (andThen (handleEmptyPhase lib E w) (scheduleAfter lib E)) (\<lambda>_ _. True)"
    if "wsPhase w = WorkspacePhaseEmpty"
    unfolding that by (rule wsPhases.moves_andThen [OF handleEmptyPhase_moves auto])
  have hib: "wsPhases.moves (wsPhase w) (andThen (handleHibernation E w) (scheduleAfter lib E)) (\<lambda>_ _. True)"
    if "wsPhase w \<in> {WorkspacePhaseReady, WorkspacePhaseHibernated}"
    by (rule wsPhases.moves_andThen [OF handleHibernation_moves [OF assms that] auto])
  show ?thesis
    unfolding workspaceSwitch_def by (intro wsPhases.moves_if del new hib wsPhases.moves_any)
qed

lemma WorkspaceReconcile_read:
  assumes "e_getWorkspace E (trace s) req = Inr w"
  shows "WorkspaceReconcile lib E req s = workspaceSwitch lib E w (s\<lparr>trace := trace s @ [WorkspaceEv (GetW req (Inr w))]\<rparr>)"
  using assms by (simp add: WorkspaceReconcile_def getWorkspace_def)

text \<open>C10: the phases of a workspace follow its life cycle. When the status a reconciliation reads agrees with
  itself, the phases it writes, starting from the phase it read, go through the steps of the life cycle
  only: a new workspace becomes installing, ready or hibernated; an installing one ready or failed; a ready
  one hibernated or failed, a hibernated one ready or failed; a failed one stays failed.\<close>

theorem workspace_lifecycle:
  assumes "e_getWorkspace E (trace s) req = Inr w" and "coherent (ws_Status w)"
    and "WorkspaceReconcile lib E req s = (r, t)"
  shows "\<exists>es. trace t = trace s @ WorkspaceEv (GetW req (Inr w)) # es \<and>
    successively wsStep (wsPhase w # List.map_filter wsWritten es)"
proof -
  have "workspaceSwitch lib E w (s\<lparr>trace := trace s @ [WorkspaceEv (GetW req (Inr w))]\<rparr>) = (r, t)"
    using assms(3) by (simp add: WorkspaceReconcile_read [OF assms(1)])
  from wsPhases.movesD [OF workspaceSwitch_moves [OF assms(2)] this] show ?thesis
    by (auto simp: wsPhases.path_def wsPhases.phases_def)
qed

section \<open>Statuses agree with themselves\<close>

lemma quiet_writes:
  "cronEvent e \<Longrightarrow> wsWrite P e" "vclusterEvent ns e \<Longrightarrow> wsWrite P e" "modulesEvent e \<Longrightarrow> wsWrite P e"
  "clusterEvent ns e \<Longrightarrow> wsWrite P e" "finalizerEvent e \<Longrightarrow> wsWrite P e"
proof -
  show "cronEvent e \<Longrightarrow> wsWrite P e" by (cases e rule: cronEvent.cases) simp_all
  show v: "vclusterEvent ns e \<Longrightarrow> wsWrite P e" for ns e
    unfolding vclusterEvent_def by (cases "(P, e)" rule: wsWrite.cases) auto
  show "modulesEvent e \<Longrightarrow> wsWrite P e" by (cases e rule: modulesEvent.cases) simp_all
  show "clusterEvent ns e \<Longrightarrow> wsWrite P e" unfolding clusterEvent_def by (auto dest: v)
  show "finalizerEvent e \<Longrightarrow> wsWrite P e" by (cases e rule: finalizerEvent.cases) simp_all
qed

lemma writeStatus_writes:
  assumes "obeys (wsWrite P) newStatus P"
  shows "keeps (emits (wsWrite P)) (writeStatus E newStatus w)"
  unfolding writeStatus_def
proof (rule keeps_retry)
  fix w
  have body: "keeps (emits (wsWrite P)) (andThen newStatus (\<lambda>st. let w'' = w'\<lparr>ws_Status := st\<rparr> in
      andThen (statusUpdateWorkspace E w'') (\<lambda>u. ret (replaced w'' u))))" for w'
    unfolding Let_def statusUpdateWorkspace_def
    by (rule obeys_keeps [OF obeys_andThen [OF assms keeps_obeys]]) (intro keeps_io, simp)
  show "keeps (emits (wsWrite P)) (andThen (getWorkspace E (workspaceKey w)) (\<lambda>r. case r of
         Inl err \<Rightarrow> ret (Some err, w)
       | Inr w' \<Rightarrow> andThen newStatus (\<lambda>st. let w'' = w'\<lparr>ws_Status := st\<rparr> in
           andThen (statusUpdateWorkspace E w'') (\<lambda>u. ret (replaced w'' u)))))"
    unfolding getWorkspace_def by (intro keeps_io body) simp_all
qed

lemma setPhase_writes_coherent:
  "keeps (emits (wsWrite coherent)) (setPhaseReady E msg w)" "keeps (emits (wsWrite coherent)) (setPhaseFailed E msg w)"
  "keeps (emits (wsWrite coherent)) (setPhaseInstalling E msg w)" "keeps (emits (wsWrite coherent)) (setPhaseHibernated E msg w)"
proof -
  have st: "obeys (wsWrite coherent) (phaseStatus E p b msg) coherent"
    if "coherent \<lparr>wst_Conditions = [], wst_Phase = p, wst_Ready = b, wst_LastActivity = None, wst_HibernatedAt = None, wst_Message = None\<rparr>"
    for p b
    unfolding phaseStatus_def now_def using that
    by (intro obeys_andThen [OF obeys_call [where P = "\<lambda>_. True"]] obeys_ret) (auto simp: coherent_def)
  show "keeps (emits (wsWrite coherent)) (setPhaseReady E msg w)"
    unfolding setPhaseReady_def by (intro writeStatus_writes st) (simp add: coherent_def)
  show "keeps (emits (wsWrite coherent)) (setPhaseFailed E msg w)"
    unfolding setPhaseFailed_def by (intro writeStatus_writes st) (simp add: coherent_def)
  show "keeps (emits (wsWrite coherent)) (setPhaseInstalling E msg w)"
    unfolding setPhaseInstalling_def by (intro writeStatus_writes st) (simp add: coherent_def)
  show "keeps (emits (wsWrite coherent)) (setPhaseHibernated E msg w)"
    unfolding setPhaseHibernated_def now_def
    by (intro writeStatus_writes obeys_andThen [OF obeys_call [where P = "\<lambda>_. True"]] obeys_ret) (auto simp: coherent_def)
qed

lemma parts_write_coherent:
  "keeps (emits (wsWrite P)) (handleAutoHibernation lib E w)" "keeps (emits (wsWrite P)) (installVCluster lib E w)"
  "keeps (emits (wsWrite P)) (handleDeletion E w)"
proof -
  show "keeps (emits (wsWrite P)) (handleAutoHibernation lib E w)"
    by (rule keeps_emits_mono [OF handleAutoHibernation_cron quiet_writes(1)])
  show "keeps (emits (wsWrite P)) (installVCluster lib E w)"
    by (rule keeps_emits_mono [OF installVCluster_events quiet_writes(2)])
  show "keeps (emits (wsWrite P)) (handleDeletion E w)"
    by (rule keeps_mono [OF handleDeletion_seq], rule emitsSeq_all [of _ _ _ _ SleepCron "CronRemove 0"])
      (auto dest: quiet_writes(3-5))
qed

lemma reconcile_writes_coherent: "keeps (emits (wsWrite coherent)) (WorkspaceReconcile lib E req)"
  unfolding WorkspaceReconcile_def workspaceSwitch_def scheduleAfter_def handleEmptyPhase_def setUpManaged_def forkFrom_def
    forkWorkspace_def handleHibernation_def sleepModules_def resumeModules_def patchHibernated_def getRelatedModules_def
    ensureWorkspaceFinalizer_def recordWorkspace_def calls
  by (intro keeps_io setPhase_writes_coherent parts_write_coherent) simp_all

text \<open>Every status that a reconciliation of a workspace sends agrees with itself: \<open>hibernatedAt\<close> is set in
  the phase \<open>hibernated\<close> only, and \<open>ready\<close> is true in the phases \<open>ready\<close> and \<open>hibernated\<close> only.\<close>

theorem workspace_status_coherent:
  assumes "WorkspaceReconcile lib E req s = (r, t)"
  shows "\<exists>es. trace t = trace s @ es \<and>
    (\<forall>w a. WorkspaceEv (StatusUpdateW w a) \<in> set es \<longrightarrow> coherent (ws_Status w))"
proof -
  from keepsD [OF reconcile_writes_coherent assms] obtain es where
    "trace t = trace s @ es" "list_all (wsWrite coherent) es" by (auto simp: emits_def)
  then show ?thesis by (intro exI [of _ es]) (auto simp: list_all_iff dest!: bspec)
qed

section \<open>A failed fork\<close>

text \<open>An error that the set-up returns comes with no request to be repeated.\<close>

abbreviation errorsFinal :: "(Result \<times> go_error option) \<times> Workspace \<Rightarrow> bool" where
  "errorsFinal x \<equiv> snd (fst x) \<noteq> None \<longrightarrow> fst (fst x) = noRequeue"

abbreviation anyEvent :: "event \<Rightarrow> bool" where
  "anyEvent \<equiv> (\<lambda>_. True)"

lemma obeys_any: "obeys anyEvent (call f ev) (\<lambda>_. True)"
  by (rule obeys_call) simp

lemma any_event: "keeps (emits Q) m \<Longrightarrow> obeys anyEvent m (\<lambda>_. True)"
  by (rule keeps_obeys [OF keeps_emits_mono]) simp_all

lemmas any_parts = any_event [OF setPhase_writes_coherent(1)] any_event [OF setPhase_writes_coherent(2)]
  any_event [OF setPhase_writes_coherent(3)] any_event [OF setPhase_writes_coherent(4)]
  any_event [OF installVCluster_events] any_event [OF handleAutoHibernation_cron]

lemma forkFrom_final: "obeys anyEvent (forkFrom E reason msg failed w) errorsFinal"
proof -
  have fork: "obeys anyEvent (forkWorkspace E a b) (\<lambda>_. True)" for a b
    unfolding forkWorkspace_def getRelatedModules_def calls
    by (intro any_event [where Q = anyEvent] keeps_io) simp_all
  show ?thesis
    unfolding forkFrom_def recordWorkspace_def calls
    by (intro obeys_splits obeys_ret obeys_andThen [OF obeys_any] obeys_andThen [OF any_parts(2)] obeys_andThen [OF fork])
      (simp_all add: noRequeue_def)
qed

lemma setUpManaged_final: "obeys anyEvent (setUpManaged lib E w) errorsFinal"
  unfolding setUpManaged_def recordWorkspace_def calls
  by (intro obeys_splits obeys_ret obeys_andThen [OF obeys_any] obeys_andThen [OF any_parts(3)]
      obeys_andThen [OF any_parts(5)] obeys_andThen [OF any_parts(2)] obeys_andThen [OF any_parts(1)] forkFrom_final) simp_all

lemma handleEmptyPhase_final: "obeys anyEvent (handleEmptyPhase lib E w) errorsFinal"
proof -
  have fin: "obeys anyEvent (ensureWorkspaceFinalizer E w) (\<lambda>_. True)"
    unfolding ensureWorkspaceFinalizer_def calls by (intro any_event [where Q = anyEvent] keeps_io) simp_all
  show ?thesis
    unfolding handleEmptyPhase_def
    by (intro obeys_splits obeys_ret obeys_andThen [OF fin] obeys_andThen [OF any_parts(4)]
        obeys_andThen [OF any_parts(1)] setUpManaged_final forkFrom_final) simp_all
qed

lemma scheduleAfter_final:
  assumes "errorsFinal x"
  shows "obeys anyEvent (scheduleAfter lib E x) (\<lambda>y. fst y = noRequeue)"
proof -
  have auto: "obeys anyEvent (handleAutoHibernation lib E w) (\<lambda>r. r = noRequeue)" for w
    unfolding handleAutoHibernation_def obeys_def
    using any_parts(6) by (auto simp: handleAutoHibernation_def obeys_def elim!: andThen_RetE)
  show ?thesis
    unfolding scheduleAfter_def
    by (intro obeys_case_option obeys_ret obeys_andThen [OF auto]) (use assms in auto)
qed

text \<open>What a reconciliation beyond the set-up may do: it starts no goroutine.\<close>

fun startsNothing :: "event \<Rightarrow> bool" where
  "startsNothing (Go _) = False"
| "startsNothing _ = True"

lemma quiet_starts:
  "cronEvent e \<Longrightarrow> startsNothing e" "modulesEvent e \<Longrightarrow> startsNothing e" "finalizerEvent e \<Longrightarrow> startsNothing e"
  by (cases e; simp)+

lemma uninstallEvent_starts: "uninstallEvent c rel ns a b e \<Longrightarrow> startsNothing e" "connectEvent e \<Longrightarrow> startsNothing e"
  by (cases e; simp)+

lemma cleanUpManaged_starts: "keeps (emits startsNothing) (cleanUpManaged E w)"
  unfolding cleanUpManaged_def uninstallVCluster_def recordWorkspace_def calls
  by (intro keeps_io keeps_emits_mono [OF NewHelmService_reads uninstallEvent_starts(2)]
      keeps_emits_mono [OF UninstallRelease_emits uninstallEvent_starts(1)]) simp_all

lemma handleDeletion_starts: "keeps (emits startsNothing) (handleDeletion E w)"
  unfolding handleDeletion_def
  by (intro keeps_io keeps_emits_mono [OF deleteModules_events quiet_starts(2)] cleanUpManaged_starts
      keeps_emits_mono [OF dropWorkspaceFinalizer_events quiet_starts(3)])

lemma setPhase_starts:
  "keeps (emits startsNothing) (setPhaseReady E msg w)" "keeps (emits startsNothing) (setPhaseFailed E msg w)"
  "keeps (emits startsNothing) (setPhaseHibernated E msg w)"
  unfolding setPhaseReady_def setPhaseFailed_def setPhaseHibernated_def writeStatus_def phaseStatus_def calls
  by (intro keeps_io; simp)+

lemma handleHibernation_starts: "keeps (emits startsNothing) (handleHibernation E w)"
  unfolding handleHibernation_def sleepModules_def resumeModules_def patchHibernated_def getRelatedModules_def
    recordWorkspace_def calls
  by (intro keeps_io setPhase_starts) simp_all

lemma workspaceSwitch_starts:
  assumes "wsPhase w \<noteq> WorkspacePhaseEmpty \<or> meta_DeletionTimestamp (ws_Meta w) \<noteq> None"
  shows "keeps (emits startsNothing) (workspaceSwitch lib E w)"
  unfolding workspaceSwitch_def scheduleAfter_def using assms
  by (intro keeps_io handleDeletion_starts handleHibernation_starts
      keeps_emits_mono [OF handleAutoHibernation_cron quiet_starts(1)]) auto


section \<open>Deletion ends\<close>

text \<open>A lower bound of the clock after a history: the last reading, and the time slept since.\<close>

fun clockStep :: "event \<Rightarrow> time \<Rightarrow> time" where
  "clockStep (CoreEv (Clock t)) _ = t"
| "clockStep (CoreEv (Sleep d)) low = low + d"
| "clockStep _ low = low"

definition clockLow :: "history \<Rightarrow> time" where
  "clockLow h = fold clockStep h 0"

text \<open>The clock does not run backwards, and \<open>time.Sleep\<close> takes at least the time it is given.\<close>

definition clockRuns :: "env \<Rightarrow> bool" where
  "clockRuns E \<longleftrightarrow> (\<forall>h. clockLow h \<le> e_now E h)"

lemma clockLow_append [simp]: "clockLow (h @ es) = fold clockStep es (clockLow h)"
  by (simp add: clockLow_def)

lemma waitModuleDeleted_returns:
  assumes "clockRuns E" and "deadline \<le> clockLow (trace s) + int n * seconds 2"
  shows "\<exists>r t. waitModuleDeleted E (Suc n) deadline m s = (Ret r, t)"
  using assms(2)
proof (induction n arbitrary: m s)
  case 0
  then have "deadline \<le> e_now E (trace s)"
    using assms(1) by (metis clockRuns_def add.right_neutral mult_zero_left of_nat_0 order_trans)
  then show ?case by (auto simp: now_def)
next
  case (Suc n)
  let ?t = "e_now E (trace s)"
  have low: "clockLow (trace s) \<le> ?t" using assms(1) by (simp add: clockRuns_def)
  show ?case
  proof (cases "?t < deadline")
    case False
    then show ?thesis by (auto simp: now_def)
  next
    case True
    define h where "h = trace s @ [CoreEv (Clock ?t)]"
    define r where "r = e_getModule E h (moduleKey m)"
    let ?s = "s\<lparr>trace := h @ [ModuleEv (GetM (moduleKey m) r), CoreEv (Sleep (seconds 2))]\<rparr>"
    have "deadline \<le> clockLow (trace ?s) + int n * seconds 2"
      using Suc.prems low by (simp add: h_def algebra_simps)
    from Suc.IH [OF this] have ih: "\<exists>r t. waitModuleDeleted E (Suc n) deadline m' ?s = (Ret r, t)" for m' .
    have go: "waitModuleDeleted E (Suc (Suc n)) deadline m s = (case r of
        Inl err \<Rightarrow> if isNotFound err then (Ret (True, m), s\<lparr>trace := h @ [ModuleEv (GetM (moduleKey m) r)]\<rparr>)
          else waitModuleDeleted E (Suc n) deadline m ?s
      | Inr m' \<Rightarrow> waitModuleDeleted E (Suc n) deadline m' ?s)"
      using True
      by (simp add: now_def getModule_def sleep_def emit_def andThen_run h_def r_def del: waitModuleDeleted.simps
          add: waitModuleDeleted.simps(2) [of E "Suc n"] split: sum.split)
    show ?thesis
      using ih by (cases r) (simp_all only: go sum.case, auto simp del: waitModuleDeleted.simps)
  qed
qed

lemma deleteModuleAndWait_returns:
  assumes "clockRuns E" and "31 \<le> e_polls E"
  shows "returns (deleteModuleAndWait E w m)"
  unfolding returns_def
proof
  fix s :: world
  obtain n where n: "e_polls E = Suc n" "30 \<le> n"
    using assms(2) by (metis Suc_le_mono eval_nat_numeral(3) not0_implies_Suc not_less_eq_eq zero_le)
  let ?d = "e_deleteModule E (trace s) (moduleKey m)"
  let ?h = "trace s @ [ModuleEv (DeleteM (moduleKey m) ?d)]"
  let ?s = "s\<lparr>trace := ?h @ [CoreEv (Clock (e_now E ?h))]\<rparr>"
  have "e_now E ?h + seconds 60 \<le> clockLow (trace ?s) + int n * seconds 2"
    using n(2) by simp
  from waitModuleDeleted_returns [OF assms(1) this] obtain del m' t where
    "waitModuleDeleted E (e_polls E) (e_now E ?h + seconds 60) m ?s = (Ret (del, m'), t)"
    unfolding n(1) by (metis surj_pair)
  then show "\<exists>a t. deleteModuleAndWait E w m s = (Ret a, t)"
    by (cases ?d) (simp_all add: deleteModuleAndWait_def deleteModule_def now_def recordWorkspace_def recordEvent_def emit_def)
qed

lemma removeCron_unlocked:
  assumes "\<not> crm_locked (managerOf kind s)"
  shows "\<exists>t. removeCron kind uid s = (Ret (), t) \<and> (\<forall>k. k \<noteq> kind \<longrightarrow> managerOf k t = managerOf k s)"
  using assms
  by (cases "crm_idMapper (managerOf kind s) uid")
    (simp_all add: removeCron_def withLock_def lookupEntry_def andThen_run cron_calls)

lemma deleteModules_returns:
  assumes "clockRuns E" and "31 \<le> e_polls E"
    and "\<not> crm_locked (sleepCronManager s)" and "\<not> crm_locked (resumeCronManager s)"
    and "e_listModules E (trace s) (meta_Namespace (ws_Meta w)) (meta_Name (ws_Meta w)) = Inr ms"
  shows "\<exists>t. deleteModules E w s = (Ret None, t)"
proof -
  let ?s = "s\<lparr>trace := trace s @ [ModuleEv (ListM (meta_Namespace (ws_Meta w)) (meta_Name (ws_Meta w)) (Inr ms))]\<rparr>"
  let ?uid = "meta_UID (ws_Meta w)"
  obtain s1 where s1: "removeCron SleepCron ?uid ?s = (Ret (), s1)" "managerOf ResumeCron s1 = managerOf ResumeCron s"
    using removeCron_unlocked [of SleepCron ?s ?uid] assms(3) by (auto simp: managerOf_def [of SleepCron])
  obtain s2 where s2: "removeCron ResumeCron ?uid s1 = (Ret (), s2)"
    using removeCron_unlocked [of ResumeCron s1 ?uid] assms(4) s1(2) by (auto simp: managerOf_def [of ResumeCron s])
  have "returns (forEach (deleteModuleAndWait E w) ms)"
    by (intro returns_forEach deleteModuleAndWait_returns assms)
  from returnsD [OF this, of s2] obtain u s3 where "forEach (deleteModuleAndWait E w) ms s2 = (Ret u, s3)"
    by blast
  with s1 s2 assms(5) show ?thesis
    by (simp add: deleteModules_def getRelatedModules_def listModules_def removeSleepCron_def removeResumeCron_def)
qed

lemma cleanUpManaged_returns: "returns (cleanUpManaged E w)"
  unfolding cleanUpManaged_def uninstallVCluster_def recordWorkspace_def calls Let_def
  by (intro returns_io UninstallRelease_returns NewHelmService_returns) (simp_all add: connectable_def controllerConnection_def)

text \<open>An API server that answers reads of workspaces and accepts updates; and the event that lets it drop one.\<close>

definition servesWorkspaces :: "env \<Rightarrow> bool" where
  "servesWorkspaces E \<longleftrightarrow> (\<forall>h k. \<exists>w. e_getWorkspace E h k = Inr w) \<and> (\<forall>h w. \<exists>w'. e_updateWorkspace E h w = Inr w')"

fun releasesWorkspace :: "event \<Rightarrow> bool" where
  "releasesWorkspace (WorkspaceEv (UpdateW w (Inr _))) = (deleteFinalizer \<notin> set (meta_Finalizers (ws_Meta w)))"
| "releasesWorkspace (WorkspaceEv (GetW _ (Inr w))) = (deleteFinalizer \<notin> set (meta_Finalizers (ws_Meta w)))"
| "releasesWorkspace _ = False"

lemma dropWorkspaceFinalizer_serves:
  assumes "servesWorkspaces E"
  shows "\<exists>w' t. dropWorkspaceFinalizer E w s = (Ret (None, w'), t) \<and> trace t \<noteq> [] \<and> releasesWorkspace (last (trace t))"
proof -
  obtain v where get: "e_getWorkspace E (trace s) (workspaceKey w) = Inr v"
    using assms unfolding servesWorkspaces_def by blast
  let ?v = "v\<lparr>ws_Meta := removeFinalizer deleteFinalizer (ws_Meta v)\<rparr>"
  obtain v' where upd: "e_updateWorkspace E (trace s @ [WorkspaceEv (GetW (workspaceKey w) (Inr v))]) ?v = Inr v'"
    using assms unfolding servesWorkspaces_def by blast
  show ?thesis
  proof (cases "deleteFinalizer \<in> set (meta_Finalizers (ws_Meta v))")
    case True
    then have "dropWorkspaceFinalizer E w s = (Ret (None, v'), s\<lparr>trace := trace s @ [WorkspaceEv (GetW (workspaceKey w) (Inr v)),
        WorkspaceEv (UpdateW ?v (Inr v'))]\<rparr>)"
      unfolding dropWorkspaceFinalizer_def
      by (intro retry_first) (simp add: getWorkspace_def updateWorkspace_def get upd andThen_run Let_def replaced_def)
    then show ?thesis by (simp add: removeFinalizer_def)
  next
    case False
    then have "dropWorkspaceFinalizer E w s = (Ret (None, v), s\<lparr>trace := trace s @ [WorkspaceEv (GetW (workspaceKey w) (Inr v))]\<rparr>)"
      unfolding dropWorkspaceFinalizer_def
      by (intro retry_first) (simp add: getWorkspace_def get andThen_run)
    then show ?thesis using False by simp
  qed
qed

text \<open>C27: the deletion of a workspace ends, whatever its modules do. When the workspace is \<open>ready\<close>, \<open>hibernated\<close>
  or \<open>failed\<close>, its modules can be listed, the API server answers for workspaces, the mutexes are free and
  the clock runs (a module is polled every two seconds for one minute, so 31 readings of the clock are
  enough), the reconciliation returns without error, and its last call leaves the workspace without the
  finalizer. It does not matter whether the modules go away or the virtual cluster can be uninstalled.\<close>

theorem workspace_deletion_completes:
  assumes "servesWorkspaces E" and "clockRuns E" and "31 \<le> e_polls E"
    and "\<not> crm_locked (sleepCronManager s)" and "\<not> crm_locked (resumeCronManager s)"
    and "e_getWorkspace E (trace s) req = Inr w" and "meta_DeletionTimestamp (ws_Meta w) \<noteq> None"
    and "wsPhase w \<in> {WorkspacePhaseReady, WorkspacePhaseHibernated, WorkspacePhaseFailed}"
    and "\<And>h. e_listModules E h (meta_Namespace (ws_Meta w)) (meta_Name (ws_Meta w)) = Inr ms"
  shows "\<exists>t. WorkspaceReconcile lib E req s = (Ret (noRequeue, None), t) \<and> trace t \<noteq> [] \<and> releasesWorkspace (last (trace t))"
proof -
  let ?s = "s\<lparr>trace := trace s @ [WorkspaceEv (GetW req (Inr w))]\<rparr>"
  obtain s1 where s1: "deleteModules E w ?s = (Ret None, s1)"
    using deleteModules_returns [OF assms(2,3), of ?s w ms] assms(4,5,9) by auto
  have "returns (if wss_Type (ws_Spec w) = WorkspaceTypeManaged then cleanUpManaged E w else ret ())"
    by (intro returns_io cleanUpManaged_returns)
  then obtain s2 where s2: "(if wss_Type (ws_Spec w) = WorkspaceTypeManaged then cleanUpManaged E w else ret ()) s1 = (Ret (), s2)"
    using returnsD by fastforce
  obtain w' t where t: "dropWorkspaceFinalizer E w s2 = (Ret (None, w'), t)" "trace t \<noteq> []" "releasesWorkspace (last (trace t))"
    using dropWorkspaceFinalizer_serves [OF assms(1)] by blast
  have "andThen (if wss_Type (ws_Spec w) = WorkspaceTypeManaged then cleanUpManaged E w else ret ()) (\<lambda>_.
      andThen (dropWorkspaceFinalizer E w) (\<lambda>(e, w'). ret (noRequeue, e))) s1 =
      andThen (dropWorkspaceFinalizer E w) (\<lambda>(e, w'). ret (noRequeue, e)) s2"
    by (rule andThen_Ret) (rule s2)
  with s1 t(1) assms(8) have "handleDeletion E w ?s = (Ret (noRequeue, None), t)"
    by (auto simp: handleDeletion_def)
  with t(2,3) assms(7) show ?thesis by (simp add: WorkspaceReconcile_read [OF assms(6)] workspaceSwitch_def)
qed

section \<open>Concrete runs\<close>

text \<open>A server with one workspace, which accepts writes, and modules that stay; a clock that runs as slowly as it
  may.\<close>

definition servingWorkspace :: "Workspace \<Rightarrow> Module list \<Rightarrow> env" where
  "servingWorkspace w ms = exampleEnv\<lparr>e_getWorkspace := \<lambda>h k. Inr w, e_updateWorkspace := \<lambda>h w. Inr w,
     e_statusUpdateWorkspace := \<lambda>h w. Inr w, e_listModules := \<lambda>h ns n. Inr ms,
     e_getModule := \<lambda>h k. Inr (inPhase ModulePhaseUninstalling), e_now := clockLow\<rparr>"

lemma serving_workspace [simp]:
  "e_getWorkspace (servingWorkspace w ms) h k = Inr w" "e_listModules (servingWorkspace w ms) h ns n = Inr ms"
  by (simp_all add: servingWorkspace_def)

lemma serving_workspace_laws:
  "servesWorkspaces (servingWorkspace w ms)" "clockRuns (servingWorkspace w ms)" "31 \<le> e_polls (servingWorkspace w ms)"
  by (simp_all add: servesWorkspaces_def clockRuns_def servingWorkspace_def exampleEnv_def)

definition dyingWorkspace :: Workspace where
  "dyingWorkspace = exampleWorkspace\<lparr>ws_Meta := (ws_Meta exampleWorkspace)\<lparr>meta_DeletionTimestamp := Some 0,
     meta_Finalizers := [deleteFinalizer]\<rparr>\<rparr>"

theorem sleepModules_patches_all_witness:
  "\<exists>es. sleepModules (servingWorkspace exampleWorkspace [inPhase ModulePhaseReady]) exampleWorkspace exampleWorld
      = (Ret None, exampleWorld\<lparr>trace := trace exampleWorld @ es\<rparr>) \<and>
    List.map_filter patchOf es = [(inPhase ModulePhaseReady, withHibernated True (inPhase ModulePhaseReady))]"
  using sleepModules_patches_all [where E = "servingWorkspace exampleWorkspace [inPhase ModulePhaseReady]"
    and w = exampleWorkspace and s = exampleWorld and ms = "[inPhase ModulePhaseReady]"]
  by (simp add: exampleWorkspace_def exampleHelmModule_def exampleModule_def)

theorem resumeModules_wakes_nothing_witness:
  "\<exists>es. trace (snd (resumeModules (servingWorkspace exampleWorkspace [withHibernated True (inPhase ModulePhaseSleeped)])
      exampleWorkspace exampleWorld)) = trace exampleWorld @ es \<and>
    (\<forall>(base, m) \<in> set (List.map_filter patchOf es). m = base \<and> \<not> ms_Hibernated (mod_Spec base))"
  by (rule resumeModules_wakes_nothing [OF surjective_pairing])

theorem workspace_deletion_ordered_witness:
  "\<exists>modules cluster fin. trace (snd (handleDeletion (servingWorkspace dyingWorkspace [inPhase ModulePhaseReady])
      dyingWorkspace exampleWorld)) = trace exampleWorld @ modules @ cluster @ fin \<and> list_all modulesEvent modules
    \<and> list_all (clusterEvent ''forkspacer-dev'') cluster \<and> list_all finalizerEvent fin"
  using workspace_deletion_ordered [OF surjective_pairing, of "servingWorkspace dyingWorkspace [inPhase ModulePhaseReady]"
    dyingWorkspace exampleWorld]
  by (simp add: getVClusterNamespace_def dyingWorkspace_def exampleWorkspace_def)

definition newWorkspace :: Workspace where
  "newWorkspace = exampleWorkspace\<lparr>ws_Status := \<lparr>wst_Conditions = [], wst_Phase = WorkspacePhaseEmpty, wst_Ready = False,
     wst_LastActivity = None, wst_HibernatedAt = None, wst_Message = None\<rparr>\<rparr>"

theorem workspace_lifecycle_witness:
  "\<exists>es. trace (snd (WorkspaceReconcile exampleLib (servingWorkspace newWorkspace []) exampleKey exampleWorld))
      = trace exampleWorld @ WorkspaceEv (GetW exampleKey (Inr newWorkspace)) # es \<and>
    successively wsStep (WorkspacePhaseEmpty # List.map_filter wsWritten es)"
  using workspace_lifecycle [OF serving_workspace(1) _ surjective_pairing,
    of newWorkspace exampleLib "[]" exampleKey exampleWorld]
  by (simp add: newWorkspace_def coherent_def)

theorem workspace_status_coherent_witness:
  "\<exists>es. trace (snd (WorkspaceReconcile exampleLib (servingWorkspace newWorkspace []) exampleKey exampleWorld))
      = trace exampleWorld @ es \<and> (\<forall>w a. WorkspaceEv (StatusUpdateW w a) \<in> set es \<longrightarrow> coherent (ws_Status w))"
  by (rule workspace_status_coherent [OF surjective_pairing])


theorem workspace_deletion_completes_witness:
  "\<exists>t. WorkspaceReconcile exampleLib (servingWorkspace dyingWorkspace [inPhase ModulePhaseReady]) exampleKey exampleWorld
     = (Ret (noRequeue, None), t) \<and> releasesWorkspace (last (trace t))"
proof -
  have "wsPhase dyingWorkspace = WorkspacePhaseReady" "meta_DeletionTimestamp (ws_Meta dyingWorkspace) \<noteq> None"
    by (simp_all add: dyingWorkspace_def exampleWorkspace_def)
  then show ?thesis
    using workspace_deletion_completes [OF serving_workspace_laws _ _ serving_workspace(1) _ _ serving_workspace(2),
      of exampleWorld dyingWorkspace exampleLib "[inPhase ModulePhaseReady]" exampleKey]
    by (auto simp: exampleWorld_def)
qed

end
