(* ===== verification/ApiServer.thy ===== *)
theory ApiServer
  imports WorkspaceController
begin

text \<open>
  The operator against an API server that keeps what is written to it. The environment of \<open>Cluster\<close> answers
  anything; here it answers the way the API server documents, for modules: the history of writes determines
  the stored objects, a read returns the stored object, an update leaves the status alone, a status update
  leaves the rest alone, a merge patch changes the fields it names, and a deletion only marks an object that
  has finalizers, which goes with the update that removes the last of them. The laws are the locale
  \<open>api_server\<close>; \<open>storeEnv\<close> is an environment that satisfies them. In the locale each controller step is a
  run with a known result and a known effect on the store.
\<close>

section \<open>The store\<close>

type_synonym store = "NamespacedName \<rightharpoonup> Module"

text \<open>What becomes of an object that is written: without finalizers it is gone once it is to be deleted.\<close>

definition kept :: "Module \<Rightarrow> Module option" where
  "kept m = (if meta_DeletionTimestamp (mod_Meta m) \<noteq> None \<and> meta_Finalizers (mod_Meta m) = [] then None else Some m)"

text \<open>The mark of a deletion; its time does not matter, so it is \<open>0\<close>.\<close>

definition marked :: "Module \<Rightarrow> Module" where
  "marked m = m\<lparr>mod_Meta := (mod_Meta m)\<lparr>meta_DeletionTimestamp :=
     Some (case meta_DeletionTimestamp (mod_Meta m) of None \<Rightarrow> 0 | Some t \<Rightarrow> t)\<rparr>\<rparr>"

fun storeEvent :: "event \<Rightarrow> store \<Rightarrow> store" where
  "storeEvent (ModuleEv (UpdateM _ (Inr m))) st = st(moduleKey m := kept m)"
| "storeEvent (ModuleEv (StatusUpdateM _ (Inr m))) st = st(moduleKey m \<mapsto> m)"
| "storeEvent (ModuleEv (PatchM _ _ (Inr m))) st = st(moduleKey m \<mapsto> m)"
| "storeEvent (ModuleEv (CreateM _ (Inr m))) st = st(moduleKey m \<mapsto> m)"
| "storeEvent (ModuleEv (DeleteM k None)) st = st(k := Option.bind (st k) (\<lambda>m. kept (marked m)))"
| "storeEvent _ st = st"

definition storeAfter :: "store \<Rightarrow> history \<Rightarrow> store" where
  "storeAfter st h = fold storeEvent h st"

lemma storeAfter_simps [simp]:
  "storeAfter st [] = st" "storeAfter st (h @ [e]) = storeEvent e (storeAfter st h)"
  by (simp_all add: storeAfter_def)

lemma storeAfter_append: "storeAfter st (h @ es) = fold storeEvent es (storeAfter st h)"
  by (simp add: storeAfter_def)

text \<open>Every object is stored under its own key.\<close>

definition keyed :: "store \<Rightarrow> bool" where
  "keyed st \<longleftrightarrow> (\<forall>k m. st k = Some m \<longrightarrow> moduleKey m = k)"

lemma kept_key: "kept m = Some m' \<Longrightarrow> moduleKey m' = moduleKey m"
  by (simp add: kept_def split: if_splits)

lemma marked_key [simp]: "moduleKey (marked m) = moduleKey m"
  by (simp add: marked_def)

lemma keyed_event: "keyed st \<Longrightarrow> keyed (storeEvent e st)"
  by (cases "(e, st)" rule: storeEvent.cases) (auto simp: keyed_def bind_eq_Some_conv dest: kept_key)

lemma keyed_after: "keyed st \<Longrightarrow> keyed (storeAfter st h)"
  by (induction h rule: rev_induct) (simp_all add: keyed_event)

lemma keyedD: "keyed st \<Longrightarrow> st k = Some m \<Longrightarrow> moduleKey m = k"
  by (simp add: keyed_def)

text \<open>A merge patch from \<open>base\<close> to \<open>m\<close> changes the fields in which they differ, and not the status.\<close>

definition pick :: "'a \<Rightarrow> 'a \<Rightarrow> 'a \<Rightarrow> 'a" where
  "pick base new cur = (if new = base then cur else new)"

definition mergeAnnotations ::
  "(string \<rightharpoonup> string) \<Rightarrow> (string \<rightharpoonup> string) \<Rightarrow> (string \<rightharpoonup> string) option \<Rightarrow> (string \<rightharpoonup> string) option" where
  "mergeAnnotations base new cur = (if new = base then cur
     else Some (\<lambda>k. pick (base k) (new k) (case cur of None \<Rightarrow> None | Some a \<Rightarrow> a k)))"

definition mergePatch :: "Module \<Rightarrow> Module \<Rightarrow> Module \<Rightarrow> Module" where
  "mergePatch base m cur = cur\<lparr>
     mod_Meta := (mod_Meta cur)\<lparr>meta_Annotations :=
       mergeAnnotations (annotationsOf base) (annotationsOf m) (meta_Annotations (mod_Meta cur))\<rparr>,
     mod_Spec := (mod_Spec cur)\<lparr>ms_Helm := pick (ms_Helm (mod_Spec base)) (ms_Helm (mod_Spec m)) (ms_Helm (mod_Spec cur)),
       ms_Hibernated := pick (ms_Hibernated (mod_Spec base)) (ms_Hibernated (mod_Spec m)) (ms_Hibernated (mod_Spec cur))\<rparr>\<rparr>"

section \<open>The laws\<close>

text \<open>The two field indexes that \<open>SetupWithManager\<close> of the module controller registers, and the match of both
  that a listing of the modules of a workspace asks for.\<close>

definition indexWorkspaceName :: "Module \<Rightarrow> string list" where
  "indexWorkspaceName resource = [wref_Name (ms_Workspace (mod_Spec resource))]"

definition indexWorkspaceNamespace :: "Module \<Rightarrow> string list" where
  "indexWorkspaceNamespace resource = [wref_Namespace (ms_Workspace (mod_Spec resource))]"

definition refersTo :: "string \<Rightarrow> string \<Rightarrow> Module \<Rightarrow> bool" where
  "refersTo ns n m \<longleftrightarrow> ns \<in> set (indexWorkspaceNamespace m) \<and> n \<in> set (indexWorkspaceName m)"

lemma refersTo_iff:
  "refersTo ns n m \<longleftrightarrow> wref_Namespace (ms_Workspace (mod_Spec m)) = ns \<and> wref_Name (ms_Workspace (mod_Spec m)) = n"
  by (auto simp: refersTo_def indexWorkspaceName_def indexWorkspaceNamespace_def)

locale api_server =
  fixes E :: env and st0 :: store
  assumes initial: "keyed st0"
    and get: "e_getModule E h k = (case storeAfter st0 h k of
      None \<Rightarrow> Inl (ApiErr StatusReasonNotFound []) | Some m \<Rightarrow> Inr m)"
    and update: "storeAfter st0 h (moduleKey m) = Some cur \<Longrightarrow>
      e_updateModule E h m = Inr (m\<lparr>mod_Status := mod_Status cur\<rparr>)"
    and status: "storeAfter st0 h (moduleKey m) = Some cur \<Longrightarrow>
      e_statusUpdateModule E h m = Inr (cur\<lparr>mod_Status := mod_Status m\<rparr>)"
    and patch: "storeAfter st0 h (moduleKey m) = Some cur \<Longrightarrow> e_patchModule E h base m = Inr (mergePatch base m cur)"
    and delete: "e_deleteModule E h k = (case storeAfter st0 h k of
      None \<Rightarrow> Some (ApiErr StatusReasonNotFound []) | Some m \<Rightarrow> None)"
    and listed: "\<exists>ms. e_listModules E h ns n = Inr ms \<and> distinct (map moduleKey ms)
      \<and> set ms = {m. refersTo ns n m \<and> storeAfter st0 h (moduleKey m) = Some m}"
begin

abbreviation stored :: "world \<Rightarrow> store" where
  "stored s \<equiv> storeAfter st0 (trace s)"

lemma keyed_stored: "keyed (stored s)"
  by (rule keyed_after) (rule initial)

text \<open>The calls as runs, with their effect on the store.\<close>

lemma get_run:
  assumes "stored s k = Some m"
  shows "getModule E k s = (Ret (Inr m), s\<lparr>trace := trace s @ [ModuleEv (GetM k (Inr m))]\<rparr>)"
  using assms by (simp add: getModule_def get)

lemma update_run:
  assumes "stored s (moduleKey m) = Some cur"
  shows "updateModule E m s = (Ret (Inr (m\<lparr>mod_Status := mod_Status cur\<rparr>)),
    s\<lparr>trace := trace s @ [ModuleEv (UpdateM m (Inr (m\<lparr>mod_Status := mod_Status cur\<rparr>)))]\<rparr>)"
  using assms by (simp add: updateModule_def update)

lemma status_run:
  assumes "stored s (moduleKey m) = Some cur"
  shows "statusUpdateModule E m s = (Ret (Inr (cur\<lparr>mod_Status := mod_Status m\<rparr>)),
    s\<lparr>trace := trace s @ [ModuleEv (StatusUpdateM m (Inr (cur\<lparr>mod_Status := mod_Status m\<rparr>)))]\<rparr>)"
  using assms by (simp add: statusUpdateModule_def status)

lemma patch_run:
  assumes "stored s (moduleKey m) = Some cur"
  shows "patchModule E base m s = (Ret (Inr (mergePatch base m cur)),
    s\<lparr>trace := trace s @ [ModuleEv (PatchM base m (Inr (mergePatch base m cur)))]\<rparr>)"
  using assms by (simp add: patchModule_def patch)

end

section \<open>An environment with a store\<close>

text \<open>The keys that a history writes, so that the list of all modules can be computed.\<close>

fun writtenKey :: "event \<Rightarrow> NamespacedName option" where
  "writtenKey (ModuleEv (UpdateM _ (Inr m))) = Some (moduleKey m)"
| "writtenKey (ModuleEv (StatusUpdateM _ (Inr m))) = Some (moduleKey m)"
| "writtenKey (ModuleEv (PatchM _ _ (Inr m))) = Some (moduleKey m)"
| "writtenKey (ModuleEv (CreateM _ (Inr m))) = Some (moduleKey m)"
| "writtenKey _ = None"

definition knownKeys :: "Module list \<Rightarrow> history \<Rightarrow> NamespacedName list" where
  "knownKeys ms h = remdups (map moduleKey ms @ List.map_filter writtenKey h)"

definition initialStore :: "Module list \<Rightarrow> store" where
  "initialStore ms = map_of (map (\<lambda>m. (moduleKey m, m)) ms)"

definition onStored :: "store \<Rightarrow> NamespacedName \<Rightarrow> (Module \<Rightarrow> Module) \<Rightarrow> go_error + Module" where
  "onStored st k f = (case st k of None \<Rightarrow> Inl (ApiErr StatusReasonNotFound []) | Some m \<Rightarrow> Inr (f m))"

definition storeEnv :: "Module list \<Rightarrow> env \<Rightarrow> env" where
  "storeEnv ms E = E\<lparr>
     e_getModule := \<lambda>h k. onStored (storeAfter (initialStore ms) h) k (\<lambda>m. m),
     e_updateModule := \<lambda>h m. onStored (storeAfter (initialStore ms) h) (moduleKey m) (\<lambda>cur. m\<lparr>mod_Status := mod_Status cur\<rparr>),
     e_statusUpdateModule := \<lambda>h m. onStored (storeAfter (initialStore ms) h) (moduleKey m) (\<lambda>cur. cur\<lparr>mod_Status := mod_Status m\<rparr>),
     e_patchModule := \<lambda>h base m. onStored (storeAfter (initialStore ms) h) (moduleKey m) (mergePatch base m),
     e_deleteModule := \<lambda>h k. errOf (onStored (storeAfter (initialStore ms) h) k (\<lambda>m. m)),
     e_listModules := \<lambda>h ns n. Inr (filter (refersTo ns n)
       (List.map_filter (storeAfter (initialStore ms) h) (knownKeys ms h)))\<rparr>"

lemma initialStore_keyed: "keyed (initialStore ms)"
  by (auto simp: keyed_def initialStore_def dest!: map_of_SomeD)

lemma storeEvent_dom: "dom (storeEvent e st) \<subseteq> dom st \<union> set_option (writtenKey e)"
  by (cases "(e, st)" rule: storeEvent.cases) (auto simp: kept_def bind_eq_Some_conv split: if_splits)

lemma dom_storeAfter: "dom (storeAfter (initialStore ms) h) \<subseteq> set (knownKeys ms h)"
proof (induction h rule: rev_induct)
  case Nil
  show ?case by (auto simp: knownKeys_def initialStore_def dom_map_of_conv_image_fst)
next
  case (snoc e h)
  have "set (knownKeys ms (h @ [e])) = set (knownKeys ms h) \<union> set_option (writtenKey e)"
    by (auto simp: knownKeys_def List.map_filter_def split: option.split)
  with snoc storeEvent_dom [of e "storeAfter (initialStore ms) h"] show ?case
    by (simp only: storeAfter_simps) blast
qed

lemma map_filter_keyed:
  assumes "keyed st"
  shows "map moduleKey (List.map_filter st ks) = filter (\<lambda>k. st k \<noteq> None) ks"
  using keyedD [OF assms] by (induction ks) (auto simp: map_filter_simps split: option.split)

interpretation stores: api_server "storeEnv ms E" "initialStore ms" for ms E
proof
  fix h :: history and ns n :: string and m base cur :: Module and k :: NamespacedName
  let ?st = "storeAfter (initialStore ms) h"
  show "keyed (initialStore ms)" by (rule initialStore_keyed)
  show "e_getModule (storeEnv ms E) h k = (case ?st k of
      None \<Rightarrow> Inl (ApiErr StatusReasonNotFound []) | Some m \<Rightarrow> Inr m)"
    by (simp add: storeEnv_def onStored_def)
  show "e_deleteModule (storeEnv ms E) h k = (case ?st k of
      None \<Rightarrow> Some (ApiErr StatusReasonNotFound []) | Some m \<Rightarrow> None)"
    by (simp add: storeEnv_def onStored_def split: option.split)
  show "e_updateModule (storeEnv ms E) h m = Inr (m\<lparr>mod_Status := mod_Status cur\<rparr>)"
    "e_statusUpdateModule (storeEnv ms E) h m = Inr (cur\<lparr>mod_Status := mod_Status m\<rparr>)"
    "e_patchModule (storeEnv ms E) h base m = Inr (mergePatch base m cur)" if "?st (moduleKey m) = Some cur"
    using that by (simp_all add: storeEnv_def onStored_def)
  have keyed: "keyed ?st" by (rule keyed_after) (rule initialStore_keyed)
  let ?ms = "List.map_filter ?st (knownKeys ms h)"
  have "distinct (map moduleKey ?ms)" by (simp add: map_filter_keyed [OF keyed] knownKeys_def)
  moreover have "set ?ms = {m. ?st (moduleKey m) = Some m}"
    using dom_storeAfter [of ms h] keyedD [OF keyed] by (force simp: List.map_filter_def)
  ultimately show "\<exists>xs. e_listModules (storeEnv ms E) h ns n = Inr xs \<and> distinct (map moduleKey xs)
      \<and> set xs = {m. refersTo ns n m \<and> ?st (moduleKey m) = Some m}"
    by (auto simp: storeEnv_def distinct_map_filter)
qed

end
