(* ===== verification/EndToEnd.thy ===== *)
theory EndToEnd
  imports ApiServer
begin

text \<open>
  The controllers in a cluster that works: an API server that keeps what is written to it (\<open>ApiServer\<close>), a
  workspace that is ready, and a Helm release whose objects can be listed and patched. Here the steps of the
  module controller and of the workspace controller are composed: putting a module to sleep by one
  reconciliation and waking it by another, installing a new module, and hibernating a whole workspace.
\<close>

section \<open>Runs and their effects\<close>

text \<open>What an operation leaves of a module besides its status and its annotations.\<close>

definition sameObject :: "Module \<Rightarrow> Module \<Rightarrow> bool" where
  "sameObject m m' \<longleftrightarrow> moduleKey m' = moduleKey m \<and> mod_Spec m' = mod_Spec m \<and> mod_Config m' = mod_Config m
     \<and> meta_DeletionTimestamp (mod_Meta m') = meta_DeletionTimestamp (mod_Meta m)"

definition atPhase :: "ModulePhaseType \<Rightarrow> string option \<Rightarrow> time \<Rightarrow> Module \<Rightarrow> Module" where
  "atPhase phase message t m = m\<lparr>mod_Status := \<lparr>mst_Conditions = [], mst_Phase = phase,
     mst_Source = getModuleSourceType m, mst_LastActivity = Some t, mst_Message = message\<rparr>\<rparr>"

lemma sameObject_refl [simp]: "sameObject m m"
  by (simp add: sameObject_def)

lemma sameObject_trans: "sameObject a b \<Longrightarrow> sameObject b c \<Longrightarrow> sameObject a c"
  by (simp add: sameObject_def)

lemma atPhase_simps [simp]:
  "sameObject m (atPhase p msg t m)" "modPhase (atPhase p msg t m) = p"
  "annotationsOf (atPhase p msg t m) = annotationsOf m" "moduleKey (atPhase p msg t m) = moduleKey m"
  "mod_Meta (atPhase p msg t m) = mod_Meta m" "mod_Spec (atPhase p msg t m) = mod_Spec m"
  "mod_Config (atPhase p msg t m) = mod_Config m"
  by (simp_all add: atPhase_def sameObject_def annotationsOf_def)

lemma setAnnotations_simps [simp]:
  "sameObject m (setAnnotations a m)" "mod_Status (setAnnotations a m) = mod_Status m"
  "annotationsOf (setAnnotations (Some f) m) = f" "mod_Spec (setAnnotations a m) = mod_Spec m"
  "mod_Config (setAnnotations a m) = mod_Config m"
  "meta_Annotations (mod_Meta (setAnnotations a m)) = a"
  "meta_Namespace (mod_Meta (setAnnotations a m)) = meta_Namespace (mod_Meta m)"
  "meta_Name (mod_Meta (setAnnotations a m)) = meta_Name (mod_Meta m)"
  "setAnnotations b (setAnnotations a m) = setAnnotations b m"
  by (simp_all add: setAnnotations_def sameObject_def annotationsOf_def)

text \<open>The patch that stores the metadata changes one annotation.\<close>

lemma mergePatch_annotation:
  assumes "annotationsOf base = annotationsOf cur"
  shows "mergePatch base (updateAnnotation k v base) cur = setAnnotations (Some ((annotationsOf cur)(k \<mapsto> v))) cur"
proof -
  have "mergeAnnotations (annotationsOf base) ((annotationsOf base)(k \<mapsto> v)) (meta_Annotations (mod_Meta cur))
      = Some ((annotationsOf cur)(k \<mapsto> v))"
  proof (cases "annotationsOf base k = Some v")
    case True
    then have "meta_Annotations (mod_Meta cur) = Some (annotationsOf cur)"
      using assms by (auto simp: annotationsOf_def split: option.splits)
    moreover have "(annotationsOf base)(k \<mapsto> v) = annotationsOf base" using True by auto
    ultimately show ?thesis using assms by (simp add: mergeAnnotations_def)
  next
    case False
    then have "(annotationsOf base)(k \<mapsto> v) \<noteq> annotationsOf base" by (metis fun_upd_same)
    then show ?thesis using assms
      by (auto simp: mergeAnnotations_def pick_def fun_eq_iff annotationsOf_def split: option.splits)
  qed
  then show ?thesis
    by (simp add: mergePatch_def updateAnnotation_def pick_def) (simp add: setAnnotations_def)
qed

text \<open>Events that neither write a module nor scale a workload.\<close>

lemma connect_inert: "connectEvent e \<Longrightarrow> storeEvent e st = st \<and> applyPatch e rs = rs"
  by (cases e rule: connectEvent.cases) auto

lemma connect_fold:
  "list_all connectEvent es \<Longrightarrow> fold storeEvent es st = st" "list_all connectEvent es \<Longrightarrow> fold applyPatch es rs = rs"
  by (induction es arbitrary: st rs) (simp_all add: connect_inert)

text \<open>From \<open>s\<close> to \<open>t\<close> the store became \<open>S\<close> and the replica counts changed by \<open>f\<close>.\<close>

definition effect ::
  "store \<Rightarrow> world \<Rightarrow> store \<Rightarrow> ((workload_key \<Rightarrow> int) \<Rightarrow> workload_key \<Rightarrow> int) \<Rightarrow> world \<Rightarrow> bool" where
  "effect st0 s S f t \<longleftrightarrow> storeAfter st0 (trace t) = S
     \<and> (\<forall>rs. replicasAfter rs (trace t) = f (replicasAfter rs (trace s)))"

lemma effectI:
  assumes "trace t = trace s @ es" and "fold storeEvent es (storeAfter st0 (trace s)) = S" and "\<And>rs. fold applyPatch es rs = f rs"
  shows "effect st0 s S f t"
  using assms by (simp add: effect_def storeAfter_append)

lemma effect_trans: "effect st0 s S f t \<Longrightarrow> effect st0 t S' g u \<Longrightarrow> effect st0 s S' (g \<circ> f) u"
  by (simp add: effect_def)

lemma effect_store: "effect st0 s S f t \<Longrightarrow> storeAfter st0 (trace t) = S"
  by (simp add: effect_def)

section \<open>Modules that can be operated\<close>

text \<open>Rendering the module gives \<open>helm\<close>, whatever its status, annotations and hibernation are.\<close>

definition rendersTo :: "golib \<Rightarrow> Module \<Rightarrow> ModuleSpecHelm \<Rightarrow> bool" where
  "rendersTo lib m helm \<longleftrightarrow> (\<forall>m' n. mod_Config m' = mod_Config m \<longrightarrow> ms_Helm (mod_Spec m') = ms_Helm (mod_Spec m) \<longrightarrow>
     ms_Config (mod_Spec m') = ms_Config (mod_Spec m) \<longrightarrow> (\<exists>n'. RenderHelmSpec lib m' n = (Ret (Inr helm), n')))"

text \<open>The module's workspace is there and ready, at every time, and its cluster can be connected to.\<close>

definition workspaceServes :: "env \<Rightarrow> Module \<Rightarrow> HelmService \<Rightarrow> bool" where
  "workspaceServes E m svc \<longleftrightarrow> (\<forall>h. \<exists>w. e_getWorkspace E h
       \<lparr>nn_Namespace = wref_Namespace (ms_Workspace (mod_Spec m)), nn_Name = wref_Name (ms_Workspace (mod_Spec m))\<rparr> = Inr w
     \<and> wst_Ready (ws_Status w) \<and> wsPhase w \<in> {WorkspacePhaseReady, WorkspacePhaseHibernated}
     \<and> (\<forall>u. \<exists>v. NewHelmService E (wss_Connection (ws_Spec w)) u = (Ret (Inr svc), v)))"

definition operable :: "golib \<Rightarrow> env \<Rightarrow> Module \<Rightarrow> ModuleHelmManager \<Rightarrow> bool" where
  "operable lib E m hm \<longleftrightarrow> Option.bind (ms_Helm (mod_Spec m)) GetReleaseName = Some (hm_releaseName hm)
     \<and> rendersTo lib m (hm_helmModule hm) \<and> workspaceServes E m (hm_helmService hm)"

lemma operable_same:
  assumes "operable lib E m hm" and "mod_Config m' = mod_Config m" and "ms_Helm (mod_Spec m') = ms_Helm (mod_Spec m)"
    and "ms_Config (mod_Spec m') = ms_Config (mod_Spec m)" and "ms_Workspace (mod_Spec m') = ms_Workspace (mod_Spec m)"
  shows "operable lib E m' hm"
  using assms by (simp add: operable_def rendersTo_def workspaceServes_def)

lemma operable_sameObject: "operable lib E m hm \<Longrightarrow> sameObject m m' \<Longrightarrow> operable lib E m' hm"
  by (erule operable_same) (simp_all add: sameObject_def)

abbreviation managerFor :: "golib \<Rightarrow> env \<Rightarrow> ModuleHelmManager \<Rightarrow> IManager" where
  "managerFor lib E hm \<equiv> NewModuleHelmManager lib E (hm_helmModule hm) (hm_helmService hm) (hm_releaseName hm)"

lemma managerFor_simps [simp]:
  "im_Install (managerFor lib E hm) = ModuleHelmManager_Install lib E hm"
  "im_Uninstall (managerFor lib E hm) = ModuleHelmManager_Uninstall E hm"
  "im_Sleep (managerFor lib E hm) = ModuleHelmManager_Sleep E hm"
  "im_Resume (managerFor lib E hm) = ModuleHelmManager_Resume lib E hm"
  by (cases hm; simp add: NewModuleHelmManager_def Let_def)+

section \<open>The steps of the module controller\<close>

context api_server
begin

lemma setPhase_run:
  assumes "stored s (moduleKey m) = Some c"
  shows "\<exists>at t. setPhase E phase message m s = (Ret (None, atPhase phase message at c), t)
    \<and> effect st0 s ((stored s)(moduleKey c \<mapsto> atPhase phase message at c)) id t"
proof -
  have key: "moduleKey c = moduleKey m" by (rule keyedD [OF keyed_stored assms])
  let ?now = "e_now E (trace s @ [ModuleEv (GetM (moduleKey m) (Inr c))])"
  let ?c = "atPhase phase message ?now c"
  let ?h = "trace s @ [ModuleEv (GetM (moduleKey m) (Inr c)), CoreEv (Clock ?now)]"
  let ?t = "s\<lparr>trace := trace s @ [ModuleEv (GetM (moduleKey m) (Inr c)), CoreEv (Clock ?now), ModuleEv (StatusUpdateM ?c (Inr ?c))]\<rparr>"
  have "storeAfter st0 ?h (moduleKey ?c) = Some c"
    using assms by (simp add: key storeAfter_append)
  from status [OF this] have sent: "e_statusUpdateModule E ?h ?c = Inr ?c"
    by (simp add: atPhase_def)
  have "setPhase E phase message m s = (Ret (None, ?c), ?t)"
    unfolding setPhase_def
    by (intro retry_first)
      (simp add: get_run [OF assms] now_def statusUpdateModule_def Let_def atPhase_def [symmetric] sent replaced_def)
  moreover have "effect st0 s ((stored s)(moduleKey c \<mapsto> ?c)) id ?t"
    by (rule effectI [where es = "[ModuleEv (GetM (moduleKey m) (Inr c)), CoreEv (Clock ?now), ModuleEv (StatusUpdateM ?c (Inr ?c))]"])
      simp_all
  ultimately show ?thesis by blast
qed

text \<open>Storing the metadata in the annotation.\<close>

lemma patchLogged_run:
  assumes "stored s (moduleKey m) = Some c" and "annotationsOf m = annotationsOf c"
  shows "\<exists>t. patchLogged E m (updateAnnotation k v m) s = (Ret (setAnnotations (Some ((annotationsOf c)(k \<mapsto> v))) c), t)
    \<and> effect st0 s ((stored s)(moduleKey c \<mapsto> setAnnotations (Some ((annotationsOf c)(k \<mapsto> v))) c)) id t"
proof -
  let ?m = "updateAnnotation k v m"
  let ?c = "setAnnotations (Some ((annotationsOf c)(k \<mapsto> v))) c"
  have "moduleKey ?m = moduleKey m" by (simp add: updateAnnotation_def)
  with assms(1) have c: "stored s (moduleKey ?m) = Some c" by simp
  have merged: "mergePatch m ?m c = ?c" by (rule mergePatch_annotation [OF assms(2)])
  have "patchLogged E m ?m s = (Ret ?c, s\<lparr>trace := trace s @ [ModuleEv (PatchM m ?m (Inr ?c))]\<rparr>)"
    by (simp add: patchLogged_def patch_run [OF c] merged replaced_def)
  moreover have "effect st0 s ((stored s)(moduleKey c \<mapsto> ?c)) id (s\<lparr>trace := trace s @ [ModuleEv (PatchM m ?m (Inr ?c))]\<rparr>)"
    by (rule effectI [where es = "[ModuleEv (PatchM m ?m (Inr ?c))]"]) simp_all
  ultimately show ?thesis by blast
qed

lemma connect_run:
  assumes "\<forall>u. \<exists>v. NewHelmService E conn u = (Ret (Inr svc), v)"
  shows "\<exists>t. NewHelmService E conn s = (Ret (Inr svc), t) \<and> effect st0 s (stored s) id t"
proof -
  obtain t where run: "NewHelmService E conn s = (Ret (Inr svc), t)" using assms by blast
  from keepsD [OF NewHelmService_reads run] obtain es where es: "trace t = trace s @ es" "list_all connectEvent es"
    by (auto simp: emits_def)
  then have "effect st0 s (stored s) id t" by (intro effectI [OF es(1)]) (simp_all add: connect_fold [OF es(2)])
  with run show ?thesis by blast
qed

lemma newManager_run:
  fixes md :: MetaData
  assumes "operable lib E c hm" and "stored s (moduleKey m) = Some c" and "annotationsOf m = annotationsOf c"
    and "mod_Spec m = mod_Spec c" and "mod_Config m = mod_Config c"
    and "\<forall>u. \<exists>v. NewHelmService E conn u = (Ret (Inr (hm_helmService hm)), v)"
  defines "c' \<equiv> setAnnotations (Some ((annotationsOf c)(managerDataKey \<mapsto> metaString lib md))) c"
  shows "\<exists>t. newManager lib E m conn md config s = (Ret (Inr (managerFor lib E hm), c', md), t)
    \<and> effect st0 s ((stored s)(moduleKey c \<mapsto> c')) id t"
proof -
  obtain helm where helm: "ms_Helm (mod_Spec m) = Some helm" "GetReleaseName helm = Some (hm_releaseName hm)"
    using assms(1,4) by (auto simp: operable_def bind_eq_Some_conv)
  obtain n where n: "RenderHelmSpec lib m (renders s) = (Ret (Inr (hm_helmModule hm)), n)"
    using assms(1,4,5) unfolding operable_def rendersTo_def by metis
  let ?s = "s\<lparr>renders := n\<rparr>"
  obtain t where t: "NewHelmService E conn ?s = (Ret (Inr (hm_helmService hm)), t)" "effect st0 ?s (stored ?s) id t"
    using connect_run [OF assms(6)] by blast
  have "stored t (moduleKey m) = Some c" using effect_store [OF t(2)] assms(2) by simp
  from patchLogged_run [OF this assms(3)] obtain u where
    u: "patchLogged E m (updateAnnotation managerDataKey (metaString lib md) m) t = (Ret c', u)"
      "effect st0 t ((stored t)(moduleKey c \<mapsto> c')) id u"
    unfolding c'_def by blast
  have "newManager lib E m conn md config s = (Ret (Inr (managerFor lib E hm), c', md), u)"
    by (simp add: newManager_def helm rendering_def n t(1) u(1) andThen_run)
  moreover have "effect st0 s ((stored s)(moduleKey c \<mapsto> c')) id u"
    using effect_trans [OF t(2) u(2)] effect_store [OF t(2)] by (simp add: effect_def)
  ultimately show ?thesis by blast
qed

text \<open>Sleeping and resuming share their frame; \<open>es\<close> is what the operation of the manager does.\<close>

lemma hibernateModule_run:
  assumes ok: "operable lib E c hm" and c: "stored s (moduleKey c) = Some c"
    and op: "\<And>u. op (managerFor lib E hm) (metaDataOf lib c) u = (Ret (None, md'), u\<lparr>trace := trace u @ es\<rparr>)"
    and inert: "\<And>st. fold storeEvent es st = st"
  defines "c' \<equiv> setAnnotations (Some ((annotationsOf c)(managerDataKey \<mapsto> metaString lib md'))) c"
  shows "\<exists>t. hibernateModule lib E op failed c s = (Ret (None, c'), t)
    \<and> effect st0 s ((stored s)(moduleKey c \<mapsto> c')) (fold applyPatch es) t"
proof -
  let ?k = "\<lparr>nn_Namespace = wref_Namespace (ms_Workspace (mod_Spec c)), nn_Name = wref_Name (ms_Workspace (mod_Spec c))\<rparr>"
  obtain w where w: "e_getWorkspace E (trace s) ?k = Inr w" "wst_Ready (ws_Status w)"
      "wsPhase w \<in> {WorkspacePhaseReady, WorkspacePhaseHibernated}"
      "\<forall>u. \<exists>v. NewHelmService E (wss_Connection (ws_Spec w)) u = (Ret (Inr (hm_helmService hm)), v)"
    using ok unfolding operable_def workspaceServes_def by blast
  let ?s1 = "s\<lparr>trace := trace s @ [WorkspaceEv (GetW ?k (Inr w))]\<rparr>"
  let ?m0 = "initAnnotations c" and ?md = "metaDataOf lib c"
  let ?c1 = "setAnnotations (Some ((annotationsOf c)(managerDataKey \<mapsto> metaString lib ?md))) c"
  have m0: "annotationsOf ?m0 = annotationsOf c" "mod_Spec ?m0 = mod_Spec c" "mod_Config ?m0 = mod_Config c"
      "moduleKey ?m0 = moduleKey c" "metaDataOf lib ?m0 = ?md"
    by (simp_all add: initAnnotations_def metaDataOf_def)
  have s1: "effect st0 s (stored s) id ?s1"
    by (rule effectI [where es = "[WorkspaceEv (GetW ?k (Inr w))]"]) simp_all
  have "stored ?s1 (moduleKey ?m0) = Some c" using c m0(4) by simp
  from newManager_run [OF ok this m0(1-3) w(4)] obtain s2 where
    s2: "newManager lib E ?m0 (wss_Connection (ws_Spec w)) ?md (case configMapOf lib ?m0 of Inl _ \<Rightarrow> [] | Inr c \<Rightarrow> c) ?s1
        = (Ret (Inr (managerFor lib E hm), ?c1, ?md), s2)"
      "effect st0 ?s1 ((stored ?s1)(moduleKey c \<mapsto> ?c1)) id s2" by blast
  let ?s3 = "s2\<lparr>trace := trace s2 @ es\<rparr>"
  have s3: "effect st0 s2 (stored s2) (fold applyPatch es) ?s3"
    by (rule effectI [where es = es]) (simp_all add: inert)
  have "stored ?s3 (moduleKey ?c1) = Some ?c1"
    using effect_store [OF s2(2)] effect_store [OF s3] by simp
  from patchLogged_run [OF this refl, of managerDataKey "metaString lib md'"] obtain t where
    t: "patchLogged E ?c1 (updateAnnotation managerDataKey (metaString lib md') ?c1) ?s3 = (Ret c', t)"
      "effect st0 ?s3 ((stored ?s3)(moduleKey c \<mapsto> c')) id t"
    unfolding c'_def by auto
  have "hibernateModule lib E op failed c s = (Ret (None, c'), t)"
    using w(2,3) s2(1) t(1) by (simp add: hibernateModule_def workspaceOf_def getWorkspace_def w(1) m0(5) op Let_def andThen_run)
  moreover have "effect st0 s ((stored s)(moduleKey c \<mapsto> c')) (fold applyPatch es) t"
    using effect_trans [OF effect_trans [OF effect_trans [OF s1 s2(2)] s3] t(2)] effect_store [OF s2(2)] effect_store [OF s3]
    by simp
  ultimately show ?thesis by blast
qed

text \<open>A phase before, the operation, a phase after.\<close>

lemma hibernation_steps:
  assumes ok: "operable lib E c hm" and c: "stored s (moduleKey c) = Some c"
    and op: "\<And>u. op (managerFor lib E hm) (metaDataOf lib c) u = (Ret (None, md'), u\<lparr>trace := trace u @ es\<rparr>)"
    and inert: "\<And>st. fold storeEvent es st = st"
  obtains m1 s1 m2 s2 c' t where "setPhase E before None c s = (Ret (None, m1), s1)"
    "hibernateModule lib E op failed m1 s1 = (Ret (None, m2), s2)" "setPhase E after None m2 s2 = (Ret (None, c'), t)"
    "effect st0 s ((stored s)(moduleKey c \<mapsto> c')) (fold applyPatch es) t" "sameObject c c'" "modPhase c' = after"
    "annotationsOf c' = (annotationsOf c)(managerDataKey \<mapsto> metaString lib md')"
proof -
  obtain t1 s1 where s1: "setPhase E before None c s = (Ret (None, atPhase before None t1 c), s1)"
      "effect st0 s ((stored s)(moduleKey c \<mapsto> atPhase before None t1 c)) id s1"
    using setPhase_run [OF c] by blast
  let ?m1 = "atPhase before None t1 c"
  let ?m2 = "setAnnotations (Some ((annotationsOf ?m1)(managerDataKey \<mapsto> metaString lib md'))) ?m1"
  have op1: "op (managerFor lib E hm) (metaDataOf lib ?m1) u = (Ret (None, md'), u\<lparr>trace := trace u @ es\<rparr>)" for u
    using op by (simp add: metaDataOf_def)
  have m1: "stored s1 (moduleKey ?m1) = Some ?m1" using effect_store [OF s1(2)] by simp
  from hibernateModule_run [where op = op and failed = failed, OF operable_sameObject [OF ok atPhase_simps(1)] m1 op1 inert]
  obtain s2 where s2: "hibernateModule lib E op failed ?m1 s1 = (Ret (None, ?m2), s2)"
      "effect st0 s1 ((stored s1)(moduleKey c \<mapsto> ?m2)) (fold applyPatch es) s2"
    unfolding atPhase_simps by blast
  have m2: "stored s2 (moduleKey ?m2) = Some ?m2" using effect_store [OF s2(2)] by simp
  obtain t2 t where t: "setPhase E after None ?m2 s2 = (Ret (None, atPhase after None t2 ?m2), t)"
      "effect st0 s2 ((stored s2)(moduleKey c \<mapsto> atPhase after None t2 ?m2)) id t"
    using setPhase_run [OF m2, of after None] by auto
  let ?c' = "atPhase after None t2 ?m2"
  have "effect st0 s ((stored s)(moduleKey c \<mapsto> ?c')) (fold applyPatch es) t"
    using effect_trans [OF effect_trans [OF s1(2) s2(2)] t(2)] effect_store [OF s1(2)] effect_store [OF s2(2)] by simp
  moreover have "sameObject c ?c'"
    by (rule sameObject_trans [of _ ?m1], simp, rule sameObject_trans [of _ ?m2]) simp_all
  ultimately show thesis by (rule that [OF s1(1) s2(1) t(1)]) simp_all
qed

lemma sleepStep_run:
  assumes "operable lib E c hm" and "stored s (moduleKey c) = Some c"
    and "\<And>u. im_Sleep (managerFor lib E hm) (metaDataOf lib c) u = (Ret (None, md'), u\<lparr>trace := trace u @ es\<rparr>)"
    and "\<And>st. fold storeEvent es st = st"
  shows "\<exists>c' t. sleepStep lib E c s = (Ret (None, c'), t)
    \<and> effect st0 s ((stored s)(moduleKey c \<mapsto> c')) (fold applyPatch es) t \<and> sameObject c c'
    \<and> modPhase c' = ModulePhaseSleeped \<and> annotationsOf c' = (annotationsOf c)(managerDataKey \<mapsto> metaString lib md')"
  by (rule hibernation_steps [where op = im_Sleep and before = ModulePhaseSleeping and after = ModulePhaseSleeped
        and failed = "''failed to sleep module''", OF assms])
    (auto simp: sleepStep_def sleepModule_def andThen_run)

lemma resumeStep_run:
  assumes "operable lib E c hm" and "stored s (moduleKey c) = Some c"
    and "\<And>u. im_Resume (managerFor lib E hm) (metaDataOf lib c) u = (Ret (None, md'), u\<lparr>trace := trace u @ es\<rparr>)"
    and "\<And>st. fold storeEvent es st = st"
  shows "\<exists>c' t. resumeStep lib E c s = (Ret (None, c'), t)
    \<and> effect st0 s ((stored s)(moduleKey c \<mapsto> c')) (fold applyPatch es) t \<and> sameObject c c'
    \<and> modPhase c' = ModulePhaseReady \<and> annotationsOf c' = (annotationsOf c)(managerDataKey \<mapsto> metaString lib md')"
  by (rule hibernation_steps [where op = im_Resume and before = ModulePhaseResuming and after = ModulePhaseReady
        and failed = "''failed to resume module''", OF assms])
    (auto simp: resumeStep_def resumeModule_def andThen_run)

text \<open>The two reconciliations.\<close>

lemma reconcile_sleep:
  assumes "operable lib E c hm" and "stored s k = Some c" and "modPhase c = ModulePhaseReady"
    and "ms_Hibernated (mod_Spec c)" and "meta_DeletionTimestamp (mod_Meta c) = None"
    and "\<And>u. im_Sleep (managerFor lib E hm) (metaDataOf lib c) u = (Ret (None, md'), u\<lparr>trace := trace u @ es\<rparr>)"
    and "\<And>st. fold storeEvent es st = st"
  shows "\<exists>c' t. ModuleReconcile lib E k s = (Ret (requeueAfter (seconds 2), None), t)
    \<and> effect st0 s ((stored s)(k \<mapsto> c')) (fold applyPatch es) t \<and> sameObject c c'
    \<and> modPhase c' = ModulePhaseSleeped \<and> annotationsOf c' = (annotationsOf c)(managerDataKey \<mapsto> metaString lib md')"
proof -
  have k: "moduleKey c = k" by (rule keyedD [OF keyed_stored assms(2)])
  let ?s = "s\<lparr>trace := trace s @ [ModuleEv (GetM k (Inr c))]\<rparr>"
  have "stored ?s (moduleKey c) = Some c" using assms(2) k by simp
  from sleepStep_run [OF assms(1) this assms(6,7)] obtain c' t where
    run: "sleepStep lib E c ?s = (Ret (None, c'), t)" and
    eff: "effect st0 ?s ((stored ?s)(moduleKey c \<mapsto> c')) (fold applyPatch es) t" and
    c': "sameObject c c'" "modPhase c' = ModulePhaseSleeped" "annotationsOf c' = (annotationsOf c)(managerDataKey \<mapsto> metaString lib md')"
    by blast
  have "ms_Hibernated (mod_Spec c')" using assms(4) c'(1) by (simp add: sameObject_def)
  then have "ModuleReconcile lib E k s = (Ret (requeueAfter (seconds 2), None), t)"
    using assms(2-5) run c'(2)
    by (simp add: ModuleReconcile_def get_run moduleSwitch_def module_handleHibernation_def andThen_run)
  moreover have "effect st0 s ((stored s)(k \<mapsto> c')) (fold applyPatch es) t"
    using eff k by (simp add: effect_def replicasAfter_def)
  ultimately show ?thesis using c' by blast
qed

lemma reconcile_resume:
  assumes "operable lib E c hm" and "stored s k = Some c" and "modPhase c = ModulePhaseSleeped"
    and "\<not> ms_Hibernated (mod_Spec c)" and "meta_DeletionTimestamp (mod_Meta c) = None"
    and "\<And>u. im_Resume (managerFor lib E hm) (metaDataOf lib c) u = (Ret (None, md'), u\<lparr>trace := trace u @ es\<rparr>)"
    and "\<And>st. fold storeEvent es st = st"
  shows "\<exists>c' t. ModuleReconcile lib E k s = (Ret (requeueAfter (seconds 2), None), t)
    \<and> effect st0 s ((stored s)(k \<mapsto> c')) (fold applyPatch es) t \<and> sameObject c c' \<and> modPhase c' = ModulePhaseReady"
proof -
  have k: "moduleKey c = k" by (rule keyedD [OF keyed_stored assms(2)])
  let ?s = "s\<lparr>trace := trace s @ [ModuleEv (GetM k (Inr c))]\<rparr>"
  have "stored ?s (moduleKey c) = Some c" using assms(2) k by simp
  from resumeStep_run [OF assms(1) this assms(6,7)] obtain c' t where
    run: "resumeStep lib E c ?s = (Ret (None, c'), t)" and
    eff: "effect st0 ?s ((stored ?s)(moduleKey c \<mapsto> c')) (fold applyPatch es) t" and
    c': "sameObject c c'" "modPhase c' = ModulePhaseReady"
    by blast
  have "ModuleReconcile lib E k s = (Ret (requeueAfter (seconds 2), None), t)"
    using assms(2-5) run c'(2)
    by (simp add: ModuleReconcile_def get_run moduleSwitch_def module_handleHibernation_def andThen_run)
  moreover have "effect st0 s ((stored s)(k \<mapsto> c')) (fold applyPatch es) t"
    using eff k by (simp add: effect_def replicasAfter_def)
  ultimately show ?thesis using c' by blast
qed

end

section \<open>A module sleeps and wakes\<close>

text \<open>Somebody sets \<open>spec.hibernated\<close> to false again: a patch that the API server accepted.\<close>

definition userWakes :: "Module \<Rightarrow> world \<Rightarrow> world" where
  "userWakes m s = s\<lparr>trace := trace s @ [ModuleEv (PatchM m (withHibernated False m) (Inr (withHibernated False m)))]\<rparr>"

lemma withHibernated_simps [simp]:
  "moduleKey (withHibernated b m) = moduleKey m" "mod_Status (withHibernated b m) = mod_Status m"
  "mod_Meta (withHibernated b m) = mod_Meta m" "mod_Config (withHibernated b m) = mod_Config m"
  "annotationsOf (withHibernated b m) = annotationsOf m" "ms_Hibernated (mod_Spec (withHibernated b m)) = b"
  by (simp_all add: withHibernated_def annotationsOf_def)

lemma operable_withHibernated: "operable lib E m hm \<Longrightarrow> operable lib E (withHibernated b m) hm"
  by (erule operable_same) (simp_all add: withHibernated_def)

text \<open>The events of scaling leave the store alone.\<close>

lemma helm_inert: "\<forall>e \<in> set es. \<exists>c x. e = HelmEv c x \<Longrightarrow> fold storeEvent es st = st"
  by (induction es arbitrary: st) auto

lemma scaling_inert: "fold storeEvent (sleepEvents c rel ns items) st = st" "fold storeEvent (resumeEvents c h) st = st"
  by (rule helm_inert; auto simp: sleepEvents_def downPatches_def resumeEvents_def backPatches_def)+

text \<open>The truthful list of a release's workloads at the start of a run.\<close>

definition listsWorkloads :: "env \<Rightarrow> ModuleHelmManager \<Rightarrow> (workload_kind \<Rightarrow> Workload list) \<Rightarrow> (workload_key \<Rightarrow> int) \<Rightarrow> bool" where
  "listsWorkloads E hm items replicas \<longleftrightarrow>
     (\<forall>h k. e_kListWorkloads E h (hs_config (hm_helmService hm)) k (GetNamespace (hm_helmModule hm))
        (instanceSelector (hm_releaseName hm)) = Inr (items k))
   \<and> (\<forall>k. trueListing replicas (hs_config (hm_helmService hm)) k (GetNamespace (hm_helmModule hm)) (items k))
   \<and> (\<forall>k. \<forall>w \<in> set (items k). \<bar>currentReplicas w\<bar> < 2 ^ 31)"

lemma manager_Sleep_run:
  assumes "patchesSucceed E" and "listsWorkloads E hm items replicas" and "items k \<noteq> []"
  shows "im_Sleep (managerFor lib E hm) md u =
    (Ret (None, metaSet replicaHistoryKey (encReplicaHistory (historyOf items)) md),
     u\<lparr>trace := trace u @ sleepEvents (hs_config (hm_helmService hm)) (hm_releaseName hm) (GetNamespace (hm_helmModule hm)) items\<rparr>)"
proof -
  have "\<exists>k. items k \<noteq> []" using assms(3) by blast
  then show ?thesis
    using Sleep_run [OF assms(1), of hm items md u] assms(2)
    by (simp add: listsWorkloads_def)
qed

lemma manager_Resume_run:
  assumes "patchesSucceed E" and "map_of md replicaHistoryKey = Some v" and "lib_decodeReplicaHistory lib v = Inr h"
  shows "im_Resume (managerFor lib E hm) md u =
    (Ret (None, md), u\<lparr>trace := trace u @ resumeEvents (hs_config (hm_helmService hm)) h\<rparr>)"
  using Resume_run [OF assms, of hm u] by simp

text \<open>What the annotation gives back of the metadata with the replica history.\<close>

lemma metaDataOf_history:
  assumes "jsonLaw lib" and "smallInts (AMap md)"
    and "\<forall>k. \<forall>w \<in> set (items k). \<bar>currentReplicas w\<bar> < 2 ^ 31"
    and "annotationsOf m managerDataKey = Some (metaString lib (metaSet replicaHistoryKey (encReplicaHistory (historyOf items)) md))"
  shows "map_of (metaDataOf lib m) replicaHistoryKey = Some (jsonView (encReplicaHistory (historyOf items)))"
proof -
  let ?md = "metaSet replicaHistoryKey (encReplicaHistory (historyOf items)) md"
  have "smallInts (AMap ?md)"
    using smallInts_metaSet [OF assms(2) smallInts_history] assms(3) by blast
  from meta_roundtrip [OF assms(1) this] obtain md' where
    "metaParse lib [] (metaString lib ?md) = Inr md'"
    "map_of md' replicaHistoryKey = Some (jsonView (encReplicaHistory (historyOf items)))"
    by (auto simp: map_of_metaSet)
  moreover have "metaString lib ?md \<noteq> []"
    using assms(1) by (simp add: jsonLaw_def metaString_def)
  ultimately show ?thesis by (simp add: metaDataOf_def assms(4))
qed


section \<open>A workspace hibernates\<close>

text \<open>The sleeping of a release whose workloads are listed, whether or not it has any.\<close>

definition lists :: "env \<Rightarrow> ModuleHelmManager \<Rightarrow> (workload_kind \<Rightarrow> Workload list) \<Rightarrow> bool" where
  "lists E hm items \<longleftrightarrow> (\<forall>h k. e_kListWorkloads E h (hs_config (hm_helmService hm)) k (GetNamespace (hm_helmModule hm))
     (instanceSelector (hm_releaseName hm)) = Inr (items k))"

definition sleepsWith :: "ModuleHelmManager \<Rightarrow> (workload_kind \<Rightarrow> Workload list) \<Rightarrow> event list" where
  "sleepsWith hm items =
     sleepEvents (hs_config (hm_helmService hm)) (hm_releaseName hm) (GetNamespace (hm_helmModule hm)) items"

lemma Sleep_lists:
  assumes "patchesSucceed E" and "lists E hm items"
  shows "\<exists>md'. \<forall>u. im_Sleep (managerFor lib E hm) md u = (Ret (None, md'), u\<lparr>trace := trace u @ sleepsWith hm items\<rparr>)"
  using Sleep_run [OF assms(1), of hm items md] assms(2) by (auto simp: lists_def sleepsWith_def)

text \<open>The workloads that the modules of the keys run, and the counts when all of them sleep.\<close>

definition runsWorkload ::
  "(NamespacedName \<Rightarrow> ModuleHelmManager) \<Rightarrow> (NamespacedName \<Rightarrow> workload_kind \<Rightarrow> Workload list) \<Rightarrow> NamespacedName \<Rightarrow>
     workload_key \<Rightarrow> bool" where
  "runsWorkload hm items k key = (case key of (c, kind, ns, name) \<Rightarrow> c = hs_config (hm_helmService (hm k))
     \<and> ns = GetNamespace (hm_helmModule (hm k)) \<and> (\<exists>w \<in> set (items k kind). currentReplicas w \<noteq> 0 \<and> wl_Name w = name))"

lemma fold_sleepsWith:
  "fold applyPatch (sleepsWith (hm k) (items k)) rs key = (if runsWorkload hm items k key then 0 else rs key)"
  by (cases key) (auto simp: sleepsWith_def fold_sleepEvents runsWorkload_def)

definition reconcileEach :: "golib \<Rightarrow> env \<Rightarrow> NamespacedName list \<Rightarrow> unit io" where
  "reconcileEach lib E ks = forEach (\<lambda>k. andThen (ModuleReconcile lib E k) (\<lambda>_. ret ())) ks"

definition awaitsSleep :: "golib \<Rightarrow> env \<Rightarrow> ModuleHelmManager \<Rightarrow> Module \<Rightarrow> bool" where
  "awaitsSleep lib E hm m \<longleftrightarrow> modPhase m = ModulePhaseReady \<and> ms_Hibernated (mod_Spec m)
     \<and> meta_DeletionTimestamp (mod_Meta m) = None \<and> operable lib E m hm"

context api_server
begin

lemma reconcileEach_run:
  assumes "patchesSucceed E" and "\<forall>k. lists E (hm k) (items k)"
    and "distinct ks" and "\<forall>k \<in> set ks. \<exists>m. stored s k = Some m \<and> awaitsSleep lib E (hm k) m"
  shows "\<exists>t. reconcileEach lib E ks s = (Ret (), t)
    \<and> (\<forall>k \<in> set ks. \<exists>m. stored t k = Some m \<and> modPhase m = ModulePhaseSleeped)
    \<and> (\<forall>k. k \<notin> set ks \<longrightarrow> stored t k = stored s k)
    \<and> (\<forall>rs key. replicasAfter rs (trace t) key =
         (if \<exists>k \<in> set ks. runsWorkload hm items k key then 0 else replicasAfter rs (trace s) key))"
  using assms(3,4)
proof (induction ks arbitrary: s)
  case Nil
  then show ?case by (simp add: reconcileEach_def)
next
  case (Cons k ks)
  from Cons.prems(2) obtain m where m: "stored s k = Some m" "awaitsSleep lib E (hm k) m" by auto
  from Sleep_lists [OF assms(1)] assms(2) obtain md' where
    sleep: "\<And>u. im_Sleep (managerFor lib E (hm k)) (metaDataOf lib m) u
      = (Ret (None, md'), u\<lparr>trace := trace u @ sleepsWith (hm k) (items k)\<rparr>)" by blast
  have inert: "fold storeEvent (sleepsWith (hm k) (items k)) st = st" for st
    unfolding sleepsWith_def by (rule scaling_inert)
  from m(2) have "operable lib E m (hm k)" "modPhase m = ModulePhaseReady" "ms_Hibernated (mod_Spec m)"
    "meta_DeletionTimestamp (mod_Meta m) = None" by (simp_all add: awaitsSleep_def)
  from reconcile_sleep [OF this(1) m(1) this(2-4) sleep inert] obtain m' s' where
    s': "ModuleReconcile lib E k s = (Ret (requeueAfter (seconds 2), None), s')"
      "effect st0 s ((stored s)(k \<mapsto> m')) (fold applyPatch (sleepsWith (hm k) (items k))) s'" and
    m': "modPhase m' = ModulePhaseSleeped" by blast
  have st: "stored s' = (stored s)(k \<mapsto> m')" by (rule effect_store [OF s'(2)])
  have "distinct ks" "\<forall>k \<in> set ks. \<exists>m. stored s' k = Some m \<and> awaitsSleep lib E (hm k) m"
    using Cons.prems by (auto simp: st)
  from Cons.IH [OF this] obtain t where
    t: "reconcileEach lib E ks s' = (Ret (), t)" "\<forall>k \<in> set ks. \<exists>m. stored t k = Some m \<and> modPhase m = ModulePhaseSleeped"
      "\<forall>k. k \<notin> set ks \<longrightarrow> stored t k = stored s' k"
      "\<forall>rs key. replicasAfter rs (trace t) key =
         (if \<exists>k \<in> set ks. runsWorkload hm items k key then 0 else replicasAfter rs (trace s') key)" by blast
  have "reconcileEach lib E (k # ks) s = (Ret (), t)"
    using s'(1) t(1) by (simp add: reconcileEach_def andThen_run)
  moreover have "\<forall>l \<in> set (k # ks). \<exists>m. stored t l = Some m \<and> modPhase m = ModulePhaseSleeped"
    using t(2,3) Cons.prems(1) m' by (auto simp: st)
  moreover have "\<forall>l. l \<notin> set (k # ks) \<longrightarrow> stored t l = stored s l" using t(3) by (simp add: st)
  moreover have "\<forall>rs key. replicasAfter rs (trace t) key =
      (if \<exists>k \<in> set (k # ks). runsWorkload hm items k key then 0 else replicasAfter rs (trace s) key)"
    using t(4) s'(2) by (auto simp: effect_def fold_sleepsWith)
  ultimately show ?case by blast
qed

end

text \<open>The loop of \<open>sleepModules\<close> on the store.\<close>

lemma withHibernated_id: "ms_Hibernated (mod_Spec m) = b \<Longrightarrow> withHibernated b m = m"
  by (simp add: withHibernated_def)

lemma mergePatch_hibernated:
  "\<not> ms_Hibernated (mod_Spec m) \<Longrightarrow> mergePatch m (withHibernated True m) m = withHibernated True m"
  by (simp add: mergePatch_def mergeAnnotations_def pick_def) (simp add: withHibernated_def)

definition hibernated :: "Module list \<Rightarrow> store \<Rightarrow> store" where
  "hibernated ms st = (\<lambda>k. if k \<in> moduleKey ` set ms then map_option (withHibernated True) (st k) else st k)"

text \<open>Events that are no call for a module and none of Helm.\<close>

fun inertEvent :: "event \<Rightarrow> bool" where
  "inertEvent (ModuleEv _) = False"
| "inertEvent (HelmEv _ _) = False"
| "inertEvent _ = True"

lemma inert_event: "inertEvent e \<Longrightarrow> storeEvent e st = st" "inertEvent e \<Longrightarrow> applyPatch e rs = rs"
  by (cases e rule: inertEvent.cases; simp)+

lemma inert_fold:
  "list_all inertEvent es \<Longrightarrow> fold storeEvent es st = st" "list_all inertEvent es \<Longrightarrow> fold applyPatch es rs = rs"
  by (induction es) (simp_all add: inert_event)

lemma cron_inert: "cronEvent e \<Longrightarrow> inertEvent e"
  by (cases e rule: cronEvent.cases) simp_all

lemma setPhaseHibernated_inert: "keeps (emits inertEvent) (setPhaseHibernated E msg w)"
  unfolding setPhaseHibernated_def writeStatus_def calls by (intro keeps_io; simp)

lemma after_sleep_inert:
  "keeps (emits inertEvent) (andThen (andThen (setPhaseHibernated E msg w) (\<lambda>(e1, w1). ret ((noRequeue, e1), w1))) (scheduleAfter lib E))"
  unfolding scheduleAfter_def
  by (intro keeps_io setPhaseHibernated_inert keeps_emits_mono [OF handleAutoHibernation_cron cron_inert])

context api_server
begin

lemma patchEach_run:
  assumes "distinct (map moduleKey ms)" and "\<forall>m \<in> set ms. stored s (moduleKey m) = Some m"
  shows "\<exists>t. forEach (patchHibernated E True) ms s = (Ret (), t) \<and> effect st0 s (hibernated ms (stored s)) id t"
  using assms
proof (induction ms arbitrary: s)
  case Nil
  then show ?case by (simp add: effect_def hibernated_def)
next
  case (Cons m ms)
  have m: "stored s (moduleKey (withHibernated True m)) = Some m" using Cons.prems(2) by simp
  have one: "\<exists>s'. patchHibernated E True m s = (Ret (), s') \<and> effect st0 s ((stored s)(moduleKey m \<mapsto> withHibernated True m)) id s'"
  proof (cases "ms_Hibernated (mod_Spec m)")
    case True
    then have "(stored s)(moduleKey m \<mapsto> withHibernated True m) = stored s"
      using m by (auto simp: withHibernated_id)
    with True show ?thesis by (simp add: patchHibernated_def effect_def)
  next
    case False
    let ?ev = "ModuleEv (PatchM m (withHibernated True m) (Inr (withHibernated True m)))"
    have "patchHibernated E True m s = (Ret (), s\<lparr>trace := trace s @ [?ev]\<rparr>)"
      using False by (simp add: patchHibernated_def patch_run [OF m] mergePatch_hibernated)
    moreover have "effect st0 s ((stored s)(moduleKey m \<mapsto> withHibernated True m)) id (s\<lparr>trace := trace s @ [?ev]\<rparr>)"
      by (rule effectI [where es = "[?ev]"]) simp_all
    ultimately show ?thesis by blast
  qed
  then obtain s' where s': "patchHibernated E True m s = (Ret (), s')"
    "effect st0 s ((stored s)(moduleKey m \<mapsto> withHibernated True m)) id s'" by blast
  have "distinct (map moduleKey ms)" "\<forall>m \<in> set ms. stored s' (moduleKey m) = Some m"
    using Cons.prems effect_store [OF s'(2)] by (auto simp: image_iff)
  from Cons.IH [OF this] obtain t where
    t: "forEach (patchHibernated E True) ms s' = (Ret (), t)" "effect st0 s' (hibernated ms (stored s')) id t" by blast
  have "hibernated ms (stored s') = hibernated (m # ms) (stored s)"
    using Cons.prems effect_store [OF s'(2)] by (auto simp: hibernated_def fun_eq_iff)
  then have "effect st0 s (hibernated (m # ms) (stored s)) id t" using effect_trans [OF s'(2) t(2)] by simp
  moreover have "forEach (patchHibernated E True) (m # ms) s = (Ret (), t)" using s'(1) t(1) by (simp add: andThen_run)
  ultimately show ?case by blast
qed

lemma hibernateWorkspace_run:
  assumes "e_getWorkspace E (trace s) req = Inr w" and "wsPhase w = WorkspacePhaseReady"
    and "wss_Hibernated (ws_Spec w)" and "wst_HibernatedAt (ws_Status w) = None"
    and "meta_DeletionTimestamp (ws_Meta w) = None"
    and "e_listModules E (trace s @ [WorkspaceEv (GetW req (Inr w))]) (meta_Namespace (ws_Meta w)) (meta_Name (ws_Meta w)) = Inr ms"
    and "distinct (map moduleKey ms)" and "\<forall>m \<in> set ms. stored s (moduleKey m) = Some m"
  shows "effect st0 s (hibernated ms (stored s)) id (snd (WorkspaceReconcile lib E req s))"
proof -
  let ?list = "ModuleEv (ListM (meta_Namespace (ws_Meta w)) (meta_Name (ws_Meta w)) (Inr ms))"
  let ?s1 = "s\<lparr>trace := trace s @ [WorkspaceEv (GetW req (Inr w))]\<rparr>"
  let ?s2 = "s\<lparr>trace := trace s @ [WorkspaceEv (GetW req (Inr w)), ?list]\<rparr>"
  let ?rest = "andThen (andThen (setPhaseHibernated E None w) (\<lambda>(e1, w1). ret ((noRequeue, e1), w1))) (scheduleAfter lib E)"
  have s2: "stored ?s2 = stored s" "\<And>rs. replicasAfter rs (trace ?s2) = replicasAfter rs (trace s)"
    by (simp_all add: storeAfter_append)
  obtain t where t: "forEach (patchHibernated E True) ms ?s2 = (Ret (), t)" "effect st0 ?s2 (hibernated ms (stored s)) id t"
    using patchEach_run [OF assms(7), of ?s2] assms(8) s2 by auto
  have "WorkspaceReconcile lib E req s = ?rest t"
    using assms(2-5) t(1) assms(6)
    by (simp add: WorkspaceReconcile_read [OF assms(1)] workspaceSwitch_def handleHibernation_def sleepModules_def
        getRelatedModules_def listModules_def andThen_run)
  moreover obtain es where "trace (snd (?rest t)) = trace t @ es" "list_all inertEvent es"
    using after_sleep_inert [of E None w lib] by (auto simp: keeps_def emits_def)
  ultimately show ?thesis
    using t(2) s2 by (simp add: effect_def storeAfter_append inert_fold)
qed

end


section \<open>A concrete cluster\<close>

text \<open>An API server with a store, a workspace that is ready, and a release with one Deployment.\<close>

definition exampleCluster :: "Workspace \<Rightarrow> Module list \<Rightarrow> env" where
  "exampleCluster w ms = storeEnv ms (exampleScaleEnv\<lparr>e_getWorkspace := \<lambda>h k. Inr w,
     e_inClusterConfig := \<lambda>h. Inr exampleConfig, e_clientConfig := \<lambda>h c. Inr exampleConfig,
     e_locateChart := \<lambda>h c q n. Inr ''/cache/redis.tgz'', e_loadChart := \<lambda>h c p. Inr p,
     e_readValuesFile := \<lambda>h c p. Inr []\<rparr>)"

definition exampleSleepy :: Module where
  "exampleSleepy = exampleModule\<lparr>mod_Config := [],
     mod_Spec := (mod_Spec exampleModule)\<lparr>ms_Helm := Some exampleHelm, ms_Config := None, ms_Hibernated := True\<rparr>,
     mod_Status := (mod_Status exampleModule)\<lparr>mst_Phase := ModulePhaseReady\<rparr>\<rparr>"

lemma exampleCluster_calls [simp]:
  "e_getWorkspace (exampleCluster w ms) h wk = Inr w"
  "e_inClusterConfig (exampleCluster w ms) h = Inr exampleConfig"
  "e_clientConfig (exampleCluster w ms) h a = Inr exampleConfig"
  "e_helmInit (exampleCluster w ms) h c ns = None" "e_newForConfig (exampleCluster w ms) h c = None"
  "e_kPatchReplicas (exampleCluster w ms) h c knd ns name n = None"
  "e_kListWorkloads (exampleCluster w ms) h c knd ns sel = Inr (exampleItemsOf knd)"
  "e_locateChart (exampleCluster w ms) h c q chart = Inr ''/cache/redis.tgz''" "e_loadChart (exampleCluster w ms) h c p = Inr p"
  "e_readValuesFile (exampleCluster w ms) h c p = Inr []" "e_runInstall (exampleCluster w ms) h c q ch v = None"
  by (simp_all add: exampleCluster_def storeEnv_def exampleScaleEnv_def exampleEnv_def)

lemma exampleCluster_server: "api_server (exampleCluster w ms) (initialStore ms)"
  unfolding exampleCluster_def by (rule stores.api_server_axioms)

lemma exampleConfig_token: "rc_BearerToken exampleConfig = ''t''"
  by (simp add: exampleConfig_def)

lemma exampleCluster_connects:
  "\<exists>v. NewHelmService (exampleCluster w ms) (wss_Connection (ws_Spec exampleWorkspace)) u = (Ret (Inr exampleService), v)"
  by (simp add: NewHelmService_def NewRESTConfig_def NewAPIConfig_def exampleWorkspace_def inClusterConfig_def
      inClusterToken_def exampleConfig_token clientConfig_def
      services_NewHelmService_def helmInit_def newForConfig_def guardErr_def exampleService_def)

lemma example_operable:
  assumes "mod_Config m = []" and "ms_Config (mod_Spec m) = None" and "ms_Helm (mod_Spec m) = Some exampleHelm"
    and "wst_Ready (ws_Status w)" and "wsPhase w = WorkspacePhaseReady"
    and "wss_Connection (ws_Spec w) = wss_Connection (ws_Spec exampleWorkspace)"
  shows "operable exampleJsonLib (exampleCluster w ms) m exampleManager"
proof -
  have "RenderHelmSpec exampleJsonLib m' n = (Ret (Inr exampleHelm), n)"
    if "mod_Config m' = []" "ms_Config (mod_Spec m') = None" "ms_Helm (mod_Spec m') = Some exampleHelm" for m' n
    by (rule RenderHelmSpec_plain [OF that(3) example_plain _ example_releaseName])
      (simp add: GetValidatedConfig_def inputConfigOf_def that)
  with assms(1-3) have "rendersTo exampleJsonLib m exampleHelm" by (simp add: rendersTo_def)
  with assms exampleCluster_connects show ?thesis
    by (simp add: operable_def workspaceServes_def exampleManager_def example_releaseName)
qed

lemma exampleSleepy_operable: "operable exampleJsonLib (exampleCluster exampleWorkspace ms) exampleSleepy exampleManager"
  by (rule example_operable) (simp_all add: exampleSleepy_def exampleWorkspace_def)


text \<open>A workspace with two modules, and one module of another workspace beside them.\<close>

definition exampleAwake :: "string \<Rightarrow> string \<Rightarrow> Module" where
  "exampleAwake name workspace = exampleSleepy\<lparr>mod_Meta := exampleMeta\<lparr>meta_Name := name\<rparr>,
     mod_Spec := (mod_Spec exampleSleepy)\<lparr>ms_Workspace := \<lparr>wref_Name = workspace, wref_Namespace = ''default''\<rparr>,
       ms_Hibernated := False\<rparr>\<rparr>"

definition exampleModules :: "Module list" where
  "exampleModules = [exampleAwake ''a'' ''dev'', exampleAwake ''b'' ''other'', exampleAwake ''c'' ''dev'']"

definition exampleTired :: Workspace where
  "exampleTired = exampleWorkspace\<lparr>ws_Spec := (ws_Spec exampleWorkspace)\<lparr>wss_Hibernated := True\<rparr>\<rparr>"

definition keyNamed :: "string \<Rightarrow> NamespacedName" where
  "keyNamed name = \<lparr>nn_Namespace = ''default'', nn_Name = name\<rparr>"

lemma keyNamed_eq [simp]: "keyNamed a = keyNamed b \<longleftrightarrow> a = b"
  by (simp add: keyNamed_def)

lemma exampleAwake_simps [simp]:
  "moduleKey (exampleAwake name ws) = keyNamed name" "modPhase (exampleAwake name ws) = ModulePhaseReady"
  "meta_DeletionTimestamp (mod_Meta (exampleAwake name ws)) = None" "mod_Config (exampleAwake name ws) = []"
  "ms_Config (mod_Spec (exampleAwake name ws)) = None" "ms_Helm (mod_Spec (exampleAwake name ws)) = Some exampleHelm"
  "refersTo ''default'' n (exampleAwake name ws) \<longleftrightarrow> ws = n"
  by (auto simp: exampleAwake_def exampleSleepy_def exampleModule_def exampleMeta_def keyNamed_def refersTo_iff)

lemma exampleModules_stored: "initialStore exampleModules = [keyNamed ''a'' \<mapsto> exampleAwake ''a'' ''dev'',
    keyNamed ''b'' \<mapsto> exampleAwake ''b'' ''other'', keyNamed ''c'' \<mapsto> exampleAwake ''c'' ''dev'']"
  by (rule ext) (simp add: initialStore_def exampleModules_def)


end
