(* ===== verification/Installation.thy ===== *)
theory Installation
  imports ModuleController
begin

text \<open>
  What the phase \<open>ready\<close> of a module says. A module controller writes \<open>ready\<close> for a module that it installs
  only after something provided the module in the same run: Helm installed its release, or found the release
  that it adopts, or the runner of a custom module answered its installation with 201. Two relations carry the
  proof: events of one kind come only after an event of another (\<open>event_order\<close>), and a run that returns a
  given result has emitted an event of a kind (\<open>achieves\<close>).
\<close>

section \<open>Events that come first\<close>

fun precedes :: "('e \<Rightarrow> bool) \<Rightarrow> ('e \<Rightarrow> bool) \<Rightarrow> 'e list \<Rightarrow> bool" where
  "precedes P W [] = True"
| "precedes P W (e # es) = (\<not> W e \<and> (P e \<or> precedes P W es))"

lemma precedes_append: "precedes P W a \<Longrightarrow> precedes P W b \<Longrightarrow> precedes P W (a @ b)"
  by (induction a) auto

lemma precedes_quiet: "list_all (\<lambda>e. \<not> W e) es \<Longrightarrow> precedes P W es"
  by (induction es) auto

lemma precedes_earned: "list_all (\<lambda>e. \<not> W e) a \<Longrightarrow> \<exists>e \<in> set a. P e \<Longrightarrow> precedes P W (a @ b)"
  by (induction a) auto

lemma precedesD: "precedes P W (a @ w # b) \<Longrightarrow> W w \<Longrightarrow> \<exists>e \<in> set a. P e"
  by (induction a) auto

abbreviation appends :: "world \<Rightarrow> world \<Rightarrow> bool" where
  "appends \<equiv> emits (\<lambda>_. True)"

lemma keeps_appends: "keeps (emits Q) m \<Longrightarrow> keeps appends m"
  by (erule keeps_emits_mono) simp

lemma keeps_appendsD: "keeps appends m \<Longrightarrow> m s = (r, t) \<Longrightarrow> \<exists>es. trace t = trace s @ es"
  by (auto dest!: keepsD simp: emits_def)

text \<open>Every run that returns a value of \<open>ok\<close> has emitted an event of \<open>P\<close>.\<close>

definition achieves :: "(event \<Rightarrow> bool) \<Rightarrow> 'a io \<Rightarrow> ('a \<Rightarrow> bool) \<Rightarrow> bool" where
  "achieves P m ok \<longleftrightarrow> (\<forall>s a t. m s = (Ret a, t) \<longrightarrow> ok a \<longrightarrow> (\<exists>es. trace t = trace s @ es \<and> (\<exists>e \<in> set es. P e)))"

lemma achievesD: "achieves P m ok \<Longrightarrow> m s = (Ret a, t) \<Longrightarrow> ok a \<Longrightarrow> \<exists>es. trace t = trace s @ es \<and> (\<exists>e \<in> set es. P e)"
  by (auto simp: achieves_def)

lemma achieves_fails: "\<not> ok a \<Longrightarrow> achieves P (ret a) ok"
  by (simp add: achieves_def)

lemma achieves_panic: "achieves P (panic w) ok"
  by (simp add: achieves_def)

lemma achieves_call: "(\<And>h. ok (f h) \<Longrightarrow> P (ev (f h))) \<Longrightarrow> achieves P (call f ev) ok"
  by (simp add: achieves_def)

lemma achieves_mono:
  "achieves P m ok \<Longrightarrow> (\<And>e. P e \<Longrightarrow> P' e) \<Longrightarrow> (\<And>a. ok' a \<Longrightarrow> ok a) \<Longrightarrow> achieves P' m ok'"
  unfolding achieves_def by metis

lemma achieves_later:
  assumes "keeps appends m" and "\<And>a. achieves P (f a) ok"
  shows "achieves P (andThen m f) ok"
  unfolding achieves_def
proof (intro allI impI)
  fix s b u assume "andThen m f s = (Ret b, u)" "ok b"
  then obtain a t where run: "m s = (Ret a, t)" "f a t = (Ret b, u)" by (blast elim: andThen_RetE)
  obtain es1 where "trace t = trace s @ es1" using keeps_appendsD [OF assms(1) run(1)] by blast
  moreover obtain es2 where "trace u = trace t @ es2" "\<exists>e \<in> set es2. P e"
    using achievesD [OF assms(2) run(2) \<open>ok b\<close>] by blast
  ultimately show "\<exists>es. trace u = trace s @ es \<and> (\<exists>e \<in> set es. P e)" by (intro exI [of _ "es1 @ es2"]) auto
qed

lemma achieves_first:
  assumes "achieves P m okm" and "\<And>a. keeps appends (f a)"
    and "\<And>a s b t. f a s = (Ret b, t) \<Longrightarrow> ok b \<Longrightarrow> okm a"
  shows "achieves P (andThen m f) ok"
  unfolding achieves_def
proof (intro allI impI)
  fix s b u assume "andThen m f s = (Ret b, u)" "ok b"
  then obtain a t where run: "m s = (Ret a, t)" "f a t = (Ret b, u)" by (blast elim: andThen_RetE)
  obtain es1 where "trace t = trace s @ es1" "\<exists>e \<in> set es1. P e"
    using achievesD [OF assms(1) run(1) assms(3) [OF run(2) \<open>ok b\<close>]] by blast
  moreover obtain es2 where "trace u = trace t @ es2" using keeps_appendsD [OF assms(2) run(2)] by blast
  ultimately show "\<exists>es. trace u = trace s @ es \<and> (\<exists>e \<in> set es. P e)" by (intro exI [of _ "es1 @ es2"]) auto
qed

text \<open>The second part may rely on what the first part returned.\<close>

lemma achieves_returned:
  assumes "keeps appends m" and "\<And>s a t. m s = (Ret a, t) \<Longrightarrow> achieves P (f a) ok"
  shows "achieves P (andThen m f) ok"
  unfolding achieves_def
proof (intro allI impI)
  fix s b u assume "andThen m f s = (Ret b, u)" "ok b"
  then obtain a t where run: "m s = (Ret a, t)" "f a t = (Ret b, u)" by (blast elim: andThen_RetE)
  obtain es1 where "trace t = trace s @ es1" using keeps_appendsD [OF assms(1) run(1)] by blast
  moreover obtain es2 where "trace u = trace t @ es2" "\<exists>e \<in> set es2. P e"
    using achievesD [OF assms(2) [OF run(1)] run(2) \<open>ok b\<close>] by blast
  ultimately show "\<exists>es. trace u = trace s @ es \<and> (\<exists>e \<in> set es. P e)" by (intro exI [of _ "es1 @ es2"]) auto
qed

lemma achieves_if: "(b \<Longrightarrow> achieves P m ok) \<Longrightarrow> (\<not> b \<Longrightarrow> achieves P n ok) \<Longrightarrow> achieves P (if b then m else n) ok"
  by simp

lemma achieves_let: "(\<And>x. x = e \<Longrightarrow> achieves P (f x) ok) \<Longrightarrow> achieves P (let x = e in f x) ok"
  by simp

lemma achieves_case_option:
  "(x = None \<Longrightarrow> achieves P m ok) \<Longrightarrow> (\<And>y. x = Some y \<Longrightarrow> achieves P (f y) ok) \<Longrightarrow>
   achieves P (case x of None \<Rightarrow> m | Some y \<Rightarrow> f y) ok"
  by (cases x) simp_all

lemma achieves_case_sum:
  "(\<And>a. x = Inl a \<Longrightarrow> achieves P (f a) ok) \<Longrightarrow> (\<And>b. x = Inr b \<Longrightarrow> achieves P (g b) ok) \<Longrightarrow>
   achieves P (case x of Inl a \<Rightarrow> f a | Inr b \<Rightarrow> g b) ok"
  by (cases x) simp_all

lemma achieves_case_prod:
  "(\<And>a b. x = (a, b) \<Longrightarrow> achieves P (f a b) ok) \<Longrightarrow> achieves P (case x of (a, b) \<Rightarrow> f a b) ok"
  by (cases x) simp_all

lemmas achieves_splits = achieves_if achieves_let achieves_case_option achieves_case_sum achieves_case_prod

lemma achieves_guard:
  "keeps appends m \<Longrightarrow> achieves P rest ok \<Longrightarrow> (\<And>err. \<not> ok (onErr err)) \<Longrightarrow> achieves P (guardErr m onErr rest) ok"
  unfolding guardErr_def by (intro achieves_later achieves_splits achieves_fails) simp_all

lemma achieves_deferred:
  assumes "achieves P body ok" and "keeps appends cleanup"
  shows "achieves P (deferred body cleanup) ok"
  unfolding achieves_def
proof (intro allI impI)
  fix s a u assume run: "deferred body cleanup s = (Ret a, u)" and "ok a"
  then obtain t r where t: "body s = (Ret a, t)" "cleanup t = (r, u)"
    by (auto simp: deferred_def split: prod.splits outcome.splits)
  from achievesD [OF assms(1) t(1) \<open>ok a\<close>] keeps_appendsD [OF assms(2) t(2)]
  show "\<exists>es. trace u = trace s @ es \<and> (\<exists>e \<in> set es. P e)"
    by (elim exE conjE bexE) (rule exI, rule conjI, simp, auto)
qed

lemma achieves_retry:
  assumes "\<And>obj. achieves P (fn obj) (\<lambda>x. fst x = None)" and "\<And>obj. keeps appends (fn obj)"
  shows "achieves P (retryOnConflict n fn obj) (\<lambda>x. fst x = None)"
proof (induction n arbitrary: obj)
  case (Suc n)
  show ?case
    unfolding retryOnConflict.simps achieves_def
  proof (intro allI impI)
    fix s a u assume "andThen (fn obj) (\<lambda>(err, obj'). case err of None \<Rightarrow> ret (None, obj')
      | Some e \<Rightarrow> if isConflict e then retryOnConflict n fn obj' else ret (Some e, obj')) s = (Ret a, u)" and ok: "fst a = None"
    then obtain err obj' t where run: "fn obj s = (Ret (err, obj'), t)" "(case err of None \<Rightarrow> ret (None, obj')
      | Some e \<Rightarrow> if isConflict e then retryOnConflict n fn obj' else ret (Some e, obj')) t = (Ret a, u)"
      by (auto elim!: andThen_RetE)
    show "\<exists>es. trace u = trace s @ es \<and> (\<exists>e \<in> set es. P e)"
    proof (cases err)
      case None
      with run have "fn obj s = (Ret a, u)" by simp
      from achievesD [OF assms(1) this ok] show ?thesis .
    next
      case (Some e)
      with run(2) ok have "retryOnConflict n fn obj' t = (Ret a, u)" by (auto split: if_splits)
      from achievesD [OF Suc this ok] obtain es where "trace u = trace t @ es" "\<exists>e \<in> set es. P e" by blast
      moreover obtain fs where "trace t = trace s @ fs" using keeps_appendsD [OF assms(2) run(1)] by blast
      ultimately show ?thesis by (intro exI [of _ "fs @ es"]) auto
    qed
  qed
qed (simp add: assms(1))

text \<open>An order of events: \<open>W\<close> only after \<open>P\<close>.\<close>

locale event_order =
  fixes P W :: "event \<Rightarrow> bool"
begin

definition ordered :: "world \<Rightarrow> world \<Rightarrow> bool" where
  "ordered s t \<longleftrightarrow> (\<exists>es. trace t = trace s @ es \<and> precedes P W es)"

lemma keeps_quiet: "keeps (emits (\<lambda>e. \<not> W e)) m \<Longrightarrow> keeps ordered m"
  by (erule keeps_mono) (auto simp: emits_def ordered_def intro: precedes_quiet)

end

sublocale event_order \<subseteq> ordered: stable_rel ordered
  by unfold_locales (auto simp: ordered_def intro: precedes_append exI [of _ "[]"])

context event_order begin

text \<open>After a part that has earned it, anything may follow.\<close>

lemma keeps_earned:
  assumes quiet: "keeps (emits (\<lambda>e. \<not> W e)) m" and earns: "achieves P m ok"
    and "\<And>a. ok a \<Longrightarrow> keeps appends (f a)" and "\<And>a. \<not> ok a \<Longrightarrow> keeps ordered (f a)"
  shows "keeps ordered (andThen m f)"
proof (rule keepsI)
  fix s
  obtain r t where m: "m s = (r, t)" by (cases "m s")
  from keepsD [OF quiet this] obtain es where es: "trace t = trace s @ es" "list_all (\<lambda>e. \<not> W e) es"
    by (auto simp: emits_def)
  then have st: "ordered s t" by (auto simp: ordered_def intro: precedes_quiet)
  show "ordered s (snd (andThen m f s))"
  proof (cases r)
    case (Ret a)
    obtain r' u where f: "f a t = (r', u)" by (cases "f a t")
    show ?thesis
    proof (cases "ok a")
      case True
      from keeps_appendsD [OF assms(3) [OF True] f] obtain es' where "trace u = trace t @ es'" by blast
      moreover from achievesD [OF earns _ True, of s t] m Ret es(1) have "\<exists>e \<in> set es. P e" by auto
      ultimately show ?thesis
        using precedes_earned [OF es(2), of P es'] es(1) by (auto simp: ordered_def m Ret f)
    next
      case False
      from keepsD [OF assms(4) [OF False] f] st show ?thesis by (simp add: m Ret f ordered.stable_trans [OF st])
    qed
  qed (use m st in \<open>simp_all add: andThen_run\<close>)
qed

end

section \<open>What provides a module\<close>

text \<open>How a module comes into being: its release is adopted, or installed, or its runner installs it. The
  webhook keeps this of a module from its creation on.\<close>

datatype origin = Adopts string string | Installs "string option" | Runs

definition originOf :: "Module \<Rightarrow> origin" where
  "originOf m = (case ms_Helm (mod_Spec m) of
       None \<Rightarrow> Runs
     | Some helm \<Rightarrow> (case helm_ExistingRelease helm of
           Some ref \<Rightarrow> Adopts (exr_Namespace ref) (exr_Name ref)
         | None \<Rightarrow> Installs (helm_ReleaseName helm)))"

fun provides :: "origin \<Rightarrow> event \<Rightarrow> bool" where
  "provides (Adopts ns n) (HelmEv _ (RunGet ns' n' (Inr _))) = (ns' = ns \<and> n' = n)"
| "provides (Installs rel) (HelmEv _ (RunInstall q _ _ None)) = (Some (inst_ReleaseName q) = rel)"
| "provides Runs (RunnerEv (Post _ _ (Inr (status, _)))) = (status = 201)"
| "provides _ _ = False"

lemma runInstall_achieves:
  assumes "inst_ReleaseName q = rel"
  shows "achieves (provides (Installs (Some rel)))
    (andThen (runInstall E c q chart v) (\<lambda>r. case r of
        None \<Rightarrow> ret None
      | Some err \<Rightarrow> andThen (spawn g) (\<lambda>_. ret (Some (why err))))) (\<lambda>e. e = None)"
  using assms by (auto simp: achieves_def runInstall_def spawn_def emit_def andThen_run split: option.splits)

lemma MergeHelmValues_appends: "keeps appends (MergeHelmValues lib E svc vals)"
  unfolding MergeHelmValues_def by (intro keeps_io keeps_appends [OF collectValues_emits])

lemma InstallFromRepository_achieves:
  "achieves (provides (Installs (Some rel))) (InstallFromRepository lib E svc chart rel ns url ver wait vals user pw)
     (\<lambda>e. e = None)"
  unfolding InstallFromRepository_def actionInit_flags helmInit_def locateChart_def loadChart_def Let_def
  by (rule achieves_guard; (intro achieves_later achieves_case_sum achieves_fails keeps_call MergeHelmValues_appends
      runInstall_achieves)?) simp_all

lemma InstallFromLocal_achieves:
  "achieves (provides (Installs (Some rel))) (InstallFromLocal lib E svc path rel ns wait vals) (\<lambda>e. e = None)"
  unfolding InstallFromLocal_def actionInit_flags helmInit_def loadChart_def Let_def
  by (rule achieves_guard; (intro achieves_later achieves_guard achieves_case_sum achieves_fails keeps_call
      MergeHelmValues_appends keeps_appends [OF buildDependencies_emits] runInstall_achieves)?) simp_all

lemma chartSources_achieve:
  "achieves (provides (Installs (Some (hm_releaseName hm)))) (installFromRepoSource lib E hm repo) (\<lambda>e. e = None)"
  "achieves (provides (Installs (Some (hm_releaseName hm)))) (installFromConfigMapSource lib E hm ref) (\<lambda>e. e = None)"
  "achieves (provides (Installs (Some (hm_releaseName hm)))) (installFromGitSource lib E hm git) (\<lambda>e. e = None)"
proof -
  show "achieves (provides (Installs (Some (hm_releaseName hm)))) (installFromRepoSource lib E hm repo) (\<lambda>e. e = None)"
    unfolding installFromRepoSource_def fetchRepoAuthCredentials_def getSecret_def Let_def
    by (rule achieves_later; (intro keeps_io achieves_splits achieves_fails InstallFromRepository_achieves)?) simp_all
  show "achieves (provides (Installs (Some (hm_releaseName hm)))) (installFromConfigMapSource lib E hm ref) (\<lambda>e. e = None)"
    unfolding installFromConfigMapSource_def getConfigMap_def createTemp_def writeFile_def closeFile_def removeFile_def
    by (rule achieves_later; (intro keeps_io keeps_GetBaseDir achieves_later achieves_deferred achieves_guard
        achieves_splits achieves_fails InstallFromLocal_achieves)?) simp_all
  show "achieves (provides (Installs (Some (hm_releaseName hm)))) (installFromGitSource lib E hm git) (\<lambda>e. e = None)"
    unfolding installFromGitSource_def gitURL_def getSecret_def mkdirTemp_def gitClone_def removeAll_def Let_def
    by (rule achieves_later; (intro keeps_io keeps_GetBaseDir achieves_later achieves_deferred achieves_guard
        achieves_splits achieves_fails InstallFromLocal_achieves)?) simp_all
qed

lemma helmInstall_achieves:
  "achieves (provides (Installs (Some rel))) (im_Install (NewModuleHelmManager lib E helm svc rel) md) (\<lambda>x. fst x = None)"
proof -
  let ?hm = "\<lparr>hm_helmModule = helm, hm_helmService = svc, hm_releaseName = rel\<rparr>"
  have "achieves (provides (Installs (Some (hm_releaseName ?hm)))) (ModuleHelmManager_Install lib E ?hm md) (\<lambda>x. fst x = None)"
    unfolding ModuleHelmManager_Install_def Let_def
    by (rule achieves_first [where okm = "\<lambda>e. e = None"],
        intro achieves_splits chartSources_achieve achieves_fails, simp,
        intro keeps_io keeps_appends [OF extractOutputs_emits])
      (auto split: option.splits)
  then show ?thesis by (simp add: NewModuleHelmManager_def Let_def)
qed

lemma customInstall_achieves: "achieves (provides Runs) (im_Install (customManager lib E) md) (\<lambda>x. fst x = None)"
  by (auto simp: achieves_def customManager_def ModuleCustomManager_Install_def forwardToRunner_def
      callRunnerEndpoint_def httpPost_def andThen_run Let_def split: sum.splits if_splits prod.splits)

lemma adopt_achieves:
  "achieves (provides (Adopts (exr_Namespace ref) (exr_Name ref))) (adoptExistingHelmRelease lib E w m helm ref)
     (\<lambda>x. fst x = None)"
proof -
  have "achieves (provides (Adopts ns n)) (GetRelease E svc n ns) (\<lambda>r. \<exists>rls. r = Inr rls)" for svc ns n
    by (auto simp: achieves_def GetRelease_def guardErr_def helmInit_def runGet_def andThen_run split: option.splits sum.splits)
  then show ?thesis
    unfolding adoptExistingHelmRelease_def
    by (intro achieves_later keeps_appends [OF NewHelmService_reads] achieves_case_sum achieves_fails
        achieves_first [where okm = "\<lambda>r. \<exists>rls. r = Inr rls"])
      (auto simp: patchModule_def Let_def split: sum.splits intro!: keeps_io)
qed

lemma newManager_installs:
  assumes "\<not> adopted m" and "newManager lib E m conn md cfg s = (Ret (Inr im, m', md'), t)"
  shows "achieves (provides (originOf m)) (im_Install im md'') (\<lambda>x. fst x = None)"
proof (cases "ms_Helm (mod_Spec m)")
  case None
  with assms(2) have "im = customManager lib E"
    by (auto simp: newManager_def elim!: andThen_RetE split: option.splits sum.splits prod.splits)
      (use NewModuleCustomManager_returned in fastforce)+
  with None customInstall_achieves show ?thesis by (simp add: originOf_def)
next
  case (Some helm)
  with assms(1) have none: "helm_ExistingRelease helm = None" by (auto simp: adopted_def)
  from assms(2) Some obtain helm' svc rel where "GetReleaseName helm = Some rel" "im = NewModuleHelmManager lib E helm' svc rel"
    by (auto simp: newManager_def elim!: andThen_RetE split: option.splits sum.splits prod.splits)
  with Some none helmInstall_achieves show ?thesis by (auto simp: originOf_def GetReleaseName_def)
qed

lemma installModule_achieves: "achieves (provides (originOf m)) (installModule lib E m) (\<lambda>x. fst x = None)"
proof -
  have source: "(case ms_Helm (mod_Spec m) of None \<Rightarrow> None
      | Some helm \<Rightarrow> map_option (\<lambda>ref. (helm, ref)) (helm_ExistingRelease helm)) = x \<Longrightarrow>
      (case x of None \<Rightarrow> \<not> adopted m | Some (helm, ref) \<Rightarrow> originOf m = Adopts (exr_Namespace ref) (exr_Name ref))" for x
    by (auto simp: adopted_def originOf_def split: option.splits)
  have adopts: "achieves (provides (originOf m)) (andThen (adoptExistingHelmRelease lib E w m helm ref)
      (\<lambda>(e, m'). ret (map_option wrap e, m'))) (\<lambda>x. fst x = None)"
    if "originOf m = Adopts (exr_Namespace ref) (exr_Name ref)" for w helm ref wrap
    using adopt_achieves [of ref lib E w m helm] that
    by (intro achieves_first [where okm = "\<lambda>x. fst x = None"]) (auto intro!: keeps_io)
  have installs: "achieves (provides (originOf m)) (andThen (im_Install im md) (\<lambda>(e, md'). andThen (patchLogged E m1 (f md'))
      (\<lambda>m2. ret (map_option wrap e, m2)))) (\<lambda>x. fst x = None)"
    if "achieves (provides (originOf m)) (im_Install im md) (\<lambda>x. fst x = None)" for im md m1 f wrap
    using that
    by (intro achieves_first [where okm = "\<lambda>x. fst x = None"])
      (auto intro!: keeps_io keeps_appends [OF patchLogged_op] elim!: andThen_RetE)
  have manager: "achieves (provides (originOf m)) (andThen (newManager lib E m conn md cfg) (\<lambda>(x, m1, md). case x of
      Inl err \<Rightarrow> ret (Some err, m1)
    | Inr im \<Rightarrow> andThen (im_Install im md) (\<lambda>(e, md'). andThen (patchLogged E m1 (f m1 md'))
      (\<lambda>m2. ret (map_option wrap e, m2))))) (\<lambda>x. fst x = None)" if "\<not> adopted m" for conn md cfg f wrap
    by (rule achieves_returned [OF keeps_appends [OF newManager_op]], intro achieves_splits achieves_fails installs)
      (auto intro: newManager_installs [OF that])
  show ?thesis
    unfolding installModule_def
    by (intro achieves_later keeps_appends [OF anyScope.workspace_scope] achieves_splits achieves_fails manager adopts)
      (use source in \<open>auto split: option.splits\<close>)
qed

section \<open>Ready means installed\<close>

definition writesReady :: "event \<Rightarrow> bool" where
  "writesReady e \<longleftrightarrow> modWritten e = Some ModulePhaseReady"

interpretation readyOrder: event_order "provides src" writesReady for src .

text \<open>An API server that keeps names and answers with modules of one origin for a key.\<close>

definition answersOrigin :: "env \<Rightarrow> NamespacedName \<Rightarrow> origin \<Rightarrow> bool" where
  "answersOrigin E k src \<longleftrightarrow> namesStable E \<and> (\<forall>h m. e_getModule E h k = Inr m \<longrightarrow> originOf m = src)"

definition originEnv :: "env \<Rightarrow> NamespacedName \<Rightarrow> origin \<Rightarrow> env" where
  "originEnv E k src = (if answersOrigin E k src then E else exampleEnv)"

lemma originEnv_answers: "answersOrigin (originEnv E k src) k src"
  by (simp add: originEnv_def answersOrigin_def namesStable_def exampleEnv_def)

lemma originOf_spec: "mod_Spec m = mod_Spec n \<Longrightarrow> originOf m = src \<Longrightarrow> originOf n = src"
  by (simp add: originOf_def)

interpretation originServer: module_server operationEvent "\<lambda>m. originOf m = src" lib "originEnv E k src" k for src lib E k
proof (unfold_locales, goal_cases)
  case (2 k w) show ?case by (rule anyScope.reads)
next
  case (3 b n q) show ?case by (rule anyScope.reads)
next
  case (4 c ns rel rls) show ?case by (rule anyScope.reads)
next
  case (5 m conn md cfg) show ?case by (rule anyScope.creates) simp
next
  case (6 m conn md cfg s im m' md' t md'') then show ?case using anyScope.hibernates by blast
next
  case (7 m conn md cfg s im m' md' t md'') 
  then show ?case using newManager_scoped_any [of lib "originEnv E k src" m conn md cfg s im m' md' t] by (simp add: scopedBy_def)
qed (use originEnv_answers anyScope.connects in \<open>auto simp: answersOrigin_def intro: originOf_spec\<close>)

lemma setPhase_notReady:
  "phase \<noteq> ModulePhaseReady \<Longrightarrow> keeps (emits (\<lambda>e. \<not> writesReady e)) (setPhase E phase message m)"
  by (rule setPhase_writes) (auto simp: writesReady_def)

lemma operation_notReady: "operationEvent e \<Longrightarrow> \<not> writesReady e"
  using operationEvent_quiet by (auto simp: modPhases.quiet_def writesReady_def)

lemma finalizer_notReady: "keeps (emits (\<lambda>e. \<not> writesReady e)) (ensureModuleFinalizer E m)"
    "keeps (emits (\<lambda>e. \<not> writesReady e)) (dropModuleFinalizer E m)"
  unfolding ensureModuleFinalizer_def dropModuleFinalizer_def calls by (intro keeps_io, simp_all add: writesReady_def)+

lemma install_notReady: "keeps (emits (\<lambda>e. \<not> writesReady e)) (installModule lib E m)"
    and uninstall_notReady: "keeps (emits (\<lambda>e. \<not> writesReady e)) (uninstallModule lib E m)"
    and record_notReady: "keeps (emits (\<lambda>e. \<not> writesReady e)) (recordModule m typ reason msg)"
  by (rule keeps_emits_mono [OF anyScope.install_scope operation_notReady], simp_all)
    (rule keeps_emits_mono [OF anyScope.uninstall_scope operation_notReady], simp_all,
      simp add: recordModule_def calls keeps_call writesReady_def)

lemma setPhase_appends: "keeps appends (setPhase E phase message m)"
  by (rule setPhase_writes) simp

lemma setPhase_achieves: "achieves (\<lambda>e. modWritten e = Some phase) (setPhase E phase message m) (\<lambda>x. fst x = None)"
proof -
  have "achieves (\<lambda>e. modWritten e = Some phase) (andThen (getModule E (moduleKey m)) (\<lambda>r. case r of
         Inl err \<Rightarrow> ret (Some err, m)
       | Inr m' \<Rightarrow> andThen (now E) (\<lambda>t.
           let m'' = m'\<lparr>mod_Status := \<lparr>mst_Conditions = [], mst_Phase = phase,
             mst_Source = getModuleSourceType m', mst_LastActivity = Some t, mst_Message = message\<rparr>\<rparr> in
           andThen (statusUpdateModule E m'') (\<lambda>u. ret (replaced m'' u))))) (\<lambda>x. fst x = None)" for m
    unfolding calls
    by (intro achieves_later achieves_splits achieves_fails keeps_io
        achieves_first [where okm = "\<lambda>r. \<exists>m. r = Inr m"] achieves_call)
      (auto simp: replaced_def split: sum.splits)
  then show ?thesis unfolding setPhase_def calls by (intro achieves_retry keeps_io) simp_all
qed

lemma hibernateModule_appends: "op \<in> {im_Sleep, im_Resume} \<Longrightarrow> keeps appends (hibernateModule lib E op failed m)"
  by (rule keeps_appends [OF anyScope.hibernate_scope]) simp_all

lemma hibernation_appends: "keeps appends (module_handleHibernation lib E m)"
  unfolding module_handleHibernation_def sleepStep_def resumeStep_def sleepModule_def resumeModule_def recordModule_def calls
  by (intro keeps_io setPhase_appends hibernateModule_appends) simp_all

lemma emptyPhase_ordered:
  assumes key: "moduleKey m = k"
  shows "keeps (readyOrder.ordered src) (module_handleEmptyPhase lib (originEnv E k src) m)"
proof -
  let ?E = "originEnv E k src"
  note quiet = readyOrder.keeps_quiet
  let ?rest = "\<lambda>(e3, m3). case e3 of
      Some err \<Rightarrow>
        if asWorkspaceNotReady err then ret (requeueAfter (seconds 5), None)
        else andThen (recordModule m3 ''Warning'' ''InstallError'' (''Module installation failed: '' @ errString err)) (\<lambda>_.
          andThen (setPhase ?E ModulePhaseFailed (Some ''Module installation failed. Check events for more information.'') m3)
            (\<lambda>(e4, m4). ret (noRequeue, e4)))
    | None \<Rightarrow> andThen (setPhase ?E ModulePhaseReady (Some ''Module installed successfully'') m3) (\<lambda>(e4, m4). case e4 of
          Some err \<Rightarrow> ret (noRequeue, Some err)
        | None \<Rightarrow> module_handleHibernation lib ?E m4)"
  have install: "keeps (readyOrder.ordered src) (andThen (installModule lib ?E m2) ?rest)" if "originOf m2 = src" for m2
  proof (rule readyOrder.keeps_earned [OF install_notReady])
    show "achieves (provides src) (installModule lib ?E m2) (\<lambda>x. fst x = None)"
      using installModule_achieves [of m2] that by simp
    show "keeps appends (?rest x)" if "fst x = None" for x
      using that by (cases x) (auto intro!: keeps_io setPhase_appends hibernation_appends split: option.split)
    show "keeps (readyOrder.ordered src) (?rest x)" if "fst x \<noteq> None" for x
      using that by (cases x) (auto intro!: quiet keeps_io record_notReady setPhase_notReady split: prod.split)
  qed
  have start: "keeps (readyOrder.ordered src) (andThen (setPhase ?E ModulePhaseInstalling None m1) (\<lambda>(e2, m2). case e2 of
      Some err \<Rightarrow> ret (noRequeue, Some err) | None \<Rightarrow> andThen (installModule lib ?E m2) ?rest))" if "moduleKey m1 = k" for m1
    using obeysD [OF originServer.setPhase_ok [OF that]] 
    by (intro readyOrder.ordered.keeps_andThen_returned quiet [OF setPhase_notReady] keeps_splits install
        readyOrder.ordered.keeps_ret) auto
  show ?thesis
    unfolding module_handleEmptyPhase_def
    using obeysD [OF originServer.finalizer_ok [OF key]]
    by (intro readyOrder.ordered.keeps_andThen_returned quiet [OF finalizer_notReady(1)] keeps_splits start
        readyOrder.ordered.keeps_ret) auto
qed

lemma deletion_notReady: "keeps (emits (\<lambda>e. \<not> writesReady e)) (module_handleDeletion lib E m)"
  unfolding module_handleDeletion_def
  by (intro keeps_io setPhase_notReady uninstall_notReady record_notReady finalizer_notReady) simp_all

lemma transition_notReady: "keeps (emits (\<lambda>e. \<not> writesReady e)) (checkTransition lib E m)"
  by (rule keeps_emits_mono [OF checkTransition_events]) (auto simp: timeoutEvent_def writesReady_def)

lemma switch_ordered:
  assumes "moduleKey m = k" and "modPhase m \<notin> {ModulePhaseReady, ModulePhaseSleeped}"
  shows "keeps (readyOrder.ordered src) (moduleSwitch lib (originEnv E k src) m)"
  unfolding moduleSwitch_def
  using assms
  by (intro keeps_if keeps_case_modPhase emptyPhase_ordered readyOrder.keeps_quiet keeps_io deletion_notReady
      transition_notReady record_notReady) simp_all

text \<open>C3: \<open>ready\<close> means installed. When the API server answers with modules of one origin for the key (the
  webhook lets nobody change it) and the module that a reconciliation reads is neither ready nor asleep, then
  in that reconciliation every status \<open>ready\<close> that is stored comes after an event that provides the module:
  a successful installation of its own release, the release it adopts being found, or the answer 201 of its
  runner. This holds however the calls answer and however the run ends.\<close>

theorem ready_means_installed:
  assumes "answersOrigin E k src" and "e_getModule E (trace s) k = Inr m"
    and "modPhase m \<notin> {ModulePhaseReady, ModulePhaseSleeped}" and "ModuleReconcile lib E k s = (r, t)"
    and "trace t = trace s @ before @ e # after" and "writesReady e"
  shows "\<exists>p \<in> set before. provides src p"
proof -
  let ?s = "s\<lparr>trace := trace s @ [ModuleEv (GetM k (Inr m))]\<rparr>"
  have env: "originEnv E k src = E" and key: "moduleKey m = k"
    using assms(1,2) by (auto simp: originEnv_def answersOrigin_def namesStable_def)
  have "moduleSwitch lib E m ?s = (r, t)" using assms(4) by (simp add: ModuleReconcile_read [OF assms(2)])
  with switch_ordered [OF key assms(3), of src lib E] obtain es where
    es: "trace t = trace s @ ModuleEv (GetM k (Inr m)) # es" "precedes (provides src) writesReady es"
    unfolding env by (auto dest!: keepsD simp: readyOrder.ordered_def)
  then have "precedes (provides src) writesReady (before @ e # after)"
    using assms(5) by (auto simp: writesReady_def)
  then show ?thesis using assms(6) by (rule precedesD)
qed

end
