(* ===== verification/FirstInstall.thy ===== *)
theory FirstInstall
  imports EndToEnd Installation
begin

text \<open>
  A new module in a cluster that works: one reconciliation stores the finalizer, goes through the phase
  \<open>installing\<close>, has Helm install the chart of the module under its release name, and leaves the module
  \<open>ready\<close>. The environment is that of \<open>EndToEnd\<close>, with a repository that has the chart.
\<close>

section \<open>A chart that can be installed\<close>

text \<open>The chart comes from a repository without authentication; its values can be read, and Helm finds the
  chart, loads it and installs it.\<close>

definition repoRequest :: "ModuleHelmManager \<Rightarrow> ModuleSpecHelmChartRepo \<Rightarrow> install_request" where
  "repoRequest hm repo = \<lparr>inst_Namespace = GetNamespace (hm_helmModule hm), inst_ReleaseName = hm_releaseName hm,
     inst_RepoURL = repo_URL repo, inst_Version = (case repo_Version repo of Some v \<Rightarrow> v | None \<Rightarrow> []), inst_Wait = True,
     inst_Username = [], inst_Password = []\<rparr>"

definition chartInstalls :: "golib \<Rightarrow> env \<Rightarrow> ModuleHelmManager \<Rightarrow> ModuleSpecHelmChartRepo \<Rightarrow> bool" where
  "chartInstalls lib E hm repo \<longleftrightarrow> chart_Repo (helm_Chart (hm_helmModule hm)) = Some repo \<and> repo_Auth repo = None
     \<and> (\<forall>u. \<exists>vals v. MergeHelmValues lib E (hm_helmService hm) (helm_Values (hm_helmModule hm)) u = (Ret (Inr vals), v))
     \<and> (\<forall>h c ns. e_helmInit E h c ns = None)
     \<and> (\<forall>h c. \<exists>p. e_locateChart E h c (repoRequest hm repo) (repo_Chart repo) = Inr p)
     \<and> (\<forall>h c p. \<exists>chart. e_loadChart E h c p = Inr chart)
     \<and> (\<forall>h c chart vals. e_runInstall E h c (repoRequest hm repo) chart vals = None)"

text \<open>The installation that Helm reports as done.\<close>

definition installedAs :: "ModuleHelmManager \<Rightarrow> ModuleSpecHelmChartRepo \<Rightarrow> event \<Rightarrow> bool" where
  "installedAs hm repo e \<longleftrightarrow> (\<exists>chart vals. e = HelmEv (hs_config (hm_helmService hm)) (RunInstall (repoRequest hm repo) chart vals None))"

lemma InstallFromRepository_run:
  assumes "chartInstalls lib E hm repo"
  shows "\<exists>t es. installFromRepoSource lib E hm repo u = (Ret None, t) \<and> trace t = trace u @ es \<and> (\<exists>e \<in> set es. installedAs hm repo e)"
proof -
  let ?c = "hs_config (hm_helmService hm)" and ?q = "repoRequest hm repo"
  let ?u = "u\<lparr>trace := trace u @ [HelmEv ?c (HelmInit (GetNamespace (hm_helmModule hm)) None)]\<rparr>"
  obtain vals v where v: "MergeHelmValues lib E (hm_helmService hm) (helm_Values (hm_helmModule hm)) ?u = (Ret (Inr vals), v)"
    using assms unfolding chartInstalls_def by blast
  from keeps_appendsD [OF MergeHelmValues_appends v] obtain es where es: "trace v = trace ?u @ es" by blast
  obtain p where p: "e_locateChart E (trace v) ?c ?q (repo_Chart repo) = Inr p"
    using assms unfolding chartInstalls_def by blast
  let ?v = "v\<lparr>trace := trace v @ [HelmEv ?c (LocateChart ?q (repo_Chart repo) (Inr p))]\<rparr>"
  obtain chart where chart: "e_loadChart E (trace ?v) ?c p = Inr chart" using assms unfolding chartInstalls_def by blast
  let ?w = "?v\<lparr>trace := trace ?v @ [HelmEv ?c (LoadChart p (Inr chart))]\<rparr>"
  let ?t = "?w\<lparr>trace := trace ?w @ [HelmEv ?c (RunInstall ?q chart vals None)]\<rparr>"
  have done': "e_runInstall E h ?c ?q chart vals = None" "e_helmInit E h ?c ns = None" for h ns
    using assms unfolding chartInstalls_def by blast+
  have "installFromRepoSource lib E hm repo u = (Ret None, ?t)"
    using assms v p chart done'
    by (simp add: installFromRepoSource_def InstallFromRepository_def repoRequest_def [symmetric] chartInstalls_def
        helmInit_def guardErr_def locateChart_def loadChart_def runInstall_def Let_def andThen_run)
  moreover have "trace ?t = trace u @ (HelmEv ?c (HelmInit (GetNamespace (hm_helmModule hm)) None) # es @
      [HelmEv ?c (LocateChart ?q (repo_Chart repo) (Inr p)), HelmEv ?c (LoadChart p (Inr chart)),
       HelmEv ?c (RunInstall ?q chart vals None)])"
    by (simp add: es)
  moreover have "installedAs hm repo (HelmEv ?c (RunInstall ?q chart vals None))" by (simp add: installedAs_def)
  ultimately show ?thesis
    by (metis (no_types, lifting) Un_iff list.set_intros set_append set_ConsD)
qed

lemma extractOutputs_returns: "returns (extractOutputs lib E hm outs acc)"
proof (induction outs arbitrary: acc)
  case (Cons out outs)
  have "returns (outputValue lib E hm out)"
    unfolding outputValue_def GetSecretValue_def kGetSecret_def by (intro returns_io)
  then show ?case unfolding extractOutputs.simps by (intro returns_io Cons)
qed (simp add: returns_ret del: ret_run)

lemma managerEvent_store: "managerEvent c rel ns cl e \<Longrightarrow> storeEvent e st = st"
  by (cases "(e, st)" rule: storeEvent.cases) simp_all

lemma managerEvent_fold: "list_all (managerEvent c rel ns cl) es \<Longrightarrow> fold storeEvent es st = st"
  by (induction es arbitrary: st) (auto dest: managerEvent_store)

lemma Install_run:
  assumes "chartInstalls lib E hm repo"
  shows "\<exists>md' t es. im_Install (managerFor lib E hm) md u = (Ret (None, md'), t) \<and> trace t = trace u @ es
    \<and> (\<exists>e \<in> set es. installedAs hm repo e) \<and> (\<forall>st. fold storeEvent es st = st)"
proof -
  obtain v es where v: "installFromRepoSource lib E hm repo u = (Ret None, v)" "trace v = trace u @ es"
      "\<exists>e \<in> set es. installedAs hm repo e"
    using InstallFromRepository_run [OF assms] by blast
  let ?outs = "case helm_Outputs (hm_helmModule hm) of None \<Rightarrow> [] | Some outs \<Rightarrow> outs"
  obtain outputs t where t: "extractOutputs lib E hm ?outs [] v = (Ret outputs, t)"
    using returnsD [OF extractOutputs_returns] by blast
  from keeps_appendsD [OF keeps_appends [OF extractOutputs_emits] t] obtain fs where fs: "trace t = trace v @ fs" by blast
  have "\<exists>md'. im_Install (managerFor lib E hm) md u = (Ret (None, md'), t)"
    using assms v(1) t by (simp add: ModuleHelmManager_Install_def chartInstalls_def Let_def)
  then obtain md' where run: "im_Install (managerFor lib E hm) md u = (Ret (None, md'), t)" by blast
  from keepsD [OF helmManager.install_scope run] obtain gs where
    gs: "trace t = trace u @ gs" "list_all (managerEvent (hs_config (hm_helmService hm)) (hm_releaseName hm)
      (GetNamespace (hm_helmModule hm)) (helm_Cleanup (hm_helmModule hm))) gs"
    by (auto simp: emits_def)
  with v fs have "gs = es @ fs" by simp
  with run gs v(3) managerEvent_fold [OF gs(2)] show ?thesis by (intro exI [of _ md'] exI [of _ t] exI [of _ gs]) auto
qed

section \<open>The steps\<close>

text \<open>From \<open>s\<close> to \<open>t\<close> the store became \<open>S\<close>, and the events in between contain one of \<open>P\<close>.\<close>

definition brings :: "store \<Rightarrow> (event \<Rightarrow> bool) \<Rightarrow> world \<Rightarrow> store \<Rightarrow> world \<Rightarrow> bool" where
  "brings st0 P s S t \<longleftrightarrow> storeAfter st0 (trace t) = S \<and> (\<exists>es. trace t = trace s @ es \<and> (\<exists>e \<in> set es. P e))"

context api_server
begin

lemma finalizer_run:
  assumes "stored s (moduleKey m) = Some c"
  shows "\<exists>c' t. ensureModuleFinalizer E m s = (Ret (None, c'), t) \<and> stored t = (stored s)(moduleKey c \<mapsto> c')
    \<and> sameObject c c' \<and> annotationsOf c' = annotationsOf c \<and> deleteFinalizer \<in> set (meta_Finalizers (mod_Meta c'))"
proof -
  have key: "moduleKey c = moduleKey m" by (rule keyedD [OF keyed_stored assms])
  show ?thesis
  proof (cases "deleteFinalizer \<in> set (meta_Finalizers (mod_Meta c))")
    case True
    have "ensureModuleFinalizer E m s = (Ret (None, c), s\<lparr>trace := trace s @ [ModuleEv (GetM (moduleKey m) (Inr c))]\<rparr>)"
      unfolding ensureModuleFinalizer_def by (intro retry_first) (simp add: get_run [OF assms] True)
    with True assms key show ?thesis
      by (intro exI [of _ c] exI [of _ "s\<lparr>trace := trace s @ [ModuleEv (GetM (moduleKey m) (Inr c))]\<rparr>"]) auto
  next
    case False
    let ?c = "c\<lparr>mod_Meta := addFinalizer deleteFinalizer (mod_Meta c)\<rparr>"
    let ?s = "s\<lparr>trace := trace s @ [ModuleEv (GetM (moduleKey m) (Inr c))]\<rparr>"
    have ckey: "moduleKey ?c = moduleKey m" using key by (simp add: addFinalizer_def)
    have kept: "kept ?c = Some ?c" by (auto simp: kept_def addFinalizer_def)
    from ckey have upd: "updateModule E ?c ?s = (Ret (Inr ?c), ?s\<lparr>trace := trace ?s @ [ModuleEv (UpdateM ?c (Inr ?c))]\<rparr>)"
      using update_run [of ?s ?c c] assms by simp
    have "ensureModuleFinalizer E m s = (Ret (None, ?c), ?s\<lparr>trace := trace ?s @ [ModuleEv (UpdateM ?c (Inr ?c))]\<rparr>)"
      unfolding ensureModuleFinalizer_def
      by (intro retry_first) (simp add: get_run [OF assms] False upd replaced_def Let_def)
    moreover have "stored (?s\<lparr>trace := trace ?s @ [ModuleEv (UpdateM ?c (Inr ?c))]\<rparr>) = (stored s)(moduleKey c \<mapsto> ?c)"
      unfolding key using kept by (simp add: storeAfter_append ckey [simplified])
    moreover have "sameObject c ?c" "annotationsOf ?c = annotationsOf c" "deleteFinalizer \<in> set (meta_Finalizers (mod_Meta ?c))"
      by (simp_all add: addFinalizer_def sameObject_def annotationsOf_def)
    ultimately show ?thesis by blast
  qed
qed

lemma installModule_run:
  assumes ok: "operable lib E c hm" and c: "stored s (moduleKey c) = Some c" "\<not> adopted c" "configMapOf lib c = Inr cfg"
    and ready: "\<And>w. e_getWorkspace E (trace s) \<lparr>nn_Namespace = wref_Namespace (ms_Workspace (mod_Spec c)),
      nn_Name = wref_Name (ms_Workspace (mod_Spec c))\<rparr> = Inr w \<Longrightarrow> wsPhase w = WorkspacePhaseReady"
    and chart: "chartInstalls lib E hm repo"
  shows "\<exists>md' t. installModule lib E c s =
      (Ret (None, setAnnotations (Some ((annotationsOf c)(managerDataKey \<mapsto> metaString lib md'))) c), t)
    \<and> brings st0 (installedAs hm repo) s ((stored s)(moduleKey c \<mapsto>
        setAnnotations (Some ((annotationsOf c)(managerDataKey \<mapsto> metaString lib md'))) c)) t"
proof -
  let ?k = "\<lparr>nn_Namespace = wref_Namespace (ms_Workspace (mod_Spec c)), nn_Name = wref_Name (ms_Workspace (mod_Spec c))\<rparr>"
  obtain w where w: "e_getWorkspace E (trace s) ?k = Inr w" "wst_Ready (ws_Status w)"
      "\<forall>u. \<exists>v. NewHelmService E (wss_Connection (ws_Spec w)) u = (Ret (Inr (hm_helmService hm)), v)"
    using ok unfolding operable_def workspaceServes_def by blast
  let ?s1 = "s\<lparr>trace := trace s @ [WorkspaceEv (GetW ?k (Inr w))]\<rparr>" and ?md = "metaDataOf lib c"
  let ?c1 = "setAnnotations (Some ((annotationsOf c)(managerDataKey \<mapsto> metaString lib ?md))) c"
  have "stored ?s1 (moduleKey c) = Some c" using c(1) by simp
  from newManager_run [OF ok this refl refl refl w(3)] obtain s2 where
    s2: "newManager lib E c (wss_Connection (ws_Spec w)) ?md cfg ?s1 = (Ret (Inr (managerFor lib E hm), ?c1, ?md), s2)"
      "effect st0 ?s1 ((stored ?s1)(moduleKey c \<mapsto> ?c1)) id s2" by blast
  from keeps_appendsD [OF keeps_appends [OF newManager_op] s2(1)] obtain es2 where es2: "trace s2 = trace ?s1 @ es2" by blast
  obtain md' s3 es3 where s3: "im_Install (managerFor lib E hm) ?md s2 = (Ret (None, md'), s3)" "trace s3 = trace s2 @ es3"
      "\<exists>e \<in> set es3. installedAs hm repo e" "\<forall>st. fold storeEvent es3 st = st"
    using Install_run [OF chart] by blast
  have st3: "stored s3 = stored s2" using s3(2,4) by (simp add: storeAfter_append)
  then have "stored s3 (moduleKey ?c1) = Some ?c1" using effect_store [OF s2(2)] by simp
  from patchLogged_run [OF this refl, of managerDataKey "metaString lib md'"] obtain t where
    t: "patchLogged E ?c1 (updateAnnotation managerDataKey (metaString lib md') ?c1) s3
        = (Ret (setAnnotations (Some ((annotationsOf c)(managerDataKey \<mapsto> metaString lib md'))) c), t)"
      "effect st0 s3 ((stored s3)(moduleKey c \<mapsto> setAnnotations (Some ((annotationsOf c)(managerDataKey \<mapsto> metaString lib md'))) c)) id t"
    by auto
  from keeps_appendsD [OF keeps_appends [OF patchLogged_op] t(1)] obtain es4 where "trace t = trace s3 @ es4" by blast
  with es2 s3(2) have "trace t = trace s @ (WorkspaceEv (GetW ?k (Inr w)) # es2 @ es3 @ es4)" by simp
  moreover have "\<exists>e \<in> set (WorkspaceEv (GetW ?k (Inr w)) # es2 @ es3 @ es4). installedAs hm repo e" using s3(3) by auto
  moreover have "installModule lib E c s = (Ret (None, setAnnotations (Some ((annotationsOf c)(managerDataKey \<mapsto> metaString lib md'))) c), t)"
  proof -
    have source: "(case ms_Helm (mod_Spec c) of None \<Rightarrow> None
        | Some helm \<Rightarrow> map_option (\<lambda>ref. (helm, ref)) (helm_ExistingRelease helm)) = None"
      using c(2) by (simp add: adopted_def split: option.splits)
    show ?thesis
      unfolding installModule_def source workspaceOf_def getWorkspace_def
      using w(2) ready [OF w(1)] s2(1) s3(1) t(1) by (simp add: w(1) c(3) andThen_run)
  qed
  ultimately show ?thesis
    using effect_store [OF t(2)] st3 effect_store [OF s2(2)] by (auto simp: brings_def)
qed

text \<open>Up to the installation, and from it to the phase \<open>ready\<close>.\<close>

lemma start_run:
  assumes m: "stored s (moduleKey m) = Some m"
  obtains m1 s1 m2 s2 es where "ensureModuleFinalizer E m s = (Ret (None, m1), s1)"
    "setPhase E ModulePhaseInstalling None m1 s1 = (Ret (None, m2), s2)" "stored s2 = (stored s)(moduleKey m \<mapsto> m2)"
    "sameObject m m2" "deleteFinalizer \<in> set (meta_Finalizers (mod_Meta m2))" "trace s2 = trace s @ es"
proof -
  from finalizer_run [OF m] obtain m1 s1 where
    s1: "ensureModuleFinalizer E m s = (Ret (None, m1), s1)" "stored s1 = (stored s)(moduleKey m \<mapsto> m1)" and
    m1: "sameObject m m1" "deleteFinalizer \<in> set (meta_Finalizers (mod_Meta m1))" by blast
  have key: "moduleKey m1 = moduleKey m" using m1(1) by (simp add: sameObject_def)
  then have "stored s1 (moduleKey m1) = Some m1" using s1(2) by simp
  from setPhase_run [OF this] obtain at1 s2 where
    s2: "setPhase E ModulePhaseInstalling None m1 s1 = (Ret (None, atPhase ModulePhaseInstalling None at1 m1), s2)"
      "effect st0 s1 ((stored s1)(moduleKey m1 \<mapsto> atPhase ModulePhaseInstalling None at1 m1)) id s2" by blast
  let ?m2 = "atPhase ModulePhaseInstalling None at1 m1"
  obtain es1 where "trace s1 = trace s @ es1"
    using keeps_appendsD [OF keeps_appends [OF finalizer_notReady(1)] s1(1)] by blast
  moreover obtain es2 where "trace s2 = trace s1 @ es2" using keeps_appendsD [OF setPhase_appends s2(1)] by blast
  moreover have "stored s2 = (stored s)(moduleKey m \<mapsto> ?m2)" using effect_store [OF s2(2)] s1(2) key by simp
  ultimately show thesis
    using sameObject_trans [OF m1(1) atPhase_simps(1)] m1(2) by (intro that [OF s1(1) s2(1), of "es1 @ es2"]) simp_all
qed

lemma finish_run:
  assumes ok: "operable lib E c hm" and c: "stored s (moduleKey c) = Some c" "\<not> adopted c" "configMapOf lib c = Inr cfg"
    and ready: "\<And>w. e_getWorkspace E (trace s) \<lparr>nn_Namespace = wref_Namespace (ms_Workspace (mod_Spec c)),
      nn_Name = wref_Name (ms_Workspace (mod_Spec c))\<rparr> = Inr w \<Longrightarrow> wsPhase w = WorkspacePhaseReady"
    and chart: "chartInstalls lib E hm repo"
  obtains c1 s1 c' t where "installModule lib E c s = (Ret (None, c1), s1)"
    "setPhase E ModulePhaseReady msg c1 s1 = (Ret (None, c'), t)" "modPhase c' = ModulePhaseReady" "mod_Spec c' = mod_Spec c"
    "meta_Finalizers (mod_Meta c') = meta_Finalizers (mod_Meta c)"
    "brings st0 (installedAs hm repo) s ((stored s)(moduleKey c \<mapsto> c')) t"
proof -
  from installModule_run [OF assms] obtain md' s1 where
    s1: "installModule lib E c s = (Ret (None, setAnnotations (Some ((annotationsOf c)(managerDataKey \<mapsto> metaString lib md'))) c), s1)"
      "brings st0 (installedAs hm repo) s ((stored s)(moduleKey c \<mapsto>
        setAnnotations (Some ((annotationsOf c)(managerDataKey \<mapsto> metaString lib md'))) c)) s1" by blast
  let ?c1 = "setAnnotations (Some ((annotationsOf c)(managerDataKey \<mapsto> metaString lib md'))) c"
  have "stored s1 (moduleKey ?c1) = Some ?c1" using s1(2) by (simp add: brings_def)
  from setPhase_run [OF this, of ModulePhaseReady msg] obtain at2 t where
    t: "setPhase E ModulePhaseReady msg ?c1 s1 = (Ret (None, atPhase ModulePhaseReady msg at2 ?c1), t)"
      "effect st0 s1 ((stored s1)(moduleKey ?c1 \<mapsto> atPhase ModulePhaseReady msg at2 ?c1)) id t" by blast
  let ?c' = "atPhase ModulePhaseReady msg at2 ?c1"
  obtain fs where "trace t = trace s1 @ fs" using keeps_appendsD [OF setPhase_appends t(1)] by blast
  then have "brings st0 (installedAs hm repo) s ((stored s)(moduleKey c \<mapsto> ?c')) t"
    using effect_store [OF t(2)] s1(2) by (auto simp: brings_def)
  then show thesis by (intro that [OF s1(1) t(1)]) (simp_all add: setAnnotations_def)
qed

end

section \<open>A new module is installed\<close>

text \<open>
  C5: a new module gets installed. In a cluster that works (the API server keeps what is written, the workspace
  is ready and can be connected to, the repository has the chart and Helm installs it), one reconciliation
  of a Helm module without a phase stores the finalizer, has Helm install the chart under the release name,
  in the namespace and from the repository that the module names, and leaves the module \<open>ready\<close>; no other
  module changes.
\<close>

theorem module_installs:
  assumes server: "api_server E st0" and ok: "operable lib E m hm"
    and m: "storeAfter st0 (trace s) k = Some m" "modPhase m = ModulePhaseEmpty" "meta_DeletionTimestamp (mod_Meta m) = None"
      "\<not> ms_Hibernated (mod_Spec m)" "\<not> adopted m" "configMapOf lib m = Inr cfg"
    and ready: "\<forall>h w. e_getWorkspace E h \<lparr>nn_Namespace = wref_Namespace (ms_Workspace (mod_Spec m)),
      nn_Name = wref_Name (ms_Workspace (mod_Spec m))\<rparr> = Inr w \<longrightarrow> wsPhase w = WorkspacePhaseReady"
    and chart: "chartInstalls lib E hm repo"
  shows "\<exists>m' t es. ModuleReconcile lib E k s = (Ret (requeueAfter (seconds 2), None), t)
    \<and> storeAfter st0 (trace t) = (storeAfter st0 (trace s))(k \<mapsto> m') \<and> modPhase m' = ModulePhaseReady
    \<and> deleteFinalizer \<in> set (meta_Finalizers (mod_Meta m')) \<and> mod_Spec m' = mod_Spec m
    \<and> trace t = trace s @ es \<and> (\<exists>e \<in> set es. installedAs hm repo e)"
proof -
  have k: "moduleKey m = k" by (rule keyedD [OF api_server.keyed_stored [OF server] m(1)])
  let ?s = "s\<lparr>trace := trace s @ [ModuleEv (GetM k (Inr m))]\<rparr>"
  have "storeAfter st0 (trace ?s) (moduleKey m) = Some m" using m(1) k by simp
  from api_server.start_run [OF server this] obtain m1 s1 m2 s2 es where
    start: "ensureModuleFinalizer E m ?s = (Ret (None, m1), s1)"
      "setPhase E ModulePhaseInstalling None m1 s1 = (Ret (None, m2), s2)" and
    s2: "storeAfter st0 (trace s2) = (storeAfter st0 (trace ?s))(moduleKey m \<mapsto> m2)" "trace s2 = trace ?s @ es" and
    m2: "sameObject m m2" "deleteFinalizer \<in> set (meta_Finalizers (mod_Meta m2))" by metis
  have key: "moduleKey m2 = k" and same: "mod_Spec m2 = mod_Spec m" using m2(1) k by (simp_all add: sameObject_def)
  have c: "storeAfter st0 (trace s2) (moduleKey m2) = Some m2" "\<not> adopted m2" "configMapOf lib m2 = Inr cfg"
    using s2(1) k key m(5,6) same by (simp_all add: adopted_def configMapOf_def)
  have ready2: "wsPhase w = WorkspacePhaseReady" if "e_getWorkspace E (trace s2) \<lparr>nn_Namespace = wref_Namespace (ms_Workspace (mod_Spec m2)),
      nn_Name = wref_Name (ms_Workspace (mod_Spec m2))\<rparr> = Inr w" for w
    using ready [rule_format, of "trace s2" w] that same by simp
  from api_server.finish_run [OF server operable_sameObject [OF ok m2(1)] c ready2 chart] obtain m3 s3 m' t where
    finish: "installModule lib E m2 s2 = (Ret (None, m3), s3)"
      "setPhase E ModulePhaseReady (Some ''Module installed successfully'') m3 s3 = (Ret (None, m'), t)" and
    m': "modPhase m' = ModulePhaseReady" "mod_Spec m' = mod_Spec m2" "meta_Finalizers (mod_Meta m') = meta_Finalizers (mod_Meta m2)" and
    t: "brings st0 (installedAs hm repo) s2 ((storeAfter st0 (trace s2))(moduleKey m2 \<mapsto> m')) t" by metis
  have "ModuleReconcile lib E k s = (Ret (requeueAfter (seconds 2), None), t)"
    using m(2-4) start finish m' same
    by (simp add: ModuleReconcile_def api_server.get_run [OF server m(1)] moduleSwitch_def module_handleEmptyPhase_def
        module_handleHibernation_def andThen_run)
  moreover have "storeAfter st0 (trace t) = (storeAfter st0 (trace s))(k \<mapsto> m')"
    using t s2(1) k key by (simp add: brings_def)
  moreover from t s2(2) have "\<exists>es. trace t = trace s @ es \<and> (\<exists>e \<in> set es. installedAs hm repo e)"
    by (force simp: brings_def)
  ultimately show ?thesis using m' m2(2) same by auto
qed

section \<open>Concrete runs\<close>

definition exampleFresh :: Module where
  "exampleFresh = exampleSleepy\<lparr>mod_Spec := (mod_Spec exampleSleepy)\<lparr>ms_Hibernated := False\<rparr>,
     mod_Status := (mod_Status exampleSleepy)\<lparr>mst_Phase := ModulePhaseEmpty\<rparr>\<rparr>"

definition exampleRepo :: ModuleSpecHelmChartRepo where
  "exampleRepo = \<lparr>repo_URL = ''https://charts'', repo_Chart = ''redis'', repo_Version = Some ''1'', repo_Auth = None\<rparr>"

lemma example_chartInstalls: "chartInstalls exampleJsonLib (exampleCluster w ms) exampleManager exampleRepo"
  by (simp add: chartInstalls_def exampleManager_def exampleHelm_def exampleRepo_def MergeHelmValues_def
      valuesOfFile_def valuesOfConfigMap_def valuesOfRaw_def readValuesFile_def andThen_run)

theorem module_installs_witness:
  "\<exists>m' t. ModuleReconcile exampleJsonLib (exampleCluster exampleWorkspace [exampleFresh]) (moduleKey exampleFresh) exampleWorld
       = (Ret (requeueAfter (seconds 2), None), t)
    \<and> storeAfter (initialStore [exampleFresh]) (trace t) (moduleKey exampleFresh) = Some m' \<and> modPhase m' = ModulePhaseReady
    \<and> (\<exists>e \<in> set (trace t). installedAs exampleManager exampleRepo e)"
proof -
  have stored: "storeAfter (initialStore [exampleFresh]) (trace exampleWorld) (moduleKey exampleFresh) = Some exampleFresh"
    by (simp add: exampleWorld_def initialStore_def)
  have fresh: "modPhase exampleFresh = ModulePhaseEmpty" "meta_DeletionTimestamp (mod_Meta exampleFresh) = None"
    "\<not> ms_Hibernated (mod_Spec exampleFresh)" "\<not> adopted exampleFresh" "configMapOf exampleJsonLib exampleFresh = Inr []"
    by (simp_all add: exampleFresh_def exampleSleepy_def exampleModule_def exampleMeta_def adopted_def exampleHelm_def configMapOf_def)
  have ok: "operable exampleJsonLib (exampleCluster exampleWorkspace ms) exampleFresh exampleManager" for ms
    by (rule example_operable) (simp_all add: exampleFresh_def exampleSleepy_def exampleWorkspace_def)
  have ready: "\<forall>h w. e_getWorkspace (exampleCluster exampleWorkspace ms) h k = Inr w \<longrightarrow> wsPhase w = WorkspacePhaseReady" for ms k
    by (auto simp: exampleWorkspace_def)
  from module_installs [OF exampleCluster_server ok stored fresh ready example_chartInstalls]
  obtain m' t es where "ModuleReconcile exampleJsonLib (exampleCluster exampleWorkspace [exampleFresh]) (moduleKey exampleFresh) exampleWorld
       = (Ret (requeueAfter (seconds 2), None), t)"
    "storeAfter (initialStore [exampleFresh]) (trace t)
      = (storeAfter (initialStore [exampleFresh]) (trace exampleWorld))(moduleKey exampleFresh \<mapsto> m')"
    "modPhase m' = ModulePhaseReady" "trace t = trace exampleWorld @ es" "\<exists>e \<in> set es. installedAs exampleManager exampleRepo e"
    by blast
  then show ?thesis by (intro exI [of _ m'] exI [of _ t]) (simp add: exampleWorld_def)
qed

text \<open>A module that adopts a release, on a server that answers every read with it.\<close>

definition exampleAdopting :: Module where
  "exampleAdopting = exampleHelmModule\<lparr>mod_Spec := (mod_Spec exampleHelmModule)\<lparr>ms_Helm :=
     Some (exampleHelm\<lparr>helm_ExistingRelease := Some \<lparr>exr_Name = ''rel'', exr_Namespace = ''apps''\<rparr>\<rparr>)\<rparr>\<rparr>"

definition adoptingEnv :: env where
  "adoptingEnv = (servingEnv (\<lambda>h. exampleAdopting))\<lparr>e_getWorkspace := \<lambda>h k. Inr exampleWorkspace,
     e_inClusterConfig := \<lambda>h. Inr exampleConfig, e_clientConfig := \<lambda>h c. Inr exampleConfig,
     e_runGet := \<lambda>h c ns rel. Inr \<lparr>rel_ChartValues = None, rel_Config = []\<rparr>\<rparr>"

lemma adoptingEnv_calls [simp]:
  "e_getModule adoptingEnv h k = Inr (named k exampleAdopting)" "e_updateModule adoptingEnv h m = Inr m"
  "e_statusUpdateModule adoptingEnv h m = Inr m" "e_patchModule adoptingEnv h b m = Inr m"
  "e_getWorkspace adoptingEnv h k = Inr exampleWorkspace" "e_inClusterConfig adoptingEnv h = Inr exampleConfig"
  "e_clientConfig adoptingEnv h a = Inr exampleConfig" "e_helmInit adoptingEnv h c ns = None"
  "e_newForConfig adoptingEnv h c = None" "e_runGet adoptingEnv h c ns rel = Inr \<lparr>rel_ChartValues = None, rel_Config = []\<rparr>"
  by (simp_all add: adoptingEnv_def servingEnv_def exampleEnv_def)

lemma exampleAdopting_simps [simp]:
  "modPhase exampleAdopting = ModulePhaseEmpty" "meta_DeletionTimestamp (mod_Meta exampleAdopting) = None"
  "\<not> ms_Hibernated (mod_Spec exampleAdopting)"
  "ms_Helm (mod_Spec exampleAdopting) = Some (exampleHelm\<lparr>helm_ExistingRelease := Some \<lparr>exr_Name = ''rel'', exr_Namespace = ''apps''\<rparr>\<rparr>)"
  by (simp_all add: exampleAdopting_def exampleHelmModule_def exampleModule_def exampleMeta_def)

lemma adopting_finalizer: "\<exists>m' t. ensureModuleFinalizer adoptingEnv m s = (Ret (None, m'), t)"
  unfolding ensureModuleFinalizer_def
  by (intro exI retry_first) (simp add: getModule_def updateModule_def Let_def replaced_def exampleAdopting_def
      exampleHelmModule_def exampleModule_def exampleMeta_def named_def)

lemma adopting_setPhase:
  "\<exists>m' t. setPhase adoptingEnv phase msg m s = (Ret (None, m'), t) \<and> modPhase m' = phase \<and> mod_Spec m' = mod_Spec exampleAdopting"
  unfolding setPhase_def
  by (intro exI conjI retry_first, simp add: getModule_def now_def statusUpdateModule_def Let_def replaced_def) simp_all

lemma adopting_install:
  assumes "mod_Spec m = mod_Spec exampleAdopting"
  shows "\<exists>m' t. installModule exampleLib adoptingEnv m s = (Ret (None, m'), t)"
proof -
  have "\<exists>v. NewHelmService adoptingEnv (wss_Connection (ws_Spec exampleWorkspace)) u = (Ret (Inr exampleService), v)" for u
    by (simp add: NewHelmService_def NewRESTConfig_def NewAPIConfig_def exampleWorkspace_def inClusterConfig_def
        inClusterToken_def exampleConfig_token clientConfig_def
        services_NewHelmService_def helmInit_def newForConfig_def guardErr_def exampleService_def)
  then obtain v where "NewHelmService adoptingEnv (wss_Connection (ws_Spec exampleWorkspace))
      (s\<lparr>trace := trace s @ [WorkspaceEv (GetW \<lparr>nn_Namespace = wref_Namespace (ms_Workspace (mod_Spec m)),
        nn_Name = wref_Name (ms_Workspace (mod_Spec m))\<rparr> (Inr exampleWorkspace))]\<rparr>) = (Ret (Inr exampleService), v)" by blast
  moreover have "wst_Ready (ws_Status exampleWorkspace)" "wsPhase exampleWorkspace = WorkspacePhaseReady"
    by (simp_all add: exampleWorkspace_def)
  ultimately show ?thesis
    using assms
    by (simp add: installModule_def workspaceOf_def getWorkspace_def adoptExistingHelmRelease_def GetRelease_def guardErr_def
        helmInit_def runGet_def patchModule_def replaced_def andThen_run Let_def)
qed

theorem ready_means_installed_witness:
  "\<exists>before e after. trace (snd (ModuleReconcile exampleLib adoptingEnv exampleKey exampleWorld)) = before @ e # after
     \<and> writesReady e \<and> (\<exists>p \<in> set before. provides (Adopts ''apps'' ''rel'') p)"
proof -
  let ?m = "named exampleKey exampleAdopting"
  have read: "e_getModule adoptingEnv (trace exampleWorld) exampleKey = Inr ?m" by simp
  let ?s = "exampleWorld\<lparr>trace := trace exampleWorld @ [ModuleEv (GetM exampleKey (Inr ?m))]\<rparr>"
  obtain m1 s1 where s1: "ensureModuleFinalizer adoptingEnv ?m ?s = (Ret (None, m1), s1)"
    using adopting_finalizer by blast
  obtain m2 s2 where s2: "setPhase adoptingEnv ModulePhaseInstalling None m1 s1 = (Ret (None, m2), s2)"
      "mod_Spec m2 = mod_Spec exampleAdopting"
    using adopting_setPhase by blast
  obtain m3 s3 where s3: "installModule exampleLib adoptingEnv m2 s2 = (Ret (None, m3), s3)"
    using adopting_install [OF s2(2)] by blast
  obtain m4 t where t: "setPhase adoptingEnv ModulePhaseReady (Some ''Module installed successfully'') m3 s3 = (Ret (None, m4), t)"
      "modPhase m4 = ModulePhaseReady" "mod_Spec m4 = mod_Spec exampleAdopting"
    using adopting_setPhase by blast
  have run: "ModuleReconcile exampleLib adoptingEnv exampleKey exampleWorld = (Ret (requeueAfter (seconds 2), None), t)"
    using s1 s2(1) s3 t
    by (simp add: ModuleReconcile_read [OF read] moduleSwitch_def module_handleEmptyPhase_def module_handleHibernation_def)
  obtain fs where fs: "trace t = trace s3 @ fs" "\<exists>e \<in> set fs. writesReady e"
    using achievesD [OF setPhase_achieves t(1)] by (auto simp: writesReady_def)
  obtain gs where gs: "trace s3 = trace exampleWorld @ gs"
    using keeps_appendsD [OF keeps_appends [OF finalizer_notReady(1)] s1] keeps_appendsD [OF setPhase_appends s2(1)]
      keeps_appendsD [OF keeps_appends [OF install_notReady] s3] by auto
  from fs(2) obtain as e bs where e: "fs = as @ e # bs" "writesReady e" by (auto dest: split_list)
  have before: "trace t = trace exampleWorld @ (gs @ as) @ e # bs" using fs(1) gs e(1) by simp
  have "answersOrigin adoptingEnv exampleKey (Adopts ''apps'' ''rel'')"
    by (simp add: answersOrigin_def namesStable_def originOf_def)
  from ready_means_installed [OF this read _ run before e(2)] have "\<exists>p \<in> set (gs @ as). provides (Adopts ''apps'' ''rel'') p"
    by simp
  with run before e(2) show ?thesis by (intro exI [of _ "gs @ as"] exI [of _ e] exI [of _ bs]) (simp add: exampleWorld_def)
qed

end
