(* ===== verification/ModuleRemoval.thy ===== *)
theory ModuleRemoval
  imports FirstInstall
begin

text \<open>
  The deletion of a module (\<open>src/internal/controller/module_deletion.go\<close>, \<open>uninstallModule\<close> of
  \<open>module_operations.go\<close>) against the API server of \<open>ApiServer\<close>. Uninstalling a Helm module returns whatever
  the workspace, the rendering, the connection and Helm answer, and leaves of the module everything but its
  annotation; the finalizer is then removed, and the API server drops the object.
\<close>

section \<open>Runs that end\<close>

lemma RenderHelm_returns:
  assumes "ms_Helm (mod_Spec m) = Some helm" and "GetReleaseName helm \<noteq> None"
  shows "returns (rendering (RenderHelmSpec lib m))"
proof -
  have "\<exists>r n'. RenderHelmSpec lib m n = (Ret r, n')" for n
    using RenderHelmSpec_outcome [of m lib n] assms by (auto simp: GetReleaseName_def split: if_splits)
  then show ?thesis by (simp add: returns_def rendering_def split: prod.split) (metis prod.inject)
qed

lemma UninstallRelease_run:
  assumes "\<And>h. e_helmInit E h (hs_config svc) ns = None"
  shows "\<exists>e t es a. UninstallRelease E svc rel ns removeNamespace removePVCs s = (Ret e, t) \<and> trace t = trace s @ es
    \<and> HelmEv (hs_config svc) (RunUninstall ns rel a) \<in> set es"
proof -
  let ?c = "hs_config svc"
  let ?s = "s\<lparr>trace := trace s @ [HelmEv ?c (HelmInit ns None)]\<rparr>"
  let ?a = "e_runUninstall E (trace ?s) ?c ns rel"
  let ?ev = "HelmEv ?c (RunUninstall ns rel ?a)"
  obtain e t where run: "UninstallRelease E svc rel ns removeNamespace removePVCs s = (Ret e, t)"
    using returnsD [OF UninstallRelease_returns] by blast
  have "\<exists>fs. trace t = trace s @ [HelmEv ?c (HelmInit ns None), ?ev] @ fs"
    using run assms
    by (auto simp: UninstallRelease_def helmInit_def runUninstall_def kDeleteNamespace_def kDeletePVCs_def guardErr_def
        split: option.splits if_splits)
  with run show ?thesis by auto
qed

text \<open>The read of the module's workspace gives a connection that does not panic.\<close>

definition connects :: "env \<Rightarrow> Module \<Rightarrow> bool" where
  "connects E m \<longleftrightarrow> (\<forall>h w. e_getWorkspace E h \<lparr>nn_Namespace = wref_Namespace (ms_Workspace (mod_Spec m)),
     nn_Name = wref_Name (ms_Workspace (mod_Spec m))\<rparr> = Inr w \<longrightarrow> connectable (wss_Connection (ws_Spec w)))"

section \<open>Uninstalling, with its effect on the store\<close>

text \<open>What uninstalling may change of a stored module: an annotation.\<close>

definition annotatedOnly :: "Module \<Rightarrow> Module \<Rightarrow> bool" where
  "annotatedOnly c c' \<longleftrightarrow> sameObject c c' \<and> meta_Finalizers (mod_Meta c') = meta_Finalizers (mod_Meta c)"

lemma annotatedOnly_simps [simp]: "annotatedOnly c c" "annotatedOnly c (setAnnotations a c)"
  by (simp_all add: annotatedOnly_def setAnnotations_def sameObject_def)

lemma store_unchanged: "\<lbrakk>trace t = trace s @ es; \<And>st. fold storeEvent es st = st\<rbrakk> \<Longrightarrow> storeAfter st0 (trace t) = storeAfter st0 (trace s)"
  by (simp add: storeAfter_append)

lemma Uninstall_run:
  "\<exists>e md' t. im_Uninstall (managerFor lib E hm) md s = (Ret (e, md'), t) \<and> storeAfter st0 (trace t) = storeAfter st0 (trace s)"
proof -
  have "returns (im_Uninstall (managerFor lib E hm) md)"
    unfolding managerFor_simps ModuleHelmManager_Uninstall_def by (intro returns_io UninstallRelease_returns)
  then obtain x t where run: "im_Uninstall (managerFor lib E hm) md s = (Ret x, t)" by (blast dest: returnsD)
  then have "keeps (emits (managerEvent (hs_config (hm_helmService hm)) (hm_releaseName hm) (GetNamespace (hm_helmModule hm))
      (helm_Cleanup (hm_helmModule hm)))) (im_Uninstall (managerFor lib E hm) md)"
    using helmManager.uninstall_scope by blast
  from keepsD [OF this run] obtain es where "trace t = trace s @ es" "list_all (managerEvent (hs_config (hm_helmService hm))
      (hm_releaseName hm) (GetNamespace (hm_helmModule hm)) (helm_Cleanup (hm_helmModule hm))) es"
    by (auto simp: emits_def)
  with run store_unchanged managerEvent_fold show ?thesis by (cases x) blast
qed

text \<open>The event by which Helm was asked to uninstall the release of a manager.\<close>

definition uninstalls :: "ModuleHelmManager \<Rightarrow> event \<Rightarrow> bool" where
  "uninstalls hm e \<longleftrightarrow> (\<exists>a. e = HelmEv (hs_config (hm_helmService hm))
     (RunUninstall (GetNamespace (hm_helmModule hm)) (hm_releaseName hm) a))"

text \<open>Past the checks of the workspace.\<close>

lemma uninstallModule_past:
  assumes "\<not> adopted m" and "workspaceOf E m s = (Ret (Inr w), u)"
    and "meta_DeletionTimestamp (ws_Meta w) = None \<longrightarrow> wst_Ready (ws_Status w)
      \<and> wsPhase w \<in> {WorkspacePhaseReady, WorkspacePhaseHibernated, WorkspacePhaseFailed}"
  shows "uninstallModule lib E m s = andThen (newManager lib E (initAnnotations m) (wss_Connection (ws_Spec w))
      (metaDataOf lib (initAnnotations m)) (case configMapOf lib (initAnnotations m) of Inl _ \<Rightarrow> [] | Inr c \<Rightarrow> c)) (\<lambda>(x, m1, md). case x of
        Inl err \<Rightarrow> ret (Some err, m1)
      | Inr im \<Rightarrow> andThen (im_Uninstall im md) (\<lambda>(e, md'). ret (map_option (Wrapped ''failed to uninstall module'') e, m1))) u"
proof -
  have go: "(meta_DeletionTimestamp (ws_Meta w) = None \<and> \<not> wst_Ready (ws_Status w)) = False"
    "(meta_DeletionTimestamp (ws_Meta w) = None
      \<and> wsPhase w \<notin> {WorkspacePhaseReady, WorkspacePhaseHibernated, WorkspacePhaseFailed}) = False"
    using assms(3) by blast+
  have kind: "(case ms_Helm (mod_Spec m) of None \<Rightarrow> False | Some helm \<Rightarrow> helm_ExistingRelease helm \<noteq> None) = False"
    using assms(1) by (simp add: adopted_def)
  show ?thesis
    unfolding uninstallModule_def kind if_False andThen_Ret [where m = "workspaceOf E m" and s = s, OF assms(2)] sum.case go Let_def ..
qed

context api_server
begin

lemma connect_any:
  assumes "connectable conn"
  shows "\<exists>q t. NewHelmService E conn s = (Ret q, t) \<and> stored t = stored s"
proof -
  obtain q t where run: "NewHelmService E conn s = (Ret q, t)" using returnsD [OF NewHelmService_returns [OF assms]] by blast
  from keepsD [OF NewHelmService_reads run] obtain es where es: "trace t = trace s @ es" "list_all connectEvent es"
    by (auto simp: emits_def)
  with run store_unchanged connect_fold(1) show ?thesis by blast
qed

lemma newManager_any:
  assumes helm: "ms_Helm (mod_Spec m) = Some helm" "GetReleaseName helm \<noteq> None" and conn: "connectable conn"
    and c: "stored s (moduleKey m) = Some c" "annotationsOf m = annotationsOf c"
  shows "\<exists>x m' md' t c'. newManager lib E m conn md cfg s = (Ret (x, m', md'), t) \<and> moduleKey m' = moduleKey m
    \<and> stored t = (stored s)(moduleKey m \<mapsto> c') \<and> annotatedOnly c c' \<and> (\<forall>im. x = Inr im \<longrightarrow> (\<exists>hm. im = managerFor lib E hm))"
proof -
  have same: "stored s = (stored s)(moduleKey m \<mapsto> c)" using c(1) by (simp add: fun_upd_idem)
  obtain rel where rel: "GetReleaseName helm = Some rel" using helm(2) by blast
  obtain r u where u: "rendering (RenderHelmSpec lib m) s = (Ret r, u)"
    using returnsD [OF RenderHelm_returns [OF helm]] by blast
  then have stu: "stored u = stored s" by (auto simp: rendering_def split: prod.splits)
  show ?thesis
  proof (cases r)
    case (Inl err)
    with u helm stu same show ?thesis
      by (intro exI [of _ "Inl (Wrapped ''failed to render Helm spec'' err)"] exI [of _ m] exI [of _ md] exI [of _ u] exI [of _ c])
        (simp add: newManager_def)
  next
    case (Inr helm')
    obtain q v where v: "NewHelmService E conn u = (Ret q, v)" "stored v = stored u" using connect_any [OF conn] by blast
    show ?thesis
    proof (cases q)
      case (Inl err)
      with u v helm rel Inr stu same show ?thesis
        by (intro exI [of _ "Inl err"] exI [of _ m] exI [of _ md] exI [of _ v] exI [of _ c]) (simp add: newManager_def)
    next
      case svc: (Inr svc)
      let ?c = "setAnnotations (Some ((annotationsOf c)(managerDataKey \<mapsto> metaString lib md))) c"
      let ?hm = "\<lparr>hm_helmModule = helm', hm_helmService = svc, hm_releaseName = rel\<rparr>"
      have key: "moduleKey c = moduleKey m" by (rule keyedD [OF keyed_stored c(1)])
      have "stored v (moduleKey m) = Some c" using c(1) v(2) stu by simp
      from patchLogged_run [OF this c(2), of managerDataKey "metaString lib md"] obtain t where
        t: "patchLogged E m (updateAnnotation managerDataKey (metaString lib md) m) v = (Ret ?c, t)"
          "effect st0 v ((stored v)(moduleKey c \<mapsto> ?c)) id t" by blast
      have "newManager lib E m conn md cfg s = (Ret (Inr (managerFor lib E ?hm), ?c, md), t)"
        using u v(1) helm rel Inr svc t(1) by (simp add: newManager_def)
      moreover have "moduleKey ?c = moduleKey m" using key by (simp add: setAnnotations_def)
      moreover have "stored t = (stored s)(moduleKey m \<mapsto> ?c)" using effect_store [OF t(2)] v(2) stu key by simp
      moreover have "\<exists>hm. managerFor lib E ?hm = managerFor lib E hm" by blast
      ultimately show ?thesis
        by (intro exI [of _ "Inr (managerFor lib E ?hm)"] exI [of _ ?c] exI [of _ md] exI [of _ t] exI [of _ ?c])
          (simp del: managerFor_simps, blast?)
    qed
  qed
qed

text \<open>The manager and its uninstallation.\<close>

lemma managed_uninstall_any:
  assumes "ms_Helm (mod_Spec m) = Some helm" "GetReleaseName helm \<noteq> None" and "connectable conn"
    and "stored s (moduleKey m) = Some c" "annotationsOf m = annotationsOf c"
  shows "\<exists>e m' t c'. andThen (newManager lib E m conn md cfg) (\<lambda>(x, m1, md). case x of
        Inl err \<Rightarrow> ret (Some err, m1)
      | Inr im \<Rightarrow> andThen (im_Uninstall im md) (\<lambda>(e, md'). ret (map_option wrap e, m1))) s = (Ret (e, m'), t)
    \<and> moduleKey m' = moduleKey m \<and> stored t = (stored s)(moduleKey m \<mapsto> c') \<and> annotatedOnly c c'"
proof -
  from newManager_any [OF assms] obtain x m1 md1 u c' where
    u: "newManager lib E m conn md cfg s = (Ret (x, m1, md1), u)" "moduleKey m1 = moduleKey m"
      "stored u = (stored s)(moduleKey m \<mapsto> c')" "annotatedOnly c c'" "\<forall>im. x = Inr im \<longrightarrow> (\<exists>hm. im = managerFor lib E hm)"
    by blast
  show ?thesis
  proof (cases x)
    case (Inl err)
    with u(1-4) show ?thesis by (intro exI [of _ "Some err"] exI [of _ m1] exI [of _ u] exI [of _ c']) simp
  next
    case (Inr im)
    then obtain hm where hm: "im = managerFor lib E hm" using u(5) by blast
    obtain e md' t where "im_Uninstall im md1 u = (Ret (e, md'), t)" "stored t = stored u"
      unfolding hm using Uninstall_run [of lib E hm md1 u st0] by blast
    with Inr u(1-4) show ?thesis
      by (intro exI [of _ "map_option wrap e"] exI [of _ m1] exI [of _ t] exI [of _ c']) simp
  qed
qed

lemma uninstallModule_any:
  assumes helm: "ms_Helm (mod_Spec m) = Some helm" "GetReleaseName helm \<noteq> None" and conn: "connects E m"
    and m: "stored s (moduleKey m) = Some m"
  shows "\<exists>e m' t c. uninstallModule lib E m s = (Ret (e, m'), t) \<and> moduleKey m' = moduleKey m
    \<and> stored t = (stored s)(moduleKey m \<mapsto> c) \<and> annotatedOnly m c"
proof -
  let ?k = "\<lparr>nn_Namespace = wref_Namespace (ms_Workspace (mod_Spec m)), nn_Name = wref_Name (ms_Workspace (mod_Spec m))\<rparr>"
  let ?r = "e_getWorkspace E (trace s) ?k" and ?m0 = "initAnnotations m"
  let ?s = "s\<lparr>trace := trace s @ [WorkspaceEv (GetW ?k ?r)]\<rparr>"
  have m0: "ms_Helm (mod_Spec ?m0) = Some helm" "moduleKey ?m0 = moduleKey m" "annotationsOf ?m0 = annotationsOf m"
    using helm by (simp_all add: initAnnotations_def)
  have same: "stored s = (stored s)(moduleKey m \<mapsto> m)" "stored ?s = stored s" using m by (simp_all add: fun_upd_idem)
  have stop: ?thesis if "uninstallModule lib E m s = (Ret (e, m), t)" "stored t = stored s" for e t
    using that same(1) by (intro exI [of _ e] exI [of _ m] exI [of _ t] exI [of _ m]) simp
  have read: "workspaceOf E m s = (Ret ?r, ?s)" by (simp add: workspaceOf_def getWorkspace_def)
  show ?thesis
  proof (cases "adopted m")
    case True
    then show ?thesis by (intro stop [of None s]) (auto simp: uninstallModule_def adopted_def)
  next
    case own: False
    show ?thesis
    proof (cases ?r)
      case (Inl err)
      then have "\<exists>e. uninstallModule lib E m s = (Ret (e, m), ?s)"
        using own helm by (cases "isNotFound err") (simp_all add: uninstallModule_def adopted_def read)
      then show ?thesis using stop same(2) by blast
    next
      case (Inr w)
      show ?thesis
      proof (cases "meta_DeletionTimestamp (ws_Meta w) = None \<and> (\<not> wst_Ready (ws_Status w)
          \<or> wsPhase w \<notin> {WorkspacePhaseReady, WorkspacePhaseHibernated, WorkspacePhaseFailed})")
        case True
        then have "\<exists>e. uninstallModule lib E m s = (Ret (e, m), ?s)"
          using own helm Inr by (auto simp: uninstallModule_def adopted_def read)
        then show ?thesis using stop same(2) by blast
      next
        case False
        have conn: "connectable (wss_Connection (ws_Spec w))" using conn Inr unfolding connects_def by blast
        have "stored ?s (moduleKey ?m0) = Some m" using m m0(2) by simp
        note run = managed_uninstall_any [OF m0(1) helm(2) conn this m0(3), of lib "metaDataOf lib ?m0"
          "case configMapOf lib ?m0 of Inl _ \<Rightarrow> [] | Inr c \<Rightarrow> c" "Wrapped ''failed to uninstall module''"]
        have "workspaceOf E m s = (Ret (Inr w), ?s)" using read Inr by simp
        note past = uninstallModule_past [OF own this, of lib]
        have "meta_DeletionTimestamp (ws_Meta w) = None \<longrightarrow> wst_Ready (ws_Status w)
            \<and> wsPhase w \<in> {WorkspacePhaseReady, WorkspacePhaseHibernated, WorkspacePhaseFailed}"
          using False by blast
        note past = past [OF this]
        from run obtain e m' t c where "uninstallModule lib E m s = (Ret (e, m'), t)" "moduleKey m' = moduleKey ?m0"
          "stored t = (stored ?s)(moduleKey ?m0 \<mapsto> c)" "annotatedOnly m c"
          unfolding past by (elim exE conjE)
        with m0(2) same(2) show ?thesis by (intro exI [of _ e] exI [of _ m'] exI [of _ t] exI [of _ c]) simp
      qed
    qed
  qed
qed

text \<open>With an operable module the uninstallation reaches Helm.\<close>

lemma uninstallModule_reaches:
  assumes ok: "operable lib E m hm" "\<not> adopted m" and init: "\<And>h c ns. e_helmInit E h c ns = None"
    and m: "stored s (moduleKey m) = Some m"
  shows "\<exists>x t es. uninstallModule lib E m s = (Ret x, t) \<and> trace t = trace s @ es \<and> (\<exists>e \<in> set es. uninstalls hm e)"
proof -
  let ?k = "\<lparr>nn_Namespace = wref_Namespace (ms_Workspace (mod_Spec m)), nn_Name = wref_Name (ms_Workspace (mod_Spec m))\<rparr>"
  let ?m0 = "initAnnotations m"
  obtain w where w: "e_getWorkspace E (trace s) ?k = Inr w" "wst_Ready (ws_Status w)"
      "wsPhase w \<in> {WorkspacePhaseReady, WorkspacePhaseHibernated}"
      "\<forall>u. \<exists>v. NewHelmService E (wss_Connection (ws_Spec w)) u = (Ret (Inr (hm_helmService hm)), v)"
    using ok(1) unfolding operable_def workspaceServes_def by blast
  let ?s = "s\<lparr>trace := trace s @ [WorkspaceEv (GetW ?k (Inr w))]\<rparr>"
  have read: "workspaceOf E m s = (Ret (Inr w), ?s)" by (simp add: workspaceOf_def getWorkspace_def w(1))
  have m0: "annotationsOf ?m0 = annotationsOf m" "mod_Spec ?m0 = mod_Spec m" "mod_Config ?m0 = mod_Config m"
    by (simp_all add: initAnnotations_def)
  have "stored ?s (moduleKey ?m0) = Some m" using m by (simp add: initAnnotations_def)
  from newManager_run [OF ok(1) this m0 w(4)] obtain m1 u where
    u: "newManager lib E ?m0 (wss_Connection (ws_Spec w)) (metaDataOf lib ?m0)
        (case configMapOf lib ?m0 of Inl _ \<Rightarrow> [] | Inr c \<Rightarrow> c) ?s = (Ret (Inr (managerFor lib E hm), m1, metaDataOf lib ?m0), u)"
    by blast
  obtain es1 where es1: "trace u = trace ?s @ es1" using keeps_appendsD [OF keeps_appends [OF newManager_op] u] by blast
  from UninstallRelease_run [of E "hm_helmService hm" "GetNamespace (hm_helmModule hm)" "hm_releaseName hm"
      "cl_RemoveNamespace (helm_Cleanup (hm_helmModule hm))" "cl_RemovePVCs (helm_Cleanup (hm_helmModule hm))" u, OF init]
  obtain e t es2 a where t: "im_Uninstall (managerFor lib E hm) (metaDataOf lib ?m0) u = (Ret (e, metaDataOf lib ?m0), t)"
      "trace t = trace u @ es2" "HelmEv (hs_config (hm_helmService hm))
         (RunUninstall (GetNamespace (hm_helmModule hm)) (hm_releaseName hm) a) \<in> set es2"
    by (auto simp: ModuleHelmManager_Uninstall_def)
  have "meta_DeletionTimestamp (ws_Meta w) = None \<longrightarrow> wst_Ready (ws_Status w)
      \<and> wsPhase w \<in> {WorkspacePhaseReady, WorkspacePhaseHibernated, WorkspacePhaseFailed}" using w(2,3) by blast
  from uninstallModule_past [OF ok(2) read this, of lib]
  have "uninstallModule lib E m s = (Ret (map_option (Wrapped ''failed to uninstall module'') e, m1), t)"
    unfolding andThen_Ret [where m = "newManager lib E ?m0 (wss_Connection (ws_Spec w)) (metaDataOf lib ?m0)
        (case configMapOf lib ?m0 of Inl _ \<Rightarrow> [] | Inr c \<Rightarrow> c)" and s = ?s, OF u]
    by (simp add: t(1) del: managerFor_simps)
  moreover have "trace t = trace s @ (WorkspaceEv (GetW ?k (Inr w)) # es1 @ es2)" using es1 t(2) by simp
  moreover have "\<exists>e \<in> set (WorkspaceEv (GetW ?k (Inr w)) # es1 @ es2). uninstalls hm e"
    using t(3) by (auto simp: uninstalls_def)
  ultimately show ?thesis by blast
qed

text \<open>Removing the finalizer of a module that is to be deleted.\<close>

lemma dropFinalizer_run:
  assumes c: "stored s (moduleKey m) = Some c" and deleting: "meta_DeletionTimestamp (mod_Meta c) \<noteq> None"
  shows "\<exists>m' t c'. dropModuleFinalizer E m s = (Ret (None, m'), t) \<and> stored t = (stored s)(moduleKey m := c')
    \<and> (\<forall>d. c' = Some d \<longrightarrow> deleteFinalizer \<notin> set (meta_Finalizers (mod_Meta d)) \<and> mod_Spec d = mod_Spec c)
    \<and> (meta_Finalizers (mod_Meta c) = [deleteFinalizer] \<longrightarrow> c' = None)"
proof -
  have key: "moduleKey c = moduleKey m" by (rule keyedD [OF keyed_stored c])
  let ?s = "s\<lparr>trace := trace s @ [ModuleEv (GetM (moduleKey m) (Inr c))]\<rparr>"
  show ?thesis
  proof (cases "deleteFinalizer \<in> set (meta_Finalizers (mod_Meta c))")
    case True
    let ?c = "c\<lparr>mod_Meta := removeFinalizer deleteFinalizer (mod_Meta c)\<rparr>"
    let ?t = "?s\<lparr>trace := trace ?s @ [ModuleEv (UpdateM ?c (Inr ?c))]\<rparr>"
    have ckey: "moduleKey ?c = moduleKey m" using key by (simp add: removeFinalizer_def)
    then have upd: "updateModule E ?c ?s = (Ret (Inr ?c), ?t)" using update_run [of ?s ?c c] c by simp
    have "dropModuleFinalizer E m s = (Ret (None, ?c), ?t)"
      unfolding dropModuleFinalizer_def
      by (intro retry_first) (simp add: get_run [OF c] True upd replaced_def Let_def)
    moreover have "stored ?t = (stored s)(moduleKey m := kept ?c)" by (simp add: storeAfter_append ckey [simplified])
    moreover have "\<forall>d. kept ?c = Some d \<longrightarrow> deleteFinalizer \<notin> set (meta_Finalizers (mod_Meta d)) \<and> mod_Spec d = mod_Spec c"
      by (auto simp: kept_def removeFinalizer_def)
    moreover have "meta_Finalizers (mod_Meta c) = [deleteFinalizer] \<longrightarrow> kept ?c = None"
      using deleting by (simp add: kept_def removeFinalizer_def)
    ultimately show ?thesis by blast
  next
    case False
    have "dropModuleFinalizer E m s = (Ret (None, c), ?s)"
      unfolding dropModuleFinalizer_def by (intro retry_first) (simp add: get_run [OF c] False)
    moreover have "stored ?s = (stored s)(moduleKey m := Some c)" using c by (simp add: fun_upd_idem)
    ultimately show ?thesis using False by (intro exI [of _ c] exI [of _ ?s] exI [of _ "Some c"]) auto
  qed
qed

text \<open>Up to the uninstallation.\<close>

lemma retire_run:
  assumes conn: "connects E m" and m: "stored s (moduleKey m) = Some m"
    and helm: "ms_Helm (mod_Spec m) = Some helm" "GetReleaseName helm \<noteq> None"
  obtains m1 s1 e m2 s2 c es where "setPhase E ModulePhaseUninstalling None m s = (Ret (None, m1), s1)"
    "uninstallModule lib E m1 s1 = (Ret (e, m2), s2)" "moduleKey m2 = moduleKey m" "stored s2 = (stored s)(moduleKey m \<mapsto> c)"
    "meta_DeletionTimestamp (mod_Meta c) = meta_DeletionTimestamp (mod_Meta m)" "mod_Spec c = mod_Spec m"
    "meta_Finalizers (mod_Meta c) = meta_Finalizers (mod_Meta m)" "trace s2 = trace s @ es"
    "\<And>hm. \<lbrakk>operable lib E m hm; \<not> adopted m; \<And>h c ns. e_helmInit E h c ns = None\<rbrakk> \<Longrightarrow> \<exists>ev \<in> set es. uninstalls hm ev"
proof -
  from setPhase_run [OF m, of ModulePhaseUninstalling None] obtain at s1 where
    s1: "setPhase E ModulePhaseUninstalling None m s = (Ret (None, atPhase ModulePhaseUninstalling None at m), s1)"
      "effect st0 s ((stored s)(moduleKey m \<mapsto> atPhase ModulePhaseUninstalling None at m)) id s1" by blast
  let ?m1 = "atPhase ModulePhaseUninstalling None at m"
  have m1: "connects E ?m1" "ms_Helm (mod_Spec ?m1) = Some helm" "stored s1 (moduleKey ?m1) = Some ?m1"
    using conn helm(1) effect_store [OF s1(2)] by (simp_all add: connects_def)
  from uninstallModule_any [OF m1(2) helm(2) m1(1,3)] obtain e m2 s2 c where
    s2: "uninstallModule lib E ?m1 s1 = (Ret (e, m2), s2)" "moduleKey m2 = moduleKey ?m1"
      "stored s2 = (stored s1)(moduleKey ?m1 \<mapsto> c)" "annotatedOnly ?m1 c"
    by blast
  obtain es1 where es1: "trace s1 = trace s @ es1" using keeps_appendsD [OF setPhase_appends s1(1)] by blast
  obtain es2 where es2: "trace s2 = trace s1 @ es2"
    using keeps_appendsD [OF keeps_appends [OF uninstall_notReady] s2(1)] by blast
  have reaches: "\<exists>ev \<in> set (es1 @ es2). uninstalls hm ev"
    if "operable lib E m hm" "\<not> adopted m" "\<And>h c ns. e_helmInit E h c ns = None" for hm
  proof -
    have "operable lib E ?m1 hm" "\<not> adopted ?m1"
      using operable_sameObject [OF that(1) atPhase_simps(1)] that(2) by (simp_all add: adopted_def)
    from uninstallModule_reaches [OF this that(3) m1(3)] s2(1) es2 show ?thesis by auto
  qed
  show thesis
    using s2(2-4) effect_store [OF s1(2)] es1 es2
    by (intro that [where c = c and es = "es1 @ es2", OF s1(1) s2(1) _ _ _ _ _ _ reaches]) (simp_all add: annotatedOnly_def sameObject_def)
qed

end

section \<open>A module is removed\<close>

text \<open>
  C26: deleting a Helm module always ends, and uninstalls its release where that can be done. In every cluster
  whose API server keeps what is written, one reconciliation of a Helm module that is marked for deletion and
  is \<open>ready\<close>, \<open>failed\<close> or \<open>sleeped\<close> returns without error and leaves the module without the finalizer, or
  gone when it had no other, whatever Helm, the workspace and the connection answer (the connection need only
  be one that the webhook admits, and the release have a name); no other module changes. When the module can be
  operated and did not adopt its release, Helm was asked to uninstall that release.
\<close>

theorem module_removed:
  assumes server: "api_server E st0" and conn: "connects E m"
    and m: "storeAfter st0 (trace s) k = Some m" "meta_DeletionTimestamp (mod_Meta m) \<noteq> None"
      "modPhase m \<in> {ModulePhaseReady, ModulePhaseFailed, ModulePhaseSleeped}"
    and helm: "ms_Helm (mod_Spec m) = Some helm" "GetReleaseName helm \<noteq> None"
  shows "\<exists>t es. ModuleReconcile lib E k s = (Ret (noRequeue, None), t) \<and> trace t = trace s @ es
    \<and> (\<forall>d. storeAfter st0 (trace t) k = Some d \<longrightarrow> deleteFinalizer \<notin> set (meta_Finalizers (mod_Meta d)) \<and> mod_Spec d = mod_Spec m)
    \<and> (meta_Finalizers (mod_Meta m) = [deleteFinalizer] \<longrightarrow> storeAfter st0 (trace t) k = None)
    \<and> (\<forall>k'. k' \<noteq> k \<longrightarrow> storeAfter st0 (trace t) k' = storeAfter st0 (trace s) k')
    \<and> (operable lib E m hm \<and> \<not> adopted m \<and> (\<forall>h c ns. e_helmInit E h c ns = None) \<longrightarrow> (\<exists>e \<in> set es. uninstalls hm e))"
proof -
  let ?S = "storeAfter st0 (trace s)"
  have k: "moduleKey m = k" by (rule keyedD [OF api_server.keyed_stored [OF server] m(1)])
  let ?s = "s\<lparr>trace := trace s @ [ModuleEv (GetM k (Inr m))]\<rparr>"
  have "storeAfter st0 (trace ?s) (moduleKey m) = Some m" using m(1) k by simp
  from api_server.retire_run [OF server conn this helm] obtain m1 s1 e m2 s2 c es where
    run: "setPhase E ModulePhaseUninstalling None m ?s = (Ret (None, m1), s1)" "uninstallModule lib E m1 s1 = (Ret (e, m2), s2)"
      "moduleKey m2 = moduleKey m" "storeAfter st0 (trace s2) = (storeAfter st0 (trace ?s))(moduleKey m \<mapsto> c)" and
    c: "meta_DeletionTimestamp (mod_Meta c) = meta_DeletionTimestamp (mod_Meta m)" "mod_Spec c = mod_Spec m"
      "meta_Finalizers (mod_Meta c) = meta_Finalizers (mod_Meta m)" and
    es: "trace s2 = trace ?s @ es" "\<And>hm. \<lbrakk>operable lib E m hm; \<not> adopted m; \<And>h c ns. e_helmInit E h c ns = None\<rbrakk>
      \<Longrightarrow> \<exists>ev \<in> set es. uninstalls hm ev" by metis
  let ?rec = "case e of None \<Rightarrow> ret ()
     | Some err \<Rightarrow> recordModule m2 ''Warning'' ''UninstallError'' (''Module uninstallation failed: ''
         @ errString err @ ''. Finalizer will be removed to allow deletion.'')"
  obtain s3 es3 where s3: "?rec s2 = (Ret (), s3)" "trace s3 = trace s2 @ es3" "storeAfter st0 (trace s3) = storeAfter st0 (trace s2)"
    by (cases e) (simp_all add: recordModule_def recordEvent_def emit_def)
  have "storeAfter st0 (trace s3) (moduleKey m2) = Some c" "meta_DeletionTimestamp (mod_Meta c) \<noteq> None"
    using run(3,4) s3(3) c(1) m(2) by simp_all
  from api_server.dropFinalizer_run [OF server this] obtain m3 t c' where
    t: "dropModuleFinalizer E m2 s3 = (Ret (None, m3), t)" "storeAfter st0 (trace t) = (storeAfter st0 (trace s3))(moduleKey m2 := c')"
      "\<forall>d. c' = Some d \<longrightarrow> deleteFinalizer \<notin> set (meta_Finalizers (mod_Meta d)) \<and> mod_Spec d = mod_Spec c"
      "meta_Finalizers (mod_Meta c) = [deleteFinalizer] \<longrightarrow> c' = None" by blast
  have "module_handleDeletion lib E m ?s =
      andThen ?rec (\<lambda>_. andThen (dropModuleFinalizer E m2) (\<lambda>(e3, m3). ret (noRequeue, e3))) s2"
    using m(3) by (simp add: module_handleDeletion_def run(1,2))
  also have "\<dots> = andThen (dropModuleFinalizer E m2) (\<lambda>(e3, m3). ret (noRequeue, e3)) s3"
    by (rule andThen_Ret) (rule s3(1))
  finally have result: "ModuleReconcile lib E k s = (Ret (noRequeue, None), t)"
    using m(2) t(1) by (simp add: ModuleReconcile_def api_server.get_run [OF server m(1)] moduleSwitch_def)
  obtain es4 where "trace t = trace s3 @ es4"
    using keeps_appendsD [OF keeps_appends [OF finalizer_notReady(2)] t(1)] by blast
  then have "trace t = trace s @ (ModuleEv (GetM k (Inr m)) # es @ es3 @ es4)" using s3(2) es(1) by simp
  moreover have "storeAfter st0 (trace t) = ?S(k := c')" using t(2) run(3,4) s3(3) k by simp
  ultimately show ?thesis
    using result t(3,4) c(2,3) es(2) [of hm]
    by (intro exI [of _ t] exI [of _ "ModuleEv (GetM k (Inr m)) # es @ es3 @ es4"]) auto
qed

definition exampleDying :: Module where
  "exampleDying = exampleSleepy\<lparr>mod_Meta := exampleMeta\<lparr>meta_DeletionTimestamp := Some 7, meta_Finalizers := [deleteFinalizer]\<rparr>\<rparr>"

theorem module_removed_witness:
  "\<exists>t. ModuleReconcile exampleJsonLib (exampleCluster exampleWorkspace [exampleDying]) (moduleKey exampleDying) exampleWorld
       = (Ret (noRequeue, None), t)
    \<and> storeAfter (initialStore [exampleDying]) (trace t) (moduleKey exampleDying) = None
    \<and> (\<exists>e \<in> set (trace t). uninstalls exampleManager e)"
proof -
  let ?E = "exampleCluster exampleWorkspace [exampleDying]"
  have stored: "storeAfter (initialStore [exampleDying]) (trace exampleWorld) (moduleKey exampleDying) = Some exampleDying"
    by (simp add: exampleWorld_def initialStore_def)
  have dying: "meta_DeletionTimestamp (mod_Meta exampleDying) \<noteq> None"
    "modPhase exampleDying \<in> {ModulePhaseReady, ModulePhaseFailed, ModulePhaseSleeped}"
    "ms_Helm (mod_Spec exampleDying) = Some exampleHelm" "GetReleaseName exampleHelm \<noteq> None" "\<not> adopted exampleDying"
    "meta_Finalizers (mod_Meta exampleDying) = [deleteFinalizer]"
    by (simp_all add: exampleDying_def exampleSleepy_def exampleModule_def exampleMeta_def adopted_def example_releaseName
        exampleHelm_def GetReleaseName_def)
  have conn: "connects ?E exampleDying"
    by (simp add: connects_def connectable_def exampleWorkspace_def)
  have ok: "operable exampleJsonLib ?E exampleDying exampleManager"
    by (rule example_operable) (simp_all add: exampleDying_def exampleSleepy_def exampleWorkspace_def)
  from module_removed [OF exampleCluster_server conn stored dying(1-4), of exampleJsonLib exampleManager]
  obtain t es where t: "ModuleReconcile exampleJsonLib ?E (moduleKey exampleDying) exampleWorld = (Ret (noRequeue, None), t)"
    "trace t = trace exampleWorld @ es"
    "meta_Finalizers (mod_Meta exampleDying) = [deleteFinalizer] \<longrightarrow>
       storeAfter (initialStore [exampleDying]) (trace t) (moduleKey exampleDying) = None"
    "operable exampleJsonLib ?E exampleDying exampleManager \<and> \<not> adopted exampleDying
       \<and> (\<forall>h c ns. e_helmInit ?E h c ns = None) \<longrightarrow> (\<exists>e \<in> set es. uninstalls exampleManager e)"
    by blast
  have "\<exists>e \<in> set es. uninstalls exampleManager e" using t(4) ok dying(5) by simp
  with t(1,2) t(3) [rule_format, OF dying(6)] show ?thesis by (intro exI [of _ t]) auto
qed

end
