(* ===== verification/ForkCopies.thy ===== *)
theory ForkCopies
  imports EndToEnd ModuleWebhook
begin

text \<open>
  A fork against the API server: what the goroutines of \<open>src/internal/controller/workspace_fork.go\<close> leave in
  the store. The API server asks the module webhooks (\<open>src/internal/webhook/v1/module_webhook.go\<close>) when an
  object is created, so the laws of the locale \<open>admitting_server\<close> name the defaulter and the validator of
  \<open>ModuleWebhook\<close>: the fork, the webhooks and the store meet here.
\<close>

section \<open>Creating modules\<close>

text \<open>The object as stored: the server gives it a name and a UID, and drops the status that was sent.\<close>

definition created :: "string \<Rightarrow> string \<Rightarrow> Module \<Rightarrow> Module" where
  "created name uid m = m\<lparr>mod_Meta := (mod_Meta m)\<lparr>meta_Name := name, meta_UID := uid\<rparr>, mod_Status := emptyModuleStatus\<rparr>"

locale admitting_server = api_server +
  fixes lib :: golib
  assumes create: "meta_Name (mod_Meta m) = [] \<Longrightarrow> \<exists>uuid suffix uid.
      let d = defaultModule uuid m; name = meta_GenerateName (mod_Meta m) @ suffix in
      storeAfter st0 h \<lparr>nn_Namespace = meta_Namespace (mod_Meta m), nn_Name = name\<rparr> = None
      \<and> (if ModuleCustomValidator_ValidateCreate lib (e_getWorkspace E h) (ModuleObject d) = Admitted
         then e_createModule E h m = Inr (created name uid d) else \<exists>err. e_createModule E h m = Inl err)"

section \<open>The copy of a module\<close>

text \<open>What the webhooks saw to when the source was created.\<close>

definition admissible :: "golib \<Rightarrow> Module \<Rightarrow> bool" where
  "admissible lib m \<longleftrightarrow> validateModuleHelmChart m = [] \<and> validateModuleConfig lib m = []
     \<and> (\<forall>helm. ms_Helm (mod_Spec m) = Some helm \<longrightarrow> helm_ReleaseName helm \<noteq> None)"

definition copies :: "Workspace \<Rightarrow> Module \<Rightarrow> Module \<Rightarrow> bool" where
  "copies dst m c \<longleftrightarrow> meta_Namespace (mod_Meta c) = meta_Namespace (mod_Meta m)
     \<and> refersTo (meta_Namespace (ws_Meta dst)) (meta_Name (ws_Meta dst)) c
     \<and> mod_Config c = mod_Config m \<and> ms_Config (mod_Spec c) = ms_Config (mod_Spec m)
     \<and> ms_Custom (mod_Spec c) = ms_Custom (mod_Spec m) \<and> ms_Hibernated (mod_Spec c) = ms_Hibernated (mod_Spec m)
     \<and> ms_Helm (mod_Spec c) = map_option (\<lambda>helm. helm\<lparr>helm_ExistingRelease := None\<rparr>) (ms_Helm (mod_Spec m))
     \<and> meta_Finalizers (mod_Meta c) = [] \<and> annotationsOf c = Map.empty \<and> modPhase c = ModulePhaseEmpty"

lemma forkedModule_admitted:
  assumes "admissible lib m" and "get (workspaceKey dst) = Inr w"
  shows "ModuleCustomValidator_ValidateCreate lib get (ModuleObject (forkedModule m dst)) = Admitted"
proof -
  have "validateModuleHelmChart (forkedModule m dst) = []" "validateModuleConfig lib (forkedModule m dst) = []"
    using assms(1)
    by (auto simp: admissible_def validateModuleHelmChart_def validateModuleConfig_def forkedModule_def
        GetValidatedConfig_def inputConfigOf_def Let_def split: option.splits sum.splits if_splits)
  moreover have "validateModuleWorkspace get (forkedModule m dst) = []"
    using assms(2) by (simp add: validateModuleWorkspace_def forkedModule_def Let_def)
  ultimately show ?thesis by (simp add: ModuleCustomValidator_ValidateCreate_def validateModule_def validateModuleSpec_def)
qed

lemma forkedModule_default: "admissible lib m \<Longrightarrow> defaultModule u (forkedModule m dst) = forkedModule m dst"
  by (rule defaultModule_id) (auto simp: admissible_def forkedModule_def)

lemma created_copies: "copies dst m (created name uid (forkedModule m dst))"
  by (simp add: copies_def created_def forkedModule_def emptyModuleStatus_def refersTo_iff annotationsOf_def)

section \<open>The goroutines\<close>

context admitting_server
begin

lemma createCopy_run:
  assumes "admissible lib m" and "\<And>h. \<exists>w. e_getWorkspace E h (workspaceKey dst) = Inr w"
  shows "\<exists>c t. createModule E (forkedModule m dst) s = (Ret (Inr c), t) \<and> stored s (moduleKey c) = None
    \<and> stored t = (stored s)(moduleKey c \<mapsto> c) \<and> copies dst m c"
proof -
  let ?m = "forkedModule m dst"
  obtain w where "e_getWorkspace E (trace s) (workspaceKey dst) = Inr w" using assms(2) by blast
  from forkedModule_admitted [where get = "e_getWorkspace E (trace s)", OF assms(1) this]
  obtain name uid where new: "stored s \<lparr>nn_Namespace = meta_Namespace (mod_Meta ?m), nn_Name = name\<rparr> = None"
      "e_createModule E (trace s) ?m = Inr (created name uid ?m)"
    using create [of ?m "trace s"] forkedModule_default [OF assms(1)] by (force simp: Let_def forkedModule_def)
  let ?c = "created name uid ?m"
  have key: "moduleKey ?c = \<lparr>nn_Namespace = meta_Namespace (mod_Meta ?m), nn_Name = name\<rparr>" by (simp add: created_def)
  have "createModule E ?m s = (Ret (Inr ?c), s\<lparr>trace := trace s @ [ModuleEv (CreateM ?m (Inr ?c))]\<rparr>)"
    by (simp add: createModule_def new(2))
  with new(1) created_copies key show ?thesis
    by (intro exI [of _ ?c] exI [of _ "s\<lparr>trace := trace s @ [ModuleEv (CreateM ?m (Inr ?c))]\<rparr>"]) simp
qed

text \<open>While nobody installs the copy, the wait reads it and sleeps.\<close>

lemma waitForInitial_run:
  assumes "stored s (moduleKey c) = Some c" and "modPhase c = ModulePhaseEmpty"
  shows "\<exists>t. waitForInitialNewModuleState E n c s = (Ret (Some c), t) \<and> stored t = stored s"
  using assms(1)
proof (induction n arbitrary: s)
  case 0
  show ?case by simp
next
  case (Suc n)
  let ?s = "s\<lparr>trace := trace s @ [ModuleEv (GetM (moduleKey c) (Inr c)), CoreEv (Sleep (seconds 3))]\<rparr>"
  have same: "stored ?s = stored s" by (simp add: storeAfter_append)
  then obtain t where "waitForInitialNewModuleState E n c ?s = (Ret (Some c), t)" "stored t = stored s"
    using Suc.IH [of ?s] Suc.prems by auto
  moreover have "waitForInitialNewModuleState E (Suc n) c s = waitForInitialNewModuleState E n c ?s"
    using assms(2) by (simp add: get_run [OF Suc.prems] sleep_def emit_def)
  ultimately show ?case by auto
qed

lemma forkModule_run:
  assumes "admissible lib m" and "\<And>h. \<exists>w. e_getWorkspace E h (workspaceKey dst) = Inr w"
  shows "\<exists>c t. forkModule lib E m src dst s = (Ret (), t) \<and> stored s (moduleKey c) = None
    \<and> stored t = (stored s)(moduleKey c \<mapsto> c) \<and> copies dst m c"
proof -
  from createCopy_run [OF assms] obtain c u where
    u: "createModule E (forkedModule m dst) s = (Ret (Inr c), u)" "stored s (moduleKey c) = None"
      "stored u = (stored s)(moduleKey c \<mapsto> c)" "copies dst m c" by blast
  let ?u = "u\<lparr>trace := trace u @ [CoreEv (Sleep (seconds 1 div 2))]\<rparr>"
  have new: "stored ?u (moduleKey c) = Some c" "modPhase c = ModulePhaseEmpty" using u(3,4) by (simp_all add: copies_def)
  from waitForInitial_run [OF new, of 180] obtain t where
    t: "waitForInitialNewModuleState E 180 c ?u = (Ret (Some c), t)" "stored t = stored u" by auto
  have "forkModule lib E m src dst s = (Ret (), t)"
    using u(1) t(1) new(2) by (simp add: forkModule_def sleep_def emit_def del: waitForInitialNewModuleState.simps)
  with u(2-4) t(2) show ?thesis by (intro exI [of _ c] exI [of _ t]) simp
qed

text \<open>All of them, one after the other.\<close>

lemma forkAll_run:
  assumes "\<And>h. \<exists>w. e_getWorkspace E h (workspaceKey dst) = Inr w" and "\<forall>m \<in> set ms. admissible lib m"
  shows "\<exists>cs t. forEach (\<lambda>m. forkModule lib E m src dst) ms s = (Ret (), t) \<and> list_all2 (copies dst) ms cs
    \<and> distinct (map moduleKey cs) \<and> (\<forall>c \<in> set cs. stored s (moduleKey c) = None)
    \<and> stored t = stored s ++ map_of (map (\<lambda>c. (moduleKey c, c)) cs)"
  using assms(2)
proof (induction ms arbitrary: s)
  case Nil
  show ?case by (intro exI [of _ "[]"] exI [of _ s]) simp
next
  case (Cons m ms)
  then have "admissible lib m" by simp
  from forkModule_run [OF this assms(1)] obtain c u where
    u: "forkModule lib E m src dst s = (Ret (), u)" "stored s (moduleKey c) = None"
      "stored u = (stored s)(moduleKey c \<mapsto> c)" "copies dst m c" by blast
  from Cons obtain cs t where t: "forEach (\<lambda>m. forkModule lib E m src dst) ms u = (Ret (), t)" "list_all2 (copies dst) ms cs"
      "distinct (map moduleKey cs)" "\<forall>c \<in> set cs. stored u (moduleKey c) = None"
      "stored t = stored u ++ map_of (map (\<lambda>c. (moduleKey c, c)) cs)" by fastforce
  have fresh: "moduleKey c \<notin> moduleKey ` set cs" "\<forall>c \<in> set cs. stored s (moduleKey c) = None"
    using t(4) u(3) by (auto split: if_splits)
  have "stored t = stored s ++ map_of (map (\<lambda>c. (moduleKey c, c)) (c # cs))"
  proof
    fix k
    have "map_of (map (\<lambda>c. (moduleKey c, c)) cs) (moduleKey c) = None" using fresh(1) by (force simp: map_of_eq_None_iff)
    then show "stored t k = (stored s ++ map_of (map (\<lambda>c. (moduleKey c, c)) (c # cs))) k"
      by (auto simp: t(5) u(3) map_add_def split: option.split)
  qed
  moreover have "forEach (\<lambda>m. forkModule lib E m src dst) (m # ms) s = (Ret (), t) \<and> list_all2 (copies dst) (m # ms) (c # cs)
      \<and> distinct (map moduleKey (c # cs)) \<and> (\<forall>c \<in> set (c # cs). stored s (moduleKey c) = None)"
    using u(1,2,4) t(1-3) fresh by simp
  ultimately show ?case by blast
qed

end

section \<open>A fork copies the modules\<close>

text \<open>The goroutines that a run started, each run to its end.\<close>

fun runFork :: "golib \<Rightarrow> env \<Rightarrow> event \<Rightarrow> unit io" where
  "runFork lib E (Go (GoForkModule m src dst)) = forkModule lib E m src dst"
| "runFork lib E _ = ret ()"

lemma runFork_spawned:
  "forEach (runFork lib E) (map (\<lambda>m. Go (GoForkModule m src dst)) ms) = forEach (\<lambda>m. forkModule lib E m src dst) ms"
  by (induction ms) simp_all

text \<open>
  C32: a fork copies every module of the source workspace. On an API server that keeps what is written and
  asks the module webhooks on creation, forking a workspace whose modules are all \<open>ready\<close> or \<open>sleeped\<close> (and
  were admitted), followed by its goroutines, adds to the store exactly one object per module of the source,
  under a name of its own: the copy belongs to the new workspace, has the configuration, the chart, the values,
  the image and the hibernation of its source, adopts nothing, and has no finalizer and no manager data yet. The
  sources and all other modules stay as they were. Here the copies are not installed while the goroutines run.
\<close>

theorem fork_copies_modules:
  assumes server: "admitting_server E st0 lib" and dst: "\<And>h. \<exists>w. e_getWorkspace E h (workspaceKey dst) = Inr w"
    and ready: "\<forall>k m. storeAfter st0 (trace s) k = Some m \<longrightarrow> refersTo (meta_Namespace (ws_Meta src)) (meta_Name (ws_Meta src)) m
      \<longrightarrow> modPhase m \<in> {ModulePhaseReady, ModulePhaseSleeped} \<and> admissible lib m"
  shows "\<exists>ms cs t es u. forkWorkspace E src dst s = (Ret None, t) \<and> trace t = trace s @ es
    \<and> forEach (runFork lib E) es t = (Ret (), u)
    \<and> set ms = {m. \<exists>k. storeAfter st0 (trace s) k = Some m \<and> refersTo (meta_Namespace (ws_Meta src)) (meta_Name (ws_Meta src)) m}
    \<and> distinct (map moduleKey ms) \<and> list_all2 (copies dst) ms cs
    \<and> distinct (map moduleKey cs) \<and> (\<forall>c \<in> set cs. storeAfter st0 (trace s) (moduleKey c) = None)
    \<and> storeAfter st0 (trace u) = storeAfter st0 (trace s) ++ map_of (map (\<lambda>c. (moduleKey c, c)) cs)"
proof -
  let ?ns = "meta_Namespace (ws_Meta src)" and ?n = "meta_Name (ws_Meta src)" and ?S = "storeAfter st0 (trace s)"
  note api = admitting_server.axioms(1) [OF server]
  obtain ms where ms: "e_listModules E (trace s) ?ns ?n = Inr ms" "distinct (map moduleKey ms)"
      "set ms = {m. refersTo ?ns ?n m \<and> ?S (moduleKey m) = Some m}"
    using api_server.listed [OF api] by blast
  have key: "moduleKey m = k" if "?S k = Some m" for k m by (rule keyedD [OF api_server.keyed_stored [OF api] that])
  have "(refersTo ?ns ?n m \<and> ?S (moduleKey m) = Some m) \<longleftrightarrow> (\<exists>k. ?S k = Some m \<and> refersTo ?ns ?n m)" for m
    using key by blast
  then have set: "set ms = {m. \<exists>k. ?S k = Some m \<and> refersTo ?ns ?n m}" unfolding ms(3) by blast
  with ready have ok: "\<forall>m \<in> set ms. modPhase m \<in> {ModulePhaseReady, ModulePhaseSleeped}" "\<forall>m \<in> set ms. admissible lib m"
    by blast+
  let ?go = "map (\<lambda>m. Go (GoForkModule m src dst)) ms"
  let ?es = "ModuleEv (ListM ?ns ?n (Inr ms)) # ?go"
  let ?t = "s\<lparr>trace := trace s @ ?es\<rparr>"
  have "List.find notReadyModule ms = None" using ok(1) find_notReady by simp
  then have fork: "forkWorkspace E src dst s = (Ret None, ?t)"
    by (simp add: forkWorkspace_def getRelatedModules_def listModules_def ms(1) andThen_run spawn_all)
  have "fold storeEvent ?go st = st" for st by (induction ms) simp_all
  then have same: "storeAfter st0 (trace ?t) = ?S" by (simp add: storeAfter_append)
  from admitting_server.forkAll_run [OF server dst ok(2), of src ?t] obtain cs u where
    u: "forEach (\<lambda>m. forkModule lib E m src dst) ms ?t = (Ret (), u)" "list_all2 (copies dst) ms cs" "distinct (map moduleKey cs)"
      "\<forall>c \<in> set cs. ?S (moduleKey c) = None" "storeAfter st0 (trace u) = ?S ++ map_of (map (\<lambda>c. (moduleKey c, c)) cs)"
    unfolding same by blast
  have "forEach (runFork lib E) ?es ?t = (Ret (), u)" using u(1) by (simp add: runFork_spawned)
  with fork set ms(2) u(2-5) show ?thesis
    by (intro exI [of _ ms] exI [of _ cs] exI [of _ ?t] exI [of _ ?es] exI [of _ u]) simp
qed

section \<open>A server that creates\<close>

text \<open>New names get a suffix that is longer than every name in use.\<close>

definition creatingEnv :: "golib \<Rightarrow> Module list \<Rightarrow> env \<Rightarrow> env" where
  "creatingEnv lib ms E = storeEnv ms (E\<lparr>e_createModule := \<lambda>h m.
     let d = defaultModule [] m; name = meta_GenerateName (mod_Meta m) @ concat (map nn_Name (knownKeys ms h)) @ ''x'' in
     if ModuleCustomValidator_ValidateCreate lib (e_getWorkspace E h) (ModuleObject d) = Admitted
     then Inr (created name ''uid'' d) else Inl (ErrText ''admission webhook denied the request'')\<rparr>)"

lemma length_concat: "x \<in> set xs \<Longrightarrow> length x \<le> length (concat xs)"
  by (induction xs) auto

interpretation creating: admitting_server "creatingEnv lib ms E" "initialStore ms" lib for lib ms E
proof (intro admitting_server.intro admitting_server_axioms.intro)
  show "api_server (creatingEnv lib ms E) (initialStore ms)"
    unfolding creatingEnv_def by (rule stores.api_server_axioms)
  fix m :: Module and h :: history
  let ?suffix = "concat (map nn_Name (knownKeys ms h)) @ ''x''"
  let ?d = "defaultModule [] m" and ?name = "meta_GenerateName (mod_Meta m) @ ?suffix"
  let ?k = "\<lparr>nn_Namespace = meta_Namespace (mod_Meta m), nn_Name = ?name\<rparr>"
  have "storeAfter (initialStore ms) h ?k = None"
  proof (rule ccontr)
    assume "storeAfter (initialStore ms) h ?k \<noteq> None"
    then have "?k \<in> set (knownKeys ms h)" using dom_storeAfter [of ms h] by blast
    then have "?name \<in> set (map nn_Name (knownKeys ms h))" by force
    from length_concat [OF this] show False by simp
  qed
  moreover have "e_getWorkspace (creatingEnv lib ms E) = e_getWorkspace E" by (simp add: creatingEnv_def storeEnv_def)
  moreover have "e_createModule (creatingEnv lib ms E) h m =
      (if ModuleCustomValidator_ValidateCreate lib (e_getWorkspace E h) (ModuleObject ?d) = Admitted
       then Inr (created ?name ''uid'' ?d) else Inl (ErrText ''admission webhook denied the request''))"
    by (simp add: creatingEnv_def storeEnv_def Let_def)
  ultimately show "\<exists>uuid suffix uid. let d = defaultModule uuid m; name = meta_GenerateName (mod_Meta m) @ suffix in
      storeAfter (initialStore ms) h \<lparr>nn_Namespace = meta_Namespace (mod_Meta m), nn_Name = name\<rparr> = None
      \<and> (if ModuleCustomValidator_ValidateCreate lib (e_getWorkspace (creatingEnv lib ms E) h) (ModuleObject d) = Admitted
         then e_createModule (creatingEnv lib ms E) h m = Inr (created name uid d)
         else \<exists>err. e_createModule (creatingEnv lib ms E) h m = Inl err)"
    by (intro exI [of _ "[]"] exI [of _ ?suffix] exI [of _ "''uid''"]) (simp add: Let_def)
qed

definition exampleFork :: Workspace where
  "exampleFork = exampleWorkspace\<lparr>ws_Meta := exampleMeta\<lparr>meta_Name := ''copy''\<rparr>\<rparr>"

theorem fork_copies_modules_witness:
  "\<exists>t es u cs. forkWorkspace (creatingEnv exampleJsonLib exampleModules (exampleEnv\<lparr>e_getWorkspace := \<lambda>h k. Inr exampleFork\<rparr>))
       exampleWorkspace exampleFork exampleWorld = (Ret None, t) \<and> trace t = es
    \<and> forEach (runFork exampleJsonLib (creatingEnv exampleJsonLib exampleModules (exampleEnv\<lparr>e_getWorkspace := \<lambda>h k. Inr exampleFork\<rparr>))) es t
       = (Ret (), u)
    \<and> length cs = 2 \<and> (\<forall>c \<in> set cs. storeAfter (initialStore exampleModules) (trace u) (moduleKey c) = Some c
        \<and> refersTo ''default'' ''copy'' c \<and> ms_Helm (mod_Spec c) = Some exampleHelm)
    \<and> storeAfter (initialStore exampleModules) (trace u) (keyNamed ''b'') = Some (exampleAwake ''b'' ''other'')"
proof -
  let ?E = "creatingEnv exampleJsonLib exampleModules (exampleEnv\<lparr>e_getWorkspace := \<lambda>h k. Inr exampleFork\<rparr>)"
  let ?S = "initialStore exampleModules"
  have trace: "storeAfter ?S (trace exampleWorld) = [keyNamed ''a'' \<mapsto> exampleAwake ''a'' ''dev'',
      keyNamed ''b'' \<mapsto> exampleAwake ''b'' ''other'', keyNamed ''c'' \<mapsto> exampleAwake ''c'' ''dev'']"
    by (simp add: exampleWorld_def exampleModules_stored)
  have dst: "\<exists>w. e_getWorkspace ?E h (workspaceKey exampleFork) = Inr w" for h by (simp add: creatingEnv_def storeEnv_def)
  have names: "meta_Namespace (ws_Meta exampleWorkspace) = ''default''" "meta_Name (ws_Meta exampleWorkspace) = ''dev''"
      "meta_Namespace (ws_Meta exampleFork) = ''default''" "meta_Name (ws_Meta exampleFork) = ''copy''"
    by (simp_all add: exampleWorkspace_def exampleFork_def exampleMeta_def)
  have "admissible exampleJsonLib (exampleAwake n ws)" for n ws
    by (simp add: admissible_def validateModuleHelmChart_def validateModuleConfig_def GetValidatedConfig_def inputConfigOf_def
        exampleHelm_def sourceCount_def Let_def)
  then have ready: "\<forall>k m. storeAfter ?S (trace exampleWorld) k = Some m \<longrightarrow>
      refersTo (meta_Namespace (ws_Meta exampleWorkspace)) (meta_Name (ws_Meta exampleWorkspace)) m \<longrightarrow>
      modPhase m \<in> {ModulePhaseReady, ModulePhaseSleeped} \<and> admissible exampleJsonLib m"
    unfolding trace by (auto split: if_splits)
  from fork_copies_modules [OF creating.admitting_server_axioms dst ready] obtain ms cs t es u where
    run: "forkWorkspace ?E exampleWorkspace exampleFork exampleWorld = (Ret None, t)" "trace t = trace exampleWorld @ es"
      "forEach (runFork exampleJsonLib ?E) es t = (Ret (), u)" and
    ms: "set ms = {m. \<exists>k. storeAfter ?S (trace exampleWorld) k = Some m \<and>
        refersTo (meta_Namespace (ws_Meta exampleWorkspace)) (meta_Name (ws_Meta exampleWorkspace)) m}" "distinct (map moduleKey ms)" and
    cs: "list_all2 (copies exampleFork) ms cs" "distinct (map moduleKey cs)"
      "\<forall>c \<in> set cs. storeAfter ?S (trace exampleWorld) (moduleKey c) = None"
      "storeAfter ?S (trace u) = storeAfter ?S (trace exampleWorld) ++ map_of (map (\<lambda>c. (moduleKey c, c)) cs)"
    by blast
  have set: "set ms = {exampleAwake ''a'' ''dev'', exampleAwake ''c'' ''dev''}"
    unfolding ms(1) trace names by (auto split: if_splits intro: exI [of _ "keyNamed ''c''"])
  have "distinct ms" using ms(2) by (simp add: distinct_map)
  then have "length ms = card (set ms)" by (rule distinct_card [symmetric])
  also have "\<dots> = 2"
  proof -
    have "meta_Name (mod_Meta (exampleAwake n ws)) = n" for n ws by (simp add: exampleAwake_def exampleMeta_def)
    from this [of "''a''" "''dev''"] this [of "''c''" "''dev''"] have "exampleAwake ''a'' ''dev'' \<noteq> exampleAwake ''c'' ''dev''" by auto
    then show ?thesis by (simp add: set)
  qed
  finally have "length cs = 2" using cs(1) by (simp add: list_all2_lengthD)
  moreover have "storeAfter ?S (trace u) (moduleKey c) = Some c" if "c \<in> set cs" for c
    unfolding cs(4) using that cs(2) by (simp add: map_add_Some_iff map_of_eq_Some_iff comp_def)
  moreover have "refersTo ''default'' ''copy'' c \<and> ms_Helm (mod_Spec c) = Some exampleHelm" if c: "c \<in> set cs" for c
  proof -
    obtain m where "m \<in> set ms" "copies exampleFork m c" using cs(1) c by (metis list_all2_conv_all_nth in_set_conv_nth)
    then show ?thesis using set names by (auto simp: copies_def exampleHelm_def)
  qed
  moreover have "storeAfter ?S (trace u) (keyNamed ''b'') = Some (exampleAwake ''b'' ''other'')"
  proof -
    have "keyNamed ''b'' \<notin> moduleKey ` set cs" using cs(3) unfolding trace by (auto split: if_splits)
    then have "map_of (map (\<lambda>c. (moduleKey c, c)) cs) (keyNamed ''b'') = None" by (force simp: map_of_eq_None_iff)
    then show ?thesis unfolding cs(4) trace by (simp add: map_add_def)
  qed
  ultimately show ?thesis using run by (intro exI [of _ t] exI [of _ es] exI [of _ u] exI [of _ cs]) (simp add: exampleWorld_def)
qed

end
