(* ===== verification/GoHeap.thy ===== *)
theory GoHeap
  imports Prelude ApiTypes
begin

text \<open>
  Go values with pointers. The other theories take the values of the program as immutable, with a pointer as an
  \<open>option\<close>; here a pointer, a slice and a map is a reference to a cell of a heap, so that two values can share a
  cell and a write through one of them is seen through the other. The theory has the values and the heap, the
  parts generated copying code is made of, and what it means that a Go value stands for a value of the model
  using the cells of a region only. A slice covers its array: no code modelled here slices an array.
\<close>

section \<open>Values and the heap\<close>

type_synonym addr = nat

datatype prim = PBool bool | PInt int | PStr string | PByte char | PTime time

datatype gval = GNil | Prim prim | Ptr addr | Slice addr | MapRef addr | Struct "string \<Rightarrow> gval"

datatype cell = One gval | Arr "gval list" | Dict "string \<rightharpoonup> string"

record heap =
  cells :: "addr \<Rightarrow> cell option"
  limit :: addr \<comment> \<open>the first address that was never allocated\<close>

definition alloc :: "cell \<Rightarrow> heap \<Rightarrow> addr \<times> heap" where
  "alloc c h = (limit h, h\<lparr>cells := (cells h)(limit h \<mapsto> c), limit := Suc (limit h)\<rparr>)"

definition store :: "addr \<Rightarrow> cell \<Rightarrow> heap \<Rightarrow> heap" where
  "store a c h = h\<lparr>cells := (cells h)(a \<mapsto> c)\<rparr>"

definition loadOne :: "heap \<Rightarrow> addr \<Rightarrow> gval" where
  "loadOne h a = (case cells h a of Some (One v) \<Rightarrow> v | _ \<Rightarrow> GNil)"

definition loadArr :: "heap \<Rightarrow> addr \<Rightarrow> gval list" where
  "loadArr h a = (case cells h a of Some (Arr vs) \<Rightarrow> vs | _ \<Rightarrow> [])"

fun field :: "gval \<Rightarrow> string \<Rightarrow> gval" where
  "field (Struct g) n = g n"
| "field _ n = GNil"

fun setField :: "string \<Rightarrow> gval \<Rightarrow> gval \<Rightarrow> gval" where
  "setField n w (Struct g) = Struct (g(n := w))"
| "setField n w v = v"

fun isStruct :: "gval \<Rightarrow> bool" where
  "isStruct (Struct g) \<longleftrightarrow> True"
| "isStruct _ \<longleftrightarrow> False"

definition storeElem :: "addr \<Rightarrow> nat \<Rightarrow> gval \<Rightarrow> heap \<Rightarrow> heap" where
  "storeElem a i v h = store a (Arr ((loadArr h a)[i := v])) h"

section \<open>Copying code\<close>

text \<open>A copier takes the value at \<open>*in\<close> and returns the one it leaves at \<open>*out\<close>.\<close>

type_synonym copier = "gval \<Rightarrow> heap \<Rightarrow> gval \<times> heap"

text \<open>\<open>*out = *in\<close>\<close>

definition assign :: copier where
  "assign v h = (v, h)"

text \<open>\<open>if in != nil { *out = new(T); (*in).DeepCopyInto(*out) }\<close>, and \<open>**out = **in\<close> with \<open>assign\<close>\<close>

definition copyPtr :: "copier \<Rightarrow> copier" where
  "copyPtr into v h = (case v of
       Ptr a \<Rightarrow> (case alloc (One GNil) h of (b, h1) \<Rightarrow>
         (case into (loadOne h a) h1 of (w, h2) \<Rightarrow> (Ptr b, store b (One w) h2)))
     | _ \<Rightarrow> (v, h))"

text \<open>\<open>for i := range *in { (*in)[i].DeepCopyInto(&(*out)[i]) }\<close>; the second argument is the array of \<open>*out\<close>.\<close>

fun copyElems :: "copier \<Rightarrow> addr \<Rightarrow> nat \<Rightarrow> gval list \<Rightarrow> heap \<Rightarrow> heap" where
  "copyElems into b i [] h = h"
| "copyElems into b i (v # vs) h = (case into v h of (w, h') \<Rightarrow> copyElems into b (Suc i) vs (storeElem b i w h'))"

text \<open>\<open>if in != nil { *out = make([]T, len(*in)); ... }\<close>; \<open>copy(*out, *in)\<close> is the loop with \<open>assign\<close>.\<close>

definition copySlice :: "copier \<Rightarrow> copier" where
  "copySlice into v h = (case v of
       Slice a \<Rightarrow> (case alloc (Arr (replicate (length (loadArr h a)) GNil)) h of (b, h1) \<Rightarrow>
         (Slice b, copyElems into b 0 (loadArr h a) h1))
     | _ \<Rightarrow> (v, h))"

text \<open>\<open>*out = *in\<close>, and then the fields that are not copied by the assignment, in their order.\<close>

fun copyFields :: "(string \<times> copier) list \<Rightarrow> gval \<Rightarrow> gval \<Rightarrow> heap \<Rightarrow> gval \<times> heap" where
  "copyFields [] v out h = (out, h)"
| "copyFields ((n, into) # fs) v out h =
     (case into (field v n) h of (w, h') \<Rightarrow> copyFields fs v (setField n w out) h')"

definition copyStruct :: "(string \<times> copier) list \<Rightarrow> copier" where
  "copyStruct fs v h = copyFields fs v v h"

section \<open>What a Go value stands for\<close>

text \<open>
  \<open>p F h v x\<close>: in the heap \<open>h\<close> the Go value \<open>v\<close> stands for \<open>x\<close>, and everything it reaches lies in the region
  \<open>F\<close>.
\<close>

type_synonym 'x rep = "addr set \<Rightarrow> heap \<Rightarrow> gval \<Rightarrow> 'x \<Rightarrow> bool"

definition agree :: "addr set \<Rightarrow> heap \<Rightarrow> heap \<Rightarrow> bool" where
  "agree F h h' \<longleftrightarrow> (\<forall>a\<in>F. cells h' a = cells h a)"

definition framed :: "'x rep \<Rightarrow> bool" where
  "framed p \<longleftrightarrow> (\<forall>F G h h' v x. p F h v x \<longrightarrow> F \<subseteq> G \<longrightarrow> agree F h h' \<longrightarrow> p G h' v x)"

text \<open>A flat value reaches no cell: it can be copied by an assignment.\<close>

definition flat :: "'x rep \<Rightarrow> bool" where
  "flat p \<longleftrightarrow> (\<forall>F G h h' v x. p F h v x \<longrightarrow> p G h' v x)"

definition anything :: "'x rep" where
  "anything F h v x \<longleftrightarrow> True"

definition scalar :: "('x \<Rightarrow> prim) \<Rightarrow> 'x rep" where
  "scalar enc F h v x \<longleftrightarrow> v = Prim (enc x)"

definition repPtr :: "'x rep \<Rightarrow> 'x option rep" where
  "repPtr p F h v x \<longleftrightarrow> (case v of
       GNil \<Rightarrow> x = None
     | Ptr a \<Rightarrow> a \<in> F \<and> (case cells h a of
           Some (One w) \<Rightarrow> (case x of Some y \<Rightarrow> p F h w y | None \<Rightarrow> False)
         | _ \<Rightarrow> False)
     | _ \<Rightarrow> False)"

text \<open>A slice that may be nil, and one whose nil value is not told from the empty one.\<close>

definition repNilSlice :: "'x rep \<Rightarrow> 'x list option rep" where
  "repNilSlice p F h v x \<longleftrightarrow> (case v of
       GNil \<Rightarrow> x = None
     | Slice a \<Rightarrow> a \<in> F \<and> (case cells h a of
           Some (Arr vs) \<Rightarrow> (case x of Some xs \<Rightarrow> list_all2 (p F h) vs xs | None \<Rightarrow> False)
         | _ \<Rightarrow> False)
     | _ \<Rightarrow> False)"

definition repSlice :: "'x rep \<Rightarrow> 'x list rep" where
  "repSlice p F h v xs \<longleftrightarrow> repNilSlice p F h v (Some xs) \<or> xs = [] \<and> v = GNil"

definition repMap :: "(string \<rightharpoonup> string) option rep" where
  "repMap F h v x \<longleftrightarrow> (case v of
       GNil \<Rightarrow> x = None
     | MapRef a \<Rightarrow> a \<in> F \<and> (case cells h a of Some (Dict m) \<Rightarrow> x = Some m | _ \<Rightarrow> False)
     | _ \<Rightarrow> False)"

definition at :: "('x \<Rightarrow> 'y) \<Rightarrow> 'y rep \<Rightarrow> 'x rep" where
  "at sel p F h v x \<longleftrightarrow> p F h v (sel x)"

definition repStruct :: "(string \<times> 'x rep) list \<Rightarrow> 'x rep" where
  "repStruct ps F h v x \<longleftrightarrow> isStruct v \<and> list_all (\<lambda>(n, p). p F h (field v n) x) ps"

text \<open>
  The promise of a deep copy: the copy stands for what the original stands for, in cells that are new, and no
  cell that was there has changed.
\<close>

abbreviation old :: "heap \<Rightarrow> addr set" where
  "old h \<equiv> {..<limit h}"

abbreviation new :: "heap \<Rightarrow> heap \<Rightarrow> addr set" where
  "new h h' \<equiv> {limit h..<limit h'}"

definition deep :: "copier \<Rightarrow> 'x rep \<Rightarrow> bool" where
  "deep into p \<longleftrightarrow> (\<forall>F h v x w h'. p F h v x \<longrightarrow> F \<subseteq> old h \<longrightarrow> into v h = (w, h') \<longrightarrow>
     limit h \<le> limit h' \<and> agree (old h) h h' \<and> p (new h h') h' w x)"

named_theorems rep_rules

lemma agree_refl [simp]: "agree F h h"
  by (simp add: agree_def)

lemma agree_trans: "agree F h h' \<Longrightarrow> agree F h' h'' \<Longrightarrow> agree F h h''"
  by (simp add: agree_def)

lemma agree_mono: "agree F h h' \<Longrightarrow> G \<subseteq> F \<Longrightarrow> agree G h h'"
  by (auto simp: agree_def)

lemma agree_cell: "agree F h h' \<Longrightarrow> a \<in> F \<Longrightarrow> cells h' a = cells h a"
  by (simp add: agree_def)

lemma agree_store: "a \<notin> F \<Longrightarrow> agree F h (store a c h') \<longleftrightarrow> agree F h h'"
  by (auto simp: agree_def store_def)

lemma limit_store [simp]: "limit (store a c h) = limit h"
  by (simp add: store_def)

lemma cells_store [simp]: "cells (store a c h) = (cells h)(a \<mapsto> c)"
  by (simp add: store_def)

lemma framedD: "framed p \<Longrightarrow> p F h v x \<Longrightarrow> F \<subseteq> G \<Longrightarrow> agree F h h' \<Longrightarrow> p G h' v x"
  unfolding framed_def by blast

lemma flatD: "flat p \<Longrightarrow> p F h v x \<Longrightarrow> p G h' v x"
  unfolding flat_def by blast

lemma flat_framed: "flat p \<Longrightarrow> framed p"
  unfolding flat_def framed_def by blast

lemma deepD:
  assumes "deep into p" and "p F h v x" and "F \<subseteq> old h" and "into v h = (w, h')"
  shows "limit h \<le> limit h'" and "agree (old h) h h'" and "p (new h h') h' w x"
  using assms unfolding deep_def by blast+

section \<open>The rules\<close>

lemma flat_anything [rep_rules]: "flat anything"
  by (simp add: flat_def anything_def)

lemma flat_scalar [rep_rules]: "flat (scalar enc)"
  by (simp add: flat_def scalar_def)

lemma flat_at [rep_rules]: "flat p \<Longrightarrow> flat (at sel p)"
  unfolding flat_def at_def by blast

lemma framed_anything [rep_rules]: "framed anything"
  by (simp add: framed_def anything_def)

lemma framed_scalar [rep_rules]: "framed (scalar enc)"
  by (simp add: framed_def scalar_def)

lemma framed_at [rep_rules]: "framed p \<Longrightarrow> framed (at sel p)"
  unfolding framed_def at_def by blast

lemma framed_repPtr [rep_rules]:
  assumes "framed p"
  shows "framed (repPtr p)"
  unfolding framed_def repPtr_def
  by (auto simp: agree_cell split: gval.splits option.splits cell.splits intro: framedD [OF assms])

lemma framed_repNilSlice [rep_rules]:
  assumes "framed p"
  shows "framed (repNilSlice p)"
  unfolding framed_def repNilSlice_def
  by (auto simp: agree_cell split: gval.splits option.splits cell.splits elim!: list_all2_mono intro: framedD [OF assms])

lemma framed_repSlice [rep_rules]: "framed p \<Longrightarrow> framed (repSlice p)"
  using framed_repNilSlice [of p] unfolding framed_def repSlice_def by blast

lemma framed_repMap [rep_rules]: "framed repMap"
  unfolding framed_def repMap_def
  by (auto simp: agree_cell split: gval.splits option.splits cell.splits)

lemma framed_repStruct [rep_rules]: "list_all (\<lambda>(n, p). framed p) ps \<Longrightarrow> framed (repStruct ps)"
  unfolding framed_def repStruct_def list_all_iff by fastforce

lemma flat_repStruct [rep_rules]: "list_all (\<lambda>(n, p). flat p) ps \<Longrightarrow> flat (repStruct ps)"
  unfolding flat_def repStruct_def list_all_iff by fastforce

lemma deep_assign [rep_rules]: "flat p \<Longrightarrow> deep assign p"
  unfolding deep_def assign_def by (auto intro: flatD)

lemma deep_at [rep_rules]: "deep into p \<Longrightarrow> deep into (at sel p)"
  unfolding deep_def at_def by blast

text \<open>The copy of a pointer that is not nil is a new cell, and its contents do not reach that cell.\<close>

lemma copyPtr_cell:
  assumes deep: "deep into p" and framed: "framed p" and rep: "repPtr p F h v (Some y)" and F: "F \<subseteq> old h"
    and run: "copyPtr into v h = (w, h')"
  shows "w = Ptr (limit h) \<and> limit h < limit h' \<and> agree (old h) h h'
    \<and> (\<exists>u. cells h' (limit h) = Some (One u) \<and> p {Suc (limit h)..<limit h'} h' u y)"
proof -
  let ?h1 = "snd (alloc (One GNil) h)"
  obtain a where y: "v = Ptr a" "p F h (loadOne h a) y"
    using rep by (cases v) (auto simp: repPtr_def loadOne_def split: option.splits cell.splits)
  obtain u h2 where into: "into (loadOne h a) ?h1 = (u, h2)" by force
  have h': "w = Ptr (limit h)" "h' = store (limit h) (One u) h2"
    using run into by (auto simp: y(1) copyPtr_def alloc_def)
  have h1: "agree (old h) h ?h1" "limit ?h1 = Suc (limit h)" by (auto simp: agree_def alloc_def)
  have "p F ?h1 (loadOne h a) y"
    using framedD [OF framed y(2) subset_refl] agree_mono [OF h1(1) F] by blast
  moreover have "F \<subseteq> old ?h1" using F h1(2) by auto
  ultimately have h2: "Suc (limit h) \<le> limit h2" "agree {..<Suc (limit h)} ?h1 h2" "p {Suc (limit h)..<limit h2} h2 u y"
    using deepD [OF deep _ _ into] h1(2) by auto
  have "agree (old h) h h2" using agree_trans [OF h1(1)] agree_mono [OF h2(2)] by auto
  moreover have "p {Suc (limit h)..<limit h'} h' u y"
    using h2(1) by (auto intro!: framedD [OF framed h2(3)] simp: h' agree_store)
  ultimately show ?thesis using h2(1) by (auto simp: h' agree_store)
qed

lemma deep_copyPtr [rep_rules]:
  assumes deep: "deep into p" and framed: "framed p"
  shows "deep (copyPtr into) (repPtr p)"
  unfolding deep_def
proof (intro allI impI)
  fix F h v x w h'
  assume rep: "repPtr p F h v x" and F: "F \<subseteq> old h" and run: "copyPtr into v h = (w, h')"
  show "limit h \<le> limit h' \<and> agree (old h) h h' \<and> repPtr p (new h h') h' w x"
  proof (cases x)
    case (Some y)
    from copyPtr_cell [OF deep framed rep [unfolded Some] F run] obtain u where u: "w = Ptr (limit h)" "limit h < limit h'"
        "agree (old h) h h'" "cells h' (limit h) = Some (One u)" "p {Suc (limit h)..<limit h'} h' u y" by blast
    from framedD [OF framed u(5)] have "p (new h h') h' u y" by auto
    with u show ?thesis by (simp add: Some repPtr_def)
  qed (use rep run in \<open>auto simp: repPtr_def copyPtr_def split: gval.splits option.splits cell.splits\<close>)
qed

lemma limit_storeElem [simp]: "limit (storeElem b i w h) = limit h"
  by (simp add: storeElem_def)

lemma copyElems_copies:
  assumes deep: "deep into p" and framed: "framed p"
  shows "list_all2 (p F h) vs xs \<Longrightarrow> F \<subseteq> {..<b} \<Longrightarrow> b < limit h \<Longrightarrow> cells h b = Some (Arr ws) \<Longrightarrow> length ws = i + length vs
    \<Longrightarrow> let h' = copyElems into b i vs h in limit h \<le> limit h' \<and> agree (old h - {b}) h h'
      \<and> (\<exists>us. cells h' b = Some (Arr (take i ws @ us)) \<and> list_all2 (p (new h h') h') us xs)"
proof (induction vs arbitrary: xs h i ws)
  case Nil
  then show ?case by simp
next
  case (Cons v vs)
  from Cons.prems(1) obtain x xs' where xs: "xs = x # xs'" "p F h v x" "list_all2 (p F h) vs xs'" by (auto simp: list_all2_Cons1)
  obtain w h1 where run: "into v h = (w, h1)" by force
  have F: "F \<subseteq> old h" "b \<notin> F" using Cons.prems(2,3) by auto
  note h1 = deepD [OF deep xs(2) F(1) run]
  let ?h2 = "storeElem b i w h1"
  have b: "cells h1 b = Some (Arr ws)" using Cons.prems(3,4) h1(2) by (simp add: agree_cell)
  have c2: "cells ?h2 b = Some (Arr (ws[i := w]))" by (simp add: storeElem_def loadArr_def b)
  have out: "b \<notin> G \<Longrightarrow> agree G h0 ?h2 \<longleftrightarrow> agree G h0 h1" for G h0 by (simp add: storeElem_def agree_store)
  have "agree F h ?h2" using agree_mono [OF h1(2) F(1)] by (simp add: out [OF F(2)])
  hence "list_all2 (p F ?h2) vs xs'" using xs(3) framedD [OF framed _ subset_refl] by (auto elim: list_all2_mono)
  from Cons.IH [OF this Cons.prems(2) _ c2, of "Suc i"] obtain h' us where h': "h' = copyElems into b (Suc i) vs ?h2"
      "limit h1 \<le> limit h'" "agree (old h1 - {b}) ?h2 h'" "cells h' b = Some (Arr (take (Suc i) (ws[i := w]) @ us))"
      "list_all2 (p (new h1 h') h') us xs'"
    using Cons.prems(3,5) h1(1) by (auto simp: Let_def)
  have "agree (new h h1) h1 ?h2" "agree (new h h1) ?h2 h'"
    using Cons.prems(3) by (simp add: out, intro agree_mono [OF h'(3)] subsetI, simp)
  hence "agree (new h h1) h1 h'" by (rule agree_trans)
  hence head: "p (new h h') h' w x" using framedD [OF framed h1(3)] h'(2) by auto
  have tail: "list_all2 (p (new h h') h') us xs'"
    using h'(5) framedD [OF framed, of "new h1 h'" h' _ _ "new h h'" h'] h1(1) by (auto elim!: list_all2_mono)
  have "agree (old h - {b}) h ?h2" using agree_mono [OF h1(2)] by (subst out) auto
  moreover have "agree (old h - {b}) ?h2 h'" using h1(1) by (intro agree_mono [OF h'(3)]) auto
  ultimately have "agree (old h - {b}) h h'" by (rule agree_trans)
  moreover have "take (Suc i) (ws[i := w]) = take i ws @ [w]" using Cons.prems(5) by (simp add: take_Suc_conv_app_nth)
  ultimately show ?case
    using h' h1(1) head tail by (auto simp: run xs(1) Let_def intro!: exI [of _ "w # us"])
qed

lemma deep_copyNilSlice [rep_rules]:
  assumes deep: "deep into p" and framed: "framed p"
  shows "deep (copySlice into) (repNilSlice p)"
  unfolding deep_def
proof (intro allI impI)
  fix F h v x w h'
  assume rep: "repNilSlice p F h v x" and F: "F \<subseteq> old h" and run: "copySlice into v h = (w, h')"
  show "limit h \<le> limit h' \<and> agree (old h) h h' \<and> repNilSlice p (new h h') h' w x"
  proof (cases v)
    case (Slice a)
    let ?c = "Arr (replicate (length (loadArr h a)) GNil)"
    let ?h1 = "snd (alloc ?c h)"
    obtain xs where xs: "x = Some xs" "list_all2 (p F h) (loadArr h a) xs"
      using rep Slice by (auto simp: repNilSlice_def loadArr_def split: option.splits cell.splits)
    have h1: "agree (old h) h ?h1" "limit ?h1 = Suc (limit h)" "cells ?h1 (limit h) = Some ?c"
      by (auto simp: agree_def alloc_def)
    have h': "w = Slice (limit h)" "h' = copyElems into (limit h) 0 (loadArr h a) ?h1"
      using run Slice by (auto simp: copySlice_def alloc_def)
    have "list_all2 (p F ?h1) (loadArr h a) xs"
      using xs(2) framedD [OF framed _ subset_refl agree_mono [OF h1(1) F]] by (auto elim: list_all2_mono)
    from copyElems_copies [OF deep framed this F _ h1(3), of 0] obtain us where us: "Suc (limit h) \<le> limit h'"
        "agree (old ?h1 - {limit h}) ?h1 h'" "cells h' (limit h) = Some (Arr us)" "list_all2 (p (new ?h1 h') h') us xs"
      using h1(2) by (auto simp: h'(2) Let_def)
    have "agree (old h) ?h1 h'" by (rule agree_mono [OF us(2)]) (auto simp: h1(2))
    hence "agree (old h) h h'" by (rule agree_trans [OF h1(1)])
    moreover have "list_all2 (p (new h h') h') us xs"
      using us(4) framedD [OF framed, of "new ?h1 h'" h' _ _ "new h h'" h'] h1(2) by (auto elim!: list_all2_mono)
    ultimately show ?thesis using us(1,3) by (auto simp: h'(1) xs(1) repNilSlice_def)
  qed (use rep run in \<open>auto simp: repNilSlice_def copySlice_def\<close>)
qed

lemma deep_copySlice [rep_rules]:
  assumes "deep into p" and "framed p"
  shows "deep (copySlice into) (repSlice p)"
  unfolding deep_def repSlice_def
proof (intro allI impI)
  fix F h v xs w h'
  assume rep: "repNilSlice p F h v (Some xs) \<or> xs = [] \<and> v = GNil" and F: "F \<subseteq> old h"
    and run: "copySlice into v h = (w, h')"
  from rep show "limit h \<le> limit h' \<and> agree (old h) h h'
      \<and> (repNilSlice p (new h h') h' w (Some xs) \<or> xs = [] \<and> w = GNil)"
  proof
    assume "repNilSlice p F h v (Some xs)"
    from deepD [OF deep_copyNilSlice [OF assms] this F run] show ?thesis by blast
  qed (use run in \<open>simp add: copySlice_def\<close>)
qed

lemma field_setField: "isStruct v \<Longrightarrow> field (setField n w v) n' = (if n' = n then w else field v n')"
  by (cases v) auto

lemma isStruct_setField [simp]: "isStruct (setField n w v) = isStruct v"
  by (cases v) auto

lemma copyFields_copies:
  assumes framed: "\<And>n p. (n, p) \<in> set ps \<Longrightarrow> framed p"
    and rep: "\<And>n p. (n, p) \<in> set ps \<Longrightarrow> p F h0 (field v n) x" and F: "F \<subseteq> old h0"
  shows "distinct (map fst fs) \<Longrightarrow> (\<And>n. n \<in> fst ` set fs \<Longrightarrow> \<exists>p. (n, p) \<in> set ps)
    \<Longrightarrow> (\<And>n p into. (n, p) \<in> set ps \<Longrightarrow> (n, into) \<in> set fs \<Longrightarrow> deep into p)
    \<Longrightarrow> limit h0 \<le> limit h \<Longrightarrow> agree (old h0) h0 h \<Longrightarrow> isStruct out
    \<Longrightarrow> (\<And>n p. (n, p) \<in> set ps \<Longrightarrow> n \<notin> fst ` set fs \<Longrightarrow> p (new h0 h) h (field out n) x)
    \<Longrightarrow> copyFields fs v out h = (w, h')
    \<Longrightarrow> limit h0 \<le> limit h' \<and> agree (old h0) h0 h' \<and> isStruct w \<and> (\<forall>(n, p)\<in>set ps. p (new h0 h') h' (field w n) x)"
proof (induction fs arbitrary: out h)
  case Nil
  then show ?case by auto
next
  case (Cons f fs)
  obtain n into where f: "f = (n, into)" by force
  obtain u h1 where run: "into (field v n) h = (u, h1)" by force
  have Fh: "F \<subseteq> old h" "agree F h0 h" using F Cons.prems(4) agree_mono [OF Cons.prems(5) F] by auto
  have copied: "limit h \<le> limit h1 \<and> agree (old h) h h1 \<and> p (new h h1) h1 u x" if "(n, p) \<in> set ps" for p
  proof -
    have "deep into p" using Cons.prems(3) [OF that] f by auto
    moreover have "p F h (field v n) x" using framedD [OF framed [OF that] rep [OF that] subset_refl Fh(2)] .
    ultimately show ?thesis using deepD [of into p F h "field v n" x u h1] Fh(1) run by blast
  qed
  have h1: "limit h \<le> limit h1" "agree (old h) h h1" using copied Cons.prems(2) [of n] f by auto
  have "limit h0 \<le> limit h1" using Cons.prems(4) h1(1) by simp
  moreover have "agree (old h0) h0 h1" using agree_trans [OF Cons.prems(5) agree_mono [OF h1(2)]] Cons.prems(4) by auto
  moreover have "p (new h0 h1) h1 (field (setField n u out) m) x" if "(m, p) \<in> set ps" "m \<notin> fst ` set fs" for m p
  proof (cases "m = n")
    case True
    with copied that(1) have "p (new h h1) h1 u x" by blast
    with True show ?thesis
      using framedD [OF framed [OF that(1)]] Cons.prems(4,6) by (fastforce simp: field_setField)
  next
    case False
    with that have "p (new h0 h) h (field out m) x" by (intro Cons.prems(7) [of m p]) (auto simp: f)
    moreover have "agree (new h0 h) h h1" by (rule agree_mono [OF h1(2)]) auto
    ultimately have "p (new h0 h1) h1 (field out m) x"
      using framedD [OF framed [OF that(1)], of "new h0 h" h _ x "new h0 h1" h1] h1(1) by auto
    with False show ?thesis using Cons.prems(6) by (simp add: field_setField)
  qed
  ultimately show ?case
    using Cons.prems(1-3,6,8) by (intro Cons.IH [of h1 "setField n u out"]) (auto simp: f run)
qed

text \<open>A copied field has a deep copier, and the others are flat.\<close>

definition covers :: "(string \<times> copier) list \<Rightarrow> (string \<times> 'x rep) list \<Rightarrow> bool" where
  "covers fs ps \<longleftrightarrow> distinct (map fst fs) \<and> list_all (\<lambda>(n, into). n \<in> set (map fst ps)) fs
     \<and> list_all (\<lambda>(n, p). framed p \<and> (case map_of fs n of Some into \<Rightarrow> deep into p | None \<Rightarrow> flat p)) ps"

lemma deep_copyStruct [rep_rules]:
  assumes "covers fs ps"
  shows "deep (copyStruct fs) (repStruct ps)"
  unfolding deep_def
proof (intro allI impI)
  fix F h v x w h'
  assume rep: "repStruct ps F h v x" and F: "F \<subseteq> old h" and run: "copyStruct fs v h = (w, h')"
  have fields: "distinct (map fst fs)" "\<And>n. n \<in> fst ` set fs \<Longrightarrow> \<exists>p. (n, p) \<in> set ps"
      "\<And>n p. (n, p) \<in> set ps \<Longrightarrow> framed p"
      "\<And>n p. (n, p) \<in> set ps \<Longrightarrow> case map_of fs n of Some into \<Rightarrow> deep into p | None \<Rightarrow> flat p"
    using assms by (fastforce simp: covers_def list_all_iff)+
  have copied: "deep into p" if "(n, p) \<in> set ps" "(n, into) \<in> set fs" for n p into
    using fields(4) [OF that(1)] that(2) fields(1) by simp
  have flat: "p {} h (field v n) x" if "(n, p) \<in> set ps" "n \<notin> fst ` set fs" for n p
    using flatD [of p F h "field v n" x] fields(4) [OF that(1)] rep that
    by (auto simp: repStruct_def list_all_iff map_of_eq_None_iff [symmetric])
  have field: "p F h (field v n) x" if "(n, p) \<in> set ps" for n p using rep that by (auto simp: repStruct_def list_all_iff)
  have "limit h \<le> limit h' \<and> agree (old h) h h' \<and> isStruct w \<and> (\<forall>(n, p)\<in>set ps. p (new h h') h' (field w n) x)"
    by (rule copyFields_copies [where F = F and v = v and fs = fs and h = h and out = v])
      (use rep run F in \<open>auto simp: repStruct_def copyStruct_def intro: fields(3) field F fields(1,2) copied flat\<close>)
  thus "limit h \<le> limit h' \<and> agree (old h) h h' \<and> repStruct ps (new h h') h' w x"
    by (auto simp: repStruct_def list_all_iff)
qed

lemmas [rep_rules] = covers_def

end
