(* ===== verification/DeepCopy.thy ===== *)
theory DeepCopy
  imports GoHeap
begin

text \<open>
  The generated deep copies (\<open>src/api/v1/zz_generated.deepcopy.go\<close>): for each type of the API group the
  fields its \<open>DeepCopyInto\<close> copies, in their order, its \<open>DeepCopy\<close>, and the relation between a Go value of
  the type and the record that models it. The deep copies of the types of Kubernetes are parameters; \<open>external_ok\<close>
  says that they are deep. All copies of the file are shown deep.
\<close>

section \<open>The types of Kubernetes\<close>

record external_copies =
  x_ObjectMeta :: copier \<comment> \<open>\<open>metav1.ObjectMeta.DeepCopyInto\<close>\<close>
  x_ListMeta :: copier \<comment> \<open>\<open>metav1.ListMeta.DeepCopyInto\<close>\<close>
  x_Condition :: copier \<comment> \<open>\<open>metav1.Condition.DeepCopyInto\<close>\<close>
  x_Time :: copier \<comment> \<open>\<open>metav1.Time.DeepCopy\<close>, of a pointer\<close>
  x_RawExtension :: copier \<comment> \<open>\<open>runtime.RawExtension.DeepCopyInto\<close>\<close>
  x_JSON :: copier \<comment> \<open>\<open>apiextensionsv1.JSON.DeepCopyInto\<close>\<close>

definition repObjectMeta :: "ObjectMeta rep" where
  "repObjectMeta = repStruct
    [(''Name'', at meta_Name (scalar PStr)), (''GenerateName'', at meta_GenerateName (scalar PStr)),
     (''Namespace'', at meta_Namespace (scalar PStr)), (''UID'', at meta_UID (scalar PStr)),
     (''DeletionTimestamp'', at meta_DeletionTimestamp (repPtr (scalar PTime))),
     (''Annotations'', at meta_Annotations repMap),
     (''Finalizers'', at meta_Finalizers (repSlice (scalar PStr)))]"

definition repCondition :: "Condition rep" where
  "repCondition = repStruct
    [(''Type'', at cond_Type (scalar PStr)), (''Status'', at cond_Status (scalar PStr)),
     (''ObservedGeneration'', at cond_ObservedGeneration (scalar PInt)),
     (''LastTransitionTime'', at cond_LastTransitionTime (scalar PTime)),
     (''Reason'', at cond_Reason (scalar PStr)), (''Message'', at cond_Message (scalar PStr))]"

definition repRawExtension :: "RawExtension rep" where
  "repRawExtension = repStruct [(''Raw'', at raw_Raw (repNilSlice (scalar PByte)))]"

lemma framed_external [rep_rules]: "framed repObjectMeta" "framed repCondition" "framed repRawExtension"
  by (simp_all add: repObjectMeta_def repCondition_def repRawExtension_def rep_rules)

definition external_ok :: "external_copies \<Rightarrow> bool" where
  "external_ok X \<longleftrightarrow> deep (x_ObjectMeta X) repObjectMeta \<and> deep (x_ListMeta X) (anything :: unit rep)
     \<and> deep (x_Condition X) repCondition \<and> deep (x_Time X) (repPtr (scalar PTime))
     \<and> deep (x_RawExtension X) repRawExtension \<and> deep (x_JSON X) repRawExtension"

lemma deep_anything: "deep into (anything :: 'x rep) \<Longrightarrow> deep into (anything :: 'y rep)"
  by (simp add: deep_def anything_def)

lemma deep_external [rep_rules]:
  assumes "external_ok X"
  shows "deep (x_ObjectMeta X) repObjectMeta" "deep (x_ListMeta X) anything" "deep (x_Condition X) repCondition"
    "deep (x_Time X) (repPtr (scalar PTime))" "deep (x_RawExtension X) repRawExtension" "deep (x_JSON X) repRawExtension"
  using assms deep_anything by (auto simp: external_ok_def)

text \<open>\<open>DeepCopyObject\<close>: the interface value is nil when the pointer is.\<close>

definition copyObject :: "copier \<Rightarrow> copier" where
  "copyObject copy v h = (case copy v h of (c, h') \<Rightarrow> (case c of GNil \<Rightarrow> (GNil, h') | _ \<Rightarrow> (c, h')))"

lemma copyObject_eq [simp]: "copyObject copy = copy"
  by (intro ext) (auto simp: copyObject_def split: prod.splits gval.splits)

section \<open>Configuration items\<close>

definition ConfigItemSpecInteger_DeepCopyInto :: copier where
  "ConfigItemSpecInteger_DeepCopyInto = copyStruct [(''Min'', copyPtr assign), (''Max'', copyPtr assign)]"

definition ConfigItemSpecInteger_DeepCopy :: copier where
  "ConfigItemSpecInteger_DeepCopy = copyPtr ConfigItemSpecInteger_DeepCopyInto"

definition ConfigItemSpecMultipleOptions_DeepCopyInto :: copier where
  "ConfigItemSpecMultipleOptions_DeepCopyInto = copyStruct
    [(''Default'', copySlice assign), (''Values'', copySlice assign), (''Min'', copyPtr assign),
     (''Max'', copyPtr assign)]"

definition ConfigItemSpecMultipleOptions_DeepCopy :: copier where
  "ConfigItemSpecMultipleOptions_DeepCopy = copyPtr ConfigItemSpecMultipleOptions_DeepCopyInto"

definition ConfigItemSpecOption_DeepCopyInto :: copier where
  "ConfigItemSpecOption_DeepCopyInto = copyStruct [(''Values'', copySlice assign)]"

definition ConfigItemSpecOption_DeepCopy :: copier where
  "ConfigItemSpecOption_DeepCopy = copyPtr ConfigItemSpecOption_DeepCopyInto"

definition ConfigItemSpecString_DeepCopyInto :: copier where
  "ConfigItemSpecString_DeepCopyInto = copyStruct [(''Regex'', copyPtr assign)]"

definition ConfigItemSpecString_DeepCopy :: copier where
  "ConfigItemSpecString_DeepCopy = copyPtr ConfigItemSpecString_DeepCopyInto"

definition ConfigItemSpecBoolean_DeepCopyInto :: copier where
  "ConfigItemSpecBoolean_DeepCopyInto = assign"

definition ConfigItemSpecBoolean_DeepCopy :: copier where
  "ConfigItemSpecBoolean_DeepCopy = copyPtr ConfigItemSpecBoolean_DeepCopyInto"

definition ConfigItem_DeepCopyInto :: copier where
  "ConfigItem_DeepCopyInto = copyStruct
    [(''Integer'', copyPtr ConfigItemSpecInteger_DeepCopyInto), (''Boolean'', copyPtr assign),
     (''String'', copyPtr ConfigItemSpecString_DeepCopyInto),
     (''Option'', copyPtr ConfigItemSpecOption_DeepCopyInto),
     (''MultipleOptions'', copyPtr ConfigItemSpecMultipleOptions_DeepCopyInto)]"

definition ConfigItem_DeepCopy :: copier where
  "ConfigItem_DeepCopy = copyPtr ConfigItem_DeepCopyInto"

definition repConfigItemSpecInteger :: "ConfigItemSpecInteger rep" where
  "repConfigItemSpecInteger = repStruct
    [(''Required'', at cint_Required (scalar PBool)), (''Default'', at cint_Default (scalar PInt)),
     (''Min'', at cint_Min (repPtr (scalar PInt))), (''Max'', at cint_Max (repPtr (scalar PInt))),
     (''Editable'', at cint_Editable (scalar PBool))]"

definition repConfigItemSpecMultipleOptions :: "ConfigItemSpecMultipleOptions rep" where
  "repConfigItemSpecMultipleOptions = repStruct
    [(''Required'', at cmul_Required (scalar PBool)),
     (''Default'', at cmul_Default (repSlice (scalar PStr))),
     (''Values'', at cmul_Values (repSlice (scalar PStr))),
     (''Min'', at cmul_Min (repPtr (scalar PInt))), (''Max'', at cmul_Max (repPtr (scalar PInt))),
     (''Editable'', at cmul_Editable (scalar PBool))]"

definition repConfigItemSpecOption :: "ConfigItemSpecOption rep" where
  "repConfigItemSpecOption = repStruct
    [(''Required'', at copt_Required (scalar PBool)), (''Default'', at copt_Default (scalar PStr)),
     (''Values'', at copt_Values (repSlice (scalar PStr))),
     (''Editable'', at copt_Editable (scalar PBool))]"

definition repConfigItemSpecString :: "ConfigItemSpecString rep" where
  "repConfigItemSpecString = repStruct
    [(''Required'', at cstr_Required (scalar PBool)), (''Default'', at cstr_Default (scalar PStr)),
     (''Regex'', at cstr_Regex (repPtr (scalar PStr))), (''Editable'', at cstr_Editable (scalar PBool))]"

definition repConfigItemSpecBoolean :: "ConfigItemSpecBoolean rep" where
  "repConfigItemSpecBoolean = repStruct
    [(''Required'', at cbool_Required (scalar PBool)), (''Default'', at cbool_Default (scalar PBool)),
     (''Editable'', at cbool_Editable (scalar PBool))]"

definition repConfigItem :: "ConfigItem rep" where
  "repConfigItem = repStruct
    [(''Name'', at ci_Name (scalar PStr)), (''Alias'', at ci_Alias (scalar PStr)),
     (''Integer'', at ci_Integer (repPtr repConfigItemSpecInteger)),
     (''Boolean'', at ci_Boolean (repPtr repConfigItemSpecBoolean)),
     (''String'', at ci_String (repPtr repConfigItemSpecString)),
     (''Option'', at ci_Option (repPtr repConfigItemSpecOption)),
     (''MultipleOptions'', at ci_MultipleOptions (repPtr repConfigItemSpecMultipleOptions))]"

lemmas config_reps =
  repConfigItemSpecInteger_def repConfigItemSpecMultipleOptions_def repConfigItemSpecOption_def
  repConfigItemSpecString_def repConfigItemSpecBoolean_def repConfigItem_def

lemmas config_copiers =
  ConfigItemSpecInteger_DeepCopyInto_def ConfigItemSpecMultipleOptions_DeepCopyInto_def ConfigItemSpecOption_DeepCopyInto_def
  ConfigItemSpecString_DeepCopyInto_def ConfigItemSpecBoolean_DeepCopyInto_def ConfigItem_DeepCopyInto_def

lemma flat_config [rep_rules]:
  "flat repConfigItemSpecBoolean"
  by (simp_all add: config_reps rep_rules)

lemma framed_config [rep_rules]:
  "framed repConfigItemSpecInteger"
  "framed repConfigItemSpecMultipleOptions"
  "framed repConfigItemSpecOption"
  "framed repConfigItemSpecString"
  "framed repConfigItemSpecBoolean"
  "framed repConfigItem"
  by (simp_all add: config_reps rep_rules)

lemma deep_config [rep_rules]:
  "deep ConfigItemSpecInteger_DeepCopyInto repConfigItemSpecInteger"
  "deep ConfigItemSpecMultipleOptions_DeepCopyInto repConfigItemSpecMultipleOptions"
  "deep ConfigItemSpecOption_DeepCopyInto repConfigItemSpecOption"
  "deep ConfigItemSpecString_DeepCopyInto repConfigItemSpecString"
  "deep ConfigItemSpecBoolean_DeepCopyInto repConfigItemSpecBoolean"
  "deep ConfigItem_DeepCopyInto repConfigItem"
  by (simp_all add: config_copiers config_reps rep_rules)

section \<open>Helm charts\<close>

definition ModuleSpecHelmChartGitAuthSecret_DeepCopyInto :: copier where
  "ModuleSpecHelmChartGitAuthSecret_DeepCopyInto = assign"

definition ModuleSpecHelmChartGitAuthSecret_DeepCopy :: copier where
  "ModuleSpecHelmChartGitAuthSecret_DeepCopy = copyPtr ModuleSpecHelmChartGitAuthSecret_DeepCopyInto"

definition ModuleSpecHelmChartGitAuth_DeepCopyInto :: copier where
  "ModuleSpecHelmChartGitAuth_DeepCopyInto = copyStruct [(''HTTPSSecretRef'', copyPtr assign)]"

definition ModuleSpecHelmChartGitAuth_DeepCopy :: copier where
  "ModuleSpecHelmChartGitAuth_DeepCopy = copyPtr ModuleSpecHelmChartGitAuth_DeepCopyInto"

definition ModuleSpecHelmChartGit_DeepCopyInto :: copier where
  "ModuleSpecHelmChartGit_DeepCopyInto = copyStruct [(''Auth'', copyPtr ModuleSpecHelmChartGitAuth_DeepCopyInto)]"

definition ModuleSpecHelmChartGit_DeepCopy :: copier where
  "ModuleSpecHelmChartGit_DeepCopy = copyPtr ModuleSpecHelmChartGit_DeepCopyInto"

definition ModuleSpecHelmChartRepoAuth_DeepCopyInto :: copier where
  "ModuleSpecHelmChartRepoAuth_DeepCopyInto = assign"

definition ModuleSpecHelmChartRepoAuth_DeepCopy :: copier where
  "ModuleSpecHelmChartRepoAuth_DeepCopy = copyPtr ModuleSpecHelmChartRepoAuth_DeepCopyInto"

definition ModuleSpecHelmChartRepo_DeepCopyInto :: copier where
  "ModuleSpecHelmChartRepo_DeepCopyInto = copyStruct [(''Version'', copyPtr assign), (''Auth'', copyPtr assign)]"

definition ModuleSpecHelmChartRepo_DeepCopy :: copier where
  "ModuleSpecHelmChartRepo_DeepCopy = copyPtr ModuleSpecHelmChartRepo_DeepCopyInto"

definition ModuleSpecHelmChartConfigMap_DeepCopyInto :: copier where
  "ModuleSpecHelmChartConfigMap_DeepCopyInto = assign"

definition ModuleSpecHelmChartConfigMap_DeepCopy :: copier where
  "ModuleSpecHelmChartConfigMap_DeepCopy = copyPtr ModuleSpecHelmChartConfigMap_DeepCopyInto"

definition ModuleSpecHelmChart_DeepCopyInto :: copier where
  "ModuleSpecHelmChart_DeepCopyInto = copyStruct
    [(''Repo'', copyPtr ModuleSpecHelmChartRepo_DeepCopyInto), (''ConfigMap'', copyPtr assign),
     (''Git'', copyPtr ModuleSpecHelmChartGit_DeepCopyInto)]"

definition ModuleSpecHelmChart_DeepCopy :: copier where
  "ModuleSpecHelmChart_DeepCopy = copyPtr ModuleSpecHelmChart_DeepCopyInto"

definition repModuleSpecHelmChartGitAuthSecret :: "ModuleSpecHelmChartGitAuthSecret rep" where
  "repModuleSpecHelmChartGitAuthSecret = repStruct
    [(''Name'', at gsec_Name (scalar PStr)), (''Namespace'', at gsec_Namespace (scalar PStr))]"

definition repModuleSpecHelmChartGitAuth :: "ModuleSpecHelmChartGitAuth rep" where
  "repModuleSpecHelmChartGitAuth = repStruct
    [(''HTTPSSecretRef'', at gauth_HTTPSSecretRef (repPtr repModuleSpecHelmChartGitAuthSecret))]"

definition repModuleSpecHelmChartGit :: "ModuleSpecHelmChartGit rep" where
  "repModuleSpecHelmChartGit = repStruct
    [(''Repo'', at git_Repo (scalar PStr)), (''Path'', at git_Path (scalar PStr)),
     (''Revision'', at git_Revision (scalar PStr)),
     (''Auth'', at git_Auth (repPtr repModuleSpecHelmChartGitAuth))]"

definition repModuleSpecHelmChartRepoAuth :: "ModuleSpecHelmChartRepoAuth rep" where
  "repModuleSpecHelmChartRepoAuth = repStruct
    [(''Name'', at rauth_Name (scalar PStr)), (''Namespace'', at rauth_Namespace (scalar PStr))]"

definition repModuleSpecHelmChartRepo :: "ModuleSpecHelmChartRepo rep" where
  "repModuleSpecHelmChartRepo = repStruct
    [(''URL'', at repo_URL (scalar PStr)), (''Chart'', at repo_Chart (scalar PStr)),
     (''Version'', at repo_Version (repPtr (scalar PStr))),
     (''Auth'', at repo_Auth (repPtr repModuleSpecHelmChartRepoAuth))]"

definition repModuleSpecHelmChartConfigMap :: "ModuleSpecHelmChartConfigMap rep" where
  "repModuleSpecHelmChartConfigMap = repStruct
    [(''Name'', at chcm_Name (scalar PStr)), (''Namespace'', at chcm_Namespace (scalar PStr)),
     (''Key'', at chcm_Key (scalar PStr))]"

definition repModuleSpecHelmChart :: "ModuleSpecHelmChart rep" where
  "repModuleSpecHelmChart = repStruct
    [(''Repo'', at chart_Repo (repPtr repModuleSpecHelmChartRepo)),
     (''ConfigMap'', at chart_ConfigMap (repPtr repModuleSpecHelmChartConfigMap)),
     (''Git'', at chart_Git (repPtr repModuleSpecHelmChartGit))]"

lemmas chart_reps =
  repModuleSpecHelmChartGitAuthSecret_def repModuleSpecHelmChartGitAuth_def repModuleSpecHelmChartGit_def
  repModuleSpecHelmChartRepoAuth_def repModuleSpecHelmChartRepo_def repModuleSpecHelmChartConfigMap_def
  repModuleSpecHelmChart_def

lemmas chart_copiers =
  ModuleSpecHelmChartGitAuthSecret_DeepCopyInto_def ModuleSpecHelmChartGitAuth_DeepCopyInto_def ModuleSpecHelmChartGit_DeepCopyInto_def
  ModuleSpecHelmChartRepoAuth_DeepCopyInto_def ModuleSpecHelmChartRepo_DeepCopyInto_def ModuleSpecHelmChartConfigMap_DeepCopyInto_def
  ModuleSpecHelmChart_DeepCopyInto_def

lemma flat_chart [rep_rules]:
  "flat repModuleSpecHelmChartGitAuthSecret"
  "flat repModuleSpecHelmChartRepoAuth"
  "flat repModuleSpecHelmChartConfigMap"
  by (simp_all add: chart_reps rep_rules)

lemma framed_chart [rep_rules]:
  "framed repModuleSpecHelmChartGitAuthSecret"
  "framed repModuleSpecHelmChartGitAuth"
  "framed repModuleSpecHelmChartGit"
  "framed repModuleSpecHelmChartRepoAuth"
  "framed repModuleSpecHelmChartRepo"
  "framed repModuleSpecHelmChartConfigMap"
  "framed repModuleSpecHelmChart"
  by (simp_all add: chart_reps rep_rules)

lemma deep_chart [rep_rules]:
  "deep ModuleSpecHelmChartGitAuthSecret_DeepCopyInto repModuleSpecHelmChartGitAuthSecret"
  "deep ModuleSpecHelmChartGitAuth_DeepCopyInto repModuleSpecHelmChartGitAuth"
  "deep ModuleSpecHelmChartGit_DeepCopyInto repModuleSpecHelmChartGit"
  "deep ModuleSpecHelmChartRepoAuth_DeepCopyInto repModuleSpecHelmChartRepoAuth"
  "deep ModuleSpecHelmChartRepo_DeepCopyInto repModuleSpecHelmChartRepo"
  "deep ModuleSpecHelmChartConfigMap_DeepCopyInto repModuleSpecHelmChartConfigMap"
  "deep ModuleSpecHelmChart_DeepCopyInto repModuleSpecHelmChart"
  by (simp_all add: chart_copiers chart_reps rep_rules)

section \<open>Helm specifications\<close>

definition ModuleSpecHelmMigration_DeepCopyInto :: copier where
  "ModuleSpecHelmMigration_DeepCopyInto = copyStruct
    [(''PVCs'', copySlice assign), (''ConfigMaps'', copySlice assign), (''Secrets'', copySlice assign)]"

definition ModuleSpecHelmMigration_DeepCopy :: copier where
  "ModuleSpecHelmMigration_DeepCopy = copyPtr ModuleSpecHelmMigration_DeepCopyInto"

definition ModuleSpecHelmOutputValueFromSecret_DeepCopyInto :: copier where
  "ModuleSpecHelmOutputValueFromSecret_DeepCopyInto = assign"

definition ModuleSpecHelmOutputValueFromSecret_DeepCopy :: copier where
  "ModuleSpecHelmOutputValueFromSecret_DeepCopy = copyPtr ModuleSpecHelmOutputValueFromSecret_DeepCopyInto"

definition ModuleSpecHelmOutputValueFrom_DeepCopyInto :: copier where
  "ModuleSpecHelmOutputValueFrom_DeepCopyInto = copyStruct [(''Secret'', copyPtr assign)]"

definition ModuleSpecHelmOutputValueFrom_DeepCopy :: copier where
  "ModuleSpecHelmOutputValueFrom_DeepCopy = copyPtr ModuleSpecHelmOutputValueFrom_DeepCopyInto"

definition ModuleSpecHelmOutput_DeepCopyInto :: "external_copies \<Rightarrow> copier" where
  "ModuleSpecHelmOutput_DeepCopyInto X = copyStruct
    [(''Value'', copyPtr (x_JSON X)), (''ValueFrom'', copyPtr ModuleSpecHelmOutputValueFrom_DeepCopyInto)]"

definition ModuleSpecHelmOutput_DeepCopy :: "external_copies \<Rightarrow> copier" where
  "ModuleSpecHelmOutput_DeepCopy X = copyPtr (ModuleSpecHelmOutput_DeepCopyInto X)"

definition ModuleSpecHelmValuesConfigMap_DeepCopyInto :: copier where
  "ModuleSpecHelmValuesConfigMap_DeepCopyInto = assign"

definition ModuleSpecHelmValuesConfigMap_DeepCopy :: copier where
  "ModuleSpecHelmValuesConfigMap_DeepCopy = copyPtr ModuleSpecHelmValuesConfigMap_DeepCopyInto"

definition ModuleSpecHelmValues_DeepCopyInto :: "external_copies \<Rightarrow> copier" where
  "ModuleSpecHelmValues_DeepCopyInto X = copyStruct
    [(''File'', copyPtr assign), (''ConfigMap'', copyPtr assign), (''Raw'', copyPtr (x_RawExtension X))]"

definition ModuleSpecHelmValues_DeepCopy :: "external_copies \<Rightarrow> copier" where
  "ModuleSpecHelmValues_DeepCopy X = copyPtr (ModuleSpecHelmValues_DeepCopyInto X)"

definition ModuleSpecHelmExistingRelease_DeepCopyInto :: copier where
  "ModuleSpecHelmExistingRelease_DeepCopyInto = assign"

definition ModuleSpecHelmExistingRelease_DeepCopy :: copier where
  "ModuleSpecHelmExistingRelease_DeepCopy = copyPtr ModuleSpecHelmExistingRelease_DeepCopyInto"

definition ModuleSpecHelmCleanup_DeepCopyInto :: copier where
  "ModuleSpecHelmCleanup_DeepCopyInto = assign"

definition ModuleSpecHelmCleanup_DeepCopy :: copier where
  "ModuleSpecHelmCleanup_DeepCopy = copyPtr ModuleSpecHelmCleanup_DeepCopyInto"

definition ModuleSpecHelm_DeepCopyInto :: "external_copies \<Rightarrow> copier" where
  "ModuleSpecHelm_DeepCopyInto X = copyStruct
    [(''ExistingRelease'', copyPtr assign), (''ReleaseName'', copyPtr assign),
     (''Chart'', ModuleSpecHelmChart_DeepCopyInto),
     (''Values'', copySlice (ModuleSpecHelmValues_DeepCopyInto X)),
     (''Outputs'', copySlice (ModuleSpecHelmOutput_DeepCopyInto X)), (''Cleanup'', assign),
     (''Migration'', ModuleSpecHelmMigration_DeepCopyInto)]"

definition ModuleSpecHelm_DeepCopy :: "external_copies \<Rightarrow> copier" where
  "ModuleSpecHelm_DeepCopy X = copyPtr (ModuleSpecHelm_DeepCopyInto X)"

definition repModuleSpecHelmMigration :: "ModuleSpecHelmMigration rep" where
  "repModuleSpecHelmMigration = repStruct
    [(''PVCs'', at mig_PVCs (repSlice (scalar PStr))),
     (''ConfigMaps'', at mig_ConfigMaps (repSlice (scalar PStr))),
     (''Secrets'', at mig_Secrets (repSlice (scalar PStr)))]"

definition repModuleSpecHelmOutputValueFromSecret :: "ModuleSpecHelmOutputValueFromSecret rep" where
  "repModuleSpecHelmOutputValueFromSecret = repStruct
    [(''Name'', at ofs_Name (scalar PStr)), (''Namespace'', at ofs_Namespace (scalar PStr)),
     (''Key'', at ofs_Key (scalar PStr))]"

definition repModuleSpecHelmOutputValueFrom :: "ModuleSpecHelmOutputValueFrom rep" where
  "repModuleSpecHelmOutputValueFrom = repStruct
    [(''Secret'', at ovf_Secret (repPtr repModuleSpecHelmOutputValueFromSecret))]"

definition repModuleSpecHelmOutput :: "ModuleSpecHelmOutput rep" where
  "repModuleSpecHelmOutput = repStruct
    [(''Name'', at out_Name (scalar PStr)), (''Value'', at out_Value (repPtr repRawExtension)),
     (''ValueFrom'', at out_ValueFrom (repPtr repModuleSpecHelmOutputValueFrom))]"

definition repModuleSpecHelmValuesConfigMap :: "ModuleSpecHelmValuesConfigMap rep" where
  "repModuleSpecHelmValuesConfigMap = repStruct
    [(''Name'', at vcm_Name (scalar PStr)), (''Namespace'', at vcm_Namespace (scalar PStr)),
     (''Key'', at vcm_Key (scalar PStr))]"

definition repModuleSpecHelmValues :: "ModuleSpecHelmValues rep" where
  "repModuleSpecHelmValues = repStruct
    [(''File'', at val_File (repPtr (scalar PStr))),
     (''ConfigMap'', at val_ConfigMap (repPtr repModuleSpecHelmValuesConfigMap)),
     (''Raw'', at val_Raw (repPtr repRawExtension))]"

definition repModuleSpecHelmExistingRelease :: "ModuleSpecHelmExistingRelease rep" where
  "repModuleSpecHelmExistingRelease = repStruct
    [(''Name'', at exr_Name (scalar PStr)), (''Namespace'', at exr_Namespace (scalar PStr))]"

definition repModuleSpecHelmCleanup :: "ModuleSpecHelmCleanup rep" where
  "repModuleSpecHelmCleanup = repStruct
    [(''RemoveNamespace'', at cl_RemoveNamespace (scalar PBool)),
     (''RemovePVCs'', at cl_RemovePVCs (scalar PBool))]"

definition repModuleSpecHelm :: "ModuleSpecHelm rep" where
  "repModuleSpecHelm = repStruct
    [(''ExistingRelease'', at helm_ExistingRelease (repPtr repModuleSpecHelmExistingRelease)),
     (''ReleaseName'', at helm_ReleaseName (repPtr (scalar PStr))),
     (''Chart'', at helm_Chart repModuleSpecHelmChart),
     (''Namespace'', at helm_Namespace (scalar PStr)),
     (''Values'', at helm_Values (repSlice repModuleSpecHelmValues)),
     (''Outputs'', at helm_Outputs (repNilSlice repModuleSpecHelmOutput)),
     (''Cleanup'', at helm_Cleanup repModuleSpecHelmCleanup),
     (''Migration'', at helm_Migration repModuleSpecHelmMigration)]"

lemmas helm_reps =
  repModuleSpecHelmMigration_def repModuleSpecHelmOutputValueFromSecret_def repModuleSpecHelmOutputValueFrom_def
  repModuleSpecHelmOutput_def repModuleSpecHelmValuesConfigMap_def repModuleSpecHelmValues_def
  repModuleSpecHelmExistingRelease_def repModuleSpecHelmCleanup_def repModuleSpecHelm_def

lemmas helm_copiers =
  ModuleSpecHelmMigration_DeepCopyInto_def ModuleSpecHelmOutputValueFromSecret_DeepCopyInto_def ModuleSpecHelmOutputValueFrom_DeepCopyInto_def
  ModuleSpecHelmOutput_DeepCopyInto_def ModuleSpecHelmValuesConfigMap_DeepCopyInto_def ModuleSpecHelmValues_DeepCopyInto_def
  ModuleSpecHelmExistingRelease_DeepCopyInto_def ModuleSpecHelmCleanup_DeepCopyInto_def ModuleSpecHelm_DeepCopyInto_def

lemma flat_helm [rep_rules]:
  "flat repModuleSpecHelmOutputValueFromSecret"
  "flat repModuleSpecHelmValuesConfigMap"
  "flat repModuleSpecHelmExistingRelease"
  "flat repModuleSpecHelmCleanup"
  by (simp_all add: helm_reps rep_rules)

lemma framed_helm [rep_rules]:
  "framed repModuleSpecHelmMigration"
  "framed repModuleSpecHelmOutputValueFromSecret"
  "framed repModuleSpecHelmOutputValueFrom"
  "framed repModuleSpecHelmOutput"
  "framed repModuleSpecHelmValuesConfigMap"
  "framed repModuleSpecHelmValues"
  "framed repModuleSpecHelmExistingRelease"
  "framed repModuleSpecHelmCleanup"
  "framed repModuleSpecHelm"
  by (simp_all add: helm_reps rep_rules)

lemma deep_helm [rep_rules]:
  "deep ModuleSpecHelmMigration_DeepCopyInto repModuleSpecHelmMigration"
  "deep ModuleSpecHelmOutputValueFromSecret_DeepCopyInto repModuleSpecHelmOutputValueFromSecret"
  "deep ModuleSpecHelmOutputValueFrom_DeepCopyInto repModuleSpecHelmOutputValueFrom"
  "external_ok X \<Longrightarrow> deep (ModuleSpecHelmOutput_DeepCopyInto X) repModuleSpecHelmOutput"
  "deep ModuleSpecHelmValuesConfigMap_DeepCopyInto repModuleSpecHelmValuesConfigMap"
  "external_ok X \<Longrightarrow> deep (ModuleSpecHelmValues_DeepCopyInto X) repModuleSpecHelmValues"
  "deep ModuleSpecHelmExistingRelease_DeepCopyInto repModuleSpecHelmExistingRelease"
  "deep ModuleSpecHelmCleanup_DeepCopyInto repModuleSpecHelmCleanup"
  "external_ok X \<Longrightarrow> deep (ModuleSpecHelm_DeepCopyInto X) repModuleSpecHelm"
  by (simp_all add: helm_copiers helm_reps rep_rules)

section \<open>Modules\<close>

definition ModuleSpecCustom_DeepCopyInto :: copier where
  "ModuleSpecCustom_DeepCopyInto = copyStruct
    [(''ImagePullSecrets'', copySlice assign), (''Permissions'', copySlice assign)]"

definition ModuleSpecCustom_DeepCopy :: copier where
  "ModuleSpecCustom_DeepCopy = copyPtr ModuleSpecCustom_DeepCopyInto"

definition ModuleWorkspaceReference_DeepCopyInto :: copier where
  "ModuleWorkspaceReference_DeepCopyInto = assign"

definition ModuleWorkspaceReference_DeepCopy :: copier where
  "ModuleWorkspaceReference_DeepCopy = copyPtr ModuleWorkspaceReference_DeepCopyInto"

definition ModuleSpec_DeepCopyInto :: "external_copies \<Rightarrow> copier" where
  "ModuleSpec_DeepCopyInto X = copyStruct
    [(''Helm'', copyPtr (ModuleSpecHelm_DeepCopyInto X)),
     (''Custom'', copyPtr ModuleSpecCustom_DeepCopyInto), (''Workspace'', assign),
     (''Config'', copyPtr (x_RawExtension X))]"

definition ModuleSpec_DeepCopy :: "external_copies \<Rightarrow> copier" where
  "ModuleSpec_DeepCopy X = copyPtr (ModuleSpec_DeepCopyInto X)"

definition ModuleStatus_DeepCopyInto :: "external_copies \<Rightarrow> copier" where
  "ModuleStatus_DeepCopyInto X = copyStruct
    [(''Conditions'', copySlice (x_Condition X)), (''LastActivity'', x_Time X),
     (''Message'', copyPtr assign)]"

definition ModuleStatus_DeepCopy :: "external_copies \<Rightarrow> copier" where
  "ModuleStatus_DeepCopy X = copyPtr (ModuleStatus_DeepCopyInto X)"

definition Module_DeepCopyInto :: "external_copies \<Rightarrow> copier" where
  "Module_DeepCopyInto X = copyStruct
    [(''TypeMeta'', assign), (''ObjectMeta'', x_ObjectMeta X),
     (''Config'', copySlice ConfigItem_DeepCopyInto), (''Spec'', ModuleSpec_DeepCopyInto X),
     (''Status'', ModuleStatus_DeepCopyInto X)]"

definition Module_DeepCopy :: "external_copies \<Rightarrow> copier" where
  "Module_DeepCopy X = copyPtr (Module_DeepCopyInto X)"

definition Module_DeepCopyObject :: "external_copies \<Rightarrow> copier" where
  "Module_DeepCopyObject X = copyObject (Module_DeepCopy X)"

definition ModuleList_DeepCopyInto :: "external_copies \<Rightarrow> copier" where
  "ModuleList_DeepCopyInto X = copyStruct
    [(''TypeMeta'', assign), (''ListMeta'', x_ListMeta X), (''Items'', copySlice (Module_DeepCopyInto X))]"

definition ModuleList_DeepCopy :: "external_copies \<Rightarrow> copier" where
  "ModuleList_DeepCopy X = copyPtr (ModuleList_DeepCopyInto X)"

definition ModuleList_DeepCopyObject :: "external_copies \<Rightarrow> copier" where
  "ModuleList_DeepCopyObject X = copyObject (ModuleList_DeepCopy X)"

definition repModuleSpecCustom :: "ModuleSpecCustom rep" where
  "repModuleSpecCustom = repStruct
    [(''Image'', at cus_Image (scalar PStr)),
     (''ImagePullSecrets'', at cus_ImagePullSecrets (repSlice (scalar PStr))),
     (''Permissions'', at cus_Permissions (repSlice (scalar (PStr \<circ> permissionString))))]"

definition repModuleWorkspaceReference :: "ModuleWorkspaceReference rep" where
  "repModuleWorkspaceReference = repStruct
    [(''Name'', at wref_Name (scalar PStr)), (''Namespace'', at wref_Namespace (scalar PStr))]"

definition repModuleSpec :: "ModuleSpec rep" where
  "repModuleSpec = repStruct
    [(''Helm'', at ms_Helm (repPtr repModuleSpecHelm)),
     (''Custom'', at ms_Custom (repPtr repModuleSpecCustom)),
     (''Workspace'', at ms_Workspace repModuleWorkspaceReference),
     (''Config'', at ms_Config (repPtr repRawExtension)),
     (''Hibernated'', at ms_Hibernated (scalar PBool))]"

definition repModuleStatus :: "ModuleStatus rep" where
  "repModuleStatus = repStruct
    [(''Conditions'', at mst_Conditions (repSlice repCondition)),
     (''Phase'', at mst_Phase (scalar (PStr \<circ> modPhaseString))),
     (''Source'', at mst_Source (scalar PStr)),
     (''LastActivity'', at mst_LastActivity (repPtr (scalar PTime))),
     (''Message'', at mst_Message (repPtr (scalar PStr)))]"

definition repModule :: "Module rep" where
  "repModule = repStruct
    [(''TypeMeta'', anything), (''ObjectMeta'', at mod_Meta repObjectMeta),
     (''Config'', at mod_Config (repSlice repConfigItem)), (''Spec'', at mod_Spec repModuleSpec),
     (''Status'', at mod_Status repModuleStatus)]"

definition repModuleList :: "Module list rep" where
  "repModuleList = repStruct
    [(''TypeMeta'', anything), (''ListMeta'', anything), (''Items'', repSlice repModule)]"

lemmas module_reps =
  repModuleSpecCustom_def repModuleWorkspaceReference_def repModuleSpec_def
  repModuleStatus_def repModule_def repModuleList_def

lemmas module_copiers =
  ModuleSpecCustom_DeepCopyInto_def ModuleWorkspaceReference_DeepCopyInto_def ModuleSpec_DeepCopyInto_def
  ModuleStatus_DeepCopyInto_def Module_DeepCopyInto_def ModuleList_DeepCopyInto_def

lemma flat_module [rep_rules]:
  "flat repModuleWorkspaceReference"
  by (simp_all add: module_reps rep_rules)

lemma framed_module [rep_rules]:
  "framed repModuleSpecCustom"
  "framed repModuleWorkspaceReference"
  "framed repModuleSpec"
  "framed repModuleStatus"
  "framed repModule"
  "framed repModuleList"
  by (simp_all add: module_reps rep_rules)

lemma deep_module [rep_rules]:
  "deep ModuleSpecCustom_DeepCopyInto repModuleSpecCustom"
  "deep ModuleWorkspaceReference_DeepCopyInto repModuleWorkspaceReference"
  "external_ok X \<Longrightarrow> deep (ModuleSpec_DeepCopyInto X) repModuleSpec"
  "external_ok X \<Longrightarrow> deep (ModuleStatus_DeepCopyInto X) repModuleStatus"
  "external_ok X \<Longrightarrow> deep (Module_DeepCopyInto X) repModule"
  "external_ok X \<Longrightarrow> deep (ModuleList_DeepCopyInto X) repModuleList"
  by (simp_all add: module_copiers module_reps rep_rules)

section \<open>Workspaces\<close>

definition ManagedClusterSpec_DeepCopyInto :: copier where
  "ManagedClusterSpec_DeepCopyInto = assign"

definition ManagedClusterSpec_DeepCopy :: copier where
  "ManagedClusterSpec_DeepCopy = copyPtr ManagedClusterSpec_DeepCopyInto"

definition WorkspaceAutoHibernation_DeepCopyInto :: copier where
  "WorkspaceAutoHibernation_DeepCopyInto = copyStruct [(''WakeSchedule'', copyPtr assign)]"

definition WorkspaceAutoHibernation_DeepCopy :: copier where
  "WorkspaceAutoHibernation_DeepCopy = copyPtr WorkspaceAutoHibernation_DeepCopyInto"

definition WorkspaceConnectionSecretReference_DeepCopyInto :: copier where
  "WorkspaceConnectionSecretReference_DeepCopyInto = assign"

definition WorkspaceConnectionSecretReference_DeepCopy :: copier where
  "WorkspaceConnectionSecretReference_DeepCopy = copyPtr WorkspaceConnectionSecretReference_DeepCopyInto"

definition WorkspaceConnection_DeepCopyInto :: copier where
  "WorkspaceConnection_DeepCopyInto = copyStruct [(''SecretReference'', copyPtr assign)]"

definition WorkspaceConnection_DeepCopy :: copier where
  "WorkspaceConnection_DeepCopy = copyPtr WorkspaceConnection_DeepCopyInto"

definition WorkspaceFromReference_DeepCopyInto :: copier where
  "WorkspaceFromReference_DeepCopyInto = assign"

definition WorkspaceFromReference_DeepCopy :: copier where
  "WorkspaceFromReference_DeepCopy = copyPtr WorkspaceFromReference_DeepCopyInto"

definition WorkspaceSpec_DeepCopyInto :: copier where
  "WorkspaceSpec_DeepCopyInto = copyStruct
    [(''From'', copyPtr assign), (''Connection'', WorkspaceConnection_DeepCopyInto),
     (''ManagedCluster'', copyPtr assign),
     (''AutoHibernation'', copyPtr WorkspaceAutoHibernation_DeepCopyInto)]"

definition WorkspaceSpec_DeepCopy :: copier where
  "WorkspaceSpec_DeepCopy = copyPtr WorkspaceSpec_DeepCopyInto"

definition WorkspaceStatus_DeepCopyInto :: "external_copies \<Rightarrow> copier" where
  "WorkspaceStatus_DeepCopyInto X = copyStruct
    [(''Conditions'', copySlice (x_Condition X)), (''LastActivity'', x_Time X),
     (''HibernatedAt'', x_Time X), (''Message'', copyPtr assign)]"

definition WorkspaceStatus_DeepCopy :: "external_copies \<Rightarrow> copier" where
  "WorkspaceStatus_DeepCopy X = copyPtr (WorkspaceStatus_DeepCopyInto X)"

definition Workspace_DeepCopyInto :: "external_copies \<Rightarrow> copier" where
  "Workspace_DeepCopyInto X = copyStruct
    [(''TypeMeta'', assign), (''ObjectMeta'', x_ObjectMeta X), (''Spec'', WorkspaceSpec_DeepCopyInto),
     (''Status'', WorkspaceStatus_DeepCopyInto X)]"

definition Workspace_DeepCopy :: "external_copies \<Rightarrow> copier" where
  "Workspace_DeepCopy X = copyPtr (Workspace_DeepCopyInto X)"

definition Workspace_DeepCopyObject :: "external_copies \<Rightarrow> copier" where
  "Workspace_DeepCopyObject X = copyObject (Workspace_DeepCopy X)"

definition WorkspaceList_DeepCopyInto :: "external_copies \<Rightarrow> copier" where
  "WorkspaceList_DeepCopyInto X = copyStruct
    [(''TypeMeta'', assign), (''ListMeta'', x_ListMeta X),
     (''Items'', copySlice (Workspace_DeepCopyInto X))]"

definition WorkspaceList_DeepCopy :: "external_copies \<Rightarrow> copier" where
  "WorkspaceList_DeepCopy X = copyPtr (WorkspaceList_DeepCopyInto X)"

definition WorkspaceList_DeepCopyObject :: "external_copies \<Rightarrow> copier" where
  "WorkspaceList_DeepCopyObject X = copyObject (WorkspaceList_DeepCopy X)"

definition repManagedClusterSpec :: "ManagedClusterSpec rep" where
  "repManagedClusterSpec = repStruct
    [(''Backend'', at mc_Backend (scalar (PStr \<circ> backendString))),
     (''Distro'', at mc_Distro (scalar PStr))]"

definition repWorkspaceAutoHibernation :: "WorkspaceAutoHibernation rep" where
  "repWorkspaceAutoHibernation = repStruct
    [(''Enabled'', at ah_Enabled (scalar PBool)), (''Schedule'', at ah_Schedule (scalar PStr)),
     (''WakeSchedule'', at ah_WakeSchedule (repPtr (scalar PStr)))]"

definition repWorkspaceConnectionSecretReference :: "WorkspaceConnectionSecretReference rep" where
  "repWorkspaceConnectionSecretReference = repStruct
    [(''Name'', at sref_Name (scalar PStr)), (''Namespace'', at sref_Namespace (scalar PStr)),
     (''Key'', at sref_Key (scalar PStr))]"

definition repWorkspaceConnection :: "WorkspaceConnection rep" where
  "repWorkspaceConnection = repStruct
    [(''Type'', at conn_Type (scalar (PStr \<circ> connTypeString))),
     (''SecretReference'', at conn_SecretReference (repPtr repWorkspaceConnectionSecretReference))]"

definition repWorkspaceFromReference :: "WorkspaceFromReference rep" where
  "repWorkspaceFromReference = repStruct
    [(''Name'', at from_Name (scalar PStr)), (''Namespace'', at from_Namespace (scalar PStr)),
     (''MigrateData'', at from_MigrateData (scalar PBool))]"

definition repWorkspaceSpec :: "WorkspaceSpec rep" where
  "repWorkspaceSpec = repStruct
    [(''Type'', at wss_Type (scalar (PStr \<circ> wsTypeString))),
     (''From'', at wss_From (repPtr repWorkspaceFromReference)),
     (''Hibernated'', at wss_Hibernated (scalar PBool)),
     (''Connection'', at wss_Connection repWorkspaceConnection),
     (''ManagedCluster'', at wss_ManagedCluster (repPtr repManagedClusterSpec)),
     (''AutoHibernation'', at wss_AutoHibernation (repPtr repWorkspaceAutoHibernation))]"

definition repWorkspaceStatus :: "WorkspaceStatus rep" where
  "repWorkspaceStatus = repStruct
    [(''Conditions'', at wst_Conditions (repSlice repCondition)),
     (''Phase'', at wst_Phase (scalar (PStr \<circ> wsPhaseString))),
     (''Ready'', at wst_Ready (scalar PBool)),
     (''LastActivity'', at wst_LastActivity (repPtr (scalar PTime))),
     (''HibernatedAt'', at wst_HibernatedAt (repPtr (scalar PTime))),
     (''Message'', at wst_Message (repPtr (scalar PStr)))]"

definition repWorkspace :: "Workspace rep" where
  "repWorkspace = repStruct
    [(''TypeMeta'', anything), (''ObjectMeta'', at ws_Meta repObjectMeta),
     (''Spec'', at ws_Spec repWorkspaceSpec), (''Status'', at ws_Status repWorkspaceStatus)]"

definition repWorkspaceList :: "Workspace list rep" where
  "repWorkspaceList = repStruct
    [(''TypeMeta'', anything), (''ListMeta'', anything), (''Items'', repSlice repWorkspace)]"

lemmas workspace_reps =
  repManagedClusterSpec_def repWorkspaceAutoHibernation_def repWorkspaceConnectionSecretReference_def
  repWorkspaceConnection_def repWorkspaceFromReference_def repWorkspaceSpec_def
  repWorkspaceStatus_def repWorkspace_def repWorkspaceList_def

lemmas workspace_copiers =
  ManagedClusterSpec_DeepCopyInto_def WorkspaceAutoHibernation_DeepCopyInto_def WorkspaceConnectionSecretReference_DeepCopyInto_def
  WorkspaceConnection_DeepCopyInto_def WorkspaceFromReference_DeepCopyInto_def WorkspaceSpec_DeepCopyInto_def
  WorkspaceStatus_DeepCopyInto_def Workspace_DeepCopyInto_def WorkspaceList_DeepCopyInto_def

lemma flat_workspace [rep_rules]:
  "flat repManagedClusterSpec"
  "flat repWorkspaceConnectionSecretReference"
  "flat repWorkspaceFromReference"
  by (simp_all add: workspace_reps rep_rules)

lemma framed_workspace [rep_rules]:
  "framed repManagedClusterSpec"
  "framed repWorkspaceAutoHibernation"
  "framed repWorkspaceConnectionSecretReference"
  "framed repWorkspaceConnection"
  "framed repWorkspaceFromReference"
  "framed repWorkspaceSpec"
  "framed repWorkspaceStatus"
  "framed repWorkspace"
  "framed repWorkspaceList"
  by (simp_all add: workspace_reps rep_rules)

lemma deep_workspace [rep_rules]:
  "deep ManagedClusterSpec_DeepCopyInto repManagedClusterSpec"
  "deep WorkspaceAutoHibernation_DeepCopyInto repWorkspaceAutoHibernation"
  "deep WorkspaceConnectionSecretReference_DeepCopyInto repWorkspaceConnectionSecretReference"
  "deep WorkspaceConnection_DeepCopyInto repWorkspaceConnection"
  "deep WorkspaceFromReference_DeepCopyInto repWorkspaceFromReference"
  "deep WorkspaceSpec_DeepCopyInto repWorkspaceSpec"
  "external_ok X \<Longrightarrow> deep (WorkspaceStatus_DeepCopyInto X) repWorkspaceStatus"
  "external_ok X \<Longrightarrow> deep (Workspace_DeepCopyInto X) repWorkspace"
  "external_ok X \<Longrightarrow> deep (WorkspaceList_DeepCopyInto X) repWorkspaceList"
  by (simp_all add: workspace_copiers workspace_reps rep_rules)

end
