(* ===== verification/SharedObjects.thy ===== *)
theory SharedObjects
  imports DeepCopy WorkspaceFork
begin

text \<open>
  The places where the operator relies on a deep copy: the base of a patch, which must keep the object as it was
  while the object is changed (\<open>client.MergeFrom(x.DeepCopy())\<close>), and the copy of a module in
  \<open>src/internal/controller/workspace_fork.go\<close>, which shares the Helm specification of the deep copy and
  changes it through the shared pointer. The programs are written on the heap of \<open>GoHeap\<close> and shown to do what
  the other theories say of immutable values (\<open>withHibernated\<close>, \<open>forkedModule\<close>).
\<close>

section \<open>Objects and their copies\<close>

lemma repPtr_framed:
  assumes "framed p" and "repPtr p F h v x" and "agree F h h'"
  shows "repPtr p F h' v x"
  using framedD [OF framed_repPtr [OF assms(1)] assms(2) subset_refl assms(3)] .

text \<open>
  Two pointers that stand for the same object and share no cell: whatever is later written outside the region of
  one of them, a write through the other included, it still stands for the object.
\<close>

definition apart :: "'x rep \<Rightarrow> addr set \<Rightarrow> addr set \<Rightarrow> heap \<Rightarrow> gval \<Rightarrow> gval \<Rightarrow> 'x option \<Rightarrow> bool" where
  "apart p F G h v w x \<longleftrightarrow> F \<inter> G = {} \<and> (\<forall>h'. agree F h h' \<longrightarrow> repPtr p F h' v x) \<and> (\<forall>h'. agree G h h' \<longrightarrow> repPtr p G h' w x)"

lemma deep_copy_apart:
  assumes copier: "deep copy (repPtr p)" and framed: "framed p" and F: "F \<subseteq> old h"
  shows "\<forall>v x w h'. repPtr p F h v x \<longrightarrow> copy v h = (w, h') \<longrightarrow> apart p F (new h h') h' v w x"
proof (intro allI impI)
  fix v x w h'
  assume rep: "repPtr p F h v x" and run: "copy v h = (w, h')"
  note copied = deepD [OF copier rep F run]
  have "repPtr p F h' v x" using repPtr_framed [OF framed rep agree_mono [OF copied(2) F]] .
  with copied(3) F repPtr_framed [OF framed] show "apart p F (new h h') h' v w x" by (fastforce simp: apart_def)
qed

text \<open>C19: a deep copy of an object shares nothing with it. Let \<open>v\<close> point to a module, a workspace or a list of
  them, and let \<open>DeepCopyObject\<close> return \<open>w\<close>. Then \<open>w\<close> stands for the same object, with everything it points to,
  in cells that are new, so that no later write to one of the two is seen through the other.\<close>

theorem deep_copies_apart:
  assumes "external_ok X" and "F \<subseteq> old h"
  shows "(\<forall>v m w h'. repPtr repModule F h v m \<longrightarrow> Module_DeepCopyObject X v h = (w, h') \<longrightarrow> apart repModule F (new h h') h' v w m)
    \<and> (\<forall>v ms w h'. repPtr repModuleList F h v ms \<longrightarrow> ModuleList_DeepCopyObject X v h = (w, h')
        \<longrightarrow> apart repModuleList F (new h h') h' v w ms)
    \<and> (\<forall>v ws w h'. repPtr repWorkspace F h v ws \<longrightarrow> Workspace_DeepCopyObject X v h = (w, h')
        \<longrightarrow> apart repWorkspace F (new h h') h' v w ws)
    \<and> (\<forall>v ws w h'. repPtr repWorkspaceList F h v ws \<longrightarrow> WorkspaceList_DeepCopyObject X v h = (w, h')
        \<longrightarrow> apart repWorkspaceList F (new h h') h' v w ws)"
  using assms
  by (intro conjI deep_copy_apart) (simp_all add: Module_DeepCopyObject_def Module_DeepCopy_def
      ModuleList_DeepCopyObject_def ModuleList_DeepCopy_def Workspace_DeepCopyObject_def Workspace_DeepCopy_def
      WorkspaceList_DeepCopyObject_def WorkspaceList_DeepCopy_def rep_rules)

lemma copyPtr_deepD:
  assumes "deep into p" and "framed p" and "repPtr p F h v x" and "F \<subseteq> old h" and "copyPtr into v h = (w, h')"
  shows "limit h \<le> limit h'" and "agree (old h) h h'" and "repPtr p (new h h') h' w x"
  using deepD [where p = "repPtr p" and F = F and v = v and x = x, OF deep_copyPtr [OF assms(1,2)] assms(3,4,5)] by auto

section \<open>The parts of a module\<close>

lemma repModule_iff:
  "repModule F h v m \<longleftrightarrow> isStruct v \<and> repObjectMeta F h (field v ''ObjectMeta'') (mod_Meta m)
     \<and> repSlice repConfigItem F h (field v ''Config'') (mod_Config m) \<and> repModuleSpec F h (field v ''Spec'') (mod_Spec m)
     \<and> repModuleStatus F h (field v ''Status'') (mod_Status m)"
  by (simp add: repModule_def repStruct_def at_def anything_def)

lemma repModuleSpec_iff:
  "repModuleSpec F h v m \<longleftrightarrow> isStruct v \<and> repPtr repModuleSpecHelm F h (field v ''Helm'') (ms_Helm m)
     \<and> repPtr repModuleSpecCustom F h (field v ''Custom'') (ms_Custom m)
     \<and> repModuleWorkspaceReference F h (field v ''Workspace'') (ms_Workspace m)
     \<and> repPtr repRawExtension F h (field v ''Config'') (ms_Config m) \<and> field v ''Hibernated'' = Prim (PBool (ms_Hibernated m))"
  by (simp add: repModuleSpec_def repStruct_def at_def scalar_def)

section \<open>The copy of a module for a fork\<close>

definition deref :: "heap \<Rightarrow> gval \<Rightarrow> gval" where
  "deref h v = (case v of Ptr a \<Rightarrow> loadOne h a | _ \<Rightarrow> GNil)"

text \<open>A struct from the fields it lists; the other fields are nil.\<close>

definition structOf :: "(string \<times> gval) list \<Rightarrow> gval" where
  "structOf fs = Struct (\<lambda>n. case map_of fs n of Some v \<Rightarrow> v | None \<Rightarrow> GNil)"

abbreviation str :: "string \<Rightarrow> gval" where
  "str s \<equiv> Prim (PStr s)"

fun appendStr :: "gval \<Rightarrow> string \<Rightarrow> gval" where
  "appendStr (Prim (PStr s)) t = str (s @ t)"
| "appendStr v t = v"

text \<open>The composite literal of the new module, with the zero values of the fields it leaves out.\<close>

definition newModuleLiteral :: "gval \<Rightarrow> gval \<Rightarrow> addr \<Rightarrow> gval" where
  "newModuleLiteral source dest annotations =
     (let meta = field source ''ObjectMeta''; spec = field source ''Spec''; destMeta = field dest ''ObjectMeta'' in
      structOf
       [(''ObjectMeta'', structOf
          [(''Name'', str []), (''UID'', str []),
           (''Namespace'', field meta ''Namespace''),
           (''GenerateName'', appendStr (field meta ''Name'') ''-''),
           (''Annotations'', MapRef annotations)]),
        (''Config'', field source ''Config''),
        (''Spec'', structOf
          [(''Helm'', field spec ''Helm''),
           (''Custom'', field spec ''Custom''),
           (''Workspace'', structOf [(''Name'', field destMeta ''Name''), (''Namespace'', field destMeta ''Namespace'')]),
           (''Config'', field spec ''Config''),
           (''Hibernated'', field spec ''Hibernated'')]),
        (''Status'', structOf [(''Phase'', str []), (''Source'', str [])])])"

text \<open>\<open>if newModule.Spec.Helm != nil && newModule.Spec.Helm.ExistingRelease != nil { newModule.Spec.Helm.ExistingRelease = nil }\<close>\<close>

definition dropExistingRelease :: "gval \<Rightarrow> heap \<Rightarrow> heap" where
  "dropExistingRelease newModule h = (case field (field newModule ''Spec'') ''Helm'' of
       Ptr c \<Rightarrow> (case field (loadOne h c) ''ExistingRelease'' of
           GNil \<Rightarrow> h
         | _ \<Rightarrow> store c (One (setField ''ExistingRelease'' GNil (loadOne h c))) h)
     | _ \<Rightarrow> h)"

definition forkObject :: "external_copies \<Rightarrow> gval \<Rightarrow> gval \<Rightarrow> heap \<Rightarrow> gval \<times> heap" where
  "forkObject X module destWorkspace h =
     (case Module_DeepCopy X module h of (sourceCopy, h1) \<Rightarrow>
      (case alloc (Dict Map.empty) h1 of (annotations, h2) \<Rightarrow>
        let literal = newModuleLiteral (deref h2 sourceCopy) (deref h2 destWorkspace) annotations in
        (case alloc (One literal) h2 of (newModule, h3) \<Rightarrow> (Ptr newModule, dropExistingRelease literal h3))))"

text \<open>The Helm specification of a deep copy is a cell of its own: what else the copy reaches does not use it.\<close>

lemma repModuleSpecHelm_drop:
  assumes "repModuleSpecHelm F h v helm"
  shows "repModuleSpecHelm F h (setField ''ExistingRelease'' GNil v) (helm\<lparr>helm_ExistingRelease := None\<rparr>)"
  using assms by (simp add: repModuleSpecHelm_def repStruct_def at_def field_setField repPtr_def)

lemma ModuleSpec_copy_helm:
  assumes X: "external_ok X" and rep: "repModuleSpec F h v s" and F: "F \<subseteq> old h" and helm: "ms_Helm s = Some helm"
    and run: "ModuleSpec_DeepCopyInto X v h = (w, h')"
  shows "limit h < limit h' \<and> agree (old h) h h' \<and> field w ''Helm'' = Ptr (limit h)
    \<and> (\<exists>u. cells h' (limit h) = Some (One u) \<and> repModuleSpecHelm {Suc (limit h)..<limit h'} h' u helm)
    \<and> repPtr repModuleSpecCustom {Suc (limit h)..<limit h'} h' (field w ''Custom'') (ms_Custom s)
    \<and> repPtr repRawExtension {Suc (limit h)..<limit h'} h' (field w ''Config'') (ms_Config s)
    \<and> field w ''Hibernated'' = Prim (PBool (ms_Hibernated s))"
proof -
  obtain u h1 where c1: "copyPtr (ModuleSpecHelm_DeepCopyInto X) (field v ''Helm'') h = (u, h1)" by force
  obtain u2 h2 where c2: "copyPtr ModuleSpecCustom_DeepCopyInto (field v ''Custom'') h1 = (u2, h2)" by force
  obtain u3 h3 where c3: "copyPtr (x_RawExtension X) (field v ''Config'') h2 = (u3, h3)" by force
  have v: "isStruct v" "repPtr repModuleSpecHelm F h (field v ''Helm'') (Some helm)"
      "repPtr repModuleSpecCustom F h (field v ''Custom'') (ms_Custom s)" "repPtr repRawExtension F h (field v ''Config'') (ms_Config s)"
      "field v ''Hibernated'' = Prim (PBool (ms_Hibernated s))"
    using rep helm by (auto simp: repModuleSpec_iff)
  have w: "h' = h3" "w = setField ''Config'' u3 (setField ''Workspace'' (field v ''Workspace'')
      (setField ''Custom'' u2 (setField ''Helm'' u v)))"
    using run by (auto simp: ModuleSpec_DeepCopyInto_def copyStruct_def c1 c2 c3 assign_def)
  from copyPtr_cell [OF deep_helm(9) [OF X] framed_helm(9) v(2) F c1] obtain x where x: "u = Ptr (limit h)" "limit h < limit h1"
      "agree (old h) h h1" "cells h1 (limit h) = Some (One x)" "repModuleSpecHelm {Suc (limit h)..<limit h1} h1 x helm" by blast
  have F1: "F \<subseteq> old h1" "repPtr repModuleSpecCustom F h1 (field v ''Custom'') (ms_Custom s)"
    using repPtr_framed [OF framed_module(1) v(3) agree_mono [OF x(3) F]] F x(2) by auto
  note d2 = copyPtr_deepD [OF deep_module(1) framed_module(1) F1(2,1) c2]
  have h2: "agree (old h) h h2" using agree_trans [OF x(3)] agree_mono [OF d2(2)] x(2) by auto
  have F2: "F \<subseteq> old h2" "repPtr repRawExtension F h2 (field v ''Config'') (ms_Config s)"
    using repPtr_framed [OF framed_external(3) v(4) agree_mono [OF h2 F]] F1(1) d2(1) by auto
  note d3 = copyPtr_deepD [OF deep_external(5) [OF X] framed_external(3) F2(2,1) c3]
  have "agree (old h) h h3" using agree_trans [OF h2] agree_mono [OF d3(2)] x(2) d2(1) by auto
  moreover have h3: "agree (new h h1) h1 h3"
    by (rule agree_trans [OF agree_mono [OF d2(2)] agree_mono [OF d3(2)]]) (use d2(1) in auto)
  moreover have "cells h3 (limit h) = Some (One x)" using agree_cell [OF h3] x(2,4) by simp
  moreover have "repModuleSpecHelm {Suc (limit h)..<limit h3} h3 x helm"
    using framedD [OF framed_helm(9) x(5)] agree_mono [OF h3] d2(1) d3(1) by auto
  moreover have "repPtr repModuleSpecCustom {Suc (limit h)..<limit h3} h3 u2 (ms_Custom s)"
    by (rule framedD [OF framed_repPtr [OF framed_module(1)], OF d2(3) _ agree_mono [OF d3(2)]]) (use x(2) d3(1) in auto)
  moreover have "repPtr repRawExtension {Suc (limit h)..<limit h3} h3 u3 (ms_Config s)"
    using framedD [OF framed_repPtr [OF framed_external(3)] d3(3)] x(2) d2(1) by auto
  ultimately show ?thesis using x(1,2) d2(1) d3(1) v(1,5) by (auto simp: w field_setField)
qed

text \<open>The parts of a module that the literal takes over, the Helm specification apart.\<close>

definition sharedParts :: "Module rep" where
  "sharedParts G h w m \<longleftrightarrow> field (field w ''ObjectMeta'') ''Name'' = str (meta_Name (mod_Meta m))
     \<and> field (field w ''ObjectMeta'') ''Namespace'' = str (meta_Namespace (mod_Meta m))
     \<and> repSlice repConfigItem G h (field w ''Config'') (mod_Config m)
     \<and> repPtr repModuleSpecCustom G h (field (field w ''Spec'') ''Custom'') (ms_Custom (mod_Spec m))
     \<and> repPtr repRawExtension G h (field (field w ''Spec'') ''Config'') (ms_Config (mod_Spec m))
     \<and> field (field w ''Spec'') ''Hibernated'' = Prim (PBool (ms_Hibernated (mod_Spec m)))"

lemma framed_sharedParts: "framed sharedParts"
  unfolding framed_def sharedParts_def
  by (intro allI impI, elim conjE, intro conjI)
    (assumption | erule framedD [OF framed_repSlice [OF framed_config(6)]]
      framedD [OF framed_repPtr [OF framed_module(1)]] framedD [OF framed_repPtr [OF framed_external(3)]], assumption, assumption)+

lemma repModule_parts: "repModule F h v m \<Longrightarrow> sharedParts F h v m"
  by (simp add: repModule_iff repModuleSpec_iff sharedParts_def repObjectMeta_def repStruct_def at_def scalar_def)

lemma repObjectMeta_names:
  "repObjectMeta F h v x \<Longrightarrow> field v ''Name'' = str (meta_Name x) \<and> field v ''Namespace'' = str (meta_Namespace x)"
  by (simp add: repObjectMeta_def repStruct_def at_def scalar_def)

lemma literal_helm: "field (field (newModuleLiteral w d a) ''Spec'') ''Helm'' = field (field w ''Spec'') ''Helm''"
  by (simp add: newModuleLiteral_def structOf_def Let_def)

lemma literal_forked:
  assumes "sharedParts G h w m" and "repObjectMeta D h0 (field d ''ObjectMeta'') (ws_Meta dst)"
    and "repPtr repModuleSpecHelm G h (field (field w ''Spec'') ''Helm'') (ms_Helm (mod_Spec (forkedModule m dst)))"
    and "cells h a = Some (Dict Map.empty)" and "a \<in> G"
  shows "repModule G h (newModuleLiteral w d a) (forkedModule m dst)"
proof -
  have "repObjectMeta G h (field (newModuleLiteral w d a) ''ObjectMeta'') (mod_Meta (forkedModule m dst))"
    using assms(1,4,5) by (simp add: newModuleLiteral_def structOf_def Let_def forkedModule_def repObjectMeta_def repStruct_def
        at_def scalar_def sharedParts_def repPtr_def repSlice_def repMap_def)
  moreover have "repModuleWorkspaceReference G h (field (field (newModuleLiteral w d a) ''Spec'') ''Workspace'')
      (ms_Workspace (mod_Spec (forkedModule m dst)))"
    using repObjectMeta_names [OF assms(2)] by (simp add: newModuleLiteral_def structOf_def Let_def forkedModule_def
        repModuleWorkspaceReference_def repStruct_def at_def scalar_def)
  moreover have "repModuleStatus G h (field (newModuleLiteral w d a) ''Status'') (mod_Status (forkedModule m dst))"
    by (simp add: newModuleLiteral_def structOf_def Let_def forkedModule_def emptyModuleStatus_def repModuleStatus_def
        repStruct_def at_def scalar_def repPtr_def repSlice_def)
  ultimately show ?thesis using assms(1,3)
    by (simp add: repModule_iff repModuleSpec_iff sharedParts_def newModuleLiteral_def structOf_def Let_def forkedModule_def)
qed

section \<open>The heaps of a copy\<close>

definition extends :: "heap \<Rightarrow> heap \<Rightarrow> bool" where
  "extends h h' \<longleftrightarrow> limit h \<le> limit h' \<and> agree (old h) h h'"

lemma extends_trans [trans]: "extends h h' \<Longrightarrow> extends h' h'' \<Longrightarrow> extends h h''"
  by (auto simp: extends_def agree_def)

lemma extends_alloc: "alloc c h = (a, h') \<Longrightarrow> extends h h' \<and> a = limit h \<and> limit h' = Suc (limit h) \<and> cells h' a = Some c"
  by (auto simp: alloc_def extends_def agree_def)

lemma extends_agree: "extends h h' \<Longrightarrow> F \<subseteq> old h \<Longrightarrow> agree F h h'"
  by (auto simp: extends_def agree_def)

lemma extends_rep: "framed p \<Longrightarrow> p F h v x \<Longrightarrow> F \<subseteq> old h \<Longrightarrow> extends h h' \<Longrightarrow> p F h' v x"
  by (drule extends_agree) (auto dest: framedD)

lemma extends_old: "extends h h' \<Longrightarrow> F \<subseteq> old h \<Longrightarrow> F \<subseteq> old h'"
  by (auto simp: extends_def)

lemma deep_extends:
  assumes "deep into p" and "p F h v x" and "F \<subseteq> old h" and "into v h = (w, h')"
  shows "extends h h'" and "p (new h h') h' w x"
  using deepD [OF assms] by (auto simp: extends_def)

lemma Module_copy_parts:
  assumes X: "external_ok X" and rep: "repModule F h v m" and F: "F \<subseteq> old h" and run: "Module_DeepCopyInto X v h = (w, h')"
  shows "\<exists>h2 h3. ModuleSpec_DeepCopyInto X (field v ''Spec'') h2 = (field w ''Spec'', h3)
    \<and> extends h h2 \<and> extends h2 h3 \<and> extends h3 h' \<and> repSlice repConfigItem (new h h2) h' (field w ''Config'') (mod_Config m)
    \<and> field (field w ''ObjectMeta'') ''Name'' = str (meta_Name (mod_Meta m))
    \<and> field (field w ''ObjectMeta'') ''Namespace'' = str (meta_Namespace (mod_Meta m))"
proof -
  obtain u1 h1 where c1: "x_ObjectMeta X (field v ''ObjectMeta'') h = (u1, h1)" by force
  obtain u2 h2 where c2: "copySlice (ConfigItem_DeepCopyInto) (field v ''Config'') h1 = (u2, h2)" by force
  obtain u3 h3 where c3: "ModuleSpec_DeepCopyInto X (field v ''Spec'') h2 = (u3, h3)" by force
  obtain u4 h4 where c4: "ModuleStatus_DeepCopyInto X (field v ''Status'') h3 = (u4, h4)" by force
  have v: "isStruct v" "repObjectMeta F h (field v ''ObjectMeta'') (mod_Meta m)" "repSlice repConfigItem F h (field v ''Config'') (mod_Config m)"
      "repModuleSpec F h (field v ''Spec'') (mod_Spec m)" "repModuleStatus F h (field v ''Status'') (mod_Status m)"
    using rep by (auto simp: repModule_iff)
  note d1 = deep_extends [OF deep_external(1) [OF X], OF v(2) F c1]
  note F1 = extends_old [OF d1(1) F]
  note v3 = extends_rep [OF framed_repSlice [OF framed_config(6)], OF v(3) F d1(1)]
  note d2 = deep_extends [OF deep_copySlice [OF deep_config(6) framed_config(6)], OF v3 F1 c2]
  have e2: "extends h h2" using d1(1) d2(1) by (rule extends_trans)
  note d3 = deep_extends [OF deep_module(3) [OF X], OF extends_rep [OF framed_module(3), OF v(4) F e2]
      extends_old [OF e2 F] c3]
  have e3: "extends h h3" using e2 d3(1) by (rule extends_trans)
  note d4 = deep_extends [OF deep_module(4) [OF X], OF extends_rep [OF framed_module(4), OF v(5) F e3]
      extends_old [OF e3 F] c4]
  have w: "h' = h4" "w = setField ''Status'' u4 (setField ''Spec'' u3 (setField ''Config'' u2 (setField ''ObjectMeta'' u1
      (setField ''TypeMeta'' (field v ''TypeMeta'') v))))"
    using run by (auto simp: Module_DeepCopyInto_def copyStruct_def assign_def c1 c2 c3 c4)
  have "extends h2 h'" using d3(1) d4(1) unfolding w by (rule extends_trans)
  hence "agree (new h1 h2) h2 h'" by (rule extends_agree) auto
  moreover have "new h1 h2 \<subseteq> new h h2" using d1(1) by (auto simp: extends_def)
  ultimately have "repSlice repConfigItem (new h h2) h' u2 (mod_Config m)"
    using framedD [OF framed_repSlice [OF framed_config(6)], OF d2(2)] by blast
  with d1 c3 d3(1) d4(1) e2 repObjectMeta_names [OF d1(2)] v(1) show ?thesis
    by (intro exI [of _ h2] exI [of _ h3]) (simp add: w field_setField)
qed

text \<open>A deep copy of a module: the cell of its Helm specification is apart from all other parts.\<close>

lemma Module_copy_helm:
  assumes X: "external_ok X" and rep: "repModule F h v m" and F: "F \<subseteq> old h" and run: "Module_DeepCopyInto X v h = (w, h')"
    and helm: "ms_Helm (mod_Spec m) = Some helm"
  shows "extends h h' \<and> (\<exists>c u. field (field w ''Spec'') ''Helm'' = Ptr c \<and> c \<in> new h h' \<and> cells h' c = Some (One u)
    \<and> repModuleSpecHelm (new h h' - {c}) h' u helm \<and> sharedParts (new h h' - {c}) h' w m)"
proof -
  from Module_copy_parts [OF X rep F run] obtain h2 h3 where parts: "ModuleSpec_DeepCopyInto X (field v ''Spec'') h2 = (field w ''Spec'', h3)"
      "extends h h2" "extends h2 h3" "extends h3 h'" "repSlice repConfigItem (new h h2) h' (field w ''Config'') (mod_Config m)"
      "field (field w ''ObjectMeta'') ''Name'' = str (meta_Name (mod_Meta m))"
      "field (field w ''ObjectMeta'') ''Namespace'' = str (meta_Namespace (mod_Meta m))" by blast
  have "repModuleSpec F h (field v ''Spec'') (mod_Spec m)" using rep by (simp add: repModule_iff)
  from ModuleSpec_copy_helm [OF X extends_rep [OF framed_module(3), OF this F parts(2)] extends_old [OF parts(2) F] helm parts(1)]
  obtain u where u: "field (field w ''Spec'') ''Helm'' = Ptr (limit h2)" "limit h2 < limit h3" "cells h3 (limit h2) = Some (One u)"
      "repModuleSpecHelm {Suc (limit h2)..<limit h3} h3 u helm"
      "repPtr repModuleSpecCustom {Suc (limit h2)..<limit h3} h3 (field (field w ''Spec'') ''Custom'') (ms_Custom (mod_Spec m))"
      "repPtr repRawExtension {Suc (limit h2)..<limit h3} h3 (field (field w ''Spec'') ''Config'') (ms_Config (mod_Spec m))"
      "field (field w ''Spec'') ''Hibernated'' = Prim (PBool (ms_Hibernated (mod_Spec m)))" by blast
  let ?G = "new h h' - {limit h2}"
  have ext: "extends h h'" using parts(2-4) extends_trans by blast
  have sub: "{Suc (limit h2)..<limit h3} \<subseteq> ?G" "new h h2 \<subseteq> ?G" "{Suc (limit h2)..<limit h3} \<subseteq> old h3"
    using parts(2,4) u(2) by (auto simp: extends_def)
  note keep = extends_agree [OF parts(4) sub(3)]
  have "sharedParts ?G h' w m"
    using framedD [OF framed_repSlice [OF framed_config(6)], OF parts(5) sub(2) agree_refl]
      framedD [OF framed_repPtr [OF framed_module(1)], OF u(5) sub(1) keep]
      framedD [OF framed_repPtr [OF framed_external(3)], OF u(6) sub(1) keep] parts(6,7) u(7) by (simp add: sharedParts_def)
  moreover have "cells h' (limit h2) = Some (One u)" using agree_cell [OF extends_agree [OF parts(4) order_refl]] u(2,3) by simp
  moreover have "limit h2 \<in> new h h'" using parts(2,4) u(2) by (auto simp: extends_def)
  ultimately show ?thesis using ext u(1) framedD [OF framed_helm(9), OF u(4) sub(1) keep] by blast
qed

lemma Module_copy_shared:
  assumes X: "external_ok X" and rep: "repPtr repModule F h p (Some m)" and F: "F \<subseteq> old h"
    and run: "Module_DeepCopy X p h = (q, h')"
  shows "extends h h' \<and> (\<exists>b w G. q = Ptr b \<and> cells h' b = Some (One w) \<and> b \<in> new h h' \<and> G \<subseteq> new h h' \<and> sharedParts G h' w m
    \<and> (case ms_Helm (mod_Spec m) of
         None \<Rightarrow> field (field w ''Spec'') ''Helm'' = GNil
       | Some helm \<Rightarrow> \<exists>c u. field (field w ''Spec'') ''Helm'' = Ptr c \<and> c \<in> new h h' - G - {b} \<and> cells h' c = Some (One u)
           \<and> repModuleSpecHelm G h' u helm))"
proof -
  obtain a v where v: "p = Ptr a" "cells h a = Some (One v)" "repModule F h v m"
    using rep by (cases p) (auto simp: repPtr_def split: option.splits cell.splits)
  obtain h1 where h1: "alloc (One GNil) h = (limit h, h1)" by (simp add: alloc_def)
  note new1 = extends_alloc [OF h1]
  obtain w h2 where into: "Module_DeepCopyInto X v h1 = (w, h2)" by force
  have h': "q = Ptr (limit h)" "h' = store (limit h) (One w) h2"
    using run v(2) h1 into by (auto simp: Module_DeepCopy_def copyPtr_def v(1) loadOne_def)
  have F1: "F \<subseteq> old h1" and v1: "repModule F h1 v m"
    using extends_old [OF _ F] extends_rep [OF framed_module(5), OF v(3) F] new1 by blast+
  note d = deep_extends [OF deep_module(5) [OF X], OF v1 F1 into]
  have ext: "extends h h'" using extends_trans [OF _ d(1)] new1 by (auto simp: h' extends_def agree_store)
  have sub: "new h1 h2 \<subseteq> new h h'" "limit h \<in> new h h'" using new1 d(1) by (auto simp: h' extends_def)
  have keep: "agree (new h1 h2) h2 h'" using new1 by (simp add: h' agree_store)
  show ?thesis
  proof (cases "ms_Helm (mod_Spec m)")
    case None
    have "sharedParts (new h1 h2) h' w m" using framedD [OF framed_sharedParts, OF repModule_parts [OF d(2)] subset_refl keep] .
    moreover have "field (field w ''Spec'') ''Helm'' = GNil"
      using d(2) None by (auto simp: repModule_iff repModuleSpec_iff repPtr_def split: gval.splits option.splits cell.splits)
    ultimately show ?thesis using ext sub by (auto simp: h' None intro!: exI [of _ "new h1 h2"])
  next
    case (Some helm)
    from Module_copy_helm [OF X v1 F1 into Some] obtain c u where c: "field (field w ''Spec'') ''Helm'' = Ptr c" "c \<in> new h1 h2"
        "cells h2 c = Some (One u)" "repModuleSpecHelm (new h1 h2 - {c}) h2 u helm" "sharedParts (new h1 h2 - {c}) h2 w m" by blast
    have keep': "agree (new h1 h2 - {c}) h2 h'" using agree_mono [OF keep] by auto
    have "cells h' c = Some (One u)" using agree_cell [OF keep c(2)] c(3) by simp
    moreover note framedD [OF framed_sharedParts, OF c(5) subset_refl keep'] framedD [OF framed_helm(9), OF c(4) subset_refl keep']
    moreover have "c \<in> new h h' - (new h1 h2 - {c}) - {limit h}" using c(2) sub new1 by auto
    ultimately show ?thesis
      using ext sub c(1) by (auto simp: h' Some intro!: exI [of _ "new h1 h2 - {c}"])
  qed
qed

lemma dropExistingRelease_store:
  assumes "field (field l ''Spec'') ''Helm'' = Ptr c" and "cells h c = Some (One u)" and "isStruct u"
  shows "dropExistingRelease l h = store c (One (setField ''ExistingRelease'' GNil u)) h"
proof -
  have "setField ''ExistingRelease'' GNil u = u" if "field u ''ExistingRelease'' = GNil"
    using that assms(3) by (cases u) (auto simp: fun_upd_idem)
  moreover have "store c (One u) h = h" using assms(2) by (simp add: store_def fun_upd_idem)
  ultimately show ?thesis
    using assms(1,2) by (auto simp: dropExistingRelease_def loadOne_def split: gval.split)
qed

text \<open>The change through the shared pointer: the Helm specification of the new module loses its release, and
  nothing else changes.\<close>

lemma dropExistingRelease_shared:
  assumes helm: "case s of
         None \<Rightarrow> field (field l ''Spec'') ''Helm'' = GNil
       | Some helm \<Rightarrow> \<exists>c u. field (field l ''Spec'') ''Helm'' = Ptr c \<and> c \<in> C \<and> cells h c = Some (One u)
           \<and> repModuleSpecHelm G h u helm"
    and "C \<inter> G = {}" and R: "C \<union> G \<subseteq> R"
    and h': "h' = dropExistingRelease l h"
  shows "limit h' = limit h \<and> agree (- C) h h'
    \<and> repPtr repModuleSpecHelm R h' (field (field l ''Spec'') ''Helm'') (map_option (\<lambda>x. x\<lparr>helm_ExistingRelease := None\<rparr>) s)"
proof (cases s)
  case None
  with helm show ?thesis by (simp add: h' dropExistingRelease_def repPtr_def)
next
  case (Some x)
  with helm obtain c u where c: "field (field l ''Spec'') ''Helm'' = Ptr c" "c \<in> C" "cells h c = Some (One u)"
      "repModuleSpecHelm G h u x" by auto
  have "isStruct u" using c(4) by (simp add: repModuleSpecHelm_def repStruct_def)
  from dropExistingRelease_store [OF c(1,3) this] have store: "h' = store c (One (setField ''ExistingRelease'' GNil u)) h"
    by (simp add: h')
  have "c \<notin> G" using assms(2) c(2) by blast
  hence "agree G h h'" by (simp add: store agree_store)
  from framedD [OF framed_helm(9), OF repModuleSpecHelm_drop [OF c(4)] _ this] R
  have "repModuleSpecHelm R h' (setField ''ExistingRelease'' GNil u) (x\<lparr>helm_ExistingRelease := None\<rparr>)" by auto
  with c R show ?thesis by (auto simp: store Some repPtr_def agree_store)
qed

text \<open>The run of the program: before the change, the new module and its annotations are new cells apart from the
  Helm specification they share with the deep copy.\<close>

lemma forkObject_run:
  assumes X: "external_ok X" and module: "repPtr repModule F h module (Some m)" "F \<subseteq> old h"
    and dest: "repPtr repWorkspace D h destWorkspace (Some dst)" "D \<subseteq> old h"
    and run: "forkObject X module destWorkspace h = (newModule, h')"
  shows "\<exists>w d a b C G h3. newModule = Ptr b \<and> h' = dropExistingRelease (newModuleLiteral w d a) h3 \<and> extends h h3
    \<and> cells h3 b = Some (One (newModuleLiteral w d a)) \<and> cells h3 a = Some (Dict Map.empty)
    \<and> insert a (insert b (C \<union> G)) \<subseteq> new h h3 \<and> C \<inter> insert a (insert b G) = {} \<and> sharedParts G h3 w m
    \<and> repObjectMeta D h (field d ''ObjectMeta'') (ws_Meta dst)
    \<and> (case ms_Helm (mod_Spec m) of
         None \<Rightarrow> field (field w ''Spec'') ''Helm'' = GNil
       | Some helm \<Rightarrow> \<exists>c u. field (field w ''Spec'') ''Helm'' = Ptr c \<and> c \<in> C \<and> cells h3 c = Some (One u)
           \<and> repModuleSpecHelm G h3 u helm)"
proof -
  obtain q h1 where copy: "Module_DeepCopy X module h = (q, h1)" by force
  from Module_copy_shared [OF X module copy] obtain b w G where e1: "extends h h1" and w: "q = Ptr b" "cells h1 b = Some (One w)"
      "b \<in> new h h1" "G \<subseteq> new h h1" "sharedParts G h1 w m" and helm: "case ms_Helm (mod_Spec m) of
         None \<Rightarrow> field (field w ''Spec'') ''Helm'' = GNil
       | Some helm \<Rightarrow> \<exists>c u. field (field w ''Spec'') ''Helm'' = Ptr c \<and> c \<in> new h h1 - G - {b} \<and> cells h1 c = Some (One u)
           \<and> repModuleSpecHelm G h1 u helm" by blast
  obtain x d where d: "destWorkspace = Ptr x" "x \<in> old h" "cells h x = Some (One d)" "repObjectMeta D h (field d ''ObjectMeta'') (ws_Meta dst)"
    using dest by (cases destWorkspace) (auto simp: repPtr_def repWorkspace_def repStruct_def at_def split: option.splits cell.splits)
  obtain h2 where h2: "alloc (Dict Map.empty) h1 = (limit h1, h2)" by (simp add: alloc_def)
  let ?l = "newModuleLiteral w d (limit h1)"
  obtain h3 where h3: "alloc (One ?l) h2 = (limit h2, h3)" by (simp add: alloc_def)
  note new2 = extends_alloc [OF h2] and new3 = extends_alloc [OF h3]
  have e2: "extends h h2" and e3: "extends h1 h3" using extends_trans [OF e1] extends_trans [of h1 h2 h3] new2 new3 by blast+
  have "deref h2 q = w" "deref h2 destWorkspace = d"
    using agree_cell [OF extends_agree [OF conjunct1 [OF new2] order_refl], of b] agree_cell [OF extends_agree [OF e2 order_refl] d(2)] w(2,3) d(3)
    by (auto simp: deref_def loadOne_def w(1) d(1))
  hence h': "newModule = Ptr (limit h2)" "h' = dropExistingRelease ?l h3"
    using run by (auto simp: forkObject_def copy h2 h3 Let_def)
  have G1: "G \<subseteq> old h1" using w(4) by auto
  note keep = extends_agree [OF e3]
  let ?C = "new h h1 - G - {b}"
  have "case ms_Helm (mod_Spec m) of
         None \<Rightarrow> field (field w ''Spec'') ''Helm'' = GNil
       | Some helm \<Rightarrow> \<exists>c u. field (field w ''Spec'') ''Helm'' = Ptr c \<and> c \<in> ?C \<and> cells h3 c = Some (One u)
           \<and> repModuleSpecHelm G h3 u helm"
    using helm agree_cell [OF keep [OF order_refl]] framedD [OF framed_helm(9), OF _ subset_refl keep [OF G1]]
    by (auto split: option.splits)
  moreover have "cells h3 (limit h1) = Some (Dict Map.empty)" "cells h3 (limit h2) = Some (One ?l)"
    using agree_cell [OF extends_agree [OF conjunct1 [OF new3] order_refl], of "limit h1"] new2 new3 by auto
  moreover have "insert (limit h1) (insert (limit h2) (?C \<union> G)) \<subseteq> new h h3" "?C \<inter> insert (limit h1) (insert (limit h2) G) = {}"
    using w(4) e1 e2 new2 new3 by (auto simp: extends_def)
  moreover note framedD [OF framed_sharedParts, OF w(5) subset_refl keep [OF G1]] extends_trans [OF e1 e3] d(4) h'
  ultimately show ?thesis
    by - (rule exI [of _ w], rule exI [of _ d], rule exI [of _ "limit h1"], rule exI [of _ "limit h2"], rule exI [of _ ?C],
      rule exI [of _ G], rule exI [of _ h3], intro conjI)
qed

text \<open>C18: the object that a fork creates is \<open>forkedModule\<close>, and its source is left alone. The goroutine takes a
  deep copy of the module, builds the new module around the pointers of the copy and, through one of them,
  takes the adopted release out of the Helm specification. In a heap where \<open>module\<close> points to a module and
  \<open>destWorkspace\<close> to a workspace, this ends with a new pointer that stands for the forked module in cells that are
  new, while every cell that was there is as it was: \<open>module\<close>, which \<open>migrateModuleData\<close> reads next, still
  stands for the source with its release.\<close>

theorem fork_object_refines:
  assumes X: "external_ok X" and module: "repPtr repModule F h module (Some m)" "F \<subseteq> old h"
    and dest: "repPtr repWorkspace D h destWorkspace (Some dst)" "D \<subseteq> old h"
    and run: "forkObject X module destWorkspace h = (newModule, h')"
  shows "repPtr repModule (new h h') h' newModule (Some (forkedModule m dst)) \<and> agree (old h) h h'
    \<and> repPtr repModule F h' module (Some m)"
proof -
  from forkObject_run [OF assms] obtain w d a b C G h3 where new: "newModule = Ptr b" "h' = dropExistingRelease (newModuleLiteral w d a) h3"
      "extends h h3" "cells h3 b = Some (One (newModuleLiteral w d a))" "cells h3 a = Some (Dict Map.empty)"
      "insert a (insert b (C \<union> G)) \<subseteq> new h h3" "C \<inter> insert a (insert b G) = {}" "sharedParts G h3 w m"
    and d: "repObjectMeta D h (field d ''ObjectMeta'') (ws_Meta dst)"
    and helm: "case ms_Helm (mod_Spec m) of
         None \<Rightarrow> field (field w ''Spec'') ''Helm'' = GNil
       | Some helm \<Rightarrow> \<exists>c u. field (field w ''Spec'') ''Helm'' = Ptr c \<and> c \<in> C \<and> cells h3 c = Some (One u)
           \<and> repModuleSpecHelm G h3 u helm"
    by (elim exE conjE) (rule that)
  have sub: "C \<inter> G = {}" "C \<union> G \<subseteq> new h h3" "G \<subseteq> new h h3" "G \<subseteq> - C" "a \<in> new h h3" "old h \<subseteq> - C"
    using new(6,7) by auto
  have drop: "limit h' = limit h3" "agree (- C) h3 h'" "repPtr repModuleSpecHelm (new h h3) h' (field (field w ''Spec'') ''Helm'')
      (map_option (\<lambda>x. x\<lparr>helm_ExistingRelease := None\<rparr>) (ms_Helm (mod_Spec m)))"
    using dropExistingRelease_shared [where l = "newModuleLiteral w d a", unfolded literal_helm, OF helm sub(1,2) new(2)] by simp_all
  from framedD [OF framed_sharedParts, OF new(8) sub(3) agree_mono [OF drop(2) sub(4)]]
  have "sharedParts (new h h3) h' w m" .
  moreover have "cells h' a = Some (Dict Map.empty)" "cells h' b = Some (One (newModuleLiteral w d a))" "b \<in> new h h3"
    using agree_cell [OF drop(2), of a] agree_cell [OF drop(2), of b] new(4-7) by auto
  ultimately have "repPtr repModule (new h h') h' newModule (Some (forkedModule m dst))"
    using literal_forked [OF _ d _ _ sub(5)] drop(1,3) by (auto simp: new(1) repPtr_def forkedModule_def)
  moreover have "agree (old h) h h'"
    using agree_trans [OF extends_agree [OF new(3) order_refl] agree_mono [OF drop(2) sub(6)]] .
  ultimately show ?thesis using repPtr_framed [OF framed_module(5) module(1)] agree_mono module(2) by blast
qed

section \<open>The base of a patch\<close>

text \<open>\<open>x.Spec.Hibernated = b\<close> and \<open>utils.UpdateMap(&x.Annotations, kvs)\<close> of the module at \<open>a\<close>: a nil map is
  replaced by a new one, any other is changed in place.\<close>

definition setHibernated :: "bool \<Rightarrow> addr \<Rightarrow> heap \<Rightarrow> heap" where
  "setHibernated b a h = store a (One (setField ''Spec'' (setField ''Hibernated'' (Prim (PBool b)) (field (loadOne h a) ''Spec''))
     (loadOne h a))) h"

definition updateAnnotations :: "(string \<rightharpoonup> string) \<Rightarrow> addr \<Rightarrow> heap \<Rightarrow> heap" where
  "updateAnnotations kvs a h = (let module = loadOne h a; meta = field module ''ObjectMeta'' in
     case field meta ''Annotations'' of
       MapRef c \<Rightarrow> (case cells h c of Some (Dict d) \<Rightarrow> store c (Dict (d ++ kvs)) h | _ \<Rightarrow> h)
     | _ \<Rightarrow> (case alloc (Dict Map.empty) h of (c, h1) \<Rightarrow>
         store c (Dict (Map.empty ++ kvs))
           (store a (One (setField ''ObjectMeta'' (setField ''Annotations'' (MapRef c) meta) module)) h1)))"

text \<open>\<open>patch := client.MergeFrom(x.DeepCopy())\<close> and the change: the base of the patch and the heap that is left.\<close>

definition patchAfter :: "external_copies \<Rightarrow> (addr \<Rightarrow> heap \<Rightarrow> heap) \<Rightarrow> addr \<Rightarrow> heap \<Rightarrow> gval \<times> heap" where
  "patchAfter X change a h = (case Module_DeepCopy X (Ptr a) h of (base, h1) \<Rightarrow> (base, change a h1))"

text \<open>A representation that reads no map is kept when maps change.\<close>

definition mapless :: "'x rep \<Rightarrow> bool" where
  "mapless p \<longleftrightarrow> (\<forall>F h h' v x. p F h v x \<longrightarrow> (\<forall>a\<in>F. (\<exists>d. cells h a = Some (Dict d)) \<or> cells h' a = cells h a) \<longrightarrow> p F h' v x)"

lemma flat_mapless: "flat p \<Longrightarrow> mapless p"
  unfolding flat_def mapless_def by blast

lemma mapless_at: "mapless p \<Longrightarrow> mapless (at sel p)"
  unfolding mapless_def at_def by blast

lemma mapless_repPtr:
  assumes "mapless p"
  shows "mapless (repPtr p)"
  unfolding mapless_def
proof (intro allI impI)
  fix F v x and h h' :: heap
  assume rep: "repPtr p F h v x" and same: "\<forall>a\<in>F. (\<exists>d. cells h a = Some (Dict d)) \<or> cells h' a = cells h a"
  have "p F h u y \<Longrightarrow> p F h' u y" for u y using assms same unfolding mapless_def by blast
  with rep same show "repPtr p F h' v x"
    by (cases v) (auto simp: repPtr_def split: option.splits cell.splits)
qed

lemma mapless_repNilSlice:
  assumes "mapless p"
  shows "mapless (repNilSlice p)"
  unfolding mapless_def
proof (intro allI impI)
  fix F v x and h h' :: heap
  assume rep: "repNilSlice p F h v x" and same: "\<forall>a\<in>F. (\<exists>d. cells h a = Some (Dict d)) \<or> cells h' a = cells h a"
  have "p F h u y \<Longrightarrow> p F h' u y" for u y using assms same unfolding mapless_def by blast
  hence "list_all2 (p F h) us ys \<Longrightarrow> list_all2 (p F h') us ys" for us ys by (auto elim: list_all2_mono)
  with rep same show "repNilSlice p F h' v x"
    by (cases v) (auto simp: repNilSlice_def split: option.splits cell.splits)
qed

lemma mapless_repSlice: "mapless p \<Longrightarrow> mapless (repSlice p)"
  using mapless_repNilSlice [of p] unfolding mapless_def repSlice_def by blast

lemma mapless_repStruct: "list_all (\<lambda>(n, p). mapless p) ps \<Longrightarrow> mapless (repStruct ps)"
  unfolding mapless_def repStruct_def list_all_iff by fastforce

lemmas mapless_rules = mapless_at mapless_repPtr mapless_repNilSlice mapless_repSlice mapless_repStruct
  flat_mapless [OF flat_scalar]

lemma mapless_parts: "mapless repConfigItem" "mapless repModuleSpec" "mapless repModuleStatus"
  by (simp_all add: config_reps chart_reps helm_reps module_reps repCondition_def repRawExtension_def mapless_rules)

lemma setHibernated_module:
  assumes "cells h a = Some (One v)" and "repModule F h v m" and "a \<notin> F"
  shows "agree (- {a}) h (setHibernated b a h) \<and> repPtr repModule (insert a F) (setHibernated b a h) (Ptr a) (Some (withHibernated b m))"
proof -
  let ?h = "setHibernated b a h"
  have agree: "agree (- {a}) h ?h" by (simp add: setHibernated_def agree_store)
  have "repModule (insert a F) ?h v m"
    using framedD [OF framed_module(5), OF assms(2) _ agree_mono [OF agree]] assms(3) by auto
  with agree assms(1) show ?thesis
    by (simp add: setHibernated_def loadOne_def repPtr_def repModule_iff repModuleSpec_iff field_setField withHibernated_def)
qed

definition repOtherMeta :: "ObjectMeta rep" where
  "repOtherMeta = repStruct
    [(''Name'', at meta_Name (scalar PStr)), (''GenerateName'', at meta_GenerateName (scalar PStr)),
     (''Namespace'', at meta_Namespace (scalar PStr)), (''UID'', at meta_UID (scalar PStr)),
     (''DeletionTimestamp'', at meta_DeletionTimestamp (repPtr (scalar PTime))),
     (''Finalizers'', at meta_Finalizers (repSlice (scalar PStr)))]"

lemma repObjectMeta_iff: "repObjectMeta F h v x \<longleftrightarrow> repOtherMeta F h v x \<and> repMap F h (field v ''Annotations'') (meta_Annotations x)"
  by (auto simp: repObjectMeta_def repOtherMeta_def repStruct_def at_def)

lemma mapless_repOtherMeta: "mapless repOtherMeta"
  by (simp add: repOtherMeta_def mapless_rules)

lemma repOtherMeta_annotations:
  "repOtherMeta F h v x \<Longrightarrow> repOtherMeta F h (setField ''Annotations'' w v) (x\<lparr>meta_Annotations := f\<rparr>) \<and> repOtherMeta F h v (x\<lparr>meta_Annotations := f\<rparr>)"
  by (simp add: repOtherMeta_def repStruct_def at_def field_setField)

lemma annotated_in_place:
  assumes rep: "repModule F h v m" and c: "field (field v ''ObjectMeta'') ''Annotations'' = MapRef c" "cells h c = Some (Dict d)"
  shows "repModule F (store c (Dict d') h) v (setAnnotations (Some d') m)"
proof -
  let ?h = "store c (Dict d') h"
  have same: "\<forall>x\<in>F. (\<exists>d. cells h x = Some (Dict d)) \<or> cells ?h x = cells h x" using c(2) by auto
  have "repMap F ?h (MapRef c) (Some d')"
    using rep c by (auto simp: repModule_iff repObjectMeta_iff repMap_def)
  moreover have "repOtherMeta F ?h (field v ''ObjectMeta'') (mod_Meta m)"
    using rep same mapless_repOtherMeta by (auto simp: repModule_iff repObjectMeta_iff mapless_def)
  moreover have "repSlice repConfigItem F ?h (field v ''Config'') (mod_Config m)" "repModuleSpec F ?h (field v ''Spec'') (mod_Spec m)"
      "repModuleStatus F ?h (field v ''Status'') (mod_Status m)"
    using rep same mapless_repSlice [OF mapless_parts(1)] mapless_parts(2,3) unfolding repModule_iff mapless_def by blast+
  ultimately show ?thesis
    using rep c(1) repOtherMeta_annotations by (simp add: repModule_iff repObjectMeta_iff setAnnotations_def)
qed

lemma annotated_anew:
  assumes "repModule F h v m" and "cells h c = Some (Dict d')" and "c \<in> F"
  shows "repModule F h (setField ''ObjectMeta'' (setField ''Annotations'' (MapRef c) (field v ''ObjectMeta'')) v) (setAnnotations (Some d') m)"
  using assms repOtherMeta_annotations
  by (auto simp: repModule_iff repObjectMeta_iff field_setField setAnnotations_def repMap_def repOtherMeta_def repStruct_def)

lemma updateAnnotations_module:
  assumes a: "cells h a = Some (One v)" "a \<notin> F" "a < limit h" and rep: "repModule F h v m" and F: "F \<subseteq> old h"
  shows "limit h \<le> limit (updateAnnotations kvs a h) \<and> agree (old h - insert a F) h (updateAnnotations kvs a h)
    \<and> repPtr repModule (insert a F \<union> new h (updateAnnotations kvs a h)) (updateAnnotations kvs a h) (Ptr a) (Some (setAnnotations (Some (annotationsOf m ++ kvs)) m))"
proof -
  let ?meta = "field v ''ObjectMeta''" and ?h = "updateAnnotations kvs a h" and ?G = "insert a F \<union> new h (updateAnnotations kvs a h)"
  have meta: "repMap F h (field ?meta ''Annotations'') (meta_Annotations (mod_Meta m))" "isStruct v"
    using rep by (simp_all add: repModule_iff repObjectMeta_iff)
  show ?thesis
  proof (cases "field ?meta ''Annotations''")
    case (MapRef c)
    obtain d where d: "c \<in> F" "cells h c = Some (Dict d)" "meta_Annotations (mod_Meta m) = Some d"
      using meta(1) MapRef by (auto simp: repMap_def split: option.splits cell.splits)
    have h': "?h = store c (Dict (d ++ kvs)) h" using a(1) d(2) MapRef by (simp add: updateAnnotations_def Let_def loadOne_def)
    have "repModule ?G ?h v (setAnnotations (Some (annotationsOf m ++ kvs)) m)"
      using framedD [OF framed_module(5), OF annotated_in_place [OF rep MapRef d(2), of "d ++ kvs"] _ agree_refl, of ?G] d(3)
      by (auto simp: h' annotationsOf_def)
    with a d(1) show ?thesis by (auto simp: h' agree_store repPtr_def)
  next
    case GNil
    let ?v = "setField ''ObjectMeta'' (setField ''Annotations'' (MapRef (limit h)) ?meta) v"
    have h': "?h = store (limit h) (Dict kvs) (store a (One ?v) (snd (alloc (Dict Map.empty) h)))"
      using a(1) GNil by (simp add: updateAnnotations_def Let_def loadOne_def alloc_def)
    have keep: "agree (- {a, limit h}) h ?h" "limit ?h = Suc (limit h)" "cells ?h (limit h) = Some (Dict kvs)" "cells ?h a = Some (One ?v)"
      using a(3) by (auto simp: h' agree_def alloc_def)
    have "agree F h ?h" by (rule agree_mono [OF keep(1)]) (use a(2) F in auto)
    from framedD [OF framed_module(5), OF rep _ this, of ?G] have "repModule ?G ?h v m" by auto
    from annotated_anew [OF this keep(3)] keep(2) have "repModule ?G ?h ?v (setAnnotations (Some (annotationsOf m ++ kvs)) m)"
      using GNil meta(1) by (auto simp: annotationsOf_def repMap_def)
    moreover have "agree (old h - insert a F) h ?h" by (rule agree_mono [OF keep(1)]) auto
    ultimately show ?thesis using keep(2,4) by (simp add: repPtr_def)
  qed (use meta(1) in \<open>auto simp: repMap_def\<close>)
qed

lemma patchAfter_keeps:
  assumes X: "external_ok X" and a: "cells h a = Some (One v)" "a \<notin> F" "a < limit h" and rep: "repModule F h v m" and F: "F \<subseteq> old h"
    and run: "patchAfter X change a h = (base, h')"
    and change: "\<And>h1. cells h1 a = Some (One v) \<Longrightarrow> a < limit h1 \<Longrightarrow> repModule F h1 v m \<Longrightarrow> F \<subseteq> old h1 \<Longrightarrow>
      limit h1 \<le> limit (change a h1) \<and> agree (old h1 - insert a F) h1 (change a h1)
      \<and> repPtr repModule (insert a F \<union> new h1 (change a h1)) (change a h1) (Ptr a) (Some m')"
  shows "\<exists>B G. B \<inter> G = {} \<and> repPtr repModule B h' base (Some m) \<and> repPtr repModule G h' (Ptr a) (Some m')"
proof -
  obtain h1 where copy: "Module_DeepCopy X (Ptr a) h = (base, h1)" "h' = change a h1"
    using run by (auto simp: patchAfter_def split: prod.splits)
  have copier: "deep (Module_DeepCopy X) (repPtr repModule)" using X by (simp add: Module_DeepCopy_def rep_rules)
  have "repModule (insert a F) h v m" using framedD [OF framed_module(5), OF rep _ agree_refl] by auto
  hence "repPtr repModule (insert a F) h (Ptr a) (Some m)" using a(1) by (simp add: repPtr_def)
  note d = deep_extends [OF copier, OF this _ copy(1)]
  have aF: "insert a F \<subseteq> old h" using a(3) F by simp
  have "cells h1 a = Some (One v)" using agree_cell [OF extends_agree [OF d(1) [OF aF] order_refl]] a(1,3) by simp
  from change [OF this _ extends_rep [OF framed_module(5), OF rep F d(1) [OF aF]] extends_old [OF d(1) [OF aF] F]]
  have h': "agree (old h1 - insert a F) h1 h'" "repPtr repModule (insert a F \<union> new h1 h') h' (Ptr a) (Some m')"
    using a(3) d(1) [OF aF] by (auto simp: copy(2) extends_def)
  have sub: "new h h1 \<subseteq> old h1 - insert a F" "new h h1 \<inter> (insert a F \<union> new h1 h') = {}" using aF by auto
  have "repPtr repModule (new h h1) h' base (Some m)"
    using repPtr_framed [OF framed_module(5) d(2) [OF aF] agree_mono [OF h'(1) sub(1)]] .
  with h'(2) sub(2) show ?thesis by blast
qed

text \<open>C20: the base of a patch is the object before the change. The operator patches an object in three steps: a
  deep copy for the base, a change of the object through its pointer (a flag, or an annotation, for which the
  map may be changed in place), and the request. After the change the base still stands for the module as it
  was and the pointer for the changed module (\<open>withHibernated\<close>, or the annotations updated), and the two share no
  cell: so the patch that \<open>client.MergeFrom\<close> computes from them has the change and nothing else.\<close>

theorem patch_base_kept:
  assumes "external_ok X" and "cells h a = Some (One v)" and "repModule F h v m" and "a \<notin> F" and "insert a F \<subseteq> old h"
  shows "(\<forall>b base h'. patchAfter X (setHibernated b) a h = (base, h') \<longrightarrow>
      (\<exists>B G. B \<inter> G = {} \<and> repPtr repModule B h' base (Some m) \<and> repPtr repModule G h' (Ptr a) (Some (withHibernated b m))))
    \<and> (\<forall>kvs base h'. patchAfter X (updateAnnotations kvs) a h = (base, h') \<longrightarrow>
      (\<exists>B G. B \<inter> G = {} \<and> repPtr repModule B h' base (Some m) \<and> repPtr repModule G h' (Ptr a) (Some (setAnnotations (Some (annotationsOf m ++ kvs)) m))))"
proof -
  have a: "a < limit h" and F: "F \<subseteq> old h" using assms(5) by auto
  have "limit h1 \<le> limit (setHibernated b a h1) \<and> agree (old h1 - insert a F) h1 (setHibernated b a h1)
      \<and> repPtr repModule (insert a F \<union> new h1 (setHibernated b a h1)) (setHibernated b a h1) (Ptr a) (Some (withHibernated b m))"
    if "cells h1 a = Some (One v)" "repModule F h1 v m" for b h1
    using setHibernated_module [OF that assms(4), of b] agree_mono [of "- {a}" h1 _ "old h1 - insert a F"]
    by (auto simp: setHibernated_def)
  note hibernated = this and patch = patchAfter_keeps [OF assms(1,2,4) a assms(3) F]
  show ?thesis
  proof (intro conjI allI impI)
    fix b base h'
    assume run: "patchAfter X (setHibernated b) a h = (base, h')"
    show "\<exists>B G. B \<inter> G = {} \<and> repPtr repModule B h' base (Some m) \<and> repPtr repModule G h' (Ptr a) (Some (withHibernated b m))"
      by (rule patch [OF run]) (rule hibernated)
  next
    fix kvs base h'
    assume run: "patchAfter X (updateAnnotations kvs) a h = (base, h')"
    show "\<exists>B G. B \<inter> G = {} \<and> repPtr repModule B h' base (Some m) \<and> repPtr repModule G h' (Ptr a) (Some (setAnnotations (Some (annotationsOf m ++ kvs)) m))"
      by (rule patch [OF run]) (rule updateAnnotations_module [OF _ assms(4)])
  qed
qed

section \<open>A heap\<close>

text \<open>Copies of the types of Kubernetes that are deep, and a heap with a module that adopts a release and a
  workspace.\<close>

definition copyMap :: copier where
  "copyMap v h = (case v of
       MapRef a \<Rightarrow> (case cells h a of Some c \<Rightarrow> (case alloc c h of (b, h') \<Rightarrow> (MapRef b, h')) | None \<Rightarrow> (v, h))
     | _ \<Rightarrow> (v, h))"

definition plainCopies :: external_copies where
  "plainCopies = \<lparr>x_ObjectMeta = copyStruct [(''DeletionTimestamp'', copyPtr assign), (''Annotations'', copyMap),
       (''Finalizers'', copySlice assign)], x_ListMeta = assign, x_Condition = assign, x_Time = copyPtr assign,
     x_RawExtension = copyStruct [(''Raw'', copySlice assign)], x_JSON = copyStruct [(''Raw'', copySlice assign)]\<rparr>"

lemma deep_copyMap: "deep copyMap repMap"
  unfolding deep_def copyMap_def repMap_def
  by (auto simp: alloc_def agree_def split: gval.splits option.splits cell.splits)

lemma plainCopies_ok: "external_ok plainCopies"
  by (simp add: external_ok_def plainCopies_def repObjectMeta_def repCondition_def repRawExtension_def rep_rules deep_copyMap)

definition metaOf :: "string \<Rightarrow> ObjectMeta" where
  "metaOf name = \<lparr>meta_Name = name, meta_GenerateName = [], meta_Namespace = ''default'', meta_UID = [],
     meta_DeletionTimestamp = None, meta_Annotations = None, meta_Finalizers = []\<rparr>"

definition metaStruct :: "string \<Rightarrow> gval" where
  "metaStruct name = structOf [(''Name'', str name), (''GenerateName'', str []), (''Namespace'', str ''default''), (''UID'', str [])]"

definition adoptingModule :: Module where
  "adoptingModule = \<lparr>mod_Meta = metaOf ''app'', mod_Config = [],
     mod_Spec = \<lparr>ms_Helm = Some \<lparr>helm_ExistingRelease = Some \<lparr>exr_Name = ''rel'', exr_Namespace = ''prod''\<rparr>,
         helm_ReleaseName = None, helm_Chart = \<lparr>chart_Repo = None, chart_ConfigMap = None, chart_Git = None\<rparr>,
         helm_Namespace = ''prod'', helm_Values = [], helm_Outputs = None,
         helm_Cleanup = \<lparr>cl_RemoveNamespace = False, cl_RemovePVCs = False\<rparr>,
         helm_Migration = \<lparr>mig_PVCs = [], mig_ConfigMaps = [], mig_Secrets = []\<rparr>\<rparr>,
       ms_Custom = None, ms_Workspace = \<lparr>wref_Name = ''ws'', wref_Namespace = ''default''\<rparr>, ms_Config = None,
       ms_Hibernated = False\<rparr>,
     mod_Status = emptyModuleStatus\<rparr>"

definition someWorkspace :: Workspace where
  "someWorkspace = \<lparr>ws_Meta = metaOf ''copy'', ws_Spec = \<lparr>wss_Type = WorkspaceTypeKubernetes, wss_From = None,
       wss_Hibernated = False, wss_Connection = \<lparr>conn_Type = WorkspaceConnectionTypeInCluster, conn_SecretReference = None\<rparr>,
       wss_ManagedCluster = None, wss_AutoHibernation = None\<rparr>,
     ws_Status = \<lparr>wst_Conditions = [], wst_Phase = WorkspacePhaseReady, wst_Ready = True, wst_LastActivity = None,
       wst_HibernatedAt = None, wst_Message = None\<rparr>\<rparr>"

definition someHeap :: heap where
  "someHeap = \<lparr>cells =
     [0 \<mapsto> One (structOf [(''ObjectMeta'', metaStruct ''app''),
        (''Spec'', structOf [(''Helm'', Ptr 1), (''Workspace'', structOf [(''Name'', str ''ws''), (''Namespace'', str ''default'')]),
          (''Hibernated'', Prim (PBool False))]),
        (''Status'', structOf [(''Phase'', str []), (''Source'', str [])])]),
      1 \<mapsto> One (structOf [(''ExistingRelease'', Ptr 2), (''Chart'', structOf []), (''Namespace'', str ''prod''),
        (''Cleanup'', structOf [(''RemoveNamespace'', Prim (PBool False)), (''RemovePVCs'', Prim (PBool False))]),
        (''Migration'', structOf [])]),
      2 \<mapsto> One (structOf [(''Name'', str ''rel''), (''Namespace'', str ''prod'')]),
      3 \<mapsto> One (structOf [(''ObjectMeta'', metaStruct ''copy''),
        (''Spec'', structOf [(''Type'', str ''kubernetes''), (''Hibernated'', Prim (PBool False)),
          (''Connection'', structOf [(''Type'', str ''in-cluster'')])]),
        (''Status'', structOf [(''Phase'', str ''ready''), (''Ready'', Prim (PBool True))])])],
     limit = 4\<rparr>"

lemmas heap_simps = repStruct_def at_def anything_def scalar_def repPtr_def repSlice_def repNilSlice_def repMap_def structOf_def
  repObjectMeta_def metaOf_def metaStruct_def chart_reps helm_reps module_reps workspace_reps

lemma someHeap_module: "repPtr repModule {0, 1, 2} someHeap (Ptr 0) (Some adoptingModule)"
  by (simp add: heap_simps adoptingModule_def someHeap_def emptyModuleStatus_def)

lemma someHeap_workspace: "repPtr repWorkspace {3} someHeap (Ptr 3) (Some someWorkspace)"
  by (simp add: heap_simps someWorkspace_def someHeap_def)

lemma someHeap_old: "{0, 1, 2} \<subseteq> old someHeap" "{3} \<subseteq> old someHeap"
  by (simp_all add: someHeap_def)

lemma deep_copies_apart_witness:
  "case Module_DeepCopyObject plainCopies (Ptr 0) someHeap of
     (w, h') \<Rightarrow> apart repModule {0, 1, 2} (new someHeap h') h' (Ptr 0) w (Some adoptingModule)"
  using deep_copies_apart [OF plainCopies_ok someHeap_old(1)] someHeap_module by (auto split: prod.split)

lemma patch_base_kept_witness:
  "case patchAfter plainCopies (updateAnnotations [''k'' \<mapsto> ''s'']) 0 someHeap of
     (base, h') \<Rightarrow> \<exists>B G. B \<inter> G = {} \<and> repPtr repModule B h' base (Some adoptingModule)
       \<and> repPtr repModule G h' (Ptr 0) (Some (setAnnotations (Some [''k'' \<mapsto> ''s'']) adoptingModule))"
proof -
  have "repModule {1, 2} someHeap (loadOne someHeap 0) adoptingModule" "cells someHeap 0 = Some (One (loadOne someHeap 0))"
    by (simp_all add: heap_simps adoptingModule_def someHeap_def emptyModuleStatus_def loadOne_def)
  note kept = patch_base_kept [OF plainCopies_ok this(2,1)]
  have "0 \<notin> {1, 2 :: addr}" "insert 0 {1, 2} \<subseteq> old someHeap" by (simp_all add: someHeap_def)
  from conjunct2 [OF kept [OF this]] have "patchAfter plainCopies (updateAnnotations [''k'' \<mapsto> ''s'']) 0 someHeap = (base, h')
      \<Longrightarrow> \<exists>B G. B \<inter> G = {} \<and> repPtr repModule B h' base (Some adoptingModule)
        \<and> repPtr repModule G h' (Ptr 0) (Some (setAnnotations (Some (annotationsOf adoptingModule ++ [''k'' \<mapsto> ''s''])) adoptingModule))" for base h'
    by blast
  thus ?thesis by (auto simp: annotationsOf_def adoptingModule_def metaOf_def split: prod.split)
qed

lemma fork_object_refines_witness:
  "case forkObject plainCopies (Ptr 0) (Ptr 3) someHeap of
     (w, h') \<Rightarrow> repPtr repModule (new someHeap h') h' w (Some (forkedModule adoptingModule someWorkspace))
       \<and> repPtr repModule {0, 1, 2} h' (Ptr 0) (Some adoptingModule)"
  using fork_object_refines [OF plainCopies_ok someHeap_module someHeap_old(1) someHeap_workspace someHeap_old(2)]
  by (auto split: prod.split)

end
