(* ===== verification/Operator.thy ===== *)
theory Operator
  imports WorkspaceController
begin

text \<open>
  The operator as a whole: the two controllers, the cron jobs and the goroutines over one world. A step is
  one complete run of one of them, with any answers and any end (also a panic, which controller-runtime
  recovers, and a run that never returns, after which the world stays as the run left it). The runs follow
  one another; a goroutine runs at any time after it was started, and any number of times, so the relation
  allows more than the program does. What every program keeps, every run of the operator keeps: the locale
  \<open>operator_rel\<close>.
\<close>

section \<open>Steps\<close>

text \<open>The world after \<open>SetupWithManager\<close>: two cron managers without entries.\<close>

definition newCronManager :: cron_manager where
  "newCronManager = \<lparr>crm_locked = False, crm_idMapper = Map.empty\<rparr>"

definition startedWorld :: world where
  "startedWorld = \<lparr>trace = [], renders = 0, sleepCronManager = newCronManager, resumeCronManager = newCronManager\<rparr>"

inductive opStep :: "golib \<Rightarrow> env \<Rightarrow> world \<Rightarrow> world \<Rightarrow> bool" for lib E where
  workspace: "WorkspaceReconcile lib E req s = (r, t) \<Longrightarrow> opStep lib E s t"
| module: "ModuleReconcile lib E req s = (r, t) \<Longrightarrow> opStep lib E s t"
| sleepJob: "meta_UID (ws_Meta w) \<in> jobsOf SleepCron s \<Longrightarrow> sleepCronJob E w s = (r, t) \<Longrightarrow> opStep lib E s t"
| resumeJob: "meta_UID (ws_Meta w) \<in> jobsOf ResumeCron s \<Longrightarrow> resumeCronJob E w s = (r, t) \<Longrightarrow> opStep lib E s t"
| fork: "Go (GoForkModule m src dst) \<in> set (trace s) \<Longrightarrow> forkModule lib E m src dst s = (r, t) \<Longrightarrow> opStep lib E s t"
| uninstall: "Go (GoUninstall c rel ns) \<in> set (trace s) \<Longrightarrow> uninstallAfterFailedInstall E c rel ns s = (r, t) \<Longrightarrow>
    opStep lib E s t"

inductive_cases opStepE: "opStep lib E s t"

inductive runs :: "golib \<Rightarrow> env \<Rightarrow> world \<Rightarrow> world \<Rightarrow> bool" for lib E where
  runs_refl: "runs lib E s s"
| runs_step: "runs lib E s t \<Longrightarrow> opStep lib E t u \<Longrightarrow> runs lib E s u"

locale operator_rel = stable_rel R for R :: "world \<Rightarrow> world \<Rightarrow> bool" +
  fixes lib :: golib and E :: env
  assumes workspace_keeps: "keeps R (WorkspaceReconcile lib E req)"
    and module_keeps: "keeps R (ModuleReconcile lib E req)"
    and job_keeps: "keeps R (cronJob E b w)"
    and fork_keeps: "keeps R (forkModule lib E m src dst)"
    and uninstall_keeps: "keeps R (uninstallAfterFailedInstall E c rel ns)"
begin

lemma step_rel: "opStep lib E s t \<Longrightarrow> R s t"
  by (elim opStepE)
    (auto simp: sleepCronJob_def resumeCronJob_def
      intro: keepsD [OF workspace_keeps] keepsD [OF module_keeps] keepsD [OF job_keeps] keepsD [OF fork_keeps]
        keepsD [OF uninstall_keeps])

lemma runs_rel: "runs lib E s t \<Longrightarrow> R s t"
  by (induction rule: runs.induct) (auto intro: stable_refl stable_trans step_rel)

end

section \<open>What the operator may do\<close>

text \<open>
  The limits of every event of the operator: a workspace status that is written agrees with itself; a
  namespace that Helm's clean-up deletes is never the default one (or the empty name); and a namespace that
  the operator itself deletes is one it names for a virtual cluster.
\<close>

fun opAllowed :: "event \<Rightarrow> bool" where
  "opAllowed (WorkspaceEv (StatusUpdateW w _)) = coherent (ws_Status w)"
| "opAllowed (HelmEv _ (KDeleteNamespace n _)) = (n \<noteq> ''default'' \<and> n \<noteq> [])"
| "opAllowed (CoreEv (DeleteNamespace n _)) = (take 11 n = ''forkspacer-'')"
| "opAllowed _ = True"

lemma connectEvent_allowed: "connectEvent e \<Longrightarrow> opAllowed e \<and> noCron e"
  by (cases e rule: connectEvent.cases) simp_all

lemma runnerEvent_allowed: "runnerEvent e \<Longrightarrow> opAllowed e \<and> noCron e"
  by (cases e rule: runnerEvent.cases) simp_all

lemma helm_events_allowed:
  "managerEvent c rel ns cleanup e \<Longrightarrow> opAllowed e \<and> noCron e"
  "installEvent c rel ns e \<Longrightarrow> opAllowed e \<and> noCron e"
  "uninstallEvent c rel ns rn rp e \<Longrightarrow> opAllowed e \<and> noCron e"
  by (cases e rule: opAllowed.cases; auto)+

lemma operationEvent_allowed: "operationEvent e \<Longrightarrow> opAllowed e \<and> noCron e"
proof -
  assume "operationEvent e"
  then consider "connectEvent e" | "runnerEvent e" | c rel ns cleanup where "managerEvent c rel ns cleanup e"
    | "case e of WorkspaceEv (GetW _ _) \<Rightarrow> True | ModuleEv (PatchM _ _ _) \<Rightarrow> True | _ \<Rightarrow> False"
    unfolding operationEvent_def moduleOpEvent_def by blast
  then show ?thesis
  proof cases
    case 4
    then show ?thesis by (cases e rule: opAllowed.cases) simp_all
  qed (blast dest: connectEvent_allowed runnerEvent_allowed helm_events_allowed(1))+
qed

lemma vclusterEvent_allowed: "vclusterEvent (getVClusterNamespace w) e \<Longrightarrow> opAllowed e \<and> noCron e"
proof -
  let ?ns = "getVClusterNamespace w"
  assume "vclusterEvent ?ns e"
  then consider "connectEvent e" | c where "installEvent c ?ns ?ns e" | c where "uninstallEvent c ?ns ?ns False False e"
    | "case e of CoreEv (CreateNamespace n _) \<Rightarrow> n = ?ns | CoreEv (DeleteNamespace n _) \<Rightarrow> n = ?ns | _ \<Rightarrow> False"
    unfolding vclusterEvent_def by blast
  then show ?thesis
  proof cases
    case 4
    then show ?thesis by (cases e rule: opAllowed.cases) (simp_all add: getVClusterNamespace_def)
  qed (blast dest: connectEvent_allowed helm_events_allowed(2,3))+
qed

lemma clusterEvent_allowed: "clusterEvent (getVClusterNamespace w) e \<Longrightarrow> opAllowed e \<and> noCron e"
  unfolding clusterEvent_def by (auto dest: vclusterEvent_allowed)

lemma workspace_events_allowed:
  "cronEvent e \<Longrightarrow> opAllowed e" "modulesEvent e \<Longrightarrow> opAllowed e" "finalizerEvent e \<Longrightarrow> opAllowed e \<and> noCron e"
  by (cases e rule: opAllowed.cases; simp)+

lemma forkEvent_allowed: "forkEvent e \<Longrightarrow> opAllowed e \<and> noCron e"
  unfolding forkEvent_def by (cases e rule: opAllowed.cases) auto

abbreviation opQuiet :: "event \<Rightarrow> bool" where
  "opQuiet \<equiv> (\<lambda>e. opAllowed e \<and> noCron e)"

lemma module_operations_quiet:
  "keeps (emits opQuiet) (installModule lib E m)" "keeps (emits opQuiet) (uninstallModule lib E m)"
  "keeps (emits opQuiet) (sleepModule lib E m)" "keeps (emits opQuiet) (resumeModule lib E m)"
  unfolding sleepModule_def resumeModule_def
  by (rule keeps_emits_mono [OF anyScope.install_scope operationEvent_allowed]
      keeps_emits_mono [OF anyScope.uninstall_scope operationEvent_allowed]
      keeps_emits_mono [OF anyScope.hibernate_scope operationEvent_allowed]; simp)+

lemma ModuleReconcile_quiet: "keeps (emits opQuiet) (ModuleReconcile lib E req)"
  unfolding ModuleReconcile_def moduleSwitch_def module_handleDeletion_def module_handleEmptyPhase_def
    module_handleHibernation_def sleepStep_def resumeStep_def checkTransition_def setPhase_def ensureModuleFinalizer_def
    dropModuleFinalizer_def recordModule_def calls
  by (intro keeps_io keeps_case_modPhase module_operations_quiet) simp_all

lemma cronJob_quiet: "keeps (emits opQuiet) (cronJob E b w)"
  unfolding cronJob_def calls by (intro keeps_io) simp_all

lemma forkModule_quiet: "keeps (emits opQuiet) (forkModule lib E m src dst)"
  by (rule keeps_emits_mono [OF forkModule_events forkEvent_allowed])

lemma uninstall_quiet: "keeps (emits opQuiet) (uninstallAfterFailedInstall E c rel ns)"
  unfolding uninstallAfterFailedInstall_def by (rule keeps_emits_mono [OF UninstallRelease_emits helm_events_allowed(3)])

text \<open>The parts of a workspace reconciliation that do not touch the schedules.\<close>

fun statusEvent :: "event \<Rightarrow> bool" where
  "statusEvent (WorkspaceEv _) = True"
| "statusEvent (CoreEv (Clock _)) = True"
| "statusEvent _ = False"

lemma status_allowed: "wsWrite coherent e \<and> statusEvent e \<Longrightarrow> opAllowed e \<and> noCron e"
  by (cases e rule: opAllowed.cases) simp_all

lemma keeps_emits_conj:
  assumes "keeps (emits Q) m" and "keeps (emits Q') m" and "\<And>k e. \<not> Q' (CronEv k e)"
  shows "keeps (emits (\<lambda>e. Q e \<and> Q' e)) m"
proof (rule keepsI)
  fix s
  from assms(1,2) have "emits Q s (snd (m s))" "emits Q' s (snd (m s))" by (simp_all add: keeps_def)
  with assms(3) show "emits (\<lambda>e. Q e \<and> Q' e) s (snd (m s))" by (auto simp: emits_def list_all_iff)
qed

lemma writeStatus_status:
  assumes "keeps (emits statusEvent) newStatus"
  shows "keeps (emits statusEvent) (writeStatus E newStatus w)"
  unfolding writeStatus_def calls by (intro keeps_io assms) simp_all

lemma setPhase_status:
  "keeps (emits statusEvent) (setPhaseReady E msg w)" "keeps (emits statusEvent) (setPhaseFailed E msg w)"
  "keeps (emits statusEvent) (setPhaseInstalling E msg w)" "keeps (emits statusEvent) (setPhaseHibernated E msg w)"
  unfolding setPhaseReady_def setPhaseFailed_def setPhaseInstalling_def setPhaseHibernated_def phaseStatus_def now_def
  by (intro writeStatus_status keeps_io; simp)+

lemma setPhase_quiet:
  "keeps (emits opQuiet) (setPhaseReady E msg w)" "keeps (emits opQuiet) (setPhaseFailed E msg w)"
  "keeps (emits opQuiet) (setPhaseInstalling E msg w)" "keeps (emits opQuiet) (setPhaseHibernated E msg w)"
proof -
  note st = setPhase_status [of E msg w]
  note q = keeps_emits_mono [OF keeps_emits_conj status_allowed]
  show "keeps (emits opQuiet) (setPhaseReady E msg w)" by (rule q [OF setPhase_writes_coherent(1) st(1)]) simp_all
  show "keeps (emits opQuiet) (setPhaseFailed E msg w)" by (rule q [OF setPhase_writes_coherent(2) st(2)]) simp_all
  show "keeps (emits opQuiet) (setPhaseInstalling E msg w)" by (rule q [OF setPhase_writes_coherent(3) st(3)]) simp_all
  show "keeps (emits opQuiet) (setPhaseHibernated E msg w)" by (rule q [OF setPhase_writes_coherent(4) st(4)]) simp_all
qed

lemma installVCluster_allowed: "keeps (emits opQuiet) (installVCluster lib E w)"
  by (rule keeps_emits_mono [OF installVCluster_events vclusterEvent_allowed])

lemma emptyPhase_quiet: "keeps (emits opQuiet) (handleEmptyPhase lib E w)"
  unfolding handleEmptyPhase_def setUpManaged_def forkFrom_def forkWorkspace_def getRelatedModules_def
    ensureWorkspaceFinalizer_def recordWorkspace_def calls
  by (intro keeps_io setPhase_quiet installVCluster_allowed) simp_all

lemma hibernation_quiet: "keeps (emits opQuiet) (handleHibernation E w)"
  unfolding handleHibernation_def sleepModules_def resumeModules_def patchHibernated_def getRelatedModules_def
    recordWorkspace_def calls
  by (intro keeps_io setPhase_quiet) simp_all

section \<open>What every step keeps\<close>

lemmas quiet_allowed = keeps_emits_mono [where Q = opQuiet and Q' = opAllowed]
lemmas quiet_safe = cronSafe_noCron [OF keeps_emits_mono [where Q = opQuiet and Q' = noCron]]

lemma handleDeletion_allowed: "keeps (emits opAllowed) (handleDeletion E w)"
  by (rule keeps_mono [OF handleDeletion_seq], rule emitsSeq_all [of _ _ _ _ SleepCron "CronRemove 0"])
    (auto dest: workspace_events_allowed clusterEvent_allowed)

lemma WorkspaceReconcile_allowed: "keeps (emits opAllowed) (WorkspaceReconcile lib E req)"
  unfolding WorkspaceReconcile_def workspaceSwitch_def scheduleAfter_def getWorkspace_def
  by (intro keeps_io quiet_allowed [OF emptyPhase_quiet] quiet_allowed [OF hibernation_quiet] handleDeletion_allowed
      keeps_emits_mono [OF handleAutoHibernation_cron workspace_events_allowed(1)]) simp_all

interpretation allowedOp: operator_rel "emits opAllowed" lib E for lib E
  by unfold_locales
    (simp_all add: WorkspaceReconcile_allowed quiet_allowed [OF ModuleReconcile_quiet] quiet_allowed [OF cronJob_quiet]
      quiet_allowed [OF forkModule_quiet] quiet_allowed [OF uninstall_quiet])

lemma cronSafe_call: "(\<And>r. noCron (ev r)) \<Longrightarrow> keeps (cronSafe E) (call f ev)"
  by (rule cronSafe_noCron [OF keeps_call])

lemma handleAutoHibernation_safe: "keeps (cronSafe E) (handleAutoHibernation lib E w)"
  unfolding handleAutoHibernation_def addLogged_def addSleepCron_def addResumeCron_def removeSleepCron_def
    removeResumeCron_def recordWorkspace_def recordEvent_def emit_def
  by (intro cronSafe.keeps_basic keeps_splits cronSafe_addCron cronSafe_removeCron cronSafe_call) simp_all

lemma handleDeletion_safe: "keeps (cronSafe E) (handleDeletion E w)"
proof -
  have mods: "keeps (cronSafe E) (deleteModuleAndWait E w m)" for m
    by (rule cronSafe_noCron [OF keeps_emits_mono [OF deleteModuleAndWait_events]]) simp
  have cl: "keeps (cronSafe E) (cleanUpManaged E w)"
    by (rule cronSafe_noCron [OF keeps_emits_mono [OF cleanUpManaged_events]]) (simp add: clusterEvent_allowed)
  have fin: "keeps (cronSafe E) (dropWorkspaceFinalizer E w)"
    by (rule cronSafe_noCron [OF keeps_emits_mono [OF dropWorkspaceFinalizer_events]]) (simp add: workspace_events_allowed)
  show ?thesis
    unfolding handleDeletion_def deleteModules_def getRelatedModules_def listModules_def removeSleepCron_def
      removeResumeCron_def
    by (intro cronSafe.keeps_basic keeps_splits cronSafe_removeCron cronSafe_call mods cl fin) simp_all
qed

lemma WorkspaceReconcile_safe: "keeps (cronSafe E) (WorkspaceReconcile lib E req)"
  unfolding WorkspaceReconcile_def workspaceSwitch_def scheduleAfter_def getWorkspace_def
  by (intro cronSafe.keeps_basic keeps_splits cronSafe_call quiet_safe [OF emptyPhase_quiet]
      quiet_safe [OF hibernation_quiet] handleDeletion_safe handleAutoHibernation_safe) simp_all

interpretation safeOp: operator_rel "cronSafe E" lib E for lib E
  by unfold_locales
    (simp_all add: WorkspaceReconcile_safe quiet_safe [OF ModuleReconcile_quiet] quiet_safe [OF cronJob_quiet]
      quiet_safe [OF forkModule_quiet] quiet_safe [OF uninstall_quiet])

section \<open>A held mutex\<close>

lemma removeCron_outcome: "\<exists>t. removeCron kind uid s = (Ret (), t) \<or> removeCron kind uid s = (Hangs ''mutex is held'', t)"
  by (auto simp: removeCron_def withLock_def lookupEntry_def cron_calls andThen_run split: option.split)

text \<open>The deletion of a workspace waits for both mutexes.\<close>

lemma deleteModules_held:
  assumes "crm_locked (managerOf kind s)"
    and "\<forall>h. e_listModules E h (meta_Namespace (ws_Meta w)) (meta_Name (ws_Meta w)) = Inr ms"
  shows "\<exists>why t. deleteModules E w s = (Hangs why, t)"
proof -
  let ?uid = "meta_UID (ws_Meta w)"
  define u where "u = s\<lparr>trace := trace s @ [ModuleEv (ListM (meta_Namespace (ws_Meta w)) (meta_Name (ws_Meta w)) (Inr ms))]\<rparr>"
  have run: "deleteModules E w s = andThen (removeCron SleepCron ?uid) (\<lambda>_. andThen (removeCron ResumeCron ?uid) (\<lambda>_.
      andThen (forEach (deleteModuleAndWait E w) ms) (\<lambda>_. ret None))) u"
    using assms(2) by (simp add: deleteModules_def getRelatedModules_def listModules_def removeSleepCron_def
        removeResumeCron_def u_def)
  have held: "crm_locked (managerOf kind u)" using assms(1) by (simp add: u_def)
  from removeCron_outcome [of SleepCron ?uid u] show ?thesis
  proof (elim exE disjE)
    fix t assume t: "removeCron SleepCron ?uid u = (Ret (), t)"
    with held have "kind = ResumeCron" by (cases kind) (auto simp: removeCron_held)
    moreover have "managerOf ResumeCron t = managerOf ResumeCron u"
      using keepsD [OF spares_removeCron t] by (simp add: sparesOther_def)
    ultimately show ?thesis using held t run by (simp add: andThen_run removeCron_held)
  next
    fix t assume "removeCron SleepCron ?uid u = (Hangs ''mutex is held'', t)"
    with run show ?thesis by (simp add: andThen_run)
  qed
qed

section \<open>Whose modules\<close>

text \<open>The modules that the index of the API server lists for a workspace; and the events of a reconciliation
  of this workspace: it patches only \<open>spec.hibernated\<close> of such a module, deletes only such modules, and
  writes no module in another way.\<close>

definition listedFor :: "env \<Rightarrow> Workspace \<Rightarrow> Module \<Rightarrow> bool" where
  "listedFor E w m \<longleftrightarrow> (\<exists>h ms. e_listModules E h (meta_Namespace (ws_Meta w)) (meta_Name (ws_Meta w)) = Inr ms \<and> m \<in> set ms)"

fun ownModuleEvent :: "env \<Rightarrow> Workspace \<Rightarrow> module_event \<Rightarrow> bool" where
  "ownModuleEvent E w (PatchM base m _) = (listedFor E w base \<and> (\<exists>b. m = withHibernated b base))"
| "ownModuleEvent E w (DeleteM k _) = (\<exists>m. listedFor E w m \<and> moduleKey m = k)"
| "ownModuleEvent E w (GetM _ _) = True"
| "ownModuleEvent E w (ListM _ _ _) = True"
| "ownModuleEvent E w _ = False"

fun ownEvent :: "env \<Rightarrow> Workspace \<Rightarrow> event \<Rightarrow> bool" where
  "ownEvent E w (ModuleEv e) = ownModuleEvent E w e"
| "ownEvent E w _ = True"

lemma own_other: "cronEvent e \<Longrightarrow> ownEvent E w e" "vclusterEvent ns e \<Longrightarrow> ownEvent E w e"
  "clusterEvent ns e \<Longrightarrow> ownEvent E w e" "finalizerEvent e \<Longrightarrow> ownEvent E w e" "statusEvent e \<Longrightarrow> ownEvent E w e"
proof -
  have v: "ownEvent E w e" if "vclusterEvent ns e" for ns e
    using that unfolding vclusterEvent_def by (cases e) auto
  show "cronEvent e \<Longrightarrow> ownEvent E w e" by (cases e) simp_all
  show "vclusterEvent ns e \<Longrightarrow> ownEvent E w e" by (rule v)
  show "clusterEvent ns e \<Longrightarrow> ownEvent E w e" unfolding clusterEvent_def by (auto dest: v)
  show "finalizerEvent e \<Longrightarrow> ownEvent E w e" by (cases e) simp_all
  show "statusEvent e \<Longrightarrow> ownEvent E w e" by (cases e) simp_all
qed

lemma own_related:
  assumes "\<And>ms. list_all (listedFor E w) ms \<Longrightarrow> keeps (emits (ownEvent E w)) (f ms)"
  shows "keeps (emits (ownEvent E w)) (andThen (getRelatedModules E (meta_Namespace (ws_Meta w)) (meta_Name (ws_Meta w)))
    (\<lambda>r. case r of Inl err \<Rightarrow> ret (Some err) | Inr ms \<Rightarrow> f ms))"
proof (rule emits.keeps_andThen_returned)
  show "keeps (emits (ownEvent E w)) (getRelatedModules E (meta_Namespace (ws_Meta w)) (meta_Name (ws_Meta w)))"
    unfolding getRelatedModules_def listModules_def by (intro keeps_io) simp_all
  fix s r t assume "getRelatedModules E (meta_Namespace (ws_Meta w)) (meta_Name (ws_Meta w)) s = (Ret r, t)"
  then have "r = Inr ms \<Longrightarrow> list_all (listedFor E w) ms" for ms
    by (auto simp: getRelatedModules_def listModules_def andThen_run listedFor_def list_all_iff split: sum.splits)
  then show "keeps (emits (ownEvent E w)) (case r of Inl err \<Rightarrow> ret (Some err) | Inr ms \<Rightarrow> f ms)"
    by (intro keeps_splits emits.keeps_ret assms)
qed

lemma patchHibernated_own: "listedFor E w m \<Longrightarrow> keeps (emits (ownEvent E w)) (patchHibernated E b m)"
  unfolding patchHibernated_def patchModule_def by (intro keeps_io) auto

lemmas own_status = setPhase_status [THEN keeps_emits_mono, OF own_other(5)]

lemma sleep_own: "keeps (emits (ownEvent E w)) (sleepModules E w)" "keeps (emits (ownEvent E w)) (resumeModules E w)"
proof -
  have all: "keeps (emits (ownEvent E w)) (andThen (forEach (patchHibernated E b) ms) (\<lambda>_. ret None))"
    if "list_all (listedFor E w) ms" for b ms
    using that by (intro keeps_io patchHibernated_own) (simp add: list_all_iff)
  show "keeps (emits (ownEvent E w)) (sleepModules E w)" "keeps (emits (ownEvent E w)) (resumeModules E w)"
    unfolding sleepModules_def resumeModules_def by (intro keeps_if emits.keeps_ret own_related all; assumption)+
qed

lemma hibernation_own: "keeps (emits (ownEvent E w)) (handleHibernation E w)"
  unfolding handleHibernation_def recordWorkspace_def recordEvent_def emit_def
  by (intro keeps_io sleep_own own_status) simp_all

lemma deletion_own: "keeps (emits (ownEvent E w)) (handleDeletion E w)"
proof -
  have wait: "keeps (emits (ownEvent E w)) (waitModuleDeleted E n deadline m)" for n deadline m
  proof (induction n arbitrary: m)
    case 0
    show ?case unfolding waitModuleDeleted.simps by (rule emits.keeps_hang)
  next
    case (Suc n)
    show ?case unfolding waitModuleDeleted.simps calls by (intro keeps_io Suc) simp_all
  qed
  have del: "keeps (emits (ownEvent E w)) (deleteModuleAndWait E w m)" if "listedFor E w m" for m
    unfolding deleteModuleAndWait_def recordWorkspace_def calls using that by (intro keeps_io wait) auto
  have mods: "keeps (emits (ownEvent E w)) (deleteModules E w)"
    unfolding deleteModules_def removeSleepCron_def removeResumeCron_def
    by (rule own_related, intro keeps_io keeps_emits_mono [OF removeCron_cron own_other(1)] del) (auto simp: list_all_iff)
  show ?thesis
    unfolding handleDeletion_def
    by (intro keeps_io mods keeps_emits_mono [OF cleanUpManaged_events own_other(3)]
        keeps_emits_mono [OF dropWorkspaceFinalizer_events own_other(4)])
qed

lemma emptyPhase_own: "keeps (emits (ownEvent E w)) (handleEmptyPhase lib E w')"
  unfolding handleEmptyPhase_def setUpManaged_def forkFrom_def forkWorkspace_def getRelatedModules_def
    ensureWorkspaceFinalizer_def recordWorkspace_def calls
  by (intro keeps_io own_status keeps_emits_mono [OF installVCluster_events own_other(2)]) simp_all

lemma workspaceSwitch_own: "keeps (emits (ownEvent E w)) (workspaceSwitch lib E w)"
  unfolding workspaceSwitch_def scheduleAfter_def
  by (intro keeps_io deletion_own emptyPhase_own hibernation_own
      keeps_emits_mono [OF handleAutoHibernation_cron own_other(1)])

end
