(* ===== verification/Startup.thy ===== *)
theory Startup
  imports Operator
begin

text \<open>
  The entry point (\<open>src/cmd/main.go\<close>) and the set-up of the two controllers and the two webhooks
  (\<open>SetupWithManager\<close>, \<open>Setup...WebhookWithManager\<close>). From the flags \<open>main\<close> computes the options of the
  manager and of its servers, then takes the steps of the set-up in order and leaves the process with code 1
  at the first one that fails; the last one starts the manager. What controller-runtime does in a step is a
  parameter; flags are given parsed, and logging is left out.
\<close>

section \<open>Flags and options\<close>

record flags =
  metricsAddr :: string
  probeAddr :: string
  enableLeaderElection :: bool
  secureMetrics :: bool
  webhookCertPath :: string
  webhookCertName :: string
  webhookCertKey :: string
  metricsCertPath :: string
  metricsCertName :: string
  metricsCertKey :: string
  enableHTTP2 :: bool

definition defaultFlags :: flags where
  "defaultFlags = \<lparr>metricsAddr = ''0'', probeAddr = '':8081'', enableLeaderElection = False, secureMetrics = True,
     webhookCertPath = [], webhookCertName = ''tls.crt'', webhookCertKey = ''tls.key'',
     metricsCertPath = [], metricsCertName = ''tls.crt'', metricsCertKey = ''tls.key'', enableHTTP2 = False\<rparr>"

text \<open>Of \<open>tls.Config\<close> the field that the options change. An empty list of protocols leaves the choice, HTTP/2
  among it, to the server.\<close>

record tls_config =
  tls_NextProtos :: "string list"

definition disableHTTP2 :: "tls_config \<Rightarrow> tls_config" where
  "disableHTTP2 c = c\<lparr>tls_NextProtos := [''http/1.1'']\<rparr>"

definition tlsOptsOf :: "flags \<Rightarrow> (tls_config \<Rightarrow> tls_config) list" where
  "tlsOptsOf f = (if enableHTTP2 f then [] else [disableHTTP2])"

record webhook_options =
  wo_TLSOpts :: "(tls_config \<Rightarrow> tls_config) list"
  wo_CertDir :: string
  wo_CertName :: string
  wo_KeyName :: string

record metrics_options =
  mo_BindAddress :: string
  mo_SecureServing :: bool
  mo_TLSOpts :: "(tls_config \<Rightarrow> tls_config) list"
  mo_AuthFilter :: bool \<comment> \<open>\<open>FilterProvider\<close> is \<open>WithAuthenticationAndAuthorization\<close>\<close>
  mo_CertDir :: string
  mo_CertName :: string
  mo_KeyName :: string

record manager_options =
  mgr_Scheme :: "string list"
  mgr_Metrics :: metrics_options
  mgr_WebhookServer :: webhook_options
  mgr_HealthProbeBindAddress :: string
  mgr_LeaderElection :: bool
  mgr_LeaderElectionID :: string

definition webhookServerOptions :: "flags \<Rightarrow> webhook_options" where
  "webhookServerOptions f = (let o0 = \<lparr>wo_TLSOpts = tlsOptsOf f, wo_CertDir = [], wo_CertName = [], wo_KeyName = []\<rparr> in
     if 0 < length (webhookCertPath f)
     then o0\<lparr>wo_CertDir := webhookCertPath f, wo_CertName := webhookCertName f, wo_KeyName := webhookCertKey f\<rparr>
     else o0)"

definition metricsServerOptions :: "flags \<Rightarrow> metrics_options" where
  "metricsServerOptions f = (let
       o0 = \<lparr>mo_BindAddress = metricsAddr f, mo_SecureServing = secureMetrics f, mo_TLSOpts = tlsOptsOf f,
         mo_AuthFilter = False, mo_CertDir = [], mo_CertName = [], mo_KeyName = []\<rparr>;
       o1 = (if secureMetrics f then o0\<lparr>mo_AuthFilter := True\<rparr> else o0) in
     if 0 < length (metricsCertPath f)
     then o1\<lparr>mo_CertDir := metricsCertPath f, mo_CertName := metricsCertName f, mo_KeyName := metricsCertKey f\<rparr>
     else o1)"

text \<open>What \<open>init\<close> registers in the scheme.\<close>

definition schemeGroups :: "string list" where
  "schemeGroups = [''clientgoscheme'', ''batch.forkspacer.com/v1'']"

definition managerOptions :: "flags \<Rightarrow> manager_options" where
  "managerOptions f = \<lparr>mgr_Scheme = schemeGroups, mgr_Metrics = metricsServerOptions f,
     mgr_WebhookServer = webhookServerOptions f, mgr_HealthProbeBindAddress = probeAddr f,
     mgr_LeaderElection = enableLeaderElection f, mgr_LeaderElectionID = ''86b9a1bd.forkspacer.com''\<rparr>"

text \<open>Without the flag, neither server speaks HTTP/2, whatever their configuration was; and the metrics endpoint
  asks for authentication exactly when it is secure.\<close>

definition applyTLS :: "(tls_config \<Rightarrow> tls_config) list \<Rightarrow> tls_config \<Rightarrow> tls_config" where
  "applyTLS opts c = fold (\<lambda>f c. f c) opts c"

lemma no_http2:
  assumes "\<not> enableHTTP2 f"
  shows "tls_NextProtos (applyTLS (wo_TLSOpts (mgr_WebhookServer (managerOptions f))) c) = [''http/1.1'']"
    and "tls_NextProtos (applyTLS (mo_TLSOpts (mgr_Metrics (managerOptions f))) c) = [''http/1.1'']"
  using assms
  by (simp_all add: managerOptions_def webhookServerOptions_def metricsServerOptions_def tlsOptsOf_def applyTLS_def
      disableHTTP2_def Let_def)

lemma secure_metrics_filtered: "mo_AuthFilter (metricsServerOptions f) \<longleftrightarrow> mo_SecureServing (metricsServerOptions f)"
  by (simp add: metricsServerOptions_def Let_def)

section \<open>The steps\<close>

datatype step =
    GetConfig
  | NewManager manager_options
  | StartCron cron_kind
  | IndexField string
  | CompleteController string nat \<comment> \<open>name, number of concurrent reconciles\<close>
  | CompleteWebhook string
  | AddCheck string
  | StartManager

text \<open>The process while it starts: the steps with their results, and the cron managers of the workspace
  controller, once they are made.\<close>

record process =
  done_steps :: "(step \<times> go_error option) list"
  proc_crons :: "(cron_manager \<times> cron_manager) option"

type_synonym 'a start = "(process, 'a) prog"

record start_env =
  se_result :: "(step \<times> go_error option) list \<Rightarrow> step \<Rightarrow> go_error option"
  se_getenv :: "string \<Rightarrow> string"

definition take_step :: "start_env \<Rightarrow> step \<Rightarrow> (go_error option) start" where
  "take_step S st = (\<lambda>p. let e = se_result S (done_steps p) st in (Ret e, p\<lparr>done_steps := done_steps p @ [(st, e)]\<rparr>))"

text \<open>A step whose failure nobody looks at, or that cannot fail.\<close>

definition take_quiet :: "start_env \<Rightarrow> step \<Rightarrow> unit start" where
  "take_quiet S st = andThen (take_step S st) (\<lambda>_. ret ())"

definition WorkspaceSetupWithManager :: "start_env \<Rightarrow> (go_error option) start" where
  "WorkspaceSetupWithManager S =
     andThen (\<lambda>p. (Ret (), p\<lparr>proc_crons := Some (newCronManager, newCronManager)\<rparr>)) (\<lambda>_.
     andThen (\<lambda>p. (Ret (), p\<lparr>done_steps := done_steps p @ [(StartCron SleepCron, None), (StartCron ResumeCron, None)]\<rparr>)) (\<lambda>_.
     take_step S (CompleteController ''workspace'' 10)))"

definition ModuleSetupWithManager :: "start_env \<Rightarrow> (go_error option) start" where
  "ModuleSetupWithManager S =
     andThen (take_quiet S (IndexField ''spec.workspace.name'')) (\<lambda>_.
     andThen (take_quiet S (IndexField ''spec.workspace.namespace'')) (\<lambda>_.
     take_step S (CompleteController ''module'' 10)))"

definition SetupWorkspaceWebhookWithManager :: "start_env \<Rightarrow> (go_error option) start" where
  "SetupWorkspaceWebhookWithManager S = take_step S (CompleteWebhook ''workspace'')"

definition SetupModuleWebhookWithManager :: "start_env \<Rightarrow> (go_error option) start" where
  "SetupModuleWebhookWithManager S = take_step S (CompleteWebhook ''module'')"

definition webhooksEnabled :: "start_env \<Rightarrow> bool" where
  "webhooksEnabled S \<longleftrightarrow> se_getenv S ''ENABLE_WEBHOOKS'' \<noteq> ''false''"

text \<open>\<open>os.Exit(1)\<close> after a failed step; the result is the exit code.\<close>

definition orExit :: "(go_error option) start \<Rightarrow> nat start \<Rightarrow> nat start" where
  "orExit m rest = andThen m (\<lambda>e. case e of Some _ \<Rightarrow> ret 1 | None \<Rightarrow> rest)"

definition main :: "start_env \<Rightarrow> flags \<Rightarrow> nat start" where
  "main S f =
     orExit (take_step S GetConfig) (
     orExit (take_step S (NewManager (managerOptions f))) (
     orExit (WorkspaceSetupWithManager S) (
     orExit (if webhooksEnabled S then SetupWorkspaceWebhookWithManager S else ret None) (
     orExit (ModuleSetupWithManager S) (
     orExit (if webhooksEnabled S then SetupModuleWebhookWithManager S else ret None) (
     orExit (take_step S (AddCheck ''healthz'')) (
     orExit (take_step S (AddCheck ''readyz'')) (
     orExit (take_step S StartManager) (ret 0)))))))))"

section \<open>What a start does\<close>

text \<open>The steps of a start in which nothing fails, but for the index registrations, whose errors are dropped.\<close>

definition plannedSteps :: "start_env \<Rightarrow> flags \<Rightarrow> step list" where
  "plannedSteps S f = [GetConfig, NewManager (managerOptions f), StartCron SleepCron, StartCron ResumeCron,
     CompleteController ''workspace'' 10] @ (if webhooksEnabled S then [CompleteWebhook ''workspace''] else [])
   @ [IndexField ''spec.workspace.name'', IndexField ''spec.workspace.namespace'', CompleteController ''module'' 10]
   @ (if webhooksEnabled S then [CompleteWebhook ''module''] else [])
   @ [AddCheck ''healthz'', AddCheck ''readyz'', StartManager]"

fun mayFail :: "step \<Rightarrow> bool" where
  "mayFail (IndexField _) = True"
| "mayFail _ = False"

definition went :: "step \<times> go_error option \<Rightarrow> bool" where
  "went x \<longleftrightarrow> snd x = None \<or> mayFail (fst x)"

text \<open>The steps of a plan that stopped at the first one that did not go well.\<close>

definition stoppedIn :: "step list \<Rightarrow> (step \<times> go_error option) list \<Rightarrow> bool" where
  "stoppedIn plan rs \<longleftrightarrow> (\<exists>later x us. rs = us @ [x] \<and> list_all went us \<and> \<not> went x \<and> plan = map fst rs @ later)"

lemma stoppedIn_more: "stoppedIn plan rs \<Longrightarrow> stoppedIn (plan @ plan2) rs"
  unfolding stoppedIn_def by (elim exE conjE) (intro exI conjI, assumption+, simp)

lemma stoppedIn_after:
  assumes "list_all went rs" and "stoppedIn plan rs'"
  shows "stoppedIn (map fst rs @ plan) (rs @ rs')"
proof -
  obtain later x us where "rs' = us @ [x]" "list_all went us" "\<not> went x" "plan = map fst rs' @ later"
    using assms(2) by (auto simp: stoppedIn_def)
  with assms(1) show ?thesis
    unfolding stoppedIn_def by (intro exI [of _ later] exI [of _ x] exI [of _ "rs @ us"]) simp
qed

text \<open>
  A part that takes the steps of a plan in order. Either it took all of them, they went well and its value is
  \<open>good\<close>, or it stopped at the first one that did not go well and its value is \<open>bad\<close>.
\<close>

definition follows :: "step list \<Rightarrow> ('a \<Rightarrow> bool) \<Rightarrow> ('a \<Rightarrow> bool) \<Rightarrow> 'a start \<Rightarrow> bool" where
  "follows plan good bad m \<longleftrightarrow> (\<forall>p. \<exists>a q rs. m p = (Ret a, q) \<and> done_steps q = done_steps p @ rs
     \<and> (good a \<and> map fst rs = plan \<and> list_all went rs \<or> bad a \<and> stoppedIn plan rs))"

abbreviation none :: "go_error option \<Rightarrow> bool" where
  "none e \<equiv> e = None"

abbreviation some :: "go_error option \<Rightarrow> bool" where
  "some e \<equiv> e \<noteq> None"

lemma follows_ret: "good a \<Longrightarrow> follows [] good bad (ret a)"
  by (simp add: follows_def)

lemma follows_step: "\<not> mayFail st \<Longrightarrow> follows [st] none some (take_step S st)"
  by (auto simp: follows_def take_step_def Let_def went_def stoppedIn_def)

lemma follows_quiet:
  assumes "mayFail st"
  shows "follows [st] (\<lambda>_. True) (\<lambda>_. False) (take_quiet S st)"
  using assms by (auto simp: follows_def take_quiet_def take_step_def Let_def went_def andThen_run)

lemma follows_andThen:
  assumes m: "follows plan1 good1 bad1 m" and f: "\<And>a. good1 a \<Longrightarrow> follows plan2 good bad (f a)"
    and stop: "\<And>a p. bad1 a \<Longrightarrow> \<exists>b. f a p = (Ret b, p) \<and> bad b"
  shows "follows (plan1 @ plan2) good bad (andThen m f)"
  unfolding follows_def
proof
  fix p
  obtain a q rs where q: "m p = (Ret a, q)" "done_steps q = done_steps p @ rs"
    and a: "good1 a \<and> map fst rs = plan1 \<and> list_all went rs \<or> bad1 a \<and> stoppedIn plan1 rs"
    using m unfolding follows_def by blast
  show "\<exists>b u rs. andThen m f p = (Ret b, u) \<and> done_steps u = done_steps p @ rs
     \<and> (good b \<and> map fst rs = plan1 @ plan2 \<and> list_all went rs \<or> bad b \<and> stoppedIn (plan1 @ plan2) rs)"
  proof (cases "bad1 a \<and> stoppedIn plan1 rs")
    case True
    with stop [of a q] obtain b where "f a q = (Ret b, q)" "bad b" by blast
    with q True stoppedIn_more [of plan1 rs plan2] show ?thesis by (intro exI [of _ b] exI [of _ q] exI [of _ rs]) simp
  next
    case False
    with a have good: "good1 a" and rs: "map fst rs = plan1" "list_all went rs" by blast+
    obtain b u rs' where u: "f a q = (Ret b, u)" "done_steps u = done_steps q @ rs'"
      and b: "good b \<and> map fst rs' = plan2 \<and> list_all went rs' \<or> bad b \<and> stoppedIn plan2 rs'"
      using f [OF good] unfolding follows_def by blast
    from b stoppedIn_after [OF rs(2), of plan2 rs'] rs
    have "good b \<and> map fst (rs @ rs') = plan1 @ plan2 \<and> list_all went (rs @ rs') \<or> bad b \<and> stoppedIn (plan1 @ plan2) (rs @ rs')"
      by auto
    with q u show ?thesis by (intro exI [of _ b] exI [of _ u] exI [of _ "rs @ rs'"]) simp
  qed
qed

lemma follows_orExit:
  assumes "follows plan1 none some m" and "follows plan2 (\<lambda>c. c = 0) (\<lambda>c. c = 1) rest"
  shows "follows (plan1 @ plan2) (\<lambda>c. c = 0) (\<lambda>c. c = 1) (orExit m rest)"
  unfolding orExit_def by (rule follows_andThen [OF assms(1)]) (use assms(2) in auto)

lemma follows_workspace:
  "follows [StartCron SleepCron, StartCron ResumeCron, CompleteController ''workspace'' 10] none some
     (WorkspaceSetupWithManager S)"
proof -
  have crons: "follows [] (\<lambda>_. True) (\<lambda>_. False) (\<lambda>p. (Ret (), p\<lparr>proc_crons := x\<rparr>))" for x
    by (simp add: follows_def)
  have started: "follows [a, b] (\<lambda>_. True) (\<lambda>_. False) (\<lambda>p. (Ret (), p\<lparr>done_steps := done_steps p @ [(a, None), (b, None)]\<rparr>))" for a b
    by (simp add: follows_def went_def)
  have "follows ([] @ [StartCron SleepCron, StartCron ResumeCron] @ [CompleteController ''workspace'' 10]) none some
      (WorkspaceSetupWithManager S)"
    unfolding WorkspaceSetupWithManager_def
    by (rule follows_andThen [OF crons], rule follows_andThen [OF started], rule follows_step) simp_all
  then show ?thesis by simp
qed

lemma follows_module:
  "follows [IndexField ''spec.workspace.name'', IndexField ''spec.workspace.namespace'', CompleteController ''module'' 10]
     none some (ModuleSetupWithManager S)"
proof -
  have "follows ([IndexField ''spec.workspace.name''] @ [IndexField ''spec.workspace.namespace''] @ [CompleteController ''module'' 10])
      none some (ModuleSetupWithManager S)"
    unfolding ModuleSetupWithManager_def
    by (rule follows_andThen [OF follows_quiet], simp, rule follows_andThen [OF follows_quiet], simp, rule follows_step) simp_all
  then show ?thesis by simp
qed

lemma follows_webhook:
  "follows (if b then [CompleteWebhook n] else []) none some (if b then take_step S (CompleteWebhook n) else ret None)"
  using follows_step [of "CompleteWebhook n"] follows_ret [of none None] by simp

lemma main_follows: "follows (plannedSteps S f) (\<lambda>c. c = 0) (\<lambda>c. c = 1) (main S f)"
proof -
  have "follows ([GetConfig] @ [NewManager (managerOptions f)]
      @ [StartCron SleepCron, StartCron ResumeCron, CompleteController ''workspace'' 10]
      @ (if webhooksEnabled S then [CompleteWebhook ''workspace''] else [])
      @ [IndexField ''spec.workspace.name'', IndexField ''spec.workspace.namespace'', CompleteController ''module'' 10]
      @ (if webhooksEnabled S then [CompleteWebhook ''module''] else [])
      @ [AddCheck ''healthz''] @ [AddCheck ''readyz''] @ [StartManager] @ []) (\<lambda>c. c = 0) (\<lambda>c. c = 1) (main S f)"
    unfolding main_def SetupWorkspaceWebhookWithManager_def SetupModuleWebhookWithManager_def
    by (intro follows_orExit follows_step follows_workspace follows_module follows_webhook follows_ret) simp_all
  then show ?thesis by (simp add: plannedSteps_def)
qed

text \<open>The workspace controller is never completed without its two cron managers.\<close>

definition cronsMade :: "process \<Rightarrow> bool" where
  "cronsMade p \<longleftrightarrow> (CompleteController ''workspace'' 10 \<in> fst ` set (done_steps p) \<longrightarrow>
     proc_crons p = Some (newCronManager, newCronManager))"

interpretation cronsMade: world_invariant cronsMade .

lemma step_cronsMade: "st \<noteq> CompleteController ''workspace'' 10 \<Longrightarrow> keeps cronsMade.preserves (take_step S st)"
  by (simp add: keeps_def cronsMade.preserves_def cronsMade_def take_step_def Let_def)

lemma workspace_cronsMade: "keeps cronsMade.preserves (WorkspaceSetupWithManager S)"
  by (simp add: keeps_def cronsMade.preserves_def cronsMade_def WorkspaceSetupWithManager_def take_step_def Let_def andThen_run)

lemma orExit_cronsMade:
  "keeps cronsMade.preserves m \<Longrightarrow> keeps cronsMade.preserves rest \<Longrightarrow> keeps cronsMade.preserves (orExit m rest)"
  unfolding orExit_def by (intro cronsMade.keeps_andThen keeps_case_option cronsMade.keeps_ret)

lemma main_cronsMade: "keeps cronsMade.preserves (main S f)"
  unfolding main_def SetupWorkspaceWebhookWithManager_def SetupModuleWebhookWithManager_def ModuleSetupWithManager_def take_quiet_def
  by (intro orExit_cronsMade cronsMade.keeps_basic keeps_if workspace_cronsMade step_cronsMade) simp_all

text \<open>The plan ends with the start of the manager, which occurs nowhere else in it.\<close>

lemma plan_start: "\<exists>ps. plannedSteps S f = ps @ [StartManager] \<and> StartManager \<notin> set ps"
  by (simp add: plannedSteps_def)

lemma plan_prefix:
  assumes "plannedSteps S f = as @ later" and "StartManager \<in> set as"
  shows "later = []"
proof (rule ccontr)
  assume "later \<noteq> []"
  obtain ps where ps: "plannedSteps S f = ps @ [StartManager]" "StartManager \<notin> set ps" using plan_start by blast
  with assms(1) \<open>later \<noteq> []\<close> have "ps = as @ butlast later" by (metis butlast_append butlast_snoc)
  with ps(2) assms(2) show False by simp
qed

text \<open>A run that starts the manager took every step before it, and these went well.\<close>

lemma started_all:
  assumes "map fst rs = plannedSteps S f \<and> list_all went rs \<or> stoppedIn (plannedSteps S f) rs"
    and "StartManager \<in> fst ` set rs" and "st \<in> set (plannedSteps S f)" and "st \<noteq> StartManager" and "\<not> mayFail st"
  shows "(st, None) \<in> set rs"
  using assms(1)
proof
  assume "map fst rs = plannedSteps S f \<and> list_all went rs"
  with assms(3) have "st \<in> fst ` set rs" "list_all went rs" by (metis list.set_map, blast)
  with assms(5) show ?thesis by (auto simp: list_all_iff went_def)
next
  assume "stoppedIn (plannedSteps S f) rs"
  then obtain later x us where us: "rs = us @ [x]" "list_all went us" "plannedSteps S f = map fst rs @ later"
    by (auto simp: stoppedIn_def)
  have "StartManager \<in> set (map fst rs)" using assms(2) by simp
  with plan_prefix [OF us(3)] have all: "plannedSteps S f = map fst us @ [fst x]" using us(1,3) by simp
  moreover obtain ps where "plannedSteps S f = ps @ [StartManager]" using plan_start by blast
  ultimately have "st \<in> fst ` set us" using assms(3,4) by auto
  with us(1,2) assms(5) show ?thesis by (auto simp: list_all_iff went_def)
qed

text \<open>
  C24: The operator starts as planned, or not at all. Whatever controller-runtime answers, \<open>main\<close> takes the planned
  steps in their order; it ends with code 0 only after all of them, and otherwise with code 1 right after the
  first one that failed. The manager, and with it every reconciliation, is started only after both cron
  managers were made, without entries, and, unless \<open>ENABLE_WEBHOOKS\<close> is \<open>false\<close>, after the two webhooks were
  registered.
\<close>

theorem start_follows_plan:
  assumes "done_steps p = []"
  shows "\<exists>code q. main S f p = (Ret code, q)
    \<and> (code = 0 \<and> map fst (done_steps q) = plannedSteps S f \<and> list_all went (done_steps q)
       \<or> code = 1 \<and> stoppedIn (plannedSteps S f) (done_steps q))
    \<and> (StartManager \<in> fst ` set (done_steps q) \<longrightarrow> proc_crons q = Some (newCronManager, newCronManager)
       \<and> (se_getenv S ''ENABLE_WEBHOOKS'' \<noteq> ''false'' \<longrightarrow>
            (CompleteWebhook ''workspace'', None) \<in> set (done_steps q) \<and> (CompleteWebhook ''module'', None) \<in> set (done_steps q)))"
proof -
  obtain code q rs where q: "main S f p = (Ret code, q)" "done_steps q = done_steps p @ rs"
    and outcome: "code = 0 \<and> map fst rs = plannedSteps S f \<and> list_all went rs \<or> code = 1 \<and> stoppedIn (plannedSteps S f) rs"
    using main_follows [of S f] unfolding follows_def by blast
  have rs: "done_steps q = rs" using q(2) assms by simp
  have crons: "cronsMade q"
    using keepsD [OF main_cronsMade q(1)] assms by (simp add: cronsMade.preserves_def cronsMade_def)
  have planned: "CompleteController ''workspace'' 10 \<in> set (plannedSteps S f)"
    "webhooksEnabled S \<Longrightarrow> CompleteWebhook ''workspace'' \<in> set (plannedSteps S f) \<and> CompleteWebhook ''module'' \<in> set (plannedSteps S f)"
    by (auto simp: plannedSteps_def)
  have taken: "(st, None) \<in> set rs" if "StartManager \<in> fst ` set rs" "st \<in> set (plannedSteps S f)" "st \<noteq> StartManager" "\<not> mayFail st" for st
    using outcome by (intro started_all [OF _ that]) blast
  have "proc_crons q = Some (newCronManager, newCronManager)" if "StartManager \<in> fst ` set rs"
    using crons taken [OF that planned(1)] by (force simp: cronsMade_def rs)
  with q(1) outcome rs taken planned show ?thesis by (auto simp: webhooksEnabled_def)
qed

theorem start_follows_plan_witness:
  "\<exists>q. main \<lparr>se_result = \<lambda>h st. if st = CompleteController ''module'' 10 then Some (ErrText ''no match for kind'') else None,
      se_getenv = \<lambda>n. []\<rparr> defaultFlags \<lparr>done_steps = [], proc_crons = None\<rparr> = (Ret 1, q)
    \<and> StartManager \<notin> fst ` set (done_steps q) \<and> (CompleteWebhook ''workspace'', None) \<in> set (done_steps q)"
proof -
  let ?S = "\<lparr>se_result = \<lambda>h st. if st = CompleteController ''module'' 10 then Some (ErrText ''no match for kind'') else None,
      se_getenv = \<lambda>n. []\<rparr>" and ?p = "\<lparr>done_steps = [], proc_crons = None\<rparr>"
  obtain code q where "main ?S defaultFlags ?p = (Ret code, q)"
    "code = 0 \<and> map fst (done_steps q) = plannedSteps ?S defaultFlags \<and> list_all went (done_steps q)
       \<or> code = 1 \<and> stoppedIn (plannedSteps ?S defaultFlags) (done_steps q)"
    using start_follows_plan [of ?p ?S defaultFlags] by auto
  moreover have "\<exists>q. main ?S defaultFlags ?p = (Ret 1, q) \<and> StartManager \<notin> fst ` set (done_steps q)
      \<and> (CompleteWebhook ''workspace'', None) \<in> set (done_steps q)"
    by (simp add: main_def orExit_def take_step_def take_quiet_def WorkspaceSetupWithManager_def ModuleSetupWithManager_def
        SetupWorkspaceWebhookWithManager_def webhooksEnabled_def andThen_run Let_def)
  ultimately show ?thesis by auto
qed

end
