(* ===== verification/Spec2Isabelle.thy ===== *)
theory Spec2Isabelle
  imports ModuleWebhook WorkspaceWebhook FileUtils ForkSafety ChartFiles ModuleRemoval ForkCopies SharedObjects Startup
begin

text \<open>
  Verification of the forkspacer operator (\<open>src/\<close>), a Kubernetes operator in Go. Workspaces are clusters, or
  virtual clusters the operator installs; modules are Helm releases or custom images installed into a
  workspace; both can sleep, and a workspace can be forked from another one.

  \<^bold>\<open>Parts and theories.\<close> A reconciler per resource reads the object and acts by its phase; it works through
  managers (Helm or custom), which work through services; webhooks default and validate what users send.

  \<^item> \<open>Prelude\<close>: programs as functions from a state to an outcome (a value, a panic, a wait that never ends)
    and a state; the calculus \<open>keeps\<close> for relations every run respects (locale \<open>stable_rel\<close>), \<open>post\<close> for
    partial correctness, \<open>returns\<close> for totality.
  \<^item> \<open>ApiTypes\<close> (\<open>api/v1/module_types.go\<close>, \<open>workspace_types.go\<close>): the resources, a record per struct and a
    datatype per enumeration; \<open>GoLib\<close>: errors as values (\<open>go_error\<close>), and the library functions as the
    parameter record \<open>golib\<close>.
  \<^item> \<open>ModuleConfig\<close>, \<open>Render\<close> (\<open>module_types.go\<close>): the five kinds of configuration items,
    \<open>GetValidatedConfig\<close>, and the rendering of specifications through JSON and templates.
  \<^item> \<open>Admission\<close>, \<open>ModuleWebhook\<close>, \<open>WorkspaceWebhook\<close> (\<open>internal/webhook/v1\<close>): defaulters and validators, and
    histories of admitted updates.
  \<^item> \<open>Cluster\<close>: everything outside the program as the parameter record \<open>env\<close>, one function per kind of call,
    each with the trace so far as argument, so that an answer may depend on everything that happened; the
    state \<open>world\<close> (trace, cron managers, number of template executions) and the events of the trace.
  \<^item> \<open>Paths\<close>: cleaning and joining file paths as \<open>path/filepath\<close> does.
  \<^item> \<open>Connection\<close> (\<open>internal/controller/helper.go\<close>), \<open>HelmService\<close>, \<open>Migration\<close> (\<open>pkg/services\<close>), \<open>Manager\<close>,
    \<open>CustomManager\<close> (\<open>pkg/manager\<close>), \<open>FileUtils\<close> (\<open>pkg/utils/file.go\<close>): a definition per function.
  \<^item> \<open>PhaseMachine\<close>: the locale in which both controllers compose the phases they write.
  \<^item> \<open>ModuleController\<close> (\<open>module_controller.go\<close>, \<open>module_operations.go\<close>, \<open>module_deletion.go\<close>),
    \<open>CronManager\<close>, \<open>VCluster\<close>, \<open>WorkspaceFork\<close>, \<open>WorkspaceController\<close> (\<open>workspace_controller.go\<close>,
    \<open>workspace_managed.go\<close>, \<open>workspace_fork.go\<close>): a reconciliation is one run of \<open>ModuleReconcile\<close> or
    \<open>WorkspaceReconcile\<close>. \<open>ForkSafety\<close>: rules for programs that may not panic, and the goroutine of a fork,
    which does not. Names that occur in both packages carry a prefix (\<open>module_handleDeletion\<close>).
  \<^item> \<open>Operator\<close>: the step relation of the whole operator, and the locale \<open>operator_rel\<close> that lifts what every
    program keeps to all runs. This theory holds the properties of whole runs and those that span parts.
  \<^item> \<open>ChartFiles\<close>: the temporary files of an installation. \<open>Installation\<close>: what the phase \<open>ready\<close> says.
    \<open>ApiServer\<close>: the laws of an API server that keeps what is written (locale \<open>api_server\<close>), with an
    environment that satisfies them. \<open>EndToEnd\<close>, \<open>FirstInstall\<close>, \<open>ModuleRemoval\<close>: the controllers composed in a
    cluster that works, from the write of a user to the replica counts. \<open>ForkCopies\<close>: what a fork leaves in the
    store, with the webhooks asked on creation (locale \<open>admitting_server\<close>).
  \<^item> \<open>GoHeap\<close>, \<open>DeepCopy\<close> (\<open>api/v1/zz_generated.deepcopy.go\<close>), \<open>SharedObjects\<close>: objects as they lie in memory. A
    heap of cells, the generated copying code of every type, and what it means that a pointer stands for a value
    of the other theories, which have no pointers; the places that rely on a deep copy are shown to do there
    what those theories say of values. Parameters: the deep copies of the types of Kubernetes (\<open>external_ok\<close>).
  \<^item> \<open>Startup\<close> (\<open>cmd/main.go\<close> and the set-up functions):
    the steps from the flags to the start of the manager.

  \<^bold>\<open>Reading a definition.\<close> Go's statements are chained with \<open>andThen\<close>; \<open>if err != nil\<close> is a case on a sum or
  \<open>guardErr\<close>; a deferred call is \<open>deferred\<close> (it runs after a return and a panic, not after a wait that never
  ends); an object that Go changes through a pointer is returned beside the result. A nil dereference, an
  index out of range and an assignment to a nil map are panics. Logging has no event. A goroutine is an event
  \<open>Go\<close>, and its body a definition (\<open>forkModule\<close>, \<open>uninstallAfterFailedInstall\<close>).

  \<^bold>\<open>What the lemmas show.\<close> Webhooks and configuration: when a module or workspace is admitted, what a validated
  configuration holds, what rendering keeps, what no admitted update changes. Module controller: its phases,
  the releases it may touch, that it says \<open>ready\<close> only after an installation, that an adopted release is left
  alone. In a cluster that works: that a new module is installed, that its deletion ends and uninstalls its
  release, that a fork copies every module once, that a module sleeps and wakes with the replica counts it had,
  that hibernating a workspace stops exactly the workloads of its modules. Memory: that a deep copy shares
  nothing with its original, that the base of a patch is the object before the change, and that the object a
  fork builds by changing a shared pointer leaves the source alone. Start: that nothing is reconciled before the set-up is complete. Managers and
  services: sleep and resume as inverses, what the runner and the migrations leave behind, how long waits
  last, that a fork's goroutine does not panic. Workspace controller: its phases, the order of a deletion and
  its end, forks, schedules (refinement of a set of jobs). The operator: invariants of all runs. The theorems named \<open>..._lost\<close>, \<open>..._stuck\<close>, \<open>..._deadlocks\<close>
  and the like state, for every answer of the environment, behaviour that the code surely does not intend.

  \<^bold>\<open>Bounds and fuel.\<close> Loops with a bound in the code have it in the model (180 polls of a fork or a hibernation).
  Loops without one take \<open>e_polls\<close> polls and then count as hanging (\<open>Hangs\<close>); theorems about safety hold for
  every number, and where a loop must end the number is a hypothesis with a reason: 31 readings suffice for
  the 60 seconds of a module's deletion at one reading every two seconds. A retry on conflict is tried
  \<open>e_retries\<close> more times. Times are integers in nanoseconds; \<open>int\<close> of Go is 64 bits wide where a float is
  converted, and replica counts are 32 bits wide where they are decoded.

  \<^bold>\<open>Not modelled.\<close> The registration of the API group in a scheme (\<open>groupversion_info.go\<close>), the parsing of the flags
  (their values are given), what controller-runtime does in a registration (its result is a parameter), log
  messages, contexts and their cancellation except where a loop selects on one. An error text of another
  program (the output of \<open>git\<close>) is part of the environment's error. Runs follow one another: an answer may
  depend on the whole trace in any way, so other clients of the API server may act at any time, but two
  reconciliations of the operator that interleave within a run, and the ten workers of each controller, are
  not modelled, nor are the pipe between the two \<open>tar\<close> processes of a volume's migration and the variable for
  the error of \<open>Create\<close> that the goroutines of a fork share: each has its own here.
\<close>

section \<open>Runs of the whole operator\<close>

text \<open>
  C12: the schedules never get lost. Where the cron library numbers its entries freshly, in every world the
  operator reaches from its start, by reconciliations, cron jobs and goroutines in any order and with any
  outcome, the live cron entries are exactly the ones the managers know: every workspace has at most one job
  per manager, and every job belongs to a workspace through which it can be removed.
\<close>

theorem operator_keeps_schedules:
  assumes "freshEntries E" and "runs lib E startedWorld t"
  shows "liveEntries kind (trace t) entryID = Some uid \<longleftrightarrow> crm_idMapper (managerOf kind t) uid = Some entryID"
proof -
  have "cronInv kind startedWorld"
    by (simp add: cronInv_def liveEntries_def startedWorld_def newCronManager_def managerOf_def split: cron_kind.split)
  with safeOp.runs_rel [OF assms(2)] assms(1) show ?thesis by (simp add: cronSafe_def cronInv_def)
qed

text \<open>A run: the workspace with a schedule is reconciled once.\<close>

definition scheduledEnv :: env where
  "scheduledEnv = exampleCronEnv\<lparr>e_getWorkspace := \<lambda>h k. Inr exampleScheduled\<rparr>"

lemma scheduled_simps:
  "ws_Meta exampleScheduled = ws_Meta exampleWorkspace" "wsPhase exampleScheduled = WorkspacePhaseReady"
  "wst_HibernatedAt (ws_Status exampleScheduled) = None" "wss_Hibernated (ws_Spec exampleScheduled) = False"
  "wss_AutoHibernation (ws_Spec exampleScheduled) =
     Some \<lparr>ah_Enabled = True, ah_Schedule = ''0 20 * * *'', ah_WakeSchedule = None\<rparr>"
  "meta_DeletionTimestamp (ws_Meta exampleWorkspace) = None"
  by (simp_all add: exampleScheduled_def exampleWorkspace_def exampleMeta_def)

lemma scheduled_run:
  "crm_idMapper (managerOf SleepCron (snd (WorkspaceReconcile exampleLib scheduledEnv req startedWorld)))
     (meta_UID (ws_Meta exampleScheduled)) = Some 1"
proof -
  have get: "e_getWorkspace scheduledEnv h k = Inr exampleScheduled" for h k by (simp add: scheduledEnv_def)
  have add: "e_cronAdd scheduledEnv h k spec uid = Inr (Suc (sum_list (entryIDs h)))" for h k spec uid
    by (simp add: scheduledEnv_def exampleCronEnv_def)
  show ?thesis
    by (simp add: WorkspaceReconcile_read [OF get] workspaceSwitch_def handleHibernation_def scheduleAfter_def
        handleAutoHibernation_def addLogged_def addSleepCron_def removeResumeCron_def removeCron_def addCron_def
        withLock_def lookupEntry_def registerCron_def cron_calls andThen_run startedWorld_def newCronManager_def
        scheduled_simps add managerOf_def setLocked_def updManager_def)
qed

theorem operator_keeps_schedules_witness:
  "\<exists>t. runs exampleLib scheduledEnv startedWorld t
     \<and> liveEntries SleepCron (trace t) 1 = Some (meta_UID (ws_Meta exampleScheduled))"
proof -
  let ?run = "WorkspaceReconcile exampleLib scheduledEnv \<lparr>nn_Namespace = ''default'', nn_Name = ''dev''\<rparr> startedWorld"
  have fresh: "freshEntries scheduledEnv"
    using exampleCron_fresh by (simp add: freshEntries_def scheduledEnv_def)
  have run: "runs exampleLib scheduledEnv startedWorld (snd ?run)"
    by (rule runs_step [OF runs_refl opStep.workspace]) (rule prod.collapse [symmetric])
  with operator_keeps_schedules [OF fresh run, of SleepCron 1] scheduled_run show ?thesis by blast
qed



text \<open>
  C36: a deadlock is for good. Once the mutex of a cron manager is held, as a changed schedule leaves it,
  nothing the operator does frees it: the manager stays as it is, every addition and removal of a schedule,
  of any workspace, never returns, and the deletion of any workspace in a deletable phase never returns
  either.
\<close>

theorem deadlock_is_permanent:
  assumes "crm_locked (managerOf kind s)" and "runs lib E s t"
  shows "managerOf kind t = managerOf kind s
    \<and> (\<forall>uid. removeCron kind uid t = (Hangs ''mutex is held'', t))
    \<and> (\<forall>w sched ov. addCron lib E kind w sched ov t = (Hangs ''mutex is held'', t))
    \<and> (\<forall>req w ms. e_getWorkspace E (trace t) req = Inr w \<longrightarrow> meta_DeletionTimestamp (ws_Meta w) \<noteq> None \<longrightarrow>
         wsPhase w \<in> {WorkspacePhaseReady, WorkspacePhaseHibernated, WorkspacePhaseFailed} \<longrightarrow>
         (\<forall>h. e_listModules E h (meta_Namespace (ws_Meta w)) (meta_Name (ws_Meta w)) = Inr ms) \<longrightarrow>
         (\<exists>why u. WorkspaceReconcile lib E req t = (Hangs why, u)))"
proof -
  have same: "managerOf kind t = managerOf kind s" using safeOp.runs_rel [OF assms(2)] assms(1) by (simp add: cronSafe_def)
  with assms(1) have held: "crm_locked (managerOf kind t)" by simp
  have "\<exists>why u. WorkspaceReconcile lib E req t = (Hangs why, u)"
    if w: "e_getWorkspace E (trace t) req = Inr w" "meta_DeletionTimestamp (ws_Meta w) \<noteq> None"
      "wsPhase w \<in> {WorkspacePhaseReady, WorkspacePhaseHibernated, WorkspacePhaseFailed}"
      "\<forall>h. e_listModules E h (meta_Namespace (ws_Meta w)) (meta_Name (ws_Meta w)) = Inr ms" for req w ms
  proof -
    let ?u = "t\<lparr>trace := trace t @ [WorkspaceEv (GetW req (Inr w))]\<rparr>"
    from deleteModules_held [of kind ?u, OF _ w(4)] held obtain why u
      where "deleteModules E w ?u = (Hangs why, u)" by auto
    with w(3) have "handleDeletion E w ?u = (Hangs why, u)" by (simp add: handleDeletion_def andThen_run)
    with w(1,2) show ?thesis by (simp add: WorkspaceReconcile_read workspaceSwitch_def)
  qed
  with same held show ?thesis by (simp add: removeCron_held addCron_held)
qed

theorem deadlock_is_permanent_witness:
  "\<exists>why u. WorkspaceReconcile exampleLib (servingWorkspace dyingWorkspace [])
     \<lparr>nn_Namespace = ''default'', nn_Name = ''ws''\<rparr> (setLocked SleepCron True startedWorld) = (Hangs why, u)"
  using deadlock_is_permanent [of SleepCron "setLocked SleepCron True startedWorld" exampleLib
      "servingWorkspace dyingWorkspace []", OF _ runs_refl]
  by (simp add: serving_workspace dyingWorkspace_def exampleWorkspace_def)

section \<open>A workspace and its modules\<close>

text \<open>The law of the field index that the controllers register: a listing has only modules whose reference
  names the workspace asked for.\<close>

definition listsByReference :: "env \<Rightarrow> bool" where
  "listsByReference E \<longleftrightarrow> (\<forall>h ns n ms. e_listModules E h ns n = Inr ms \<longrightarrow>
     (\<forall>m \<in> set ms. ms_Workspace (mod_Spec m) = \<lparr>wref_Name = n, wref_Namespace = ns\<rparr>))"

text \<open>
  C8: a reconciliation of a workspace keeps its hands off other workspaces' modules. Where listings follow
  the references, whatever else the calls answer, it creates no module, writes no module as a whole, patches
  only \<open>spec.hibernated\<close>, and only of modules that refer to this workspace, and deletes only keys of modules
  that refer to this workspace.
\<close>

theorem workspace_touches_own_modules:
  assumes "listsByReference E" and "e_getWorkspace E (trace s) req = Inr w" and "WorkspaceReconcile lib E req s = (r, t)"
    and "ref = \<lparr>wref_Name = meta_Name (ws_Meta w), wref_Namespace = meta_Namespace (ws_Meta w)\<rparr>"
  shows "\<exists>es. trace t = trace s @ es \<and> (\<forall>e. ModuleEv e \<in> set es \<longrightarrow> (case e of
       PatchM base m _ \<Rightarrow> ms_Workspace (mod_Spec base) = ref \<and> (\<exists>b. m = withHibernated b base)
     | DeleteM k _ \<Rightarrow> (\<exists>m. ms_Workspace (mod_Spec m) = ref \<and> moduleKey m = k)
     | CreateM _ _ \<Rightarrow> False | UpdateM _ _ \<Rightarrow> False | StatusUpdateM _ _ \<Rightarrow> False | _ \<Rightarrow> True))"
proof -
  have listed: "listedFor E w m \<Longrightarrow> ms_Workspace (mod_Spec m) = ref" for m
    using assms(1,4) by (auto simp: listedFor_def listsByReference_def)
  let ?g = "WorkspaceEv (GetW req (Inr w))"
  have "workspaceSwitch lib E w (s\<lparr>trace := trace s @ [?g]\<rparr>) = (r, t)"
    using assms(2,3) by (simp add: WorkspaceReconcile_read)
  from keepsD [OF workspaceSwitch_own this] obtain es where
    es: "trace t = trace s @ ?g # es" "list_all (ownEvent E w) es" by (auto simp: emits_def)
  have own: "ownModuleEvent E w e" if "ModuleEv e \<in> set (?g # es)" for e
    using es(2) that by (auto simp: list_all_iff)
  show ?thesis
    using es(1) by (intro exI [of _ "?g # es"] conjI allI impI)
      (simp, drule own, auto dest!: listed split: module_event.splits)
qed

definition exampleListing :: env where
  "exampleListing = servingWorkspace (exampleWorkspace\<lparr>ws_Spec := (ws_Spec exampleWorkspace)\<lparr>wss_Hibernated := True\<rparr>\<rparr>) []
     \<lparr>e_listModules := \<lambda>h ns n. Inr [exampleModule\<lparr>mod_Spec := (mod_Spec exampleModule)
        \<lparr>ms_Workspace := \<lparr>wref_Name = n, wref_Namespace = ns\<rparr>, ms_Hibernated := False\<rparr>\<rparr>]\<rparr>"

theorem workspace_touches_own_modules_witness:
  "\<exists>es. trace (snd (WorkspaceReconcile exampleLib exampleListing \<lparr>nn_Namespace = ''default'', nn_Name = ''dev''\<rparr>
      exampleWorld)) = es \<and> (\<forall>base m a. ModuleEv (PatchM base m a) \<in> set es \<longrightarrow>
        ms_Workspace (mod_Spec base) = \<lparr>wref_Name = ''dev'', wref_Namespace = ''default''\<rparr>)"
proof -
  let ?run = "WorkspaceReconcile exampleLib exampleListing \<lparr>nn_Namespace = ''default'', nn_Name = ''dev''\<rparr> exampleWorld"
  have law: "listsByReference exampleListing" by (simp add: listsByReference_def exampleListing_def)
  have get: "e_getWorkspace exampleListing h k =
      Inr (exampleWorkspace\<lparr>ws_Spec := (ws_Spec exampleWorkspace)\<lparr>wss_Hibernated := True\<rparr>\<rparr>)" for h k
    by (simp add: exampleListing_def)
  have ref: "\<lparr>wref_Name = ''dev'', wref_Namespace = ''default''\<rparr> = \<lparr>wref_Name = meta_Name (ws_Meta
      (exampleWorkspace\<lparr>ws_Spec := (ws_Spec exampleWorkspace)\<lparr>wss_Hibernated := True\<rparr>\<rparr>)),
      wref_Namespace = meta_Namespace (ws_Meta
      (exampleWorkspace\<lparr>ws_Spec := (ws_Spec exampleWorkspace)\<lparr>wss_Hibernated := True\<rparr>\<rparr>))\<rparr>"
    by (simp add: exampleWorkspace_def exampleMeta_def)
  from workspace_touches_own_modules [OF law get prod.collapse [of ?run, symmetric] ref] obtain es where
    es: "trace (snd ?run) = trace exampleWorld @ es" and own: "\<forall>e. ModuleEv e \<in> set es \<longrightarrow> (case e of
       PatchM base m _ \<Rightarrow> ms_Workspace (mod_Spec base) = \<lparr>wref_Name = ''dev'', wref_Namespace = ''default''\<rparr>
         \<and> (\<exists>b. m = withHibernated b base)
     | DeleteM k _ \<Rightarrow> (\<exists>m. ms_Workspace (mod_Spec m) = \<lparr>wref_Name = ''dev'', wref_Namespace = ''default''\<rparr> \<and> moduleKey m = k)
     | CreateM _ _ \<Rightarrow> False | UpdateM _ _ \<Rightarrow> False | StatusUpdateM _ _ \<Rightarrow> False | _ \<Rightarrow> True)"
    by blast
  have "ms_Workspace (mod_Spec base) = \<lparr>wref_Name = ''dev'', wref_Namespace = ''default''\<rparr>"
    if "ModuleEv (PatchM base m a) \<in> set es" for base m a
    using own [rule_format, OF that] by simp
  with es show ?thesis by (auto simp: exampleWorld_def)
qed

section \<open>Virtual clusters and the webhook\<close>

text \<open>
  where a managed workspace looks for its virtual cluster. The connection that the webhook gives a
  managed workspace names the namespace and the key that the controller's installation uses; it names the
  secret that the installation tells the virtual cluster to export exactly when the environment variable
  \<open>VCLUSTER_KUBECONFIG_SECRET_NAME\<close> is unset or has the default value.
\<close>

theorem managed_connection_finds_cluster:
  assumes "wss_Type (ws_Spec w) = WorkspaceTypeManaged"
  shows "\<exists>ref. wss_Connection (ws_Spec (defaultWorkspace env w)) =
        \<lparr>conn_Type = WorkspaceConnectionTypeKubeconfig, conn_SecretReference = Some ref\<rparr>
    \<and> sref_Namespace ref = getVClusterNamespace w \<and> sref_Key ref = ''config''
    \<and> (sref_Name ref = vclusterSecretName E w \<longleftrightarrow>
         e_getenv E ''VCLUSTER_KUBECONFIG_SECRET_NAME'' \<in> {[], ''vc-kubeconfig''})"
  using assms
  by (auto simp: defaultWorkspace_fields managedConnection_def getVClusterNamespace_def vclusterSecretName_def
      getVClusterConfig_def envOr_def)

theorem managed_connection_finds_cluster_witness:
  "\<exists>ref. conn_SecretReference (wss_Connection (ws_Spec (defaultWorkspace exampleWebhookEnv exampleManaged))) = Some ref
     \<and> sref_Name ref = vclusterSecretName exampleEnv exampleManaged"
  using managed_connection_finds_cluster [of exampleManaged exampleWebhookEnv exampleEnv]
  by (auto simp: exampleManaged_def exampleEnv_def)

text \<open>
  virtual clusters belong to names, not to workspaces. Two managed workspaces with one name in two
  namespaces share namespace, release, secret and values of the virtual cluster: installing one is installing
  the other, and deleting one runs the uninstallation of the other's cluster.
\<close>

theorem same_name_shares_cluster:
  assumes "meta_Name (ws_Meta w) = meta_Name (ws_Meta w')"
  shows "installVCluster lib E w = installVCluster lib E w' \<and> uninstallVCluster E w = uninstallVCluster E w'"
proof -
  have same: "getVClusterNamespace w = getVClusterNamespace w'" "vclusterRelease w = vclusterRelease w'"
    using assms by (simp_all add: getVClusterNamespace_def vclusterRelease_def)
  with assms have "vclusterValues E w = vclusterValues E w'"
    by (simp add: vclusterValues_def vclusterSecretName_def)
  with same show ?thesis by (simp only: installVCluster_def uninstallVCluster_def)
qed

theorem same_name_shares_cluster_witness:
  "uninstallVCluster exampleEnv exampleWorkspace =
     uninstallVCluster exampleEnv (exampleWorkspace\<lparr>ws_Meta := (ws_Meta exampleWorkspace)\<lparr>meta_Namespace := ''other''\<rparr>\<rparr>)"
  using same_name_shares_cluster
    [of exampleWorkspace "exampleWorkspace\<lparr>ws_Meta := (ws_Meta exampleWorkspace)\<lparr>meta_Namespace := ''other''\<rparr>\<rparr>"]
  by simp

end
